(* ===== verification/Py_Prelude.thy ===== *)
theory Py_Prelude
  imports Complex_Main "HOL-Library.Word" "HOL-Library.List_Lexorder"
    "HOL-Library.Char_ord" "HOL-Library.AList"
begin

text \<open>
  The part of the Python language and its standard library that the modelled modules use.

  \<^item> Exceptions are values of \<open>pyexc\<close>. A pure function that may raise returns
    \<open>'a res\<close>, a sum with the exception on the left; \<open>bindE\<close> sequences such results.
  \<^item> A function with effects is a \<open>('s, 'a) prog\<close>: it maps the state to an \<open>outcome\<close> and
    the state at that point, so that effects done before an exception stay visible, as they
    do in Python. \<open>Diverge\<close> is the outcome of a call that never returns: a blocking receive
    with nothing left to receive, or a loop whose exit condition is never met.
  \<^item> A \<open>dict\<close> is an association list in insertion order (\<open>AList.update\<close> keeps the position
    of a key that is already there, as Python does).
  \<^item> A \<open>str\<close> is a \<open>string\<close> (code points below 256), \<open>bytes\<close> a list of 8-bit words, \<open>int\<close>
    is unbounded and a \<open>float\<close> is a rational, an infinity or not-a-number.
\<close>

section \<open>Exceptions and results\<close>

datatype pyexc =
    ValueError | TypeError | AttributeError | KeyError | IndexError | NameError
  | UnboundLocalError | NotImplementedError | OSError | UnicodeError | OverflowError
  | CalledProcessError | DecodeError | ZMQError | PlainException | SystemExit int

type_synonym 'a res = "pyexc + 'a"

named_theorems py_run "how results and programs are sequenced"
named_theorems py_inv "inversion of a result or program that returned"
named_theorems py_keeps "programs that keep an invariant, however they end"

definition bindE :: "'a res \<Rightarrow> ('a \<Rightarrow> 'b res) \<Rightarrow> 'b res" where
  "bindE m f = (case m of Inl e \<Rightarrow> Inl e | Inr x \<Rightarrow> f x)"

primrec foldE :: "('a \<Rightarrow> 's \<Rightarrow> 's res) \<Rightarrow> 'a list \<Rightarrow> 's \<Rightarrow> 's res" where
  "foldE f [] s = Inr s"
| "foldE f (x # xs) s = bindE (f x s) (foldE f xs)"

primrec mapE :: "('a \<Rightarrow> 'b res) \<Rightarrow> 'a list \<Rightarrow> 'b list res" where
  "mapE f [] = Inr []"
| "mapE f (x # xs) = bindE (f x) (\<lambda>y. bindE (mapE f xs) (\<lambda>ys. Inr (y # ys)))"

section \<open>Programs with effects\<close>

datatype 'a outcome = Return 'a | Raise pyexc | Diverge

type_synonym ('s, 'a) prog = "'s \<Rightarrow> 'a outcome \<times> 's"

definition returnS :: "'a \<Rightarrow> ('s, 'a) prog" where
  "returnS x = (\<lambda>s. (Return x, s))"

definition raiseS :: "pyexc \<Rightarrow> ('s, 'a) prog" where
  "raiseS e = (\<lambda>s. (Raise e, s))"

definition divergeS :: "('s, 'a) prog" where
  "divergeS = (\<lambda>s. (Diverge, s))"

definition bindS :: "('s, 'a) prog \<Rightarrow> ('a \<Rightarrow> ('s, 'b) prog) \<Rightarrow> ('s, 'b) prog" where
  "bindS m f = (\<lambda>s. case m s of
      (Return x, t) \<Rightarrow> f x t
    | (Raise e, t) \<Rightarrow> (Raise e, t)
    | (Diverge, t) \<Rightarrow> (Diverge, t))"

definition seqS :: "('s, 'a) prog \<Rightarrow> ('s, 'b) prog \<Rightarrow> ('s, 'b) prog" where
  "seqS m k = bindS m (\<lambda>_. k)"

definition getS :: "('s \<Rightarrow> 'a) \<Rightarrow> ('s, 'a) prog" where
  "getS f = (\<lambda>s. (Return (f s), s))"

definition modS :: "('s \<Rightarrow> 's) \<Rightarrow> ('s, unit) prog" where
  "modS f = (\<lambda>s. (Return (), f s))"

definition liftE :: "'a res \<Rightarrow> ('s, 'a) prog" where
  "liftE r = (case r of Inl e \<Rightarrow> raiseS e | Inr x \<Rightarrow> returnS x)"

primrec forS :: "'a list \<Rightarrow> ('a \<Rightarrow> ('s, unit) prog) \<Rightarrow> ('s, unit) prog" where
  "forS [] f = returnS ()"
| "forS (x # xs) f = seqS (f x) (forS xs f)"

primrec foldS :: "('a \<Rightarrow> 'b \<Rightarrow> ('s, 'b) prog) \<Rightarrow> 'a list \<Rightarrow> 'b \<Rightarrow> ('s, 'b) prog" where
  "foldS f [] b = returnS b"
| "foldS f (x # xs) b = bindS (f x b) (foldS f xs)"

text \<open>A program on a part of the state.\<close>

definition zoom :: "('s \<Rightarrow> 'p) \<Rightarrow> ('p \<Rightarrow> 's \<Rightarrow> 's) \<Rightarrow> ('p, 'a) prog \<Rightarrow> ('s, 'a) prog" where
  "zoom sel upd m = (\<lambda>s. case m (sel s) of (r, p) \<Rightarrow> (r, upd p s))"

section \<open>Numbers\<close>

type_synonym bytes = "8 word list"

datatype pyfloat = NaN | NegInf | Fin rat | PosInf

text \<open>\<open>x < y\<close> on floats: every comparison with not-a-number is false.\<close>

fun float_less :: "pyfloat \<Rightarrow> pyfloat \<Rightarrow> bool" where
  "float_less NaN _ = False"
| "float_less _ NaN = False"
| "float_less NegInf y = (y \<noteq> NegInf)"
| "float_less (Fin a) (Fin b) = (a < b)"
| "float_less (Fin _) y = (y = PosInf)"
| "float_less PosInf _ = False"

definition digit_char :: "nat \<Rightarrow> char" where
  "digit_char d = ''0123456789'' ! d"

text \<open>\<open>str(n)\<close> for \<open>n >= 0\<close> and for any integer.\<close>

fun str_nat :: "nat \<Rightarrow> string" where
  "str_nat n = (if n < 10 then [digit_char n] else str_nat (n div 10) @ [digit_char (n mod 10)])"

declare str_nat.simps [simp del]

definition str_int :: "int \<Rightarrow> string" where
  "str_int i = (if i < 0 then CHR ''-'' # str_nat (nat (- i)) else str_nat (nat i))"

primrec index_in :: "'a \<Rightarrow> 'a list \<Rightarrow> nat" where
  "index_in x [] = 0"
| "index_in x (y # ys) = (if x = y then 0 else Suc (index_in x ys))"

definition digit_val :: "char \<Rightarrow> nat" where
  "digit_val c = index_in c ''0123456789''"

definition is_digit :: "char \<Rightarrow> bool" where
  "is_digit c \<longleftrightarrow> c \<in> set ''0123456789''"

text \<open>The value of a string of decimal digits.\<close>

definition nat_of_digits :: "string \<Rightarrow> nat" where
  "nat_of_digits s = fold (\<lambda>c n. 10 * n + digit_val c) s 0"

text \<open>\<open>int(s)\<close> on a string: an optional sign and at least one digit. (Python also accepts
  surrounding blanks and underscores between digits; the modelled callers never rely on it.)\<close>

definition int_of_str :: "string \<Rightarrow> int res" where
  "int_of_str s = (case s of
      [] \<Rightarrow> Inl ValueError
    | c # ds \<Rightarrow>
        if c = CHR ''-'' then
          (if ds \<noteq> [] \<and> list_all is_digit ds then Inr (- int (nat_of_digits ds)) else Inl ValueError)
        else if c = CHR ''+'' then
          (if ds \<noteq> [] \<and> list_all is_digit ds then Inr (int (nat_of_digits ds)) else Inl ValueError)
        else if list_all is_digit s then Inr (int (nat_of_digits s)) else Inl ValueError)"

section \<open>Strings and lists\<close>

text \<open>\<open>s.split(c)\<close>, \<open>s.split(c, 1)\<close> and \<open>sep.join(xs)\<close>.\<close>

primrec split_on :: "'a \<Rightarrow> 'a list \<Rightarrow> 'a list list" where
  "split_on c [] = [[]]"
| "split_on c (x # xs) =
     (if x = c then [] # split_on c xs
      else (case split_on c xs of [] \<Rightarrow> [[x]] | y # ys \<Rightarrow> (x # y) # ys))"

definition split_once :: "'a \<Rightarrow> 'a list \<Rightarrow> 'a list list" where
  "split_once c s =
     (if c \<in> set s then [takeWhile (\<lambda>x. x \<noteq> c) s, tl (dropWhile (\<lambda>x. x \<noteq> c) s)] else [s])"

fun join :: "'a list \<Rightarrow> 'a list list \<Rightarrow> 'a list" where
  "join sep [] = []"
| "join sep [x] = x"
| "join sep (x # y # ys) = x @ sep @ join sep (y # ys)"

definition startswith :: "'a list \<Rightarrow> 'a list \<Rightarrow> bool" where
  "startswith s p \<longleftrightarrow> take (length p) s = p"

text \<open>\<open>xs[i]\<close> for a natural number \<open>i\<close>, and \<open>random.choice(xs)\<close> with the random draw as an
  argument.\<close>

definition list_get :: "'a list \<Rightarrow> nat \<Rightarrow> 'a res" where
  "list_get xs i = (if i < length xs then Inr (xs ! i) else Inl IndexError)"

definition choice :: "nat \<Rightarrow> 'a list \<Rightarrow> 'a res" where
  "choice r xs = (if xs = [] then Inl IndexError else Inr (xs ! (r mod length xs)))"

section \<open>Dictionaries\<close>

type_synonym ('k, 'v) dict = "('k \<times> 'v) list"

abbreviation dict_set :: "'k \<Rightarrow> 'v \<Rightarrow> ('k, 'v) dict \<Rightarrow> ('k, 'v) dict" where
  "dict_set \<equiv> AList.update"

abbreviation dict_keys :: "('k, 'v) dict \<Rightarrow> 'k list" where
  "dict_keys d \<equiv> map fst d"

definition dict_mem :: "'k \<Rightarrow> ('k, 'v) dict \<Rightarrow> bool" where
  "dict_mem k d \<longleftrightarrow> map_of d k \<noteq> None"

definition dict_getitem :: "('k, 'v) dict \<Rightarrow> 'k \<Rightarrow> 'v res" where
  "dict_getitem d k = (case map_of d k of None \<Rightarrow> Inl KeyError | Some v \<Rightarrow> Inr v)"

definition dict_delitem :: "'k \<Rightarrow> ('k, 'v) dict \<Rightarrow> ('k, 'v) dict res" where
  "dict_delitem k d = (if dict_mem k d then Inr (AList.delete k d) else Inl KeyError)"

definition dict_wf :: "('k, 'v) dict \<Rightarrow> bool" where
  "dict_wf d \<longleftrightarrow> distinct (map fst d)"

section \<open>Dynamically typed values\<close>

text \<open>
  The values of built-in types, over a type \<open>'o\<close> of class instances. A \<open>set\<close> is listed in its
  iteration order, which Python leaves open: theorems speak of its elements only.
  \<open>PMethod\<close> is a bound method that is not called. \<open>PMessageMap\<close> is the map field of a protocol
  buffer message, a mapping that is not a \<open>dict\<close>.
\<close>

datatype 'o pyval =
    PNone | PBool bool | PInt int | PFloat pyfloat | PStr string | PBytes bytes
  | PList "'o pyval list" | PTuple "'o pyval list" | PSet "'o pyval list"
  | PDict "(string \<times> 'o pyval) list" | PMethod | PMessageMap "(string \<times> int) list" | PObj 'o

datatype 'c pytype =
    T_NoneType | T_bool | T_int | T_float | T_str | T_bytes | T_list | T_tuple | T_set | T_dict
  | T_method | T_message_map | T_class 'c

text \<open>\<open>iter(v)\<close>: instances are not iterable unless their class says so, and no modelled class
  does.\<close>

fun py_iter :: "'o pyval \<Rightarrow> 'o pyval list res" where
  "py_iter (PList xs) = Inr xs"
| "py_iter (PTuple xs) = Inr xs"
| "py_iter (PSet xs) = Inr xs"
| "py_iter (PDict d) = Inr (map (\<lambda>(k, v). PStr k) d)"
| "py_iter (PStr s) = Inr (map (\<lambda>c. PStr [c]) s)"
| "py_iter (PBytes b) = Inr (map (\<lambda>w. PInt (uint w)) b)"
| "py_iter (PMessageMap d) = Inr (map (\<lambda>(k, v). PStr k) d)"
| "py_iter _ = Inl TypeError"

text \<open>\<open>v[i]\<close> for a tuple.\<close>

fun tuple_get :: "'o pyval \<Rightarrow> nat \<Rightarrow> 'o pyval res" where
  "tuple_get (PTuple xs) i = list_get xs i"
| "tuple_get _ i = Inl TypeError"

text \<open>Equality and order of numbers across \<open>bool\<close>, \<open>int\<close> and \<open>float\<close>.\<close>

fun num_of :: "'o pyval \<Rightarrow> pyfloat option" where
  "num_of (PBool b) = Some (Fin (of_bool b))"
| "num_of (PInt i) = Some (Fin (of_int i))"
| "num_of (PFloat f) = Some f"
| "num_of _ = None"

definition float_eq :: "pyfloat \<Rightarrow> pyfloat \<Rightarrow> bool" where
  "float_eq a b \<longleftrightarrow> a = b \<and> a \<noteq> NaN"

text \<open>\<open>bytes(s, 'utf-8')\<close> for code points below 256.\<close>

definition utf8 :: "string \<Rightarrow> bytes" where
  "utf8 s = concat (map (\<lambda>c. let n = (of_char c :: nat) in
      if n < 128 then [of_nat n] else [of_nat (192 + n div 64), of_nat (128 + n mod 64)]) s)"

section \<open>Lemmas on results and programs\<close>

lemma bindE_Inl [simp]: "bindE (Inl e) f = Inl e"
  by (simp add: bindE_def)

lemma bindE_Inr [simp]: "bindE (Inr x) f = f x"
  by (simp add: bindE_def)

lemma bindE_eq_Inr [py_inv]: "bindE m f = Inr y \<longleftrightarrow> (\<exists>x. m = Inr x \<and> f x = Inr y)"
  by (cases m) auto

lemma bindE_eq_Inl [py_inv]: "bindE m f = Inl e \<longleftrightarrow> m = Inl e \<or> (\<exists>x. m = Inr x \<and> f x = Inl e)"
  by (cases m) auto

lemma bindE_assoc [simp]: "bindE (bindE m f) g = bindE m (\<lambda>x. bindE (f x) g)"
  by (cases m) auto

lemma bindE_cong [fundef_cong]:
  "m = m' \<Longrightarrow> (\<And>x. m' = Inr x \<Longrightarrow> f x = g x) \<Longrightarrow> bindE m f = bindE m' g"
  by (cases m') auto

lemma bindE_if: "bindE (if b then m else m') f = (if b then bindE m f else bindE m' f)"
  by simp

lemma foldE_append: "foldE f (xs @ ys) s = bindE (foldE f xs s) (foldE f ys)"
  by (induction xs arbitrary: s) (auto simp: bindE_def split: sum.splits)

lemma foldE_total:
  "(\<And>x s. x \<in> set xs \<Longrightarrow> f x s = Inr (g x s)) \<Longrightarrow> foldE f xs s = Inr (fold g xs s)"
  by (induction xs arbitrary: s) auto

lemma foldE_invariant:
  assumes "foldE f xs s = Inr t" and "P s"
    and "\<And>x u v. x \<in> set xs \<Longrightarrow> P u \<Longrightarrow> f x u = Inr v \<Longrightarrow> P v"
  shows "P t"
  using assms by (induction xs arbitrary: s) (auto simp: py_inv)

lemma mapE_cong [fundef_cong]:
  "xs = ys \<Longrightarrow> (\<And>x. x \<in> set ys \<Longrightarrow> f x = g x) \<Longrightarrow> mapE f xs = mapE g ys"
  by (induction ys arbitrary: xs) auto

lemma mapE_total: "(\<And>x. x \<in> set xs \<Longrightarrow> f x = Inr (g x)) \<Longrightarrow> mapE f xs = Inr (map g xs)"
  by (induction xs) auto

lemma mapE_length: "mapE f xs = Inr ys \<Longrightarrow> length ys = length xs"
  by (induction xs arbitrary: ys) (auto simp: py_inv)

lemma mapE_first_error:
  "mapE f xs = Inr ys \<Longrightarrow> f x = Inl e \<Longrightarrow> mapE f (xs @ x # zs) = Inl e"
  by (induction xs arbitrary: ys) (auto simp: py_inv)

lemma returnS_run [simp, py_run]: "returnS x s = (Return x, s)"
  by (simp add: returnS_def)

lemma raiseS_run [simp, py_run]: "raiseS e s = (Raise e, s)"
  by (simp add: raiseS_def)

lemma divergeS_run [simp, py_run]: "divergeS s = (Diverge, s)"
  by (simp add: divergeS_def)

lemma getS_run [simp, py_run]: "getS f s = (Return (f s), s)"
  by (simp add: getS_def)

lemma modS_run [simp, py_run]: "modS f s = (Return (), f s)"
  by (simp add: modS_def)

lemma liftE_run [simp, py_run]: "liftE (Inl e) s = (Raise e, s)" "liftE (Inr x) s = (Return x, s)"
  by (simp_all add: liftE_def)

lemma bindS_Return [simp]: "m s = (Return x, t) \<Longrightarrow> bindS m f s = f x t"
  by (simp add: bindS_def)

lemma bindS_Raise [simp]: "m s = (Raise e, t) \<Longrightarrow> bindS m f s = (Raise e, t)"
  by (simp add: bindS_def)

lemma bindS_Diverge [simp]: "m s = (Diverge, t) \<Longrightarrow> bindS m f s = (Diverge, t)"
  by (simp add: bindS_def)

lemma bindS_eq_Return [py_inv]:
  "bindS m f s = (Return y, u) \<longleftrightarrow> (\<exists>x t. m s = (Return x, t) \<and> f x t = (Return y, u))"
  by (auto simp: bindS_def split: prod.splits outcome.splits)

lemma seqS_eq_Return [py_inv]:
  "seqS m k s = (Return y, u) \<longleftrightarrow> (\<exists>x t. m s = (Return x, t) \<and> k t = (Return y, u))"
  by (simp add: seqS_def bindS_eq_Return)

lemma seqS_Return [simp]: "m s = (Return x, t) \<Longrightarrow> seqS m k s = k t"
  by (simp add: seqS_def)

lemma seqS_Raise [simp]: "m s = (Raise e, t) \<Longrightarrow> seqS m k s = (Raise e, t)"
  by (simp add: seqS_def)

lemma seqS_Diverge [simp]: "m s = (Diverge, t) \<Longrightarrow> seqS m k s = (Diverge, t)"
  by (simp add: seqS_def)

lemma liftE_eq_Return [py_inv]: "liftE r s = (Return x, t) \<longleftrightarrow> r = Inr x \<and> t = s"
  by (cases r) auto

lemma bindS_assoc: "bindS (bindS m f) g s = bindS m (\<lambda>x. bindS (f x) g) s"
  by (auto simp: bindS_def split: prod.splits outcome.splits)

text \<open>A loop whose body always returns: its effect is a fold of the body's effect.\<close>

lemma forS_total:
  "(\<And>x s. x \<in> set xs \<Longrightarrow> f x s = (Return (), g x s)) \<Longrightarrow> forS xs f s = (Return (), fold g xs s)"
  by (induction xs arbitrary: s) auto

lemma forS_invariant:
  assumes "forS xs f s = (Return (), t)" and "P s"
    and "\<And>x u v. x \<in> set xs \<Longrightarrow> P u \<Longrightarrow> f x u = (Return (), v) \<Longrightarrow> P v"
  shows "P t"
  using assms by (induction xs arbitrary: s) (auto simp: py_inv)

lemma zoom_run [simp]: "m (sel s) = (r, p) \<Longrightarrow> zoom sel upd m s = (r, upd p s)"
  by (simp add: zoom_def)

lemma foldS_append: "foldS f (xs @ ys) b s = bindS (foldS f xs b) (foldS f ys) s"
  by (induction xs arbitrary: b s) (auto simp: bindS_def split: prod.splits outcome.splits)

lemma bindS_foldS_Nil [simp]: "bindS m (foldS f []) = m"
  by (rule ext) (auto simp: bindS_def returnS_def split: prod.splits outcome.splits)

lemma foldS_total:
  "(\<And>x b s. x \<in> set xs \<Longrightarrow> f x b s = (Return (g x b), s)) \<Longrightarrow> foldS f xs b s = (Return (fold g xs b), s)"
  by (induction xs arbitrary: b) auto

lemma foldS_invariant:
  assumes "foldS f xs b s = (Return c, t)" and "P b"
    and "\<And>x b s c t. x \<in> set xs \<Longrightarrow> P b \<Longrightarrow> f x b s = (Return c, t) \<Longrightarrow> P c"
  shows "P c"
  using assms
proof (induction xs arbitrary: b s)
  case (Cons x xs)
  then obtain b' s' where step: "f x b s = (Return b', s')" and rest: "foldS f xs b' s' = (Return c, t)"
    by (auto simp: py_inv)
  have "P b'" using Cons.prems(3) [OF _ Cons.prems(2) step] by simp
  then show ?case using Cons.IH [OF rest] Cons.prems(3) by (meson list.set_intros(2))
qed simp

text \<open>A program whose outcome does not depend on the state it starts in.\<close>

definition stateless :: "('s, 'a) prog \<Rightarrow> bool" where
  "stateless m \<longleftrightarrow> (\<forall>s t. fst (m s) = fst (m t))"

named_theorems py_stateless "programs whose outcome does not depend on the state"

lemma statelessD: "stateless m \<Longrightarrow> fst (m s) = fst (m t)"
  unfolding stateless_def by blast

lemma stateless_simple [py_stateless]:
  "stateless (returnS x)" "stateless (raiseS e)" "stateless (modS f)" "stateless (liftE r)"
  by (auto simp: stateless_def liftE_def split: sum.splits)

lemma stateless_bindS [py_stateless]:
  assumes m: "stateless m" and f: "\<And>x. stateless (f x)"
  shows "stateless (bindS m f)"
  unfolding stateless_def
proof (intro allI)
  fix s t
  obtain r s' where s: "m s = (r, s')" by (cases "m s")
  obtain r' t' where t: "m t = (r', t')" by (cases "m t")
  have "r' = r" using statelessD [OF m, of s t] s t by simp
  with s t show "fst (bindS m f s) = fst (bindS m f t)"
    by (cases r) (simp_all add: bindS_def statelessD [OF f, of _ s' t'])
qed

lemma stateless_seqS [py_stateless]: "stateless m \<Longrightarrow> stateless k \<Longrightarrow> stateless (seqS m k)"
  unfolding seqS_def by (rule stateless_bindS)

lemma stateless_foldS [py_stateless]: "(\<And>x b. stateless (f x b)) \<Longrightarrow> stateless (foldS f xs b)"
  by (induction xs arbitrary: b) (auto intro: py_stateless)

lemma stateless_if [py_stateless]: "stateless m \<Longrightarrow> stateless k \<Longrightarrow> stateless (if b then m else k)"
  by simp

lemma stateless_case_list [py_stateless]:
  "stateless m \<Longrightarrow> (\<And>x xs. stateless (f x xs)) \<Longrightarrow> stateless (case z of [] \<Rightarrow> m | x # xs \<Rightarrow> f x xs)"
  by (cases z) simp_all

lemma stateless_case_prod [py_stateless]: "(\<And>x y. stateless (f x y)) \<Longrightarrow> stateless (case z of (x, y) \<Rightarrow> f x y)"
  by (cases z) simp

text \<open>
  A program keeps a predicate of the state when it ends in a state with it, however it ends. The
  rules follow the structure of programs, so that an invariant of an operation is proved by
  \<open>(intro py_keeps)\<close> from the primitive effects.
\<close>

definition keeps :: "('s \<Rightarrow> bool) \<Rightarrow> ('s, 'a) prog \<Rightarrow> bool" where
  "keeps P m \<longleftrightarrow> (\<forall>s. P s \<longrightarrow> P (snd (m s)))"

lemma keepsI: "(\<And>s. P s \<Longrightarrow> P (snd (m s))) \<Longrightarrow> keeps P m"
  by (simp add: keeps_def)

lemma keepsD: "keeps P m \<Longrightarrow> P s \<Longrightarrow> m s = (r, t) \<Longrightarrow> P t"
  by (auto simp: keeps_def dest: spec [of _ s])

lemma keeps_returnS [py_keeps]: "keeps P (returnS x)"
  by (simp add: keeps_def)

lemma keeps_raiseS [py_keeps]: "keeps P (raiseS e)"
  by (simp add: keeps_def)

lemma keeps_divergeS [py_keeps]: "keeps P divergeS"
  by (simp add: keeps_def)

lemma keeps_getS [py_keeps]: "keeps P (getS f)"
  by (simp add: keeps_def)

lemma keeps_liftE [py_keeps]: "keeps P (liftE r)"
  by (cases r) (simp_all add: keeps_def)

lemma keeps_modS: "(\<And>s. P s \<Longrightarrow> P (f s)) \<Longrightarrow> keeps P (modS f)"
  by (simp add: keeps_def)

lemma keeps_bindS [py_keeps]: "keeps P m \<Longrightarrow> (\<And>x. keeps P (f x)) \<Longrightarrow> keeps P (bindS m f)"
  by (fastforce simp: keeps_def bindS_def split: prod.splits outcome.splits)

lemma keeps_seqS [py_keeps]: "keeps P m \<Longrightarrow> keeps P k \<Longrightarrow> keeps P (seqS m k)"
  unfolding seqS_def by (rule keeps_bindS)

lemma keeps_forS [py_keeps]: "(\<And>x. keeps P (f x)) \<Longrightarrow> keeps P (forS xs f)"
  by (induction xs) (auto intro: py_keeps)

lemma keeps_foldS [py_keeps]: "(\<And>x b. keeps P (f x b)) \<Longrightarrow> keeps P (foldS f xs b)"
  by (induction xs arbitrary: b) (auto intro: py_keeps)

lemma keeps_if [py_keeps]: "keeps P m \<Longrightarrow> keeps P k \<Longrightarrow> keeps P (if b then m else k)"
  by simp

lemma keeps_case_option [py_keeps]:
  "keeps P m \<Longrightarrow> (\<And>x. keeps P (f x)) \<Longrightarrow> keeps P (case z of None \<Rightarrow> m | Some x \<Rightarrow> f x)"
  by (cases z) simp_all

lemma keeps_case_list [py_keeps]:
  "keeps P m \<Longrightarrow> (\<And>x xs. keeps P (f x xs)) \<Longrightarrow> keeps P (case z of [] \<Rightarrow> m | x # xs \<Rightarrow> f x xs)"
  by (cases z) simp_all

lemma keeps_case_prod [py_keeps]: "(\<And>x y. keeps P (f x y)) \<Longrightarrow> keeps P (case z of (x, y) \<Rightarrow> f x y)"
  by (cases z) simp

lemma keeps_zoom:
  "(\<And>s. P s \<Longrightarrow> Q (sel s)) \<Longrightarrow> (\<And>s p. P s \<Longrightarrow> Q p \<Longrightarrow> P (upd p s)) \<Longrightarrow> keeps Q m \<Longrightarrow> keeps P (zoom sel upd m)"
  by (auto simp: keeps_def zoom_def split: prod.splits) (metis snd_conv)

section \<open>Lemmas on numbers and strings\<close>

lemma less_10_cases: "(d::nat) < 10 \<Longrightarrow> d \<in> {0, 1, 2, 3, 4, 5, 6, 7, 8, 9}"
  by auto

lemma digit_val_char [simp]: "d < 10 \<Longrightarrow> digit_val (digit_char d) = d"
  by (drule less_10_cases) (auto simp: digit_val_def digit_char_def)

lemma is_digit_char [simp]: "d < 10 \<Longrightarrow> is_digit (digit_char d)"
  by (drule less_10_cases) (auto simp: is_digit_def digit_char_def)

lemma nat_of_digits_snoc [simp]: "nat_of_digits (s @ [c]) = 10 * nat_of_digits s + digit_val c"
  by (simp add: nat_of_digits_def)

lemma nat_of_digits_str_nat [simp]: "nat_of_digits (str_nat n) = n"
proof (induction n rule: str_nat.induct)
  case (1 n)
  then show ?case
    by (cases "n < 10") (simp_all add: str_nat.simps [of n], simp add: nat_of_digits_def)
qed

lemma str_nat_inject [simp]: "str_nat m = str_nat n \<longleftrightarrow> m = n"
  by (metis nat_of_digits_str_nat)

lemma str_nat_nonempty [simp]: "str_nat n \<noteq> []"
  by (subst str_nat.simps) simp

lemma str_nat_digits: "c \<in> set (str_nat n) \<Longrightarrow> is_digit c"
proof (induction n rule: str_nat.induct)
  case (1 n)
  then show ?case
    by (cases "n < 10") (auto simp: str_nat.simps [of n])
qed

lemma str_nat_no_char: "\<not> is_digit c \<Longrightarrow> c \<notin> set (str_nat n)"
  using str_nat_digits by blast

lemma int_of_str_str_nat [simp]: "int_of_str (str_nat n) = Inr (int n)"
proof (cases "str_nat n")
  case Nil
  then show ?thesis by simp
next
  case (Cons c ds)
  have "is_digit c" and all: "list_all is_digit (str_nat n)"
    using Cons str_nat_digits [of _ n] by (auto simp: list_all_iff)
  then have "c \<noteq> CHR ''-''" and "c \<noteq> CHR ''+''"
    by (auto simp: is_digit_def)
  then show ?thesis
    using all Cons nat_of_digits_str_nat [of n] by (simp add: int_of_str_def)
qed

lemma str_int_nonneg: "0 \<le> i \<Longrightarrow> str_int i = str_nat (nat i)"
  by (simp add: str_int_def)

lemma int_of_str_str_int [simp]: "int_of_str (str_int i) = Inr i"
proof (cases "i < 0")
  case True
  moreover have "list_all is_digit (str_nat (nat (- i)))"
    by (auto simp: list_all_iff dest: str_nat_digits)
  ultimately show ?thesis
    by (simp add: str_int_def int_of_str_def)
next
  case False
  then show ?thesis by (simp add: str_int_nonneg)
qed

lemma str_int_inject [simp]: "str_int i = str_int j \<longleftrightarrow> i = j"
  by (metis int_of_str_str_int sum.inject(2))

lemma str_int_no_char: "\<not> is_digit c \<Longrightarrow> c \<noteq> CHR ''-'' \<Longrightarrow> c \<notin> set (str_int i)"
  by (auto simp: str_int_def dest: str_nat_digits)

lemma split_on_nonempty [simp]: "split_on c s \<noteq> []"
  by (induction s) (auto split: list.splits)

lemma split_on_no_sep [simp]: "c \<notin> set s \<Longrightarrow> split_on c s = [s]"
  by (induction s) auto

lemma split_on_sep [simp]: "c \<notin> set a \<Longrightarrow> split_on c (a @ c # b) = a # split_on c b"
  by (induction a) auto

lemma join_Cons: "ys \<noteq> [] \<Longrightarrow> join sep (x # ys) = x @ sep @ join sep ys"
  by (cases ys) auto

lemma join_split_on [simp]: "join [c] (split_on c s) = s"
proof (induction s)
  case Nil
  then show ?case by simp
next
  case (Cons x s)
  show ?case
  proof (cases "x = c")
    case True
    with Cons show ?thesis by (simp add: join_Cons)
  next
    case False
    with Cons show ?thesis
      by (cases "split_on c s"; cases "tl (split_on c s)") (auto simp: join_Cons)
  qed
qed

lemma split_on_join:
  "xs \<noteq> [] \<Longrightarrow> (\<And>x. x \<in> set xs \<Longrightarrow> c \<notin> set x) \<Longrightarrow> split_on c (join [c] xs) = xs"
proof (induction xs)
  case Nil
  then show ?case by simp
next
  case (Cons x xs)
  then show ?case by (cases xs) auto
qed

lemma split_on_pieces: "p \<in> set (split_on c s) \<Longrightarrow> c \<notin> set p"
  by (induction s arbitrary: p) (auto split: list.splits if_splits)

lemma mod_offset_inject:
  fixes a m :: int
  assumes "(a + int j) mod m = (a + int k) mod m" and "int j < m" and "int k < m"
  shows "j = k"
proof -
  have "((a + int j) mod m - a) mod m = ((a + int k) mod m - a) mod m" using assms(1) by (rule arg_cong)
  then have "int j mod m = int k mod m" unfolding mod_diff_left_eq by simp
  then show ?thesis using assms(2,3) by simp
qed

lemma append_sep_unique:
  "x @ c # p = y @ c # q \<Longrightarrow> c \<notin> set p \<Longrightarrow> c \<notin> set q \<Longrightarrow> x = y \<and> p = q"
proof (induction x arbitrary: y)
  case Nil
  then show ?case by (cases y) auto
next
  case (Cons a x)
  then show ?case by (cases y) auto
qed

lemma choice_member: "choice r xs = Inr x \<Longrightarrow> x \<in> set xs"
  by (auto simp: choice_def split: if_splits)

lemma choice_total: "xs \<noteq> [] \<Longrightarrow> \<exists>x. choice r xs = Inr x"
  by (simp add: choice_def)

section \<open>Lemmas on dictionaries\<close>

text \<open>
  The contract of a mutable finite map as the components rely on it: what a lookup returns
  after a store or a deletion, and that both keep the representation well formed.
\<close>

locale finite_dict =
  fixes emp :: "'d"
    and look :: "'d \<Rightarrow> 'k \<Rightarrow> 'v option"
    and put :: "'k \<Rightarrow> 'v \<Rightarrow> 'd \<Rightarrow> 'd"
    and rem :: "'k \<Rightarrow> 'd \<Rightarrow> 'd"
    and wf :: "'d \<Rightarrow> bool"
  assumes look_emp: "look emp k = None"
    and look_put: "wf d \<Longrightarrow> look (put k v d) k' = (if k' = k then Some v else look d k')"
    and look_rem: "wf d \<Longrightarrow> look (rem k d) k' = (if k' = k then None else look d k')"
    and wf_emp: "wf emp"
    and wf_put: "wf d \<Longrightarrow> wf (put k v d)"
    and wf_rem: "wf d \<Longrightarrow> wf (rem k d)"
begin

lemma wf_puts: "wf d \<Longrightarrow> wf (fold (\<lambda>(k, v). put k v) kvs d)"
  by (induction kvs arbitrary: d) (auto simp: wf_put)

lemma look_puts:
  "wf d \<Longrightarrow> look (fold (\<lambda>(k, v). put k v) kvs d) k =
     (case map_of (rev kvs) k of None \<Rightarrow> look d k | Some v \<Rightarrow> Some v)"
proof (induction kvs arbitrary: d)
  case Nil
  then show ?case by simp
next
  case (Cons kv kvs)
  obtain k' v where kv: "kv = (k', v)" by fastforce
  have "look (fold (\<lambda>(k, v). put k v) kvs (put k' v d)) k =
      (case map_of (rev kvs) k of None \<Rightarrow> look (put k' v d) k | Some v \<Rightarrow> Some v)"
    by (rule Cons.IH) (simp add: wf_put Cons.prems)
  then show ?case
    by (auto simp: kv look_put Cons.prems map_add_def split: option.splits)
qed

lemma look_put_all_same:
  "wf d \<Longrightarrow> look (fold (\<lambda>k. put k v) ks d) k = (if k \<in> set ks then Some v else look d k)"
  by (induction ks arbitrary: d) (auto simp: look_put wf_put)

lemma rem_put_other: "wf d \<Longrightarrow> k \<noteq> k' \<Longrightarrow> look (rem k (put k' v d)) k' = Some v"
  by (simp add: look_rem look_put wf_put)

end

interpretation pd: finite_dict "[]" map_of dict_set AList.delete dict_wf
proof unfold_locales
  fix k k' :: 'a and v :: 'b and d :: "('a, 'b) dict"
  show "map_of [] k = (None :: 'b option)" by simp
  show "dict_wf ([] :: ('a, 'b) dict)" by (simp add: dict_wf_def)
  show "map_of (dict_set k v d) k' = (if k' = k then Some v else map_of d k')"
    by (simp add: update_conv')
  show "map_of (AList.delete k d) k' = (if k' = k then None else map_of d k')"
    by (simp add: delete_conv')
  show "dict_wf d \<Longrightarrow> dict_wf (dict_set k v d)"
    by (simp add: dict_wf_def distinct_update)
  show "dict_wf d \<Longrightarrow> dict_wf (AList.delete k d)"
    by (simp add: dict_wf_def distinct_delete)
qed

lemma dict_mem_keys: "dict_mem k d \<longleftrightarrow> k \<in> set (dict_keys d)"
  by (auto simp: dict_mem_def map_of_eq_None_iff)

lemma dict_mem_set [simp]: "dict_mem k (dict_set k' v d) \<longleftrightarrow> k = k' \<or> dict_mem k d"
  by (auto simp: dict_mem_def update_conv')

lemma dict_mem_delete [simp]: "dict_mem k (AList.delete k' d) \<longleftrightarrow> k \<noteq> k' \<and> dict_mem k d"
  by (auto simp: dict_mem_def delete_conv')

lemma dict_mem_Nil [simp]: "\<not> dict_mem k []"
  by (simp add: dict_mem_def)

lemma dict_getitem_set [simp]:
  "dict_getitem (dict_set k v d) k' = (if k' = k then Inr v else dict_getitem d k')"
  by (auto simp: dict_getitem_def update_conv')

lemma dict_getitem_eq_Inr: "dict_getitem d k = Inr v \<longleftrightarrow> map_of d k = Some v"
  by (simp add: dict_getitem_def split: option.splits)

lemma dict_getitem_eq_Inl: "dict_getitem d k = Inl e \<longleftrightarrow> e = KeyError \<and> \<not> dict_mem k d"
  by (auto simp: dict_getitem_def dict_mem_def split: option.splits)

lemma dict_set_fresh: "\<not> dict_mem k d \<Longrightarrow> dict_set k v d = d @ [(k, v)]"
  by (induction d) (auto simp: dict_mem_def split: if_splits)

lemma dict_keys_set:
  "dict_keys (dict_set k v d) = (if dict_mem k d then dict_keys d else dict_keys d @ [k])"
  by (induction d) (auto simp: dict_mem_def)

lemmas dict_wf_intros [intro] = pd.wf_put pd.wf_rem

lemma dict_wf_Nil [simp]: "dict_wf []"
  by (rule pd.wf_emp)

end
