(* ===== verification/Anna_Ordered_Set.thy ===== *)
theory Anna_Ordered_Set
  imports Py_Prelude
begin

text \<open>
  \<^verbatim>\<open>ListBasedOrderedSet\<close> of \<^verbatim>\<open>client/python/anna/lattices.py\<close>: a set kept as an ascending list
  without duplicates, found by binary search; and the lockstep merge loop of
  \<^verbatim>\<open>OrderedSetLattice.merge\<close>. Elements are of any linearly ordered type (the client stores
  \<^verbatim>\<open>bytes\<close>, ordered lexicographically).

  Shown: the binary search is correct on every sorted list and its probes stay in range; the
  constructor and \<open>insert\<close> implement a set, for any iterable and not only for the sorted ones
  that the source's comment asks for; the merge loop always returns and yields the union.
\<close>

section \<open>The class\<close>

record 'a ListBasedOrderedSet =
  lst :: "'a list"

text \<open>
  The loop of \<open>_index_of\<close>. \<open>int((high - low) / 2)\<close> is exact below \<open>2 ^ 53\<close>. The order is
  linear, so the last \<open>elif pivot < value\<close> is the only case left.
\<close>

function index_of_loop :: "'a::linorder list \<Rightarrow> 'a \<Rightarrow> nat \<Rightarrow> nat \<Rightarrow> nat \<times> bool" where
  "index_of_loop xs value low high =
     (if low < high then
        let middle = low + (high - low) div 2; pivot = xs ! middle
        in if value = pivot then (middle, True)
           else if value < pivot then index_of_loop xs value low middle
           else index_of_loop xs value (middle + 1) high
      else (low, False))"
  by pat_completeness auto
termination
  by (relation "measure (\<lambda>(xs, value, low, high). high - low)") auto

declare index_of_loop.simps [simp del]

definition index_of :: "'a::linorder ListBasedOrderedSet \<Rightarrow> 'a \<Rightarrow> nat \<times> bool" where
  "index_of self value = index_of_loop (lst self) value 0 (length (lst self))"

text \<open>\<open>xs.insert(i, v)\<close> on a Python list.\<close>

definition list_insert :: "nat \<Rightarrow> 'a \<Rightarrow> 'a list \<Rightarrow> 'a list" where
  "list_insert i v xs = take i xs @ v # drop i xs"

definition lbos_insert ::
  "'a::linorder \<Rightarrow> 'a ListBasedOrderedSet \<Rightarrow> 'a ListBasedOrderedSet" where
  "lbos_insert value self =
     (if length (lst self) = 0 then self\<lparr>lst := lst self @ [value]\<rparr>
      else if last (lst self) < value then self\<lparr>lst := lst self @ [value]\<rparr>
      else (case index_of self value of (idx, present) \<Rightarrow>
        if \<not> present then self\<lparr>lst := list_insert idx value (lst self)\<rparr> else self))"

definition lbos_init :: "'a::linorder list \<Rightarrow> 'a ListBasedOrderedSet" where
  "lbos_init iterable = fold lbos_insert iterable \<lparr>lst = []\<rparr>"

text \<open>The loop of \<open>OrderedSetLattice.merge\<close> on the two lists; an index out of range raises.\<close>

function lockstep_merge ::
  "'a::linorder list \<Rightarrow> 'a list \<Rightarrow> nat \<Rightarrow> nat \<Rightarrow> 'a list \<Rightarrow> 'a list res" where
  "lockstep_merge us other i j new_lst =
     (if i < length us \<or> j < length other then
        if i = length us then Inr (new_lst @ drop j other)
        else if j = length other then Inr (new_lst @ drop i us)
        else bindE (list_get us i) (\<lambda>a. bindE (list_get other j) (\<lambda>b.
          if a = b then lockstep_merge us other (i + 1) (j + 1) (new_lst @ [a])
          else if a < b then lockstep_merge us other (i + 1) j (new_lst @ [a])
          else lockstep_merge us other i (j + 1) (new_lst @ [b])))
      else Inr new_lst)"
  by pat_completeness auto
termination
  by (relation "measure (\<lambda>(us, other, i, j, acc). (length us - i) + (length other - j))")
    (auto simp: list_get_def split: if_splits)

declare lockstep_merge.simps [simp del]

section \<open>The contract of an ordered set\<close>

text \<open>
  What a client of an ordered set relies on: an insertion adds exactly one element to the set
  and keeps the representation well formed, and the elements are listed in ascending order.
\<close>

locale ordered_set =
  fixes emp :: "'s"
    and ins :: "'a::linorder \<Rightarrow> 's \<Rightarrow> 's"
    and elems :: "'s \<Rightarrow> 'a list"
    and invar :: "'s \<Rightarrow> bool"
  assumes elems_emp: "elems emp = []"
    and invar_emp: "invar emp"
    and invar_ins: "invar s \<Longrightarrow> invar (ins x s)"
    and set_ins: "invar s \<Longrightarrow> set (elems (ins x s)) = insert x (set (elems s))"
    and invar_sorted: "invar s \<Longrightarrow> sorted_wrt (<) (elems s)"
begin

lemma invar_fold: "invar s \<Longrightarrow> invar (fold ins xs s)"
  by (induction xs arbitrary: s) (auto simp: invar_ins)

lemma set_fold: "invar s \<Longrightarrow> set (elems (fold ins xs s)) = set xs \<union> set (elems s)"
  by (induction xs arbitrary: s) (auto simp: invar_ins set_ins)

lemma elems_unique: "invar s \<Longrightarrow> elems s = sorted_list_of_set (set (elems s))"
  using invar_sorted [of s]
  by (metis sorted_list_of_set.idem_if_sorted_distinct strict_sorted_iff)

lemma elems_fold_emp: "elems (fold ins xs emp) = sorted_list_of_set (set xs)"
  using elems_unique [OF invar_fold [OF invar_emp, of xs]]
  by (simp add: set_fold invar_emp elems_emp)

lemma insertion_order_irrelevant:
  "set xs = set ys \<Longrightarrow> elems (fold ins xs emp) = elems (fold ins ys emp)"
  by (simp add: elems_fold_emp)

end

section \<open>Binary search\<close>

lemma sorted_nth_less:
  "sorted_wrt (<) (xs :: 'a::linorder list) \<Longrightarrow> i < j \<Longrightarrow> j < length xs \<Longrightarrow> xs ! i < xs ! j"
  by (simp add: sorted_wrt_iff_nth_less)

lemma index_of_loop_correct:
  assumes "sorted_wrt (<) xs" and "low \<le> high" and "high \<le> length xs"
    and "\<And>k. k < low \<Longrightarrow> xs ! k < v"
    and "\<And>k. high \<le> k \<Longrightarrow> k < length xs \<Longrightarrow> v < xs ! k"
    and "index_of_loop xs v low high = (i, present)"
  shows "i \<le> length xs \<and> (\<forall>k < i. xs ! k < v) \<and>
    (if present then i < length xs \<and> xs ! i = v
     else \<forall>k. i \<le> k \<and> k < length xs \<longrightarrow> v < xs ! k)"
  using assms
proof (induction xs v low high rule: index_of_loop.induct)
  case (1 xs v low high)
  note srt = "1.prems"(1) and bnd = "1.prems"(2,3) and lo = "1.prems"(4) and hi = "1.prems"(5)
    and res = "1.prems"(6) and unf = index_of_loop.simps [of xs v low high]
  define middle where "middle = low + (high - low) div 2"
  show ?case
  proof (cases "low < high")
    case False
    then have "i = low" "\<not> present" using res by (auto simp: unf)
    then show ?thesis using lo hi bnd False by auto
  next
    case True
    then have m: "low \<le> middle" "middle < high" by (auto simp: middle_def)
    have below: "xs ! k < xs ! middle" if "k < middle" for k
      using srt bnd m that by (intro sorted_nth_less) auto
    have above: "xs ! middle < xs ! k" if "middle < k" "k < length xs" for k
      using srt that by (intro sorted_nth_less) auto
    consider (eq) "v = xs ! middle" | (lt) "v < xs ! middle" | (gt) "xs ! middle < v"
      by (rule linorder_cases)
    then show ?thesis
    proof cases
      case eq
      then have "index_of_loop xs v low high = (middle, True)"
        using True by (subst unf) (simp add: middle_def [symmetric] Let_def)
      then have "i = middle" "present" using res by auto
      then show ?thesis using eq m below bnd by auto
    next
      case lt
      then have step: "index_of_loop xs v low middle = (i, present)"
        using True res by (auto simp: unf middle_def Let_def split: if_splits)
      have "v < xs ! k" if "middle \<le> k" "k < length xs" for k
        using above [of k] lt that by (cases "k = middle") auto
      then show ?thesis
        using lt m bnd
        by (intro "1.IH"(1) [OF True middle_def refl less_imp_neq [OF lt] lt srt _ _ lo _ step]) auto
    next
      case gt
      then have step: "index_of_loop xs v (middle + 1) high = (i, present)"
        using True res by (auto simp: unf middle_def Let_def split: if_splits)
      have "xs ! k < v" if "k < middle + 1" for k
        using below [of k] gt that by (cases "k = middle") auto
      then show ?thesis
        using gt m bnd
        by (intro "1.IH"(2) [OF True middle_def refl less_imp_neq [OF gt, symmetric] less_not_sym [OF gt] srt _ _ _ hi step]) auto
    qed
  qed
qed

lemma index_of_correct:
  assumes "sorted_wrt (<) (lst s)" and "index_of s v = (i, present)"
  shows "i \<le> length (lst s)" and "\<And>k. k < i \<Longrightarrow> lst s ! k < v"
    and "present \<Longrightarrow> i < length (lst s) \<and> lst s ! i = v"
    and "\<And>k. \<not> present \<Longrightarrow> i \<le> k \<Longrightarrow> k < length (lst s) \<Longrightarrow> v < lst s ! k"
  using index_of_loop_correct [OF assms(1), of 0 "length (lst s)" v i present] assms(2)
  by (auto simp: index_of_def split: if_splits)

lemma index_of_present:
  assumes "sorted_wrt (<) (lst s)" and "index_of s v = (i, present)"
  shows "present \<longleftrightarrow> v \<in> set (lst s)"
proof
  assume present
  then show "v \<in> set (lst s)"
    using index_of_correct(3) [OF assms] by (metis nth_mem)
next
  assume "v \<in> set (lst s)"
  then obtain k where k: "k < length (lst s)" "lst s ! k = v"
    by (metis in_set_conv_nth)
  show present
  proof (rule ccontr)
    assume "\<not> present"
    then show False
      using index_of_correct(2,4) [OF assms, of k] k by (cases "k < i") auto
  qed
qed

text \<open>The loop run for a given number of iterations, with \<open>None\<close> when it has not ended by then.\<close>

fun index_of_within :: "nat \<Rightarrow> 'a::linorder list \<Rightarrow> 'a \<Rightarrow> nat \<Rightarrow> nat \<Rightarrow> (nat \<times> bool) option" where
  "index_of_within 0 xs value low high = (if low < high then None else Some (low, False))"
| "index_of_within (Suc n) xs value low high =
     (if low < high then
        let middle = low + (high - low) div 2; pivot = xs ! middle
        in if value = pivot then Some (middle, True)
           else if value < pivot then index_of_within n xs value low middle
           else index_of_within n xs value (middle + 1) high
      else Some (low, False))"

lemma index_of_within_loop:
  "high - low < 2 ^ n \<Longrightarrow> index_of_within n xs v low high = Some (index_of_loop xs v low high)"
proof (induction n arbitrary: low high)
  case 0
  then show ?case by (simp add: index_of_loop.simps [of xs v low high])
next
  case (Suc n)
  let ?middle = "low + (high - low) div 2"
  have "?middle - low < 2 ^ n" "high - (?middle + 1) < 2 ^ n" using Suc.prems by (auto simp: field_simps)
  then show ?case
    using Suc.IH [of ?middle low] Suc.IH [of high "?middle + 1"] index_of_loop.simps [of xs v low high]
    by (simp add: Let_def)
qed

section \<open>Insertion\<close>

lemma sorted_list_insert:
  assumes "sorted_wrt (<) xs" and "\<And>k. k < i \<Longrightarrow> xs ! k < v"
    and "\<And>k. i \<le> k \<Longrightarrow> k < length xs \<Longrightarrow> v < xs ! k" and "i \<le> length xs"
  shows "sorted_wrt (<) (list_insert i v (xs :: 'a::linorder list))"
proof -
  have "x < v" if "x \<in> set (take i xs)" for x
    using assms(2,4) that by (auto simp: in_set_conv_nth)
  moreover have "v < y" if "y \<in> set (drop i xs)" for y
    using assms(3,4) that by (auto simp: in_set_conv_nth)
  moreover have "sorted_wrt (<) (take i xs)" and "sorted_wrt (<) (drop i xs)"
    using assms(1) by (auto simp: sorted_wrt_take sorted_wrt_drop)
  ultimately show ?thesis
    by (auto simp: list_insert_def sorted_wrt_append intro: less_trans)
qed

lemma set_list_insert [simp]: "set (list_insert i v xs) = insert v (set xs)"
proof -
  have "set (take i xs) \<union> set (drop i xs) = set xs"
    by (metis append_take_drop_id set_append)
  then show ?thesis by (simp add: list_insert_def)
qed

lemma sorted_le_last:
  "sorted_wrt (<) (xs :: 'a::linorder list) \<Longrightarrow> x \<in> set xs \<Longrightarrow> x \<le> last xs"
proof (induction xs)
  case (Cons y ys)
  then show ?case
    by (cases "ys = []") (auto intro: less_imp_le)
qed simp

lemma sorted_snoc_last:
  assumes "sorted_wrt (<) (xs :: 'a::linorder list)" and "xs \<noteq> []" and "last xs < v"
  shows "sorted_wrt (<) (xs @ [v])"
proof -
  have "x \<le> last xs" if "x \<in> set xs" for x
    using assms(1) that by (rule sorted_le_last)
  then show ?thesis
    using assms by (auto simp: sorted_wrt_append intro: le_less_trans)
qed

lemma lbos_insert_set:
  assumes "sorted_wrt (<) (lst s)"
  shows "set (lst (lbos_insert v s)) = insert v (set (lst s))"
  using index_of_present [OF assms, of v]
  by (auto simp: lbos_insert_def split: prod.splits)

lemma lbos_insert_sorted:
  assumes "sorted_wrt (<) (lst s)"
  shows "sorted_wrt (<) (lst (lbos_insert v s))"
proof (cases "lst s = [] \<or> last (lst s) < v")
  case True
  with assms show ?thesis
    by (auto simp: lbos_insert_def sorted_snoc_last)
next
  case False
  obtain i b where ib: "index_of s v = (i, b)" by fastforce
  with False assms index_of_correct [OF assms ib] show ?thesis
    by (auto simp: lbos_insert_def intro: sorted_list_insert)
qed

interpretation lbos: ordered_set "\<lparr>lst = []\<rparr>" lbos_insert lst "\<lambda>s. sorted_wrt (<) (lst s)"
  by unfold_locales (simp_all add: lbos_insert_sorted lbos_insert_set)

section \<open>The merge loop\<close>

text \<open>The reference definition: the merge of two ascending lists by recursion on both.\<close>

fun merge_sorted :: "'a::linorder list \<Rightarrow> 'a list \<Rightarrow> 'a list" where
  "merge_sorted [] ys = ys"
| "merge_sorted xs [] = xs"
| "merge_sorted (x # xs) (y # ys) =
     (if x = y then x # merge_sorted xs ys
      else if x < y then x # merge_sorted xs (y # ys)
      else y # merge_sorted (x # xs) ys)"

lemma merge_sorted_Nil2 [simp]: "merge_sorted xs [] = xs"
  by (cases xs) auto

lemma set_merge_sorted [simp]: "set (merge_sorted xs ys) = set xs \<union> set ys"
  by (induction xs ys rule: merge_sorted.induct) auto

lemma sorted_merge_sorted:
  "sorted_wrt (<) xs \<Longrightarrow> sorted_wrt (<) ys \<Longrightarrow> sorted_wrt (<) (merge_sorted xs ys)"
proof (induction xs ys rule: merge_sorted.induct)
  case (3 x xs y ys)
  consider "x = y" | "x < y" | "y < x" by (rule linorder_cases)
  then show ?case
    by cases (use 3 in \<open>auto intro: less_trans\<close>)
qed auto

lemma lockstep_merge_eq:
  "i \<le> length us \<Longrightarrow> j \<le> length other \<Longrightarrow>
     lockstep_merge us other i j acc = Inr (acc @ merge_sorted (drop i us) (drop j other))"
proof (induction us other i j acc rule: lockstep_merge.induct)
  case (1 us other i j acc)
  note unf = lockstep_merge.simps [of us other i j acc]
  show ?case
  proof (cases "i < length us \<and> j < length other")
    case False
    with "1.prems" show ?thesis by (auto simp: unf)
  next
    case True
    then have get: "list_get us i = Inr (us ! i)" "list_get other j = Inr (other ! j)"
      by (auto simp: list_get_def)
    have drops: "drop i us = us ! i # drop (i + 1) us" "drop j other = other ! j # drop (j + 1) other"
      using True by (auto simp: Cons_nth_drop_Suc)
    consider "us ! i = other ! j" | "us ! i < other ! j" | "other ! j < us ! i"
      by (rule linorder_cases) auto
    then show ?thesis
      using True get "1.IH" drops by cases (auto simp: unf)
  qed
qed

lemma merge_sorted_unique:
  "sorted_wrt (<) xs \<Longrightarrow> sorted_wrt (<) ys \<Longrightarrow>
     merge_sorted xs ys = sorted_list_of_set (set xs \<union> set ys)"
  using sorted_merge_sorted [of xs ys] set_merge_sorted [of xs ys]
  by (metis sorted_list_of_set.idem_if_sorted_distinct strict_sorted_iff)

section \<open>Properties\<close>

text \<open>C9: on an ascending list \<open>_index_of\<close> returns whether the value is present and the one index
  where it is or belongs: everything before it is smaller and nothing from it on is.\<close>

theorem index_of_search:
  assumes "sorted_wrt (<) (lst s)"
  shows "case index_of s v of (idx, present) \<Rightarrow>
     (present \<longleftrightarrow> v \<in> set (lst s)) \<and> idx \<le> length (lst s) \<and>
     (\<forall>k < idx. lst s ! k < v) \<and> (\<forall>k. idx \<le> k \<and> k < length (lst s) \<longrightarrow> v \<le> lst s ! k)"
proof -
  obtain i present where ip: "index_of s v = (i, present)" by fastforce
  have "v \<le> lst s ! k" if "i \<le> k" "k < length (lst s)" for k
  proof (cases present)
    case True
    then have "lst s ! i = v" using index_of_correct(3) [OF assms ip] by simp
    then show ?thesis using sorted_nth_less [OF assms, of i k] that by (cases "i = k") auto
  next
    case False
    then show ?thesis using index_of_correct(4) [OF assms ip False that] by simp
  qed
  then show ?thesis
    using ip index_of_present [OF assms ip] index_of_correct(1,2) [OF assms ip] by auto
qed

theorem index_of_search_witness:
  "case index_of \<lparr>lst = [2, 5, 9]\<rparr> (6 :: nat) of (idx, present) \<Rightarrow>
     (present \<longleftrightarrow> 6 \<in> set [2, 5, 9 :: nat]) \<and> idx \<le> length [2, 5, 9 :: nat] \<and>
     (\<forall>k < idx. [2, 5, 9 :: nat] ! k < 6) \<and>
     (\<forall>k. idx \<le> k \<and> k < length [2, 5, 9 :: nat] \<longrightarrow> 6 \<le> [2, 5, 9 :: nat] ! k)"
  using index_of_search [of "\<lparr>lst = [2, 5, 9]\<rparr>" "6 :: nat"] by simp

text \<open>C32: the loop of \<open>_index_of\<close> ends, and soon: on a list with fewer than \<open>2 ^ n\<close> elements, whether it is sorted or
  not, \<open>n\<close> iterations give the result.\<close>

theorem index_of_terminates:
  assumes "length (lst s) < 2 ^ n"
  shows "index_of_within n (lst s) v 0 (length (lst s)) = Some (index_of s v)"
  using index_of_within_loop [of "length (lst s)" 0 n] assms by (simp add: index_of_def)

theorem index_of_terminates_witness:
  "index_of_within 2 [2, 5, 9] (6 :: nat) 0 (length [2, 5, 9 :: nat]) = Some (index_of \<lparr>lst = [2, 5, 9]\<rparr> (6 :: nat))"
  using index_of_terminates [of "\<lparr>lst = [2, 5, 9 :: nat]\<rparr>" 2 6] by simp

text \<open>C18: the constructor of \<open>ListBasedOrderedSet\<close> holds exactly the elements of its iterable,
  ascending and without duplicates, in whatever order and however often they come.\<close>

theorem lbos_init_sorted_set: "lst (lbos_init xs) = sorted_list_of_set (set xs)"
  unfolding lbos_init_def by (rule lbos.elems_fold_emp)

text \<open>C15: the lockstep loop of \<open>OrderedSetLattice.merge\<close>, run on two ascending lists, returns their
  union, ascending and without duplicates; no index is ever out of range.\<close>

theorem lockstep_merge_union:
  assumes "sorted_wrt (<) us" and "sorted_wrt (<) other"
  shows "lockstep_merge us other 0 0 [] = Inr (sorted_list_of_set (set us \<union> set other))"
  using lockstep_merge_eq [of 0 us 0 other "[]"] merge_sorted_unique [OF assms] by simp

theorem lockstep_merge_union_witness:
  "lockstep_merge [1, 4, 6 :: nat] [2, 4] 0 0 [] = Inr (sorted_list_of_set (set [1, 4, 6] \<union> set [2, 4]))"
  by (rule lockstep_merge_union) auto

end
