(* ===== verification/Anna_Lattices.thy ===== *)
theory Anna_Lattices
  imports Anna_Ordered_Set
begin

text \<open>
  The lattice classes of \<^verbatim>\<open>client/python/anna/lattices.py\<close>.

  An instance is a value of \<open>obj\<close>, one constructor per class with its attributes as arguments;
  a method call on an instance is a function that returns the instance after the call and the
  value returned, or the exception raised. Instances are values: two references to one mutable
  instance are not tracked, which matters only for callers that go on changing an object they
  handed over. The messages that \<open>serialize\<close> fills are those of \<^verbatim>\<open>common/proto/anna.proto\<close>; what
  the generated classes do when an unsigned field is assigned is the parameter \<open>pb_uint\<close>.
\<close>

section \<open>Instances and their classes\<close>

datatype pyclass =
    C_LWWPairLattice | C_SetLattice | C_ListBasedOrderedSet | C_OrderedSetLattice
  | C_MaxIntLattice | C_MapLattice | C_VectorClock | C_SingleKeyCausalLattice
  | C_MultiKeyCausalLattice | C_PriorityLattice

datatype obj =
    LWWPairLattice int bytes
  | SetLattice "obj pyval list"
  | ListBasedOrderedSet "bytes ListBasedOrderedSet"
  | OrderedSetLattice obj
  | MaxIntLattice int
  | MapLattice "(string \<times> obj pyval) list"
  | VectorClock "(string \<times> obj pyval) list"
  | SingleKeyCausalLattice obj obj
  | MultiKeyCausalLattice obj obj obj
  | PriorityLattice pyfloat bytes

type_synonym val = "obj pyval"

fun class_of :: "obj \<Rightarrow> pyclass" where
  "class_of (LWWPairLattice _ _) = C_LWWPairLattice"
| "class_of (SetLattice _) = C_SetLattice"
| "class_of (ListBasedOrderedSet _) = C_ListBasedOrderedSet"
| "class_of (OrderedSetLattice _) = C_OrderedSetLattice"
| "class_of (MaxIntLattice _) = C_MaxIntLattice"
| "class_of (MapLattice _) = C_MapLattice"
| "class_of (VectorClock _) = C_VectorClock"
| "class_of (SingleKeyCausalLattice _ _) = C_SingleKeyCausalLattice"
| "class_of (MultiKeyCausalLattice _ _ _) = C_MultiKeyCausalLattice"
| "class_of (PriorityLattice _ _) = C_PriorityLattice"

fun type_of :: "val \<Rightarrow> pyclass pytype" where
  "type_of PNone = T_NoneType"
| "type_of (PBool _) = T_bool"
| "type_of (PInt _) = T_int"
| "type_of (PFloat _) = T_float"
| "type_of (PStr _) = T_str"
| "type_of (PBytes _) = T_bytes"
| "type_of (PList _) = T_list"
| "type_of (PTuple _) = T_tuple"
| "type_of (PSet _) = T_set"
| "type_of (PDict _) = T_dict"
| "type_of PMethod = T_method"
| "type_of (PMessageMap _) = T_message_map"
| "type_of (PObj x) = T_class (class_of x)"

text \<open>\<open>isinstance(v, Lattice)\<close>: every class but \<open>ListBasedOrderedSet\<close> derives from \<open>Lattice\<close>.\<close>

fun is_lattice :: "val \<Rightarrow> bool" where
  "is_lattice (PObj x) = (class_of x \<noteq> C_ListBasedOrderedSet)"
| "is_lattice _ = False"

section \<open>Attribute access\<close>

fun attr_ts :: "val \<Rightarrow> int res" where
  "attr_ts (PObj (LWWPairLattice t _)) = Inr t"
| "attr_ts _ = Inl AttributeError"

fun attr_priority :: "val \<Rightarrow> pyfloat res" where
  "attr_priority (PObj (PriorityLattice p _)) = Inr p"
| "attr_priority _ = Inl AttributeError"

fun attr_lst :: "val \<Rightarrow> bytes list res" where
  "attr_lst (PObj (ListBasedOrderedSet s)) = Inr (lst s)"
| "attr_lst _ = Inl AttributeError"

text \<open>The attribute \<open>keys\<close> of a \<open>dict\<close>, without a call.\<close>

definition dict_attr_keys :: "(string \<times> val) list \<Rightarrow> val" where
  "dict_attr_keys d = PMethod"

section \<open>reveal\<close>

definition LWWPairLattice_reveal :: "bytes \<Rightarrow> val res" where
  [simp]: "LWWPairLattice_reveal v = Inr (PBytes v)"

definition SetLattice_reveal :: "val list \<Rightarrow> val res" where
  [simp]: "SetLattice_reveal v = Inr (PSet v)"

definition OrderedSetLattice_reveal :: "obj \<Rightarrow> val res" where
  [simp]: "OrderedSetLattice_reveal v = bindE (attr_lst (PObj v)) (\<lambda>l. Inr (PList (map PBytes l)))"

definition MaxIntLattice_reveal :: "int \<Rightarrow> val res" where
  [simp]: "MaxIntLattice_reveal i = Inr (PInt i)"

definition MapLattice_reveal :: "(string \<times> val) list \<Rightarrow> val res" where
  [simp]: "MapLattice_reveal mp = Inr (PDict mp)"

text \<open>The causal lattices give the list of what their value reveals.\<close>

definition SingleKeyCausalLattice_reveal :: "val \<Rightarrow> val res" where
  [simp]: "SingleKeyCausalLattice_reveal revealed = bindE (py_iter revealed) (\<lambda>xs. Inr (PList xs))"

definition MultiKeyCausalLattice_reveal :: "val \<Rightarrow> val res" where
  [simp]: "MultiKeyCausalLattice_reveal revealed = bindE (py_iter revealed) (\<lambda>xs. Inr (PList xs))"

definition PriorityLattice_reveal :: "bytes \<Rightarrow> val res" where
  [simp]: "PriorityLattice_reveal v = Inr (PBytes v)"

fun reveal :: "obj \<Rightarrow> val res" where
  "reveal (LWWPairLattice _ v) = LWWPairLattice_reveal v"
| "reveal (SetLattice v) = SetLattice_reveal v"
| "reveal (ListBasedOrderedSet _) = Inl AttributeError"
| "reveal (OrderedSetLattice v) = OrderedSetLattice_reveal v"
| "reveal (MaxIntLattice i) = MaxIntLattice_reveal i"
| "reveal (MapLattice mp) = MapLattice_reveal mp"
| "reveal (VectorClock mp) = MapLattice_reveal mp"
| "reveal (SingleKeyCausalLattice _ v) = bindE (reveal v) SingleKeyCausalLattice_reveal"
| "reveal (MultiKeyCausalLattice _ _ v) = bindE (reveal v) MultiKeyCausalLattice_reveal"
| "reveal (PriorityLattice _ v) = PriorityLattice_reveal v"

section \<open>Equality\<close>

text \<open>The data that \<open>reveal\<close> returns where it is a container of values.\<close>

fun container :: "obj \<Rightarrow> val option" where
  "container (SetLattice v) = Some (PSet v)"
| "container (MapLattice mp) = Some (PDict mp)"
| "container (VectorClock mp) = Some (PDict mp)"
| "container (SingleKeyCausalLattice _ (SetLattice v)) = Some (PList v)"
| "container (MultiKeyCausalLattice _ _ (SetLattice v)) = Some (PList v)"
| "container _ = None"

lemma container_size: "container x = Some u \<Longrightarrow> size_pyval size u \<le> size x"
  by (cases x rule: container.cases) auto

text \<open>
  \<open>x == y\<close>: numbers compare across their types, containers by their elements, and two lattices
  by \<open>Lattice.__eq__\<close>, that is by class and by what \<open>reveal\<close> returns.
\<close>

function py_eq :: "val \<Rightarrow> val \<Rightarrow> bool" where
  "py_eq x y =
     (case (num_of x, num_of y) of
        (Some a, Some b) \<Rightarrow> float_eq a b
      | (Some a, None) \<Rightarrow> False
      | (None, Some b) \<Rightarrow> False
      | (None, None) \<Rightarrow> (case (x, y) of
          (PList a, PList b) \<Rightarrow> list_all2 py_eq a b
        | (PTuple a, PTuple b) \<Rightarrow> list_all2 py_eq a b
        | (PSet a, PSet b) \<Rightarrow>
            list_all (\<lambda>u. list_ex (\<lambda>v. py_eq u v) b) a \<and> list_all (\<lambda>v. list_ex (\<lambda>u. py_eq u v) a) b
        | (PDict a, PDict b) \<Rightarrow>
            set (map fst a) = set (map fst b) \<and>
            list_all (\<lambda>(k, u). case map_of b k of None \<Rightarrow> False | Some v \<Rightarrow> py_eq u v) a
        | (PObj a, PObj b) \<Rightarrow>
            class_of a = class_of b \<and>
            (case (container a, container b) of
               (Some u, Some v) \<Rightarrow> py_eq u v
             | _ \<Rightarrow> reveal a = reveal b)
        | _ \<Rightarrow> x = y))"
  by pat_completeness auto
termination
  by (relation "measure (\<lambda>(x, y). size_pyval size x)")
    (auto simp: less_Suc_eq_le size_list_estimation' intro!: container_size [OF sym])

declare py_eq.simps [simp del]

definition Lattice_eq :: "obj \<Rightarrow> val \<Rightarrow> bool" where
  "Lattice_eq self other =
     (case other of
        PNone \<Rightarrow> False
      | PObj x \<Rightarrow> class_of x = class_of self \<and> py_eq (PObj self) other
      | _ \<Rightarrow> False)"

text \<open>A call of a method of \<open>set\<close> with one element. \<open>add\<close> is the only name the sources use that
  \<open>set\<close> has; an element must be hashable, and an instance with \<open>__eq__\<close> is not.\<close>

fun hashable :: "val \<Rightarrow> bool" where
  "hashable (PList _) = False"
| "hashable (PSet _) = False"
| "hashable (PDict _) = False"
| "hashable (PMessageMap _) = False"
| "hashable (PTuple xs) = (\<forall>x \<in> set xs. hashable x)"
| "hashable (PObj x) = (\<not> is_lattice (PObj x))"
| "hashable _ = True"

definition set_call :: "string \<Rightarrow> val \<Rightarrow> val list \<Rightarrow> val list res" where
  "set_call method v xs =
     (if method \<noteq> ''add'' then Inl AttributeError
      else if \<not> hashable v then Inl TypeError
      else if list_ex (py_eq v) xs then Inr xs else Inr (xs @ [v]))"

section \<open>The abstract class\<close>

text \<open>\<open>Lattice.__init__\<close> and the methods a subclass is meant to define.\<close>

definition Lattice_init :: "obj res" where
  "Lattice_init = Inl NotImplementedError"

definition Lattice_abstract_method :: "'a res" where
  "Lattice_abstract_method = Inl NotImplementedError"

section \<open>LWWPairLattice\<close>

definition LWWPairLattice_init :: "val \<Rightarrow> val \<Rightarrow> obj res" where
  "LWWPairLattice_init timestamp value =
     (case (timestamp, value) of (PInt t, PBytes v) \<Rightarrow> Inr (LWWPairLattice t v) | _ \<Rightarrow> Inl ValueError)"

definition LWWPairLattice_assign :: "val \<Rightarrow> obj res" where
  "LWWPairLattice_assign value0 =
     (let value = (case value0 of PStr s \<Rightarrow> PBytes (utf8 s) | _ \<Rightarrow> value0)
      in if type_of value \<noteq> T_tuple then Inl ValueError
         else bindE (tuple_get value 0) (\<lambda>v0.
           if type_of v0 \<noteq> T_int then Inl ValueError
           else bindE (tuple_get value 1) (\<lambda>v1.
             case (v0, v1) of (PInt t, PBytes b) \<Rightarrow> Inr (LWWPairLattice t b) | _ \<Rightarrow> Inl ValueError)))"

definition LWWPairLattice_merge :: "obj \<Rightarrow> val \<Rightarrow> (obj \<times> val) res" where
  "LWWPairLattice_merge self other =
     bindE (attr_ts other) (\<lambda>ots. bindE (attr_ts (PObj self)) (\<lambda>sts.
       if ots > sts then Inr (self, other) else Inr (self, PObj self)))"

section \<open>SetLattice\<close>

definition SetLattice_init :: "val \<Rightarrow> obj res" where
  "SetLattice_init value = (case value of PSet xs \<Rightarrow> Inr (SetLattice xs) | _ \<Rightarrow> Inl ValueError)"

definition SetLattice_assign :: "val \<Rightarrow> obj res" where
  "SetLattice_assign value = (case value of PSet xs \<Rightarrow> Inr (SetLattice xs) | _ \<Rightarrow> Inl ValueError)"

text \<open>The loops call \<open>new_set.insert(v)\<close>.\<close>

definition SetLattice_merge :: "obj \<Rightarrow> val \<Rightarrow> (obj \<times> val) res" where
  "SetLattice_merge self other =
     (case (self, other) of
        (SetLattice val_self, PObj (SetLattice val_other)) \<Rightarrow>
          bindE (foldE (set_call ''insert'') val_other []) (\<lambda>new_set.
          bindE (foldE (set_call ''insert'') val_self new_set) (\<lambda>new_set.
          bindE (SetLattice_init (PSet new_set)) (\<lambda>l. Inr (self, PObj l))))
      | _ \<Rightarrow> Inl ValueError)"

section \<open>OrderedSetLattice\<close>

definition OrderedSetLattice_init :: "val \<Rightarrow> obj res" where
  "OrderedSetLattice_init value =
     (case value of PObj (ListBasedOrderedSet s) \<Rightarrow> Inr (OrderedSetLattice (ListBasedOrderedSet s))
      | _ \<Rightarrow> Inl ValueError)"

definition OrderedSetLattice_assign :: "val \<Rightarrow> obj res" where
  "OrderedSetLattice_assign value =
     (case value of PObj (ListBasedOrderedSet s) \<Rightarrow> Inr (OrderedSetLattice (ListBasedOrderedSet s))
      | _ \<Rightarrow> Inl ValueError)"

text \<open>\<open>other.reveal().lst\<close> and \<open>self.val.lst\<close>, then the lockstep loop.\<close>

definition OrderedSetLattice_merge :: "obj \<Rightarrow> val \<Rightarrow> (obj \<times> val) res" where
  "OrderedSetLattice_merge self other =
     (case (self, other) of
        (OrderedSetLattice val_self, PObj (OrderedSetLattice val_other)) \<Rightarrow>
          bindE (reveal (OrderedSetLattice val_other)) (\<lambda>revealed.
          bindE (attr_lst revealed) (\<lambda>olst.
          bindE (attr_lst (PObj val_self)) (\<lambda>us.
          bindE (lockstep_merge us olst 0 0 []) (\<lambda>new_lst.
          bindE (OrderedSetLattice_init (PObj (ListBasedOrderedSet (lbos_init new_lst)))) (\<lambda>l.
          Inr (self, PObj l))))))
      | _ \<Rightarrow> Inl ValueError)"

section \<open>MaxIntLattice\<close>

definition MaxIntLattice_init :: "val \<Rightarrow> obj res" where
  "MaxIntLattice_init value = (case value of PInt i \<Rightarrow> Inr (MaxIntLattice i) | _ \<Rightarrow> Inl ValueError)"

definition MaxIntLattice_assign :: "val \<Rightarrow> obj res" where
  "MaxIntLattice_assign value = (case value of PInt i \<Rightarrow> Inr (MaxIntLattice i) | _ \<Rightarrow> Inl ValueError)"

definition MaxIntLattice_merge :: "obj \<Rightarrow> val \<Rightarrow> (obj \<times> val) res" where
  "MaxIntLattice_merge self other =
     (case (self, other) of
        (MaxIntLattice value, PObj (MaxIntLattice ovalue)) \<Rightarrow>
          Inr (if ovalue > value then MaxIntLattice ovalue else self, PNone)
      | _ \<Rightarrow> Inl ValueError)"

section \<open>PriorityLattice\<close>

definition PriorityLattice_init :: "val \<Rightarrow> val \<Rightarrow> obj res" where
  "PriorityLattice_init priority value =
     (case (priority, value) of (PFloat p, PBytes v) \<Rightarrow> Inr (PriorityLattice p v) | _ \<Rightarrow> Inl ValueError)"

text \<open>\<open>bytes(value, 'utf-8')\<close> of a value that is not a \<open>str\<close> raises \<open>TypeError\<close>.\<close>

definition PriorityLattice_assign :: "val \<Rightarrow> obj res" where
  "PriorityLattice_assign value0 =
     bindE (if type_of value0 \<noteq> T_str
            then (case value0 of PStr s \<Rightarrow> Inr (PBytes (utf8 s)) | _ \<Rightarrow> Inl TypeError)
            else Inr value0) (\<lambda>value.
       if type_of value \<noteq> T_tuple then Inl ValueError
       else bindE (tuple_get value 0) (\<lambda>v0.
         if type_of v0 \<noteq> T_float then Inl ValueError
         else bindE (tuple_get value 1) (\<lambda>v1.
           case (v0, v1) of (PFloat p, PBytes b) \<Rightarrow> Inr (PriorityLattice p b) | _ \<Rightarrow> Inl ValueError)))"

definition PriorityLattice_merge :: "obj \<Rightarrow> val \<Rightarrow> (obj \<times> val) res" where
  "PriorityLattice_merge self other =
     bindE (attr_priority other) (\<lambda>op. bindE (attr_priority (PObj self)) (\<lambda>sp.
       if float_less op sp then Inr (self, other) else Inr (self, PObj self)))"

section \<open>MapLattice and VectorClock\<close>

definition MapLattice_init :: "val \<Rightarrow> obj res" where
  "MapLattice_init mp = (case mp of PDict d \<Rightarrow> Inr (MapLattice d) | _ \<Rightarrow> Inl ValueError)"

definition MapLattice_assign :: "val \<Rightarrow> obj res" where
  "MapLattice_assign mp = (case mp of PDict d \<Rightarrow> Inr (MapLattice d) | _ \<Rightarrow> Inl ValueError)"

text \<open>
  The body of \<open>MapLattice.merge\<close>, on the dictionaries of \<open>self\<close> and \<open>other\<close>; \<open>call\<close> is the
  call of \<open>merge\<close> on a stored lattice. The loop runs over \<open>other.mp.keys\<close>, the method itself.
\<close>

definition merge_entry ::
  "(obj \<Rightarrow> val \<Rightarrow> (obj \<times> val) res) \<Rightarrow> (string \<times> val) list \<Rightarrow> val \<Rightarrow>
   (string \<times> val) list \<Rightarrow> (string \<times> val) list res" where
  "merge_entry call other_mp key mp =
     (case key of
        PStr k \<Rightarrow>
          if dict_mem k mp then
            bindE (dict_getitem mp k) (\<lambda>mine. bindE (dict_getitem other_mp k) (\<lambda>theirs.
              case mine of
                PObj x \<Rightarrow>
                  if \<not> is_lattice mine \<or> \<not> is_lattice theirs then Inl ValueError
                  else bindE (call x theirs) (\<lambda>(x', _). Inr (dict_set k (PObj x') mp))
              | _ \<Rightarrow> Inl ValueError))
          else bindE (dict_getitem other_mp k) (\<lambda>theirs. Inr (dict_set k theirs mp))
      | _ \<Rightarrow> Inl KeyError)"

definition merge_mp ::
  "(obj \<Rightarrow> val \<Rightarrow> (obj \<times> val) res) \<Rightarrow> (string \<times> val) list \<Rightarrow> val \<Rightarrow> (string \<times> val) list res" where
  "merge_mp call mp other =
     (case other of
        PObj (MapLattice other_mp) \<Rightarrow>
          bindE (py_iter (dict_attr_keys other_mp)) (\<lambda>keys.
            foldE (merge_entry call other_mp) keys mp)
      | _ \<Rightarrow> Inl ValueError)"

definition MapLattice_copy :: "obj \<Rightarrow> obj res" where
  "MapLattice_copy self =
     (case self of
        MapLattice mp \<Rightarrow> MapLattice_init (PDict mp)
      | VectorClock mp \<Rightarrow> MapLattice_init (PDict mp)
      | _ \<Rightarrow> Inl AttributeError)"

definition VectorClock_deserialize :: "(string \<times> val) list \<Rightarrow> (string \<times> val) list res" where
  "VectorClock_deserialize mp =
     foldE (\<lambda>(key, v) result.
       if type_of v \<noteq> T_int then Inl ValueError
       else bindE (MaxIntLattice_init v) (\<lambda>l. Inr (dict_set key (PObj l) result))) mp []"

definition VectorClock_validate_vc :: "(string \<times> val) list \<Rightarrow> unit res" where
  "VectorClock_validate_vc mp =
     foldE (\<lambda>(key, v) u. if type_of v \<noteq> T_class C_MaxIntLattice then Inl ValueError else Inr u) mp ()"

definition VectorClock_init :: "val \<Rightarrow> bool \<Rightarrow> obj res" where
  "VectorClock_init mp deserialize =
     (case mp of
        PDict d \<Rightarrow>
          if deserialize then bindE (VectorClock_deserialize d) (\<lambda>r. Inr (VectorClock r))
          else bindE (VectorClock_validate_vc d) (\<lambda>_. Inr (VectorClock d))
      | _ \<Rightarrow> Inl ValueError)"

definition VectorClock_assign :: "val \<Rightarrow> obj res" where
  "VectorClock_assign mp =
     (case mp of
        PDict d \<Rightarrow> bindE (VectorClock_validate_vc d) (\<lambda>_. Inr (VectorClock d))
      | _ \<Rightarrow> Inl ValueError)"

definition VectorClock_update :: "obj \<Rightarrow> string \<Rightarrow> val \<Rightarrow> obj res" where
  "VectorClock_update self key count =
     (case self of
        VectorClock mp \<Rightarrow>
          if dict_mem key mp then
            bindE (MaxIntLattice_init count) (\<lambda>lattice. bindE (dict_getitem mp key) (\<lambda>v.
              case v of
                PObj x \<Rightarrow> bindE (MaxIntLattice_merge x (PObj lattice)) (\<lambda>(x', _).
                  Inr (VectorClock (dict_set key (PObj x') mp)))
              | _ \<Rightarrow> Inl AttributeError))
          else Inr self
      | _ \<Rightarrow> Inl AttributeError)"

definition VectorClock_merge ::
  "(obj \<Rightarrow> val \<Rightarrow> (obj \<times> val) res) \<Rightarrow> obj \<Rightarrow> val \<Rightarrow> (obj \<times> val) res" where
  "VectorClock_merge call self other =
     (case self of
        VectorClock mp \<Rightarrow> bindE (merge_mp call mp other) (\<lambda>mp'. Inr (VectorClock mp', PNone))
      | _ \<Rightarrow> Inl AttributeError)"

definition MapLattice_merge ::
  "(obj \<Rightarrow> val \<Rightarrow> (obj \<times> val) res) \<Rightarrow> obj \<Rightarrow> val \<Rightarrow> (obj \<times> val) res" where
  "MapLattice_merge call self other =
     (case self of
        MapLattice mp \<Rightarrow> bindE (merge_mp call mp other) (\<lambda>mp'. Inr (MapLattice mp', PNone))
      | _ \<Rightarrow> Inl AttributeError)"

section \<open>The causal lattices\<close>

definition SingleKeyCausalLattice_init :: "val \<Rightarrow> val \<Rightarrow> obj res" where
  "SingleKeyCausalLattice_init vector_clock value =
     (if type_of vector_clock \<noteq> T_class C_VectorClock then Inl ValueError
      else if type_of value \<noteq> T_class C_SetLattice then Inl ValueError
      else (case (vector_clock, value) of
          (PObj vc, PObj v) \<Rightarrow> Inr (SingleKeyCausalLattice vc v)
        | _ \<Rightarrow> Inl ValueError))"

definition SingleKeyCausalLattice_assign :: "obj \<Rightarrow> val \<Rightarrow> obj res" where
  "SingleKeyCausalLattice_assign self value =
     (case (self, value) of
        (SingleKeyCausalLattice vc _, PObj (SetLattice v)) \<Rightarrow>
          Inr (SingleKeyCausalLattice vc (SetLattice v))
      | _ \<Rightarrow> Inl ValueError)"

text \<open>\<open>self.value.merge(other.value)\<close> drops what the call returns.\<close>

definition SingleKeyCausalLattice_merge ::
  "(obj \<Rightarrow> val \<Rightarrow> (obj \<times> val) res) \<Rightarrow> obj \<Rightarrow> val \<Rightarrow> (obj \<times> val) res" where
  "SingleKeyCausalLattice_merge call self other =
     (case (self, other) of
        (SingleKeyCausalLattice vc v, PObj (SingleKeyCausalLattice ovc ov)) \<Rightarrow>
          bindE (MapLattice_copy vc) (\<lambda>previous.
          bindE (VectorClock_merge call vc (PObj ovc)) (\<lambda>(vc', _).
            if Lattice_eq vc' (PObj ovc) then Inr (SingleKeyCausalLattice vc' ov, PNone)
            else if \<not> Lattice_eq vc' (PObj previous) then
              bindE (SetLattice_merge v (PObj ov)) (\<lambda>(v', _).
                Inr (SingleKeyCausalLattice vc' v', PNone))
            else Inr (SingleKeyCausalLattice vc' v, PNone)))
      | _ \<Rightarrow> Inl ValueError)"

definition MultiKeyCausalLattice_init :: "val \<Rightarrow> val \<Rightarrow> val \<Rightarrow> obj res" where
  "MultiKeyCausalLattice_init vector_clock dependencies value =
     (if type_of vector_clock \<noteq> T_class C_VectorClock then Inl ValueError
      else if type_of dependencies \<noteq> T_class C_MapLattice then Inl ValueError
      else if type_of value \<noteq> T_class C_SetLattice then Inl ValueError
      else (case (vector_clock, dependencies, value) of
          (PObj vc, PObj d, PObj v) \<Rightarrow> Inr (MultiKeyCausalLattice vc d v)
        | _ \<Rightarrow> Inl ValueError))"

definition MultiKeyCausalLattice_assign :: "obj \<Rightarrow> val \<Rightarrow> obj res" where
  "MultiKeyCausalLattice_assign self value =
     (case (self, value) of
        (MultiKeyCausalLattice vc d _, PObj (SetLattice v)) \<Rightarrow>
          Inr (MultiKeyCausalLattice vc d (SetLattice v))
      | _ \<Rightarrow> Inl ValueError)"

definition MultiKeyCausalLattice_merge ::
  "(obj \<Rightarrow> val \<Rightarrow> (obj \<times> val) res) \<Rightarrow> obj \<Rightarrow> val \<Rightarrow> (obj \<times> val) res" where
  "MultiKeyCausalLattice_merge call self other =
     (case (self, other) of
        (MultiKeyCausalLattice vc d v, PObj (MultiKeyCausalLattice ovc od ov)) \<Rightarrow>
          bindE (MapLattice_copy vc) (\<lambda>previous.
          bindE (VectorClock_merge call vc (PObj ovc)) (\<lambda>(vc', _).
            if Lattice_eq vc' (PObj ovc) then Inr (MultiKeyCausalLattice vc' od ov, PNone)
            else if \<not> Lattice_eq vc' (PObj previous) then
              bindE (MapLattice_merge call d (PObj od)) (\<lambda>(d', _).
              bindE (SetLattice_merge v (PObj ov)) (\<lambda>(v', _).
                Inr (MultiKeyCausalLattice vc' d' v', PNone)))
            else Inr (MultiKeyCausalLattice vc' d v, PNone)))
      | _ \<Rightarrow> Inl ValueError)"

section \<open>Dynamic dispatch of merge\<close>

lemma merge_mp_raises [simp]:
  "merge_mp call mp other = Inl (if type_of other = T_class C_MapLattice then TypeError else ValueError)"
  by (cases other; cases "case other of PObj x \<Rightarrow> x")
    (auto simp: merge_mp_def dict_attr_keys_def)

lemma VectorClock_merge_cong [fundef_cong]:
  "self = self' \<Longrightarrow> other = other' \<Longrightarrow> VectorClock_merge f self other = VectorClock_merge g self' other'"
  by (simp add: VectorClock_merge_def split: obj.splits)

lemma MapLattice_merge_cong [fundef_cong]:
  "self = self' \<Longrightarrow> other = other' \<Longrightarrow> MapLattice_merge f self other = MapLattice_merge g self' other'"
  by (simp add: MapLattice_merge_def split: obj.splits)

lemma merge_call_irrelevant:
  "VectorClock_merge f = VectorClock_merge g" "MapLattice_merge f = MapLattice_merge g"
  by (intro ext VectorClock_merge_cong MapLattice_merge_cong refl)+

lemma SingleKeyCausalLattice_merge_cong [fundef_cong]:
  "self = self' \<Longrightarrow> other = other' \<Longrightarrow>
     SingleKeyCausalLattice_merge f self other = SingleKeyCausalLattice_merge g self' other'"
  unfolding SingleKeyCausalLattice_merge_def merge_call_irrelevant [of f g] by simp

lemma MultiKeyCausalLattice_merge_cong [fundef_cong]:
  "self = self' \<Longrightarrow> other = other' \<Longrightarrow>
     MultiKeyCausalLattice_merge f self other = MultiKeyCausalLattice_merge g self' other'"
  unfolding MultiKeyCausalLattice_merge_def merge_call_irrelevant [of f g] by simp

text \<open>
  \<open>self.merge(other)\<close> by the class of \<open>self\<close>. A stored lattice of a \<open>MapLattice\<close> is merged by the
  same dispatch.
\<close>

function lattice_merge :: "obj \<Rightarrow> val \<Rightarrow> (obj \<times> val) res" where
  "lattice_merge self other =
     (case class_of self of
        C_LWWPairLattice \<Rightarrow> LWWPairLattice_merge self other
      | C_SetLattice \<Rightarrow> SetLattice_merge self other
      | C_ListBasedOrderedSet \<Rightarrow> Inl AttributeError
      | C_OrderedSetLattice \<Rightarrow> OrderedSetLattice_merge self other
      | C_MaxIntLattice \<Rightarrow> MaxIntLattice_merge self other
      | C_MapLattice \<Rightarrow> MapLattice_merge lattice_merge self other
      | C_VectorClock \<Rightarrow> VectorClock_merge lattice_merge self other
      | C_SingleKeyCausalLattice \<Rightarrow> SingleKeyCausalLattice_merge lattice_merge self other
      | C_MultiKeyCausalLattice \<Rightarrow> MultiKeyCausalLattice_merge lattice_merge self other
      | C_PriorityLattice \<Rightarrow> PriorityLattice_merge self other)"
  by pat_completeness auto
termination
  by (relation "{}") auto

declare lattice_merge.simps [simp del]

section \<open>Serialization\<close>

text \<open>The lattice types and the value messages of \<^verbatim>\<open>anna.proto\<close>.\<close>

datatype LatticeType = NONE | LWW | SET | SINGLE_CAUSAL | MULTI_CAUSAL | ORDERED_SET | PRIORITY

datatype pbvalue =
    LWWValue int bytes
  | SetValue "bytes list"
  | SingleKeyCausalValue "(string \<times> int) list" "bytes list"
  | MultiKeyCausalValue "(string \<times> int) list" "(string \<times> (string \<times> int) list) list" "bytes list"
  | PriorityValue pyfloat bytes

type_synonym pb_uint = "nat \<Rightarrow> int \<Rightarrow> int res"

text \<open>\<open>VectorClock.serialize(pobj)\<close>: the counters are stored into a \<open>map<string, uint32>\<close>.\<close>

definition VectorClock_serialize ::
  "pb_uint \<Rightarrow> obj \<Rightarrow> (string \<times> int) list \<Rightarrow> (string \<times> int) list res" where
  "VectorClock_serialize pb self pobj =
     (case self of
        VectorClock mp \<Rightarrow> foldE (\<lambda>(key, v) p.
            case v of
              PObj x \<Rightarrow> bindE (reveal x) (\<lambda>r. case r of
                  PInt i \<Rightarrow> bindE (pb 32 i) (\<lambda>n. Inr (dict_set key n p))
                | _ \<Rightarrow> Inl TypeError)
            | _ \<Rightarrow> Inl AttributeError) mp pobj
      | _ \<Rightarrow> Inl AttributeError)"

definition LWWPairLattice_serialize :: "pb_uint \<Rightarrow> int \<Rightarrow> bytes \<Rightarrow> (pbvalue \<times> LatticeType) res" where
  "LWWPairLattice_serialize pb ts v = bindE (pb 64 ts) (\<lambda>t. Inr (LWWValue t v, LWW))"

definition SetLattice_serialize :: "val list \<Rightarrow> (pbvalue \<times> LatticeType) res" where
  "SetLattice_serialize xs =
     bindE (mapE (\<lambda>v. case v of PBytes b \<Rightarrow> Inr b | _ \<Rightarrow> Inl ValueError) xs) (\<lambda>vs.
       Inr (SetValue vs, SET))"

definition OrderedSetLattice_serialize :: "obj \<Rightarrow> (pbvalue \<times> LatticeType) res" where
  "OrderedSetLattice_serialize v =
     bindE (attr_lst (PObj v)) (\<lambda>l. Inr (SetValue l, ORDERED_SET))"

text \<open>The causal lattices iterate over \<open>self.value\<close> and \<open>self.dependencies\<close>, the lattices
  themselves; \<open>values\<close> is a repeated scalar field, which has \<open>append\<close> and \<open>extend\<close> but no \<open>add\<close>.\<close>

definition add_values :: "val \<Rightarrow> bytes list res" where
  "add_values value = bindE (py_iter value) (mapE (\<lambda>v. Inl AttributeError))"

definition SingleKeyCausalLattice_serialize ::
  "pb_uint \<Rightarrow> obj \<Rightarrow> obj \<Rightarrow> (pbvalue \<times> LatticeType) res" where
  "SingleKeyCausalLattice_serialize pb vc value =
     bindE (VectorClock_serialize pb vc []) (\<lambda>vc_map.
     bindE (add_values (PObj value)) (\<lambda>vs.
     Inr (SingleKeyCausalValue vc_map vs, SINGLE_CAUSAL)))"

text \<open>\<open>mkcv.add_dependences()\<close> names no field of the message; \<open>self.dependencies[key]\<close> would need
  \<open>__getitem__\<close>.\<close>

definition MultiKeyCausalLattice_serialize ::
  "pb_uint \<Rightarrow> obj \<Rightarrow> obj \<Rightarrow> obj \<Rightarrow> (pbvalue \<times> LatticeType) res" where
  "MultiKeyCausalLattice_serialize pb vc dependencies value =
     bindE (VectorClock_serialize pb vc []) (\<lambda>vc_map.
     bindE (py_iter (PObj dependencies)) (\<lambda>keys.
     bindE (mapE (\<lambda>key. Inl AttributeError) keys) (\<lambda>deps.
     bindE (add_values (PObj value)) (\<lambda>vs.
     Inr (MultiKeyCausalValue vc_map deps vs, MULTI_CAUSAL)))))"

text \<open>\<open>self.serialize()\<close> by the class of \<open>self\<close>: two classes inherit the abstract method, and
  \<open>VectorClock.serialize\<close> lacks its argument.\<close>

definition PriorityLattice_serialize :: "pyfloat \<Rightarrow> bytes \<Rightarrow> (pbvalue \<times> LatticeType) res" where
  [simp]: "PriorityLattice_serialize p v = Inr (PriorityValue p v, PRIORITY)"

fun lattice_serialize :: "pb_uint \<Rightarrow> obj \<Rightarrow> (pbvalue \<times> LatticeType) res" where
  "lattice_serialize pb (LWWPairLattice ts v) = LWWPairLattice_serialize pb ts v"
| "lattice_serialize pb (SetLattice v) = SetLattice_serialize v"
| "lattice_serialize pb (ListBasedOrderedSet _) = Inl AttributeError"
| "lattice_serialize pb (OrderedSetLattice v) = OrderedSetLattice_serialize v"
| "lattice_serialize pb (MaxIntLattice _) = Lattice_abstract_method"
| "lattice_serialize pb (MapLattice _) = Lattice_abstract_method"
| "lattice_serialize pb (VectorClock _) = Inl TypeError"
| "lattice_serialize pb (SingleKeyCausalLattice vc v) = SingleKeyCausalLattice_serialize pb vc v"
| "lattice_serialize pb (MultiKeyCausalLattice vc d v) = MultiKeyCausalLattice_serialize pb vc d v"
| "lattice_serialize pb (PriorityLattice p v) = PriorityLattice_serialize p v"

end
