(* ===== verification/Anna_Lattice_Laws.thy ===== *)
theory Anna_Lattice_Laws
  imports Anna_Lattices
begin

text \<open>
  What the lattice classes promise. The interface is a merge operation as two locales: a band
  that absorbs repeated replicas (last-writer-wins, where a tie keeps the receiver) and a
  semilattice whose result depends only on the set of replicas (maximum, union). They are
  interpreted on the merges of the classes, and the properties of \<^verbatim>\<open>merge\<close> follow from them.
  The rest are the type invariant of the instances, the behaviour of vector clocks, and the
  merges that raise on every pair of instances.
\<close>

section \<open>The contract of merge\<close>

locale merge_band =
  fixes ok :: "'a \<Rightarrow> bool" and m :: "'a \<Rightarrow> 'a \<Rightarrow> 'a"
  assumes closed: "ok a \<Longrightarrow> ok b \<Longrightarrow> ok (m a b)"
    and idem: "ok a \<Longrightarrow> m a a = a"
    and assoc: "ok a \<Longrightarrow> ok b \<Longrightarrow> ok c \<Longrightarrow> m (m a b) c = m a (m b c)"
    and absorb: "ok a \<Longrightarrow> ok b \<Longrightarrow> m (m a b) a = m a b"
begin

lemma foldl_closed: "ok a \<Longrightarrow> (\<And>x. x \<in> set xs \<Longrightarrow> ok x) \<Longrightarrow> ok (foldl m a xs)"
  by (induction xs arbitrary: a) (auto simp: closed)

lemma absorb_right: "ok a \<Longrightarrow> ok b \<Longrightarrow> m (m a b) b = m a b"
  by (simp add: assoc idem)

lemma absorb_step: "ok r \<Longrightarrow> ok b \<Longrightarrow> ok y \<Longrightarrow> m r y = r \<Longrightarrow> m (m r b) y = m r b"
  by (metis absorb assoc closed)

lemma foldl_absorbs_kept:
  "ok r \<Longrightarrow> ok y \<Longrightarrow> (\<And>x. x \<in> set xs \<Longrightarrow> ok x) \<Longrightarrow> m r y = r \<Longrightarrow> m (foldl m r xs) y = foldl m r xs"
proof (induction xs arbitrary: r)
  case (Cons x xs)
  then show ?case by (simp add: absorb_step closed)
qed simp

lemma foldl_absorbs:
  "ok a \<Longrightarrow> (\<And>x. x \<in> set xs \<Longrightarrow> ok x) \<Longrightarrow> y \<in> insert a (set xs) \<Longrightarrow>
     m (foldl m a xs) y = foldl m a xs"
proof (induction xs arbitrary: a)
  case Nil
  then show ?case by (simp add: idem)
next
  case (Cons x xs)
  consider "y = a \<or> y = x" | "y \<in> set xs" using Cons.prems(3) by auto
  then show ?case
  proof cases
    case 1
    then have "m (m a x) y = m a x" using Cons.prems by (auto simp: absorb absorb_right)
    then show ?thesis using Cons.prems 1 by (auto simp: closed intro: foldl_absorbs_kept)
  next
    case 2
    then show ?thesis using Cons.prems Cons.IH [of "m a x"] by (simp add: closed)
  qed
qed

end

locale merge_semilattice = merge_band +
  assumes comm: "ok a \<Longrightarrow> ok b \<Longrightarrow> m a b = m b a"
begin

lemma absorbs_foldl:
  "ok r \<Longrightarrow> ok b \<Longrightarrow> (\<And>y. y \<in> set ys \<Longrightarrow> ok y) \<Longrightarrow> (\<And>y. y \<in> insert b (set ys) \<Longrightarrow> m r y = r) \<Longrightarrow>
     m r (foldl m b ys) = r"
proof (induction ys arbitrary: b)
  case (Cons y ys)
  have "m r (m b y) = r" using Cons.prems by (simp add: assoc [symmetric])
  then show ?case using Cons.prems by (auto simp: closed intro!: Cons.IH)
qed simp

text \<open>Replicas may arrive in any order and any number of times.\<close>

lemma foldl_set_eq:
  assumes ok: "\<And>x. x \<in> set (a # xs) \<Longrightarrow> ok x" and eq: "set (a # xs) = set (b # ys)"
  shows "foldl m a xs = foldl m b ys"
proof -
  have ok': "\<And>y. y \<in> set (b # ys) \<Longrightarrow> ok y" using ok eq by auto
  have cl: "ok (foldl m a xs)" "ok (foldl m b ys)"
    using ok ok' by (auto intro!: foldl_closed)
  have absorbed: "m (foldl m a xs) z = foldl m a xs" "m (foldl m b ys) z = foldl m b ys"
    if "z \<in> set (a # xs)" for z
    using ok ok' eq that by (auto intro!: foldl_absorbs)
  have "m (foldl m a xs) (foldl m b ys) = foldl m a xs"
    using ok' cl absorbed(1) eq by (auto intro!: absorbs_foldl)
  moreover have "m (foldl m b ys) (foldl m a xs) = foldl m b ys"
    using ok cl absorbed(2) by (auto intro!: absorbs_foldl)
  ultimately show ?thesis using comm [OF cl] by simp
qed

end

section \<open>The merges of the classes\<close>

text \<open>What \<open>merge\<close> of a class returns, on the attributes of the two instances.\<close>

definition lww_join :: "int \<times> bytes \<Rightarrow> int \<times> bytes \<Rightarrow> int \<times> bytes" where
  "lww_join a b = (if fst b > fst a then b else a)"

definition prio_join :: "pyfloat \<times> bytes \<Rightarrow> pyfloat \<times> bytes \<Rightarrow> pyfloat \<times> bytes" where
  "prio_join a b = (if float_less (fst b) (fst a) then b else a)"

lemma float_less_trans: "float_less a b \<Longrightarrow> float_less b c \<Longrightarrow> float_less a c"
  by (cases a; cases b; cases c) auto

lemma float_less_asym: "float_less a b \<Longrightarrow> \<not> float_less b a"
  by (cases a; cases b) auto

lemma float_not_less_trans:
  "a \<noteq> NaN \<Longrightarrow> b \<noteq> NaN \<Longrightarrow> c \<noteq> NaN \<Longrightarrow> \<not> float_less a b \<Longrightarrow> \<not> float_less b c \<Longrightarrow> \<not> float_less a c"
  by (cases a; cases b; cases c) auto

interpretation lww: merge_band "\<lambda>_. True" lww_join
  by unfold_locales (auto simp: lww_join_def)

interpretation prio: merge_band "\<lambda>x. fst x \<noteq> NaN" prio_join
proof unfold_locales
  fix a b c :: "pyfloat \<times> bytes"
  assume a: "fst a \<noteq> NaN"
  show "prio_join a a = a" by (simp add: prio_join_def)
  assume b: "fst b \<noteq> NaN"
  show "fst (prio_join a b) \<noteq> NaN" using a b by (simp add: prio_join_def)
  show "prio_join (prio_join a b) a = prio_join a b"
    by (auto simp: prio_join_def dest: float_less_asym)
  assume c: "fst c \<noteq> NaN"
  show "prio_join (prio_join a b) c = prio_join a (prio_join b c)"
    using float_less_trans [of "fst c" "fst b" "fst a"] float_not_less_trans [OF c b a]
    by (auto simp: prio_join_def)
qed

interpretation maxint: merge_semilattice "\<lambda>_. True" "max :: int \<Rightarrow> int \<Rightarrow> int"
  by unfold_locales (auto simp: max_def)

lemma sorted_of_set_self: "sorted_wrt (<) xs \<Longrightarrow> sorted_list_of_set (set xs) = xs"
  by (simp add: sorted_list_of_set.idem_if_sorted_distinct strict_sorted_iff)

interpretation oset: merge_semilattice "sorted_wrt (<)" merge_sorted
proof unfold_locales
  fix a b c :: "'a list"
  assume a: "sorted_wrt (<) a"
  show "merge_sorted a a = a" using a by (simp add: merge_sorted_unique sorted_of_set_self)
  assume b: "sorted_wrt (<) b"
  show "sorted_wrt (<) (merge_sorted a b)" using a b by (rule sorted_merge_sorted)
  show "merge_sorted a b = merge_sorted b a"
    using a b by (simp add: merge_sorted_unique Un_commute)
  show "merge_sorted (merge_sorted a b) a = merge_sorted a b"
    unfolding merge_sorted_unique [OF sorted_merge_sorted [OF a b] a]
    by (simp add: merge_sorted_unique [OF a b] sup.absorb1)
  assume c: "sorted_wrt (<) c"
  show "merge_sorted (merge_sorted a b) c = merge_sorted a (merge_sorted b c)"
    unfolding merge_sorted_unique [OF sorted_merge_sorted [OF a b] c]
      merge_sorted_unique [OF a sorted_merge_sorted [OF b c]]
    by (simp add: Un_assoc)
qed

text \<open>
  A chain of calls \<open>self.merge(x1).merge(x2)\<close> and so on, each on what the one before returned.
\<close>

definition merge_chain :: "obj \<Rightarrow> obj list \<Rightarrow> obj res" where
  "merge_chain self others =
     foldE (\<lambda>other acc. bindE (lattice_merge acc (PObj other)) (\<lambda>(_, returned).
       case returned of PObj x \<Rightarrow> Inr x | _ \<Rightarrow> Inl AttributeError)) others self"

definition lww_obj :: "int \<times> bytes \<Rightarrow> obj" where
  "lww_obj a = LWWPairLattice (fst a) (snd a)"

lemma lattice_merge_lww:
  "lattice_merge (lww_obj a) (PObj (lww_obj b)) = Inr (lww_obj a, PObj (lww_obj (lww_join a b)))"
  by (simp add: lattice_merge.simps LWWPairLattice_merge_def lww_obj_def lww_join_def)

lemma merge_chain_lww: "merge_chain (lww_obj a) (map lww_obj bs) = Inr (lww_obj (foldl lww_join a bs))"
proof (induction bs arbitrary: a)
  case Nil
  then show ?case by (simp add: merge_chain_def)
next
  case (Cons b bs)
  then show ?case by (simp add: merge_chain_def lattice_merge_lww)
qed

lemma foldl_lww_join_in: "foldl lww_join a bs \<in> set (a # bs)"
  by (induction bs arbitrary: a) (auto simp: lww_join_def split: if_splits)

lemma foldl_lww_join_ge: "x \<in> set (a # bs) \<Longrightarrow> fst x \<le> fst (foldl lww_join a bs)"
  using lww.foldl_absorbs [where a = a and xs = bs and y = x]
  by (auto simp: lww_join_def split: if_splits)

section \<open>Properties of the merges\<close>

text \<open>C16: merging last-writer-wins replicas never raises and returns one of the replicas, one whose
  timestamp is the greatest of all.\<close>

theorem lww_merge_latest:
  "\<exists>t v. merge_chain (lww_obj a) (map lww_obj bs) = Inr (LWWPairLattice t v) \<and>
     (t, v) \<in> set (a # bs) \<and> t = Max (fst ` set (a # bs))"
proof -
  let ?r = "foldl lww_join a bs"
  have "fst ?r = Max (fst ` set (a # bs))"
  proof (rule Max_eqI [symmetric])
    show "finite (fst ` set (a # bs))" by simp
    show "fst ?r \<in> fst ` set (a # bs)" by (rule imageI [OF foldl_lww_join_in])
    show "y \<le> fst ?r" if "y \<in> fst ` set (a # bs)" for y
      using that by (blast intro: foldl_lww_join_ge)
  qed
  then show ?thesis
    using merge_chain_lww [of a bs] foldl_lww_join_in [of a bs]
    by (metis lww_obj_def prod.collapse)
qed

lemma foldl_lww_join_consistent:
  assumes "\<And>x y. x \<in> set (a # bs) \<Longrightarrow> y \<in> set (a # bs) \<Longrightarrow> fst x = fst y \<Longrightarrow> x = y"
    and "set (a # bs) = set (c # ds)"
  shows "foldl lww_join a bs = foldl lww_join c ds"
proof (rule assms(1))
  show "foldl lww_join a bs \<in> set (a # bs)" by (rule foldl_lww_join_in)
  show "foldl lww_join c ds \<in> set (a # bs)"
    using foldl_lww_join_in [of c ds] assms(2) by blast
  show "fst (foldl lww_join a bs) = fst (foldl lww_join c ds)"
  proof (rule antisym)
    show "fst (foldl lww_join a bs) \<le> fst (foldl lww_join c ds)"
      using foldl_lww_join_in [of a bs] unfolding assms(2) by (rule foldl_lww_join_ge)
    show "fst (foldl lww_join c ds) \<le> fst (foldl lww_join a bs)"
      using foldl_lww_join_in [of c ds] unfolding assms(2) [symmetric] by (rule foldl_lww_join_ge)
  qed
qed

text \<open>C4: replicas whose timestamps determine their values converge: every order and every
  repetition of the same last-writer-wins replicas merges to the same lattice.\<close>

theorem lww_merge_converges:
  assumes "\<And>x y. x \<in> set (a # bs) \<Longrightarrow> y \<in> set (a # bs) \<Longrightarrow> fst x = fst y \<Longrightarrow> x = y"
    and "set (a # bs) = set (c # ds)"
  shows "merge_chain (lww_obj a) (map lww_obj bs) = merge_chain (lww_obj c) (map lww_obj ds)"
proof -
  have eq: "foldl lww_join a bs = foldl lww_join c ds"
    by (rule foldl_lww_join_consistent [OF _ assms(2)]) (rule assms(1))
  show ?thesis unfolding merge_chain_lww eq ..
qed

theorem lww_merge_converges_witness:
  "merge_chain (lww_obj (1, [])) (map lww_obj [(2, [7])]) =
   merge_chain (lww_obj (2, [7])) (map lww_obj [(1, []), (2, [7])])"
  by (rule lww_merge_converges) auto

definition prio_obj :: "pyfloat \<times> bytes \<Rightarrow> obj" where
  "prio_obj a = PriorityLattice (fst a) (snd a)"

lemma merge_chain_prio:
  "merge_chain (prio_obj a) (map prio_obj bs) = Inr (prio_obj (foldl prio_join a bs))"
proof (induction bs arbitrary: a)
  case Nil
  then show ?case by (simp add: merge_chain_def)
next
  case (Cons b bs)
  then show ?case
    by (simp add: merge_chain_def lattice_merge.simps PriorityLattice_merge_def prio_obj_def
        prio_join_def)
qed

lemma foldl_prio_join_in: "foldl prio_join a bs \<in> set (a # bs)"
  by (induction bs arbitrary: a) (auto simp: prio_join_def split: if_splits)

text \<open>Merging priority replicas never raises and returns one of the replicas; when no priority
  is not-a-number, none of the others has a smaller priority.\<close>

lemma priority_merge_least:
  assumes "\<And>x. x \<in> set (a # bs) \<Longrightarrow> fst x \<noteq> NaN"
  shows "\<exists>p v. merge_chain (prio_obj a) (map prio_obj bs) = Inr (PriorityLattice p v) \<and>
     (p, v) \<in> set (a # bs) \<and> (\<forall>x \<in> set (a # bs). \<not> float_less (fst x) p)"
proof -
  let ?r = "foldl prio_join a bs"
  have "\<not> float_less (fst x) (fst ?r)" if "x \<in> set (a # bs)" for x
  proof -
    have "prio_join ?r x = ?r" using assms that by (intro prio.foldl_absorbs) auto
    then show ?thesis by (metis prio_join_def float_less_asym)
  qed
  then have "\<forall>x \<in> set (a # bs). \<not> float_less (fst x) (fst ?r)" by blast
  then show ?thesis
    using merge_chain_prio [of a bs] foldl_prio_join_in [of a bs]
    by (metis prio_obj_def prod.collapse)
qed

lemma priority_merge_least_witness:
  "\<exists>p v. merge_chain (prio_obj (Fin 2, [])) (map prio_obj [(NegInf, [7])]) = Inr (PriorityLattice p v) \<and>
     (p, v) \<in> set [(Fin 2, []), (NegInf, [7])] \<and>
     (\<forall>x \<in> set [(Fin 2, []), (NegInf, [7 :: 8 word])]. \<not> float_less (fst x) p)"
  by (rule priority_merge_least) auto

section \<open>Vector clocks\<close>

text \<open>The vector clock with the given counters, and the dictionary of plain integers it is
  deserialized from.\<close>

definition vc_obj :: "(string \<times> int) list \<Rightarrow> obj" where
  "vc_obj cs = VectorClock (map (\<lambda>(k, i). (k, PObj (MaxIntLattice i))) cs)"

definition counters :: "(string \<times> int) list \<Rightarrow> val" where
  "counters cs = PDict (map (\<lambda>(k, i). (k, PInt i)) cs)"

abbreviation vc_step :: "string \<times> val \<Rightarrow> (string \<times> val) list \<Rightarrow> (string \<times> val) list res" where
  "vc_step \<equiv> \<lambda>(key, v) result.
     if type_of v \<noteq> T_int then Inl ValueError
     else bindE (MaxIntLattice_init v) (\<lambda>l. Inr (dict_set key (PObj l) result))"

lemma deserialize_step:
  "distinct (map fst (as @ bs)) \<Longrightarrow>
     foldE vc_step (map (\<lambda>(k, i). (k, PInt i)) bs) (map (\<lambda>(k, i). (k, PObj (MaxIntLattice i))) as) =
     Inr (map (\<lambda>(k, i). (k, PObj (MaxIntLattice i))) (as @ bs))"
proof (induction bs arbitrary: as)
  case (Cons b bs)
  obtain k i where b: "b = (k, i)" by fastforce
  have "\<not> dict_mem k (map (\<lambda>(k, i). (k, PObj (MaxIntLattice i))) as)"
    using Cons.prems by (auto simp: b dict_mem_keys comp_def case_prod_beta)
  then show ?case
    using Cons.IH [of "as @ [(k, i)]"] Cons.prems
    by (simp add: b MaxIntLattice_init_def dict_set_fresh)
qed simp

lemma VectorClock_init_counters:
  "dict_wf cs \<Longrightarrow> VectorClock_init (counters cs) True = Inr (vc_obj cs)"
  using deserialize_step [of "[]" cs]
  by (simp add: VectorClock_init_def counters_def VectorClock_deserialize_def vc_obj_def dict_wf_def)

lemma VectorClock_serialize_from:
  "distinct (map fst (as @ bs)) \<Longrightarrow> (\<And>k i. (k, i) \<in> set bs \<Longrightarrow> pb 32 i = Inr i) \<Longrightarrow>
     VectorClock_serialize pb (vc_obj bs) as = Inr (as @ bs)"
proof (induction bs arbitrary: as)
  case Nil
  then show ?case by (simp add: VectorClock_serialize_def vc_obj_def)
next
  case (Cons b bs)
  obtain k i where b: "b = (k, i)" by fastforce
  have pb: "pb 32 i = Inr i" and fresh: "\<not> dict_mem k as"
    using Cons.prems by (auto simp: b dict_mem_keys)
  then have "VectorClock_serialize pb (vc_obj (b # bs)) as = VectorClock_serialize pb (vc_obj bs) (as @ [b])"
    by (simp add: VectorClock_serialize_def vc_obj_def b dict_set_fresh)
  also have "\<dots> = Inr ((as @ [b]) @ bs)"
    using Cons.prems by (intro Cons.IH) (auto simp: b)
  finally show ?case by simp
qed

text \<open>C33: a vector clock built from a dictionary of integers and serialized again gives back the
  same counters in the same order, whenever each fits the message's field.\<close>

theorem vector_clock_roundtrip:
  assumes "dict_wf cs" and "\<And>k i. (k, i) \<in> set cs \<Longrightarrow> pb 32 i = Inr i"
  shows "bindE (VectorClock_init (counters cs) True) (\<lambda>vc. VectorClock_serialize pb vc []) = Inr cs"
proof -
  have "VectorClock_serialize pb (vc_obj cs) [] = Inr ([] @ cs)"
    using assms by (intro VectorClock_serialize_from) (simp_all add: dict_wf_def)
  then show ?thesis using VectorClock_init_counters [OF assms(1)] by simp
qed

theorem vector_clock_roundtrip_witness:
  "bindE (VectorClock_init (counters [(''a'', 3), (''b'', 0)]) True)
     (\<lambda>vc. VectorClock_serialize (\<lambda>w i. if 0 \<le> i \<and> i < 2 ^ w then Inr i else Inl ValueError) vc []) =
   Inr [(''a'', 3), (''b'', 0)]"
  by (rule vector_clock_roundtrip) (auto simp: dict_wf_def)

lemma map_of_vc: "map_of (map (\<lambda>(k, i). (k, f i)) cs) k = map_option f (map_of cs k)"
  by (induction cs) auto

lemma vc_set: "dict_set k (PObj (MaxIntLattice n)) (map (\<lambda>(k, i). (k, PObj (MaxIntLattice i))) cs) =
  map (\<lambda>(k, i). (k, PObj (MaxIntLattice i))) (dict_set k n cs)"
  by (induction cs) auto

text \<open>\<open>VectorClock.update\<close> raises a known client's counter to the maximum of the old and the new
  count, leaves every other counter alone and ignores a client it does not know.\<close>

lemma vector_clock_update:
  "\<exists>cs'. VectorClock_update (vc_obj cs) k (PInt n) = Inr (vc_obj cs') \<and>
     map_of cs' = (case map_of cs k of None \<Rightarrow> map_of cs | Some old \<Rightarrow> (map_of cs)(k \<mapsto> max old n)) \<and>
     map fst cs' = map fst cs"
proof (cases "map_of cs k")
  case None
  then show ?thesis
    by (intro exI [of _ cs]) (simp add: VectorClock_update_def vc_obj_def dict_mem_def map_of_vc)
next
  case (Some old)
  then have "VectorClock_update (vc_obj cs) k (PInt n) = Inr (vc_obj (dict_set k (max old n) cs))"
    by (auto simp: VectorClock_update_def vc_obj_def dict_mem_def map_of_vc dict_getitem_def
        MaxIntLattice_init_def MaxIntLattice_merge_def vc_set max_def)
  moreover have "dict_mem k cs" using Some by (simp add: dict_mem_def)
  ultimately show ?thesis
    using Some by (intro exI [of _ "dict_set k (max old n) cs"]) (simp add: update_conv' dict_keys_set)
qed

lemma py_eq_MaxInt [simp]:
  "py_eq (PObj (MaxIntLattice i)) (PObj (MaxIntLattice j)) \<longleftrightarrow> i = j"
  by (simp add: py_eq.simps)

lemma py_eq_VectorClock [simp]:
  "py_eq (PObj (VectorClock a)) (PObj (VectorClock b)) = py_eq (PDict a) (PDict b)"
  by (subst py_eq.simps) simp

lemma py_eq_PDict:
  "py_eq (PDict a) (PDict b) \<longleftrightarrow> fst ` set a = fst ` set b \<and>
     list_all (\<lambda>(k, u). case map_of b k of None \<Rightarrow> False | Some v \<Rightarrow> py_eq u v) a"
  by (subst py_eq.simps) simp

lemma py_eq_vc:
  "py_eq (PObj (vc_obj a)) (PObj (vc_obj b)) \<longleftrightarrow>
     fst ` set a = fst ` set b \<and> list_all (\<lambda>(k, i). map_of b k = Some i) a"
proof -
  have keys: "fst ` (\<lambda>(k, i). (k, PObj (MaxIntLattice i))) ` set c = fst ` set c" for c
    by force
  show ?thesis
    by (auto simp: vc_obj_def py_eq_PDict keys map_of_vc list_all_iff split: option.splits)
qed

text \<open>Two vector clocks are equal, in the sense of \<open>Lattice.__eq__\<close>, exactly when they hold the
  same counters, in whatever order the clients were entered.\<close>

lemma vector_clock_eq:
  assumes "dict_wf a"
  shows "Lattice_eq (vc_obj a) (PObj (vc_obj b)) \<longleftrightarrow> map_of a = map_of b"
proof -
  have "(fst ` set a = fst ` set b \<and> list_all (\<lambda>(k, i). map_of b k = Some i) a) \<longleftrightarrow> map_of a = map_of b"
  proof
    assume l: "fst ` set a = fst ` set b \<and> list_all (\<lambda>(k, i). map_of b k = Some i) a"
    show "map_of a = map_of b"
    proof
      fix k
      show "map_of a k = map_of b k"
      proof (cases "map_of a k")
        case None
        then have "k \<notin> fst ` set b" using l by (metis map_of_eq_None_iff)
        then show ?thesis using None by (metis map_of_eq_None_iff)
      next
        case (Some i)
        then show ?thesis using l map_of_SomeD [OF Some] by (auto simp: list_all_iff)
      qed
    qed
  next
    assume r: "map_of a = map_of b"
    then have "fst ` set a = fst ` set b" by (metis dom_map_of_conv_image_fst)
    moreover have "map_of b k = Some i" if "(k, i) \<in> set a" for k i
      using that assms by (simp add: r [symmetric] dict_wf_def)
    ultimately show "fst ` set a = fst ` set b \<and> list_all (\<lambda>(k, i). map_of b k = Some i) a"
      by (auto simp: list_all_iff)
  qed
  then show ?thesis using py_eq_vc [of a b] by (simp add: Lattice_eq_def vc_obj_def)
qed

lemma vector_clock_eq_witness:
  "Lattice_eq (vc_obj [(''a'', 1), (''b'', 2)]) (PObj (vc_obj [(''b'', 2), (''a'', 1)])) \<longleftrightarrow>
     map_of [(''a'', 1 :: int), (''b'', 2)] = map_of [(''b'', 2), (''a'', 1)]"
  by (rule vector_clock_eq) (simp add: dict_wf_def)

section \<open>Merges that raise\<close>

lemma SetLattice_merge_raises:
  "lattice_merge (SetLattice a) (PObj (SetLattice b)) =
     (if a = [] \<and> b = [] then Inr (SetLattice [], PObj (SetLattice [])) else Inl AttributeError)"
  by (cases a; cases b)
    (simp_all add: lattice_merge.simps SetLattice_merge_def SetLattice_init_def set_call_def)

lemma OrderedSetLattice_merge_raises:
  "lattice_merge (OrderedSetLattice (ListBasedOrderedSet a))
     (PObj (OrderedSetLattice (ListBasedOrderedSet b))) = Inl AttributeError"
  by (simp add: lattice_merge.simps OrderedSetLattice_merge_def)

text \<open>C37: no two set lattices can be merged, except two empty ones, and no two ordered-set lattices
  at all: the merge raises \<open>AttributeError\<close>.\<close>

theorem set_merges_raise:
  "lattice_merge (SetLattice a) (PObj (SetLattice b)) =
     (if a = [] \<and> b = [] then Inr (SetLattice [], PObj (SetLattice [])) else Inl AttributeError) \<and>
   lattice_merge (OrderedSetLattice (ListBasedOrderedSet c))
     (PObj (OrderedSetLattice (ListBasedOrderedSet d))) = Inl AttributeError"
  by (simp only: SetLattice_merge_raises OrderedSetLattice_merge_raises)

text \<open>C38: no two map lattices, vector clocks or causal lattices can be merged: a map lattice
  iterates over the method \<open>keys\<close>, and every merge that goes through a vector clock is refused
  because a vector clock is not of the very class \<open>MapLattice\<close>.\<close>

theorem causal_merges_raise:
  "lattice_merge (MapLattice a) (PObj (MapLattice b)) = Inl TypeError \<and>
   lattice_merge (VectorClock a) (PObj (VectorClock b)) = Inl ValueError \<and>
   lattice_merge (SingleKeyCausalLattice (VectorClock a) v)
     (PObj (SingleKeyCausalLattice (VectorClock b) w)) = Inl ValueError \<and>
   lattice_merge (MultiKeyCausalLattice (VectorClock a) d v)
     (PObj (MultiKeyCausalLattice (VectorClock b) e w)) = Inl ValueError"
  by (simp add: lattice_merge.simps MapLattice_merge_def VectorClock_merge_def
      SingleKeyCausalLattice_merge_def MultiKeyCausalLattice_merge_def MapLattice_copy_def
      MapLattice_init_def)

end
