(* ===== verification/Anna_Transport.thy ===== *)
theory Anna_Transport
  imports Py_Prelude
begin

text \<open>
  \<^verbatim>\<open>client/python/anna/common.py\<close> (the addresses a client thread binds and hands out) and
  \<^verbatim>\<open>client/python/anna/zmq_util.py\<close> (sending a request, waiting for the responses to a set of
  requests, and the cache of connected sockets).

  ZeroMQ is modelled by what the code sees of it: a socket of the context is a number, the
  context records the address each socket is connected to and what was sent on it, and the data
  that will arrive at a pulling socket is a list in order of arrival. A receive that finds the
  list empty waits for ever. The codec of the protocol buffer messages is a parameter.
\<close>

section \<open>common.py\<close>

definition REQUEST_PULLING_BASE_PORT :: int where
  "REQUEST_PULLING_BASE_PORT = 6460"

definition KEY_ADDRESS_BASE_PORT :: int where
  "KEY_ADDRESS_BASE_PORT = 6760"

record Thread =
  ip :: string
  tid :: int
  base :: string
  ip_base :: string

definition Thread_init :: "string \<Rightarrow> int \<Rightarrow> Thread" where
  "Thread_init i t = \<lparr>ip = i, tid = t, base = ''tcp://*:'', ip_base = ''tcp://'' @ i @ '':''\<rparr>"

definition get_ip :: "Thread \<Rightarrow> string" where
  "get_ip self = ip self"

definition get_tid :: "Thread \<Rightarrow> int" where
  "get_tid self = tid self"

definition get_request_pull_connect_addr :: "Thread \<Rightarrow> string" where
  "get_request_pull_connect_addr self = ip_base self @ str_int (tid self + REQUEST_PULLING_BASE_PORT)"

definition get_request_pull_bind_addr :: "Thread \<Rightarrow> string" where
  "get_request_pull_bind_addr self = base self @ str_int (tid self + REQUEST_PULLING_BASE_PORT)"

definition get_key_address_connect_addr :: "Thread \<Rightarrow> string" where
  "get_key_address_connect_addr self = ip_base self @ str_int (tid self + KEY_ADDRESS_BASE_PORT)"

definition get_key_address_bind_addr :: "Thread \<Rightarrow> string" where
  "get_key_address_bind_addr self = base self @ str_int (tid self + KEY_ADDRESS_BASE_PORT)"

section \<open>zmq_util.py\<close>

record zmq_context =
  connected :: "string list"  \<comment> \<open>the address that socket \<open>i\<close> is connected to\<close>
  sent :: "(nat \<times> bytes) list"  \<comment> \<open>socket and data, in the order of the sends\<close>

definition send_request :: "('m \<Rightarrow> bytes) \<Rightarrow> 'm \<Rightarrow> nat \<Rightarrow> (zmq_context, unit) prog" where
  "send_request SerializeToString req_obj send_sock =
     (let req_string = SerializeToString req_obj
      in modS (\<lambda>c. c\<lparr>sent := sent c @ [(send_sock, req_string)]\<rparr>))"

text \<open>
  The receive of one response: data is received and parsed until the response's id is one of
  \<open>req_ids\<close>. The state is the data still to arrive.
\<close>

fun recv_matching ::
  "(bytes \<Rightarrow> 'm res) \<Rightarrow> ('m \<Rightarrow> string) \<Rightarrow> string list \<Rightarrow> (bytes list, 'm) prog" where
  "recv_matching ParseFromString response_id req_ids [] = (Diverge, [])"
| "recv_matching ParseFromString response_id req_ids (resp # inbox) =
     (case ParseFromString resp of
        Inl e \<Rightarrow> (Raise e, inbox)
      | Inr resp_obj \<Rightarrow>
          if response_id resp_obj \<in> set req_ids then (Return resp_obj, inbox)
          else recv_matching ParseFromString response_id req_ids inbox)"

text \<open>The outer loop, run until there are as many responses as ids; \<open>n\<close> are still missing.\<close>

primrec recv_missing ::
  "(bytes \<Rightarrow> 'm res) \<Rightarrow> ('m \<Rightarrow> string) \<Rightarrow> string list \<Rightarrow> nat \<Rightarrow> 'm list \<Rightarrow> (bytes list, 'm list) prog" where
  "recv_missing ParseFromString response_id req_ids 0 responses = returnS responses"
| "recv_missing ParseFromString response_id req_ids (Suc n) responses =
     bindS (recv_matching ParseFromString response_id req_ids) (\<lambda>resp_obj.
       recv_missing ParseFromString response_id req_ids n (responses @ [resp_obj]))"

definition recv_response ::
  "(bytes \<Rightarrow> 'm res) \<Rightarrow> ('m \<Rightarrow> string) \<Rightarrow> string list \<Rightarrow> (bytes list, 'm list) prog" where
  "recv_response ParseFromString response_id req_ids =
     recv_missing ParseFromString response_id req_ids (length req_ids) []"

record SocketCache =
  cache :: "(string, nat) dict"
  ctx :: zmq_context

definition SocketCache_init :: "zmq_context \<Rightarrow> SocketCache" where
  "SocketCache_init c = \<lparr>cache = [], ctx = c\<rparr>"

text \<open>\<open>context.socket(zmq_type)\<close> makes a new socket, \<open>sock.connect(addr)\<close> connects it.\<close>

definition SocketCache_get :: "string \<Rightarrow> (SocketCache, nat) prog" where
  "SocketCache_get addr = (\<lambda>self.
     if \<not> dict_mem addr (cache self) then
       (let sock = length (connected (ctx self));
            c = (ctx self)\<lparr>connected := connected (ctx self) @ [addr]\<rparr>
        in (Return sock, self\<lparr>cache := dict_set addr sock (cache self), ctx := c\<rparr>))
     else liftE (dict_getitem (cache self) addr) self)"

section \<open>A cache that fills itself\<close>

text \<open>
  What a client of such a cache relies on: a key that is cached is returned as it is and
  nothing changes; for a key that is not cached a proper value is entered and returned, and no
  other key is touched. (A value that is not proper, such as an empty answer, is not kept.)
\<close>

locale memo_cache =
  fixes look :: "'s \<Rightarrow> 'k \<Rightarrow> 'v option" and proper :: "'v \<Rightarrow> bool" and get :: "'k \<Rightarrow> ('s, 'v) prog"
  assumes hit: "look s k = Some v \<Longrightarrow> get k s = (Return v, s)"
    and miss_enters: "look s k = None \<Longrightarrow> get k s = (Return v, t) \<Longrightarrow> proper v \<Longrightarrow> look t k = Some v"
    and miss_keeps: "look s k = None \<Longrightarrow> get k s = (r, t) \<Longrightarrow> k' \<noteq> k \<Longrightarrow> look t k' = look s k'"
begin

lemma get_caches: "get k s = (Return v, t) \<Longrightarrow> proper v \<Longrightarrow> look t k = Some v"
  by (cases "look s k") (auto simp: hit dest: miss_enters)

lemma get_keeps: "get k s = (r, t) \<Longrightarrow> look s k' = Some v \<Longrightarrow> look t k' = Some v"
proof (cases "look s k")
  case None
  assume "get k s = (r, t)" "look s k' = Some v"
  with None miss_keeps [OF None] show ?thesis by (cases "k' = k") auto
qed (simp add: hit)

lemma get_again: "get k s = (Return v, t) \<Longrightarrow> proper v \<Longrightarrow> get k t = (Return v, t)"
  by (rule hit) (rule get_caches)

lemma gets_keep:
  assumes "forS ks (\<lambda>j. seqS (get j) (returnS ())) s = (r, t)" and "look s k = Some v"
  shows "look t k = Some v"
proof -
  have "keeps (\<lambda>w. look w k = Some v) (get j)" for j
    by (rule keepsI) (metis get_keeps prod.collapse)
  then have "keeps (\<lambda>w. look w k = Some v) (forS ks (\<lambda>j. seqS (get j) (returnS ())))"
    by (intro py_keeps)
  then show ?thesis using assms(2,1) by (rule keepsD)
qed

lemma get_after_others:
  assumes "get k s = (Return v, t)" and "proper v"
    and "forS ks (\<lambda>j. seqS (get j) (returnS ())) t = (r, u)"
  shows "get k u = (Return v, u)"
  by (rule hit) (rule gets_keep [OF assms(3) get_caches [OF assms(1,2)]])

end

interpretation sc: memo_cache "\<lambda>s k. map_of (cache s) k" "\<lambda>_. True" SocketCache_get
  by unfold_locales
    (auto simp: SocketCache_get_def dict_mem_def dict_getitem_def update_conv' Let_def split: option.splits)

section \<open>Properties\<close>

text \<open>The invariant of the cache: a cached socket is connected to its address, and no two
  addresses share a socket.\<close>

definition cache_inv :: "SocketCache \<Rightarrow> bool" where
  "cache_inv s \<longleftrightarrow> dict_wf (cache s) \<and>
     (\<forall>(addr, sock) \<in> set (cache s).
        sock < length (connected (ctx s)) \<and> connected (ctx s) ! sock = addr)"

lemma cache_inv_init: "cache_inv (SocketCache_init c)"
  by (simp add: cache_inv_def SocketCache_init_def)

lemma cache_inv_get:
  assumes "cache_inv s" and "SocketCache_get addr s = (r, t)"
  shows "cache_inv t"
proof (cases "dict_mem addr (cache s)")
  case True
  then have "t = s"
    using assms(2) by (auto simp: SocketCache_get_def dict_mem_def dict_getitem_def split: option.splits)
  then show ?thesis using assms(1) by simp
next
  case False
  then have t: "t = s\<lparr>cache := cache s @ [(addr, length (connected (ctx s)))],
      ctx := (ctx s)\<lparr>connected := connected (ctx s) @ [addr]\<rparr>\<rparr>"
    using assms(2) by (auto simp: SocketCache_get_def Let_def dict_set_fresh)
  have "dict_wf (cache t)"
    using assms(1) False by (auto simp: t cache_inv_def dict_wf_def dict_mem_keys)
  then show ?thesis
    using assms(1) by (auto simp: cache_inv_def t nth_append)
qed

text \<open>A socket obtained from the cache is connected to the address it was asked for, in every
  state reached by any sequence of requests on a fresh cache; and asking again for an address
  gives the same socket, whatever was asked for in between.\<close>

lemma socket_cache_get:
  assumes "forS before (\<lambda>a. seqS (SocketCache_get a) (returnS ())) (SocketCache_init c) = (Return (), s)"
    and "SocketCache_get addr s = (Return sock, t)"
    and "forS between (\<lambda>a. seqS (SocketCache_get a) (returnS ())) t = (Return (), u)"
  shows "connected (ctx t) ! sock = addr \<and> SocketCache_get addr u = (Return sock, u)"
proof -
  have "cache_inv s"
    by (rule forS_invariant [OF assms(1), where P = cache_inv])
      (auto simp: py_inv cache_inv_init dest: cache_inv_get)
  then have "cache_inv t" using assms(2) by (rule cache_inv_get)
  moreover have "(addr, sock) \<in> set (cache t)"
    using sc.get_caches [OF assms(2) TrueI] by (rule map_of_SomeD)
  ultimately have "connected (ctx t) ! sock = addr" by (auto simp: cache_inv_def)
  moreover have "SocketCache_get addr u = (Return sock, u)"
    by (rule sc.get_after_others [OF assms(2) TrueI assms(3)])
  ultimately show ?thesis by simp
qed

definition demo_context :: zmq_context where
  "demo_context = \<lparr>connected = [], sent = []\<rparr>"

lemma socket_cache_get_witness:
  "\<exists>s sock t u.
     forS [''x''] (\<lambda>a. seqS (SocketCache_get a) (returnS ())) (SocketCache_init demo_context) = (Return (), s) \<and>
     SocketCache_get ''y'' s = (Return sock, t) \<and>
     forS [''z''] (\<lambda>a. seqS (SocketCache_get a) (returnS ())) t = (Return (), u) \<and>
     connected (ctx t) ! sock = ''y'' \<and> SocketCache_get ''y'' u = (Return sock, u)"
proof -
  let ?b = "forS [''x''] (\<lambda>a. seqS (SocketCache_get a) (returnS ())) (SocketCache_init demo_context)"
  let ?g = "SocketCache_get ''y'' (snd ?b)"
  let ?m = "forS [''z''] (\<lambda>a. seqS (SocketCache_get a) (returnS ())) (snd ?g)"
  have b: "?b = (Return (), snd ?b)"
    by (simp add: SocketCache_get_def SocketCache_init_def demo_context_def Let_def)
  have g: "?g = (Return 1, snd ?g)"
    by (simp add: SocketCache_get_def SocketCache_init_def demo_context_def Let_def dict_mem_def)
  have m: "?m = (Return (), snd ?m)"
    by (simp add: SocketCache_get_def SocketCache_init_def demo_context_def Let_def dict_mem_def)
  show ?thesis using b g m socket_cache_get [OF b g m] by blast
qed

text \<open>
  Receiving. The messages that arrive are \<open>ms\<close>; \<open>P\<close> selects those with an awaited id. A receive
  consumes the messages up to and including the first selected one.
\<close>

abbreviation (input) awaited :: "('m \<Rightarrow> string) \<Rightarrow> string list \<Rightarrow> 'm \<Rightarrow> bool" where
  "awaited response_id req_ids \<equiv> (\<lambda>m. response_id m \<in> set req_ids)"

lemma recv_matching_none:
  "mapE parse inbox = Inr ms \<Longrightarrow> filter (awaited rsp ids) ms = [] \<Longrightarrow>
   recv_matching parse rsp ids inbox = (Diverge, [])"
proof (induction inbox arbitrary: ms)
  case (Cons b inbox)
  then obtain m ms' where "parse b = Inr m" "mapE parse inbox = Inr ms'" "ms = m # ms'"
    by (auto simp: bindE_eq_Inr)
  with Cons show ?case by (auto split: if_splits)
qed simp

lemma recv_matching_first:
  "mapE parse inbox = Inr (us @ m # vs) \<Longrightarrow> \<forall>u \<in> set us. \<not> awaited rsp ids u \<Longrightarrow> awaited rsp ids m \<Longrightarrow>
   recv_matching parse rsp ids inbox = (Return m, drop (Suc (length us)) inbox)"
proof (induction us arbitrary: inbox)
  case Nil
  then show ?case by (cases inbox) (auto simp: bindE_eq_Inr)
next
  case (Cons u us)
  then show ?case by (cases inbox) (auto simp: bindE_eq_Inr)
qed

lemma mapE_drop: "mapE f xs = Inr ys \<Longrightarrow> mapE f (drop k xs) = Inr (drop k ys)"
proof (induction xs arbitrary: ys k)
  case (Cons x xs)
  then show ?case by (cases k) (auto simp: bindE_eq_Inr)
qed simp

definition received :: "('m \<Rightarrow> bool) \<Rightarrow> nat \<Rightarrow> 'm list \<Rightarrow> nat \<Rightarrow> bool" where
  "received P n ms k \<longleftrightarrow> k \<le> length ms \<and> filter P (take k ms) = take n (filter P ms) \<and>
     (k = 0 \<or> P (ms ! (k - 1)))"

lemma received_0: "received P 0 ms 0"
  by (simp add: received_def)

lemma received_Suc:
  assumes "ms = us @ m # vs" and "\<forall>u \<in> set us. \<not> P u" and "P m" and "received P n vs k"
  shows "received P (Suc n) ms (Suc (length us) + k)"
  using assms by (auto simp: received_def nth_append nth_Cons' Suc_diff_Suc)

lemma recv_missing_enough:
  "mapE parse inbox = Inr ms \<Longrightarrow> n \<le> length (filter (awaited rsp ids) ms) \<Longrightarrow>
   \<exists>k. recv_missing parse rsp ids n acc inbox =
         (Return (acc @ take n (filter (awaited rsp ids) ms)), drop k inbox) \<and>
       received (awaited rsp ids) n ms k"
proof (induction n arbitrary: inbox ms acc)
  case 0
  then show ?case by (intro exI [of _ 0]) (simp add: received_0)
next
  case (Suc n)
  then obtain m fs where "filter (awaited rsp ids) ms = m # fs"
    by (cases "filter (awaited rsp ids) ms") auto
  then obtain us vs where ms: "ms = us @ m # vs" "\<forall>u \<in> set us. \<not> awaited rsp ids u" "awaited rsp ids m"
      "fs = filter (awaited rsp ids) vs"
    by (auto simp: filter_eq_Cons_iff)
  let ?rest = "drop (Suc (length us)) inbox"
  have "mapE parse ?rest = Inr vs"
    using mapE_drop [OF Suc.prems(1), of "Suc (length us)"] ms(1) by simp
  moreover have "n \<le> length (filter (awaited rsp ids) vs)"
    using Suc.prems(2) ms by auto
  ultimately obtain k where
    k: "recv_missing parse rsp ids n (acc @ [m]) ?rest =
          (Return ((acc @ [m]) @ take n (filter (awaited rsp ids) vs)), drop k ?rest)"
       "received (awaited rsp ids) n vs k"
    using Suc.IH by blast
  have "recv_matching parse rsp ids inbox = (Return m, ?rest)"
    using Suc.prems(1) ms by (intro recv_matching_first) auto
  moreover have "received (awaited rsp ids) (Suc n) ms (Suc (length us) + k)"
    using ms(1-3) k(2) by (rule received_Suc)
  ultimately show ?case using k(1) ms
    by (intro exI [of _ "Suc (length us) + k"]) (simp add: add.commute)
qed

lemma recv_missing_few:
  "mapE parse inbox = Inr ms \<Longrightarrow> length (filter (awaited rsp ids) ms) < n \<Longrightarrow>
   recv_missing parse rsp ids n acc inbox = (Diverge, [])"
proof (induction n arbitrary: inbox ms acc)
  case (Suc n)
  show ?case
  proof (cases "filter (awaited rsp ids) ms")
    case Nil
    with Suc.prems(1) show ?thesis by (simp add: recv_matching_none)
  next
    case (Cons m fs)
    then obtain us vs where ms: "ms = us @ m # vs" "\<forall>u \<in> set us. \<not> awaited rsp ids u" "awaited rsp ids m"
      by (auto simp: filter_eq_Cons_iff)
    have "recv_matching parse rsp ids inbox = (Return m, drop (Suc (length us)) inbox)"
      using Suc.prems(1) ms by (intro recv_matching_first) auto
    moreover have "mapE parse (drop (Suc (length us)) inbox) = Inr vs"
      using mapE_drop [OF Suc.prems(1), of "Suc (length us)"] ms(1) by simp
    moreover have "length (filter (awaited rsp ids) vs) < n"
      using Suc.prems(2) ms by simp
    ultimately show ?thesis using Suc.IH by simp
  qed
qed simp

text \<open>C10: awaiting the responses to a list of requests returns exactly the first responses with
  an awaited id, as many as there are requests, in order of arrival; it consumes the data up to
  the last of them and drops the unrelated responses before it. When fewer such responses ever
  arrive it waits for ever.\<close>

theorem recv_response_first_matching:
  assumes "mapE parse inbox = Inr ms"
  shows "if length ids \<le> length (filter (\<lambda>m. rsp m \<in> set ids) ms)
    then \<exists>k. recv_response parse rsp ids inbox =
           (Return (take (length ids) (filter (\<lambda>m. rsp m \<in> set ids) ms)), drop k inbox) \<and>
           received (\<lambda>m. rsp m \<in> set ids) (length ids) ms k
    else recv_response parse rsp ids inbox = (Diverge, [])"
  using recv_missing_enough [OF assms, of "length ids" rsp ids "[]"]
    recv_missing_few [OF assms, of rsp ids "length ids" "[]"]
  by (simp add: recv_response_def not_le)

definition demo_parse :: "bytes \<Rightarrow> string res" where
  "demo_parse b = Inr (map (\<lambda>w. if w = 0 then CHR ''a'' else CHR ''b'') b)"

theorem recv_response_first_matching_witness:
  "mapE demo_parse [[1], [0], [0, 1]] = Inr [''b'', ''a'', ''ab''] \<and>
   (\<exists>k. recv_response demo_parse (\<lambda>m. m) [''a''] [[1], [0], [0, 1]] =
      (Return [''a''], drop k [[1], [0], [0, 1]]) \<and>
      received (\<lambda>m. m \<in> set [''a'']) 1 [''b'', ''a'', ''ab''] k)"
  using recv_response_first_matching
    [of demo_parse "[[1], [0], [0, 1]]" "[''b'', ''a'', ''ab'']" "[''a'']" "\<lambda>m. m"]
  by (simp add: demo_parse_def)

lemma addr_inject:
  "a @ CHR '':'' # str_int i = b @ CHR '':'' # str_int j \<longleftrightarrow> a = b \<and> i = j"
  using append_sep_unique [of a "CHR '':''" "str_int i" b "str_int j"]
    str_int_no_char [of "CHR '':''"] by (auto simp: is_digit_def)

text \<open>Clients on different hosts or with different offsets hand out different response
  addresses, and a client's response address is never the address at which a client awaits the
  routing tier, unless their offsets differ by exactly 300.\<close>

lemma client_addresses_distinct:
  "(get_request_pull_connect_addr (Thread_init i t) = get_request_pull_connect_addr (Thread_init j u)
      \<longleftrightarrow> i = j \<and> t = u) \<and>
   (get_key_address_connect_addr (Thread_init i t) = get_key_address_connect_addr (Thread_init j u)
      \<longleftrightarrow> i = j \<and> t = u) \<and>
   (get_request_pull_connect_addr (Thread_init i t) = get_key_address_connect_addr (Thread_init j u)
      \<longleftrightarrow> i = j \<and> t = u + 300)"
  by (auto simp: get_request_pull_connect_addr_def get_key_address_connect_addr_def Thread_init_def
      REQUEST_PULLING_BASE_PORT_def KEY_ADDRESS_BASE_PORT_def addr_inject)

end
