(* ===== verification/Anna_Base_Client.thy ===== *)
theory Anna_Base_Client
  imports Anna_Lattice_Laws Anna_Transport
begin

text \<open>
  \<^verbatim>\<open>client/python/anna/base_client.py\<close>: the part of the client that does not talk to the network.
  It translates between lattices and protocol buffer messages, prepares requests and numbers
  them.

  The messages are those of \<^verbatim>\<open>common/proto/anna.proto\<close>. The classes that \<^verbatim>\<open>protoc\<close> generates from
  it are the parameter \<open>codec\<close>: how a value message is written to and read from bytes, and which
  integers an unsigned field accepts. The state of the client object is the record
  \<open>AnnaTcpClient\<close>; the data that will arrive at its two pulling sockets and the random draws are
  part of it.
\<close>

section \<open>Messages\<close>

datatype RequestType = RT_UNSPECIFIED | GET | PUT

record KeyTuple =
  tup_key :: string
  lattice_type :: LatticeType
  tup_error :: int
  payload :: bytes
  address_cache_size :: nat
  invalidate :: bool

definition NO_ERROR :: int where
  "NO_ERROR = 0"

record KeyRequest =
  req_type :: RequestType
  req_tuples :: "KeyTuple list"
  req_response_address :: string
  request_id :: string

record KeyResponse =
  resp_tuples :: "KeyTuple list"
  response_id :: string

record KeyAddressRequest =
  kar_response_address :: string
  kar_keys :: "string list"
  kar_request_id :: string

record KeyAddressResponse =
  kar_addresses :: "(string \<times> string list) list"
  kar_error :: int
  kar_response_id :: string

record codec =
  LWWValue_parse :: "bytes \<Rightarrow> (int \<times> bytes) res"
  SetValue_parse :: "bytes \<Rightarrow> bytes list res"
  SingleKeyCausalValue_parse :: "bytes \<Rightarrow> ((string \<times> int) list \<times> bytes list) res"
  MultiKeyCausalValue_parse ::
    "bytes \<Rightarrow> ((string \<times> int) list \<times> (string \<times> (string \<times> int) list) list \<times> bytes list) res"
  PriorityValue_parse :: "bytes \<Rightarrow> (pyfloat \<times> bytes) res"
  value_ser :: "pbvalue \<Rightarrow> bytes"
  uint_field :: pb_uint

text \<open>What is deserialised: a tuple of a response, or a tuple of the causal cache's protocol.\<close>

datatype some_tuple = A_KeyTuple KeyTuple | A_CausalTuple bytes

section \<open>The client object\<close>

record AnnaTcpClient =
  elb_addr :: string
  elb_ports :: "int list"
  ut :: Thread
  address_cache :: "(string, string list) dict"
  pusher_cache :: SocketCache
  response_puller :: "bytes list"
  key_address_puller :: "bytes list"
  rid :: int
  rng :: "nat list"

definition BaseAnnaClient_abstract :: "(AnnaTcpClient, 'a) prog" where
  "BaseAnnaClient_abstract = raiseS NotImplementedError"

section \<open>Lattices from messages\<close>

text \<open>\<open>values.add(v)\<close> for each value of a repeated field.\<close>

definition set_of_values :: "bytes list \<Rightarrow> val list" where
  "set_of_values vs = fold (\<lambda>v s. if PBytes v \<in> set s then s else s @ [PBytes v]) vs []"

text \<open>\<open>val.values()\<close> calls a repeated field, which is not callable.\<close>

definition call_values :: "bytes list \<Rightarrow> bytes list res" where
  "call_values vs = Inl TypeError"

definition deserialize_multi_causal :: "codec \<Rightarrow> bytes \<Rightarrow> obj res" where
  "deserialize_multi_causal c pl =
     bindE (MultiKeyCausalValue_parse c pl) (\<lambda>(vector_clock, dependencies, values).
     bindE (VectorClock_init (PMessageMap vector_clock) True) (\<lambda>vc.
     bindE (foldE (\<lambda>(key, kv) dep_map.
        bindE (VectorClock_init (PMessageMap kv) True) (\<lambda>d. Inr (dict_set key (PObj d) dep_map)))
        dependencies []) (\<lambda>dep_map.
     bindE (call_values values) (\<lambda>vs.
     bindE (MapLattice_init (PDict dep_map)) (\<lambda>deps.
     bindE (SetLattice_init (PSet (set_of_values vs))) (\<lambda>v.
     MultiKeyCausalLattice_init (PObj vc) (PObj deps) (PObj v)))))))"

text \<open>\<open>SingleKeyCasaulLattice\<close> is not a name of the module.\<close>

definition deserialize_single_causal :: "codec \<Rightarrow> bytes \<Rightarrow> obj res" where
  "deserialize_single_causal c pl =
     bindE (SingleKeyCausalValue_parse c pl) (\<lambda>(vector_clock, values).
     bindE (VectorClock_init (PMessageMap vector_clock) True) (\<lambda>vc.
     bindE (call_values values) (\<lambda>vs. Inl NameError)))"

definition deserialize :: "codec \<Rightarrow> some_tuple \<Rightarrow> obj res" where
  "deserialize c tup =
     (case tup of
        A_CausalTuple pl \<Rightarrow> deserialize_multi_causal c pl
      | A_KeyTuple t \<Rightarrow>
          (case lattice_type t of
             LWW \<Rightarrow> bindE (LWWValue_parse c (payload t)) (\<lambda>(timestamp, v).
                      LWWPairLattice_init (PInt timestamp) (PBytes v))
           | SET \<Rightarrow> bindE (SetValue_parse c (payload t)) (\<lambda>values.
                      SetLattice_init (PSet (set_of_values values)))
           | ORDERED_SET \<Rightarrow> bindE (SetValue_parse c (payload t)) (\<lambda>values.
                      OrderedSetLattice_init (PObj (ListBasedOrderedSet
                        (fold lbos_insert values (lbos_init [])))))
           | SINGLE_CAUSAL \<Rightarrow> deserialize_single_causal c (payload t)
           | MULTI_CAUSAL \<Rightarrow> deserialize_multi_causal c (payload t)
           | PRIORITY \<Rightarrow> bindE (PriorityValue_parse c (payload t)) (\<lambda>(priority, v).
                      PriorityLattice_init (PFloat priority) (PBytes v))
           | NONE \<Rightarrow> Inl ValueError))"

section \<open>Messages from lattices\<close>

definition serialize :: "codec \<Rightarrow> val \<Rightarrow> (bytes \<times> LatticeType) res" where
  "serialize c v =
     (if \<not> is_lattice v then Inl ValueError
      else case v of
        PObj l \<Rightarrow> bindE (lattice_serialize (uint_field c) l) (\<lambda>(pb, typ). Inr (value_ser c pb, typ))
      | _ \<Rightarrow> Inl ValueError)"

section \<open>Requests\<close>

definition get_request_id :: "(AnnaTcpClient, string) prog" where
  "get_request_id = (\<lambda>self.
     (Return (get_ip (ut self) @ '':'' @ str_int (rid self)), self\<lparr>rid := (rid self + 1) mod 10000\<rparr>))"

definition response_address :: "AnnaTcpClient \<Rightarrow> string" where
  "response_address self = get_request_pull_connect_addr (ut self)"

definition prepare_tuple :: "AnnaTcpClient \<Rightarrow> string \<Rightarrow> KeyTuple res" where
  "prepare_tuple self key =
     bindE (if address_cache self \<noteq> [] \<and> dict_mem key (address_cache self)
            then bindE (dict_getitem (address_cache self) key) (\<lambda>l. Inr (length l))
            else Inr 0) (\<lambda>n.
     Inr \<lparr>tup_key = key, lattice_type = NONE, tup_error = NO_ERROR, payload = [],
          address_cache_size = n, invalidate = False\<rparr>)"

text \<open>The second component of the pair that the code returns aliases the tuples of the first.\<close>

definition prepare_data_request :: "string list \<Rightarrow> (AnnaTcpClient, KeyRequest) prog" where
  "prepare_data_request keys =
     bindS get_request_id (\<lambda>i.
     bindS (getS response_address) (\<lambda>a.
     bindS (\<lambda>self. liftE (mapE (prepare_tuple self) keys) self) (\<lambda>tuples.
     returnS \<lparr>req_type = RT_UNSPECIFIED, req_tuples = tuples, req_response_address = a,
              request_id = i\<rparr>)))"

text \<open>Iterating over a \<open>str\<close> yields its characters.\<close>

definition str_iter :: "string \<Rightarrow> string list" where
  "str_iter s = map (\<lambda>c. [c]) s"

section \<open>Lemmas\<close>

text \<open>The tuple for a key carries the number of cached addresses, 0 for a key that is not cached.\<close>

definition cached_addresses :: "AnnaTcpClient \<Rightarrow> string \<Rightarrow> string list" where
  "cached_addresses self key = (case map_of (address_cache self) key of None \<Rightarrow> [] | Some l \<Rightarrow> l)"

definition request_tuple :: "AnnaTcpClient \<Rightarrow> string \<Rightarrow> KeyTuple" where
  "request_tuple self key =
     \<lparr>tup_key = key, lattice_type = NONE, tup_error = NO_ERROR, payload = [],
      address_cache_size = length (cached_addresses self key), invalidate = False\<rparr>"

lemma prepare_tuple_eq: "prepare_tuple self key = Inr (request_tuple self key)"
  by (auto simp: prepare_tuple_def request_tuple_def cached_addresses_def dict_mem_def
      dict_getitem_def split: option.splits)

definition next_rid :: "AnnaTcpClient \<Rightarrow> AnnaTcpClient" where
  "next_rid self = self\<lparr>rid := (rid self + 1) mod 10000\<rparr>"

definition rid_str :: "AnnaTcpClient \<Rightarrow> string" where
  "rid_str self = ip (ut self) @ '':'' @ str_int (rid self)"

lemma get_request_id_run [simp, py_run]: "get_request_id self = (Return (rid_str self), next_rid self)"
  by (simp add: get_request_id_def rid_str_def next_rid_def get_ip_def)

definition data_request :: "string list \<Rightarrow> AnnaTcpClient \<Rightarrow> KeyRequest" where
  "data_request keys self =
     \<lparr>req_type = RT_UNSPECIFIED, req_tuples = map (request_tuple self) keys,
      req_response_address = response_address self, request_id = rid_str self\<rparr>"

lemma next_rid_sel [simp]:
  "address_cache (next_rid self) = address_cache self" "ut (next_rid self) = ut self"
  "pusher_cache (next_rid self) = pusher_cache self" "rng (next_rid self) = rng self"
  "response_puller (next_rid self) = response_puller self"
  "key_address_puller (next_rid self) = key_address_puller self"
  "elb_addr (next_rid self) = elb_addr self" "elb_ports (next_rid self) = elb_ports self"
  "rid (next_rid self) = (rid self + 1) mod 10000"
  by (simp_all add: next_rid_def)

lemma request_tuple_next_rid [simp]: "request_tuple (next_rid self) = request_tuple self"
  by (rule ext) (simp add: request_tuple_def cached_addresses_def)

lemma prepare_data_request_run [simp, py_run]:
  "prepare_data_request keys self = (Return (data_request keys self), next_rid self)"
proof -
  have "mapE (prepare_tuple (next_rid self)) keys = Inr (map (request_tuple self) keys)"
    by (rule mapE_total) (simp add: prepare_tuple_eq)
  then show ?thesis
    by (simp add: prepare_data_request_def data_request_def response_address_def)
qed

lemma VectorClock_init_message_map: "VectorClock_init (PMessageMap m) True = Inl ValueError"
  by (simp add: VectorClock_init_def)

lemma set_of_values_distinct: "distinct vs \<Longrightarrow> set_of_values vs = map PBytes vs"
proof (induction vs rule: rev_induct)
  case (snoc v vs)
  then show ?case by (auto simp: set_of_values_def)
qed (simp add: set_of_values_def)

section \<open>Properties\<close>

text \<open>The lattices that can be stored: those whose state is bytes.\<close>

fun is_bytes :: "val \<Rightarrow> bool" where
  "is_bytes (PBytes _) = True"
| "is_bytes _ = False"

fun storable :: "obj \<Rightarrow> bool" where
  "storable (LWWPairLattice ts v) = (0 \<le> ts \<and> ts < 2 ^ 64)"
| "storable (SetLattice xs) = (distinct xs \<and> list_all is_bytes xs)"
| "storable (OrderedSetLattice (ListBasedOrderedSet s)) = sorted_wrt (<) (lst s)"
| "storable (PriorityLattice p v) = True"
| "storable _ = False"

text \<open>What is relied on of the generated classes: an unsigned field accepts the integers of its
  width, and a message read from the bytes it was written to is the message.\<close>

definition uint_fields :: "codec \<Rightarrow> bool" where
  "uint_fields c \<longleftrightarrow> (\<forall>w i. uint_field c w i = (if 0 \<le> i \<and> i < 2 ^ w then Inr i else Inl ValueError))"

definition reads_back :: "codec \<Rightarrow> pbvalue \<Rightarrow> bool" where
  "reads_back c m \<longleftrightarrow>
     (case m of
        LWWValue t v \<Rightarrow> LWWValue_parse c (value_ser c m) = Inr (t, v)
      | SetValue vs \<Rightarrow> SetValue_parse c (value_ser c m) = Inr vs
      | SingleKeyCausalValue vc vs \<Rightarrow> SingleKeyCausalValue_parse c (value_ser c m) = Inr (vc, vs)
      | MultiKeyCausalValue vc d vs \<Rightarrow> MultiKeyCausalValue_parse c (value_ser c m) = Inr (vc, d, vs)
      | PriorityValue p v \<Rightarrow> PriorityValue_parse c (value_ser c m) = Inr (p, v))"

lemma bytes_values: "list_all is_bytes xs \<Longrightarrow> \<exists>vs. xs = map PBytes vs"
proof (induction xs)
  case (Cons x xs)
  then obtain vs where "xs = map PBytes vs" by auto
  moreover obtain b where "x = PBytes b" using Cons.prems by (cases x) auto
  ultimately have "x # xs = map PBytes (b # vs)" by simp
  then show ?case by (rule exI)
qed simp

lemma roundtrip_SetLattice:
  assumes "storable (SetLattice xs)"
    and "\<forall>m typ. lattice_serialize (uint_field c) (SetLattice xs) = Inr (m, typ) \<longrightarrow> reads_back c m"
  shows "\<exists>p typ. serialize c (PObj (SetLattice xs)) = Inr (p, typ) \<and>
    deserialize c (A_KeyTuple (t\<lparr>payload := p, lattice_type := typ\<rparr>)) = Inr (SetLattice xs)"
proof -
  obtain vs where xs: "xs = map PBytes vs" using assms(1) bytes_values by auto
  have "mapE (\<lambda>v. case v of PBytes b \<Rightarrow> Inr b | _ \<Rightarrow> Inl ValueError) xs = Inr vs"
    unfolding xs by (induction vs) auto
  then have "lattice_serialize (uint_field c) (SetLattice xs) = Inr (SetValue vs, SET)"
    by (simp add: SetLattice_serialize_def)
  moreover from this have "SetValue_parse c (value_ser c (SetValue vs)) = Inr vs"
    using assms(2) by (fastforce simp: reads_back_def)
  moreover have "set_of_values vs = xs"
    using assms(1) by (simp add: xs set_of_values_distinct distinct_map)
  ultimately show ?thesis
    by (simp add: serialize_def deserialize_def SetLattice_init_def)
qed

lemma lbos_init_sorted: "sorted_wrt (<) (lst s) \<Longrightarrow> lbos_init (lst s) = s"
  by (rule ListBasedOrderedSet.equality)
    (simp_all add: lbos_init_def lbos.elems_fold_emp sorted_list_of_set_unique strict_sorted_iff
      sorted_list_of_set.idem_if_sorted_distinct)

lemma roundtrip_storable:
  assumes "uint_fields c" and "storable l"
    and "\<forall>m typ. lattice_serialize (uint_field c) l = Inr (m, typ) \<longrightarrow> reads_back c m"
  shows "\<exists>p typ. serialize c (PObj l) = Inr (p, typ) \<and>
    deserialize c (A_KeyTuple (t\<lparr>payload := p, lattice_type := typ\<rparr>)) = Inr l"
proof (cases l rule: storable.cases)
  case (1 ts v)
  then show ?thesis
    using assms by (auto simp: serialize_def deserialize_def LWWPairLattice_serialize_def
        LWWPairLattice_init_def uint_fields_def reads_back_def)
next
  case (2 xs)
  then show ?thesis using assms(2,3) by (simp only: roundtrip_SetLattice)
next
  case (3 s)
  have "fold lbos_insert (lst s) (lbos_init []) = lbos_init (lst s)"
    by (simp add: lbos_init_def)
  then show ?thesis
    using assms 3 by (auto simp: serialize_def deserialize_def OrderedSetLattice_serialize_def
        OrderedSetLattice_init_def reads_back_def lbos_init_sorted)
next
  case (4 p v)
  then show ?thesis
    using assms by (auto simp: serialize_def deserialize_def PriorityLattice_init_def reads_back_def)
qed (use assms(2) in simp_all)

text \<open>A codec for small messages: one byte for a timestamp, and the values of a set one byte each.\<close>

definition demo_codec :: codec where
  "demo_codec =
     \<lparr>LWWValue_parse = (\<lambda>b. case b of [] \<Rightarrow> Inl DecodeError | t # v \<Rightarrow> Inr (uint t, v)),
      SetValue_parse = (\<lambda>b. Inr (map (\<lambda>w. [w]) b)),
      SingleKeyCausalValue_parse = (\<lambda>b. Inr ([], [b])),
      MultiKeyCausalValue_parse = (\<lambda>b. Inr ([], [], [b])),
      PriorityValue_parse = (\<lambda>b. Inr (Fin 1, b)),
      value_ser = (\<lambda>m. case m of LWWValue t v \<Rightarrow> word_of_int t # v | SetValue vs \<Rightarrow> concat vs
        | SingleKeyCausalValue _ vs \<Rightarrow> concat vs | MultiKeyCausalValue _ _ vs \<Rightarrow> concat vs
        | PriorityValue _ v \<Rightarrow> v),
      uint_field = (\<lambda>w i. if 0 \<le> i \<and> i < 2 ^ w then Inr i else Inl ValueError)\<rparr>"

definition demo_tuple :: KeyTuple where
  "demo_tuple = \<lparr>tup_key = ''k'', lattice_type = NONE, tup_error = NO_ERROR, payload = [],
     address_cache_size = 0, invalidate = False\<rparr>"

text \<open>C3: what a client stores it reads back. Every storable lattice (a last-writer-wins pair with
  a 64-bit timestamp, a set or an ordered set of byte strings, a priority pair) is serialised,
  and deserialising the payload under the lattice type that came with it gives the same
  lattice.\<close>

theorem serialize_deserialize_roundtrip:
  assumes "uint_fields c" and "storable l"
    and "\<forall>m typ. lattice_serialize (uint_field c) l = Inr (m, typ) \<longrightarrow> reads_back c m"
  shows "\<exists>p typ. serialize c (PObj l) = Inr (p, typ) \<and>
    deserialize c (A_KeyTuple (t\<lparr>payload := p, lattice_type := typ\<rparr>)) = Inr l"
  using assms by (rule roundtrip_storable)

theorem serialize_deserialize_roundtrip_witness:
  "\<exists>p typ. serialize demo_codec (PObj (LWWPairLattice 7 [1, 2])) = Inr (p, typ) \<and>
     deserialize demo_codec (A_KeyTuple (demo_tuple\<lparr>payload := p, lattice_type := typ\<rparr>)) =
       Inr (LWWPairLattice 7 [1, 2])"
proof (rule serialize_deserialize_roundtrip)
  show "uint_fields demo_codec" by (simp add: uint_fields_def demo_codec_def)
  show "storable (LWWPairLattice 7 [1, 2])" by simp
  show "\<forall>m typ. lattice_serialize (uint_field demo_codec) (LWWPairLattice 7 [1, 2]) = Inr (m, typ) \<longrightarrow>
      reads_back demo_codec m"
    by (simp add: LWWPairLattice_serialize_def demo_codec_def reads_back_def)
qed

text \<open>C39: no causal value is ever read: whatever the generated classes do, deserialising a tuple
  of the causal protocol, or one whose lattice type is one of the causal types, raises.\<close>

theorem deserialize_causal_raises:
  "\<exists>e f g. deserialize c (A_CausalTuple p) = Inl e \<and>
     deserialize c (A_KeyTuple (t\<lparr>lattice_type := SINGLE_CAUSAL\<rparr>)) = Inl f \<and>
     deserialize c (A_KeyTuple (t\<lparr>lattice_type := MULTI_CAUSAL\<rparr>)) = Inl g"
  by (auto simp: deserialize_def deserialize_multi_causal_def deserialize_single_causal_def
      VectorClock_init_message_map bindE_def split: sum.splits prod.splits)

text \<open>Request ids.\<close>

primrec take_request_ids :: "nat \<Rightarrow> (AnnaTcpClient, string list) prog" where
  "take_request_ids 0 = returnS []"
| "take_request_ids (Suc n) = bindS get_request_id (\<lambda>i. bindS (take_request_ids n) (\<lambda>is. returnS (i # is)))"

lemma request_ids_run:
  "0 \<le> rid s \<Longrightarrow> rid s < 10000 \<Longrightarrow> \<exists>t. take_request_ids n s =
     (Return (map (\<lambda>k. ip (ut s) @ '':'' @ str_int ((rid s + int k) mod 10000)) [0..<n]), t) \<and>
     ut t = ut s \<and> rid t = (rid s + int n) mod 10000"
proof (induction n arbitrary: s)
  case (Suc n)
  have "0 \<le> rid (next_rid s)" "rid (next_rid s) < 10000" by simp_all
  from Suc.IH [OF this] obtain t where
    t: "take_request_ids n (next_rid s) = (Return (map (\<lambda>k. ip (ut s) @ '':'' @
          str_int ((rid s + 1 + int k) mod 10000)) [0..<n]), t)"
       "ut t = ut s" "rid t = (rid s + 1 + int n) mod 10000"
    by (auto simp: mod_simps)
  have "[0..<Suc n] = 0 # map Suc [0..<n]" by (simp add: upt_conv_Cons map_Suc_upt)
  then show ?case
    using t Suc.prems by (simp add: rid_str_def algebra_simps)
qed auto

text \<open>C17: the ids of any at most 10,000 consecutive requests are pairwise different, and the id
  after 10,000 requests is the first one again.\<close>

theorem request_ids_distinct:
  assumes "0 \<le> rid s" and "rid s < 10000" and "n \<le> 10000"
  shows "\<exists>ids t. take_request_ids n s = (Return ids, t) \<and> length ids = n \<and> distinct ids \<and>
    (n = 10000 \<longrightarrow> fst (get_request_id t) = fst (get_request_id s))"
proof -
  obtain t where t: "take_request_ids n s =
     (Return (map (\<lambda>k. ip (ut s) @ '':'' @ str_int ((rid s + int k) mod 10000)) [0..<n]), t)"
     "ut t = ut s" "rid t = (rid s + int n) mod 10000"
    using request_ids_run [OF assms(1,2)] by blast
  have "inj_on (\<lambda>k. ip (ut s) @ '':'' @ str_int ((rid s + int k) mod 10000)) {0..<n}"
  proof (rule inj_onI)
    fix j k
    assume "j \<in> {0..<n}" "k \<in> {0..<n}" and "ip (ut s) @ '':'' @ str_int ((rid s + int j) mod 10000) =
        ip (ut s) @ '':'' @ str_int ((rid s + int k) mod 10000)"
    then have "(rid s + int j) mod 10000 = (rid s + int k) mod 10000" "int j < 10000" "int k < 10000"
      using assms(3) by simp_all
    then show "j = k" by (rule mod_offset_inject)
  qed
  with t assms show ?thesis by (auto simp: distinct_map rid_str_def)
qed

definition demo_client :: AnnaTcpClient where
  "demo_client = \<lparr>elb_addr = ''lb'', elb_ports = [6450], ut = Thread_init ''c'' 0, address_cache = [],
     pusher_cache = SocketCache_init demo_context, response_puller = [], key_address_puller = [],
     rid = 9998, rng = []\<rparr>"

theorem request_ids_distinct_witness:
  "\<exists>ids t. take_request_ids 4 demo_client = (Return ids, t) \<and> length ids = 4 \<and> distinct ids"
  using request_ids_distinct [of demo_client 4] by (auto simp: demo_client_def)

end
