(* ===== verification/Anna_Client.thy ===== *)
theory Anna_Client
  imports Anna_Base_Client
begin

text \<open>
  \<^verbatim>\<open>client/python/anna/client.py\<close>, the client \<open>AnnaTcpClient\<close>: its constructor, the routing query
  and the address cache, and the operations \<open>get\<close>, \<open>get_all\<close>, \<open>put\<close> and \<open>put_all\<close>. Every
  operation is a program on the client object, so that the requests it sent and the cache
  entries it changed before an exception remain. The request and response messages are written
  and read by the parameter \<open>wire\<close>.
\<close>

section \<open>Parameters and helpers\<close>

record wire =
  KeyRequest_ser :: "KeyRequest \<Rightarrow> bytes"
  KeyResponse_parse :: "bytes \<Rightarrow> KeyResponse res"
  KeyAddressRequest_ser :: "KeyAddressRequest \<Rightarrow> bytes"
  KeyAddressResponse_parse :: "bytes \<Rightarrow> KeyAddressResponse res"
  wire_values :: codec

text \<open>An argument that is a list or a single value, and its normalisation to a list.\<close>

datatype 'a arg = Single 'a | ListOf "'a list"

fun as_list :: "'a arg \<Rightarrow> 'a list" where
  "as_list (Single x) = [x]"
| "as_list (ListOf xs) = xs"

text \<open>The result of \<open>_get_worker_address\<close>: \<open>None\<close>, one address or the list of all; and when Python
  takes it for true.\<close>

datatype workers = NoWorker | Worker string | Workers "string list"

fun worker_true :: "workers \<Rightarrow> bool" where
  "worker_true NoWorker = False"
| "worker_true (Worker a) = (a \<noteq> [])"
| "worker_true (Workers l) = (l \<noteq> [])"

fun worker_list :: "workers \<Rightarrow> string list" where
  "worker_list NoWorker = []"
| "worker_list (Worker a) = [a]"
| "worker_list (Workers l) = l"

definition random_choice :: "'a list \<Rightarrow> (AnnaTcpClient, 'a) prog" where
  "random_choice xs =
     bindS (getS rng) (\<lambda>draws.
     seqS (modS (\<lambda>self. self\<lparr>rng := tl draws\<rparr>))
          (liftE (choice (case draws of [] \<Rightarrow> 0 | r # _ \<Rightarrow> r) xs)))"

definition pusher_get :: "string \<Rightarrow> (AnnaTcpClient, nat) prog" where
  "pusher_get addr = zoom pusher_cache (\<lambda>c self. self\<lparr>pusher_cache := c\<rparr>) (SocketCache_get addr)"

definition send_on :: "('m \<Rightarrow> bytes) \<Rightarrow> 'm \<Rightarrow> nat \<Rightarrow> (AnnaTcpClient, unit) prog" where
  "send_on ser req sock =
     zoom (\<lambda>self. ctx (pusher_cache self))
       (\<lambda>c self. self\<lparr>pusher_cache := (pusher_cache self)\<lparr>ctx := c\<rparr>\<rparr>)
       (send_request ser req sock)"

definition recv_responses :: "wire \<Rightarrow> string list \<Rightarrow> (AnnaTcpClient, KeyResponse list) prog" where
  "recv_responses w ids =
     zoom response_puller (\<lambda>p self. self\<lparr>response_puller := p\<rparr>)
       (recv_response (KeyResponse_parse w) response_id ids)"

section \<open>Constructor\<close>

text \<open>\<open>bind\<close> fails on an address that a socket of the machine is bound to already; the state is the
  list of those addresses. \<open>inferred\<close> is the answer of the name service.\<close>

definition bind_addr :: "string \<Rightarrow> (string list, unit) prog" where
  "bind_addr addr = (\<lambda>bound. if addr \<in> set bound then (Raise ZMQError, bound) else (Return (), addr # bound))"

definition AnnaTcpClient_init ::
  "string \<Rightarrow> string option \<Rightarrow> bool \<Rightarrow> int \<Rightarrow> string res \<Rightarrow> bytes list \<Rightarrow> bytes list \<Rightarrow> nat list \<Rightarrow>
   (string list, AnnaTcpClient) prog" where
  "AnnaTcpClient_init elb i local offset inferred responses key_addresses draws =
     (let ports = (if local then [6450] else [6450, 6451, 6452, 6453]) in
      bindS (case i of Some a \<Rightarrow> if a \<noteq> [] then returnS a else liftE inferred
                     | None \<Rightarrow> liftE inferred) (\<lambda>a.
      let u = Thread_init a offset in
      seqS (bind_addr (get_request_pull_bind_addr u))
     (seqS (bind_addr (get_key_address_bind_addr u))
      (returnS \<lparr>elb_addr = elb, elb_ports = ports, ut = u, address_cache = [],
                pusher_cache = SocketCache_init \<lparr>connected = [], sent = []\<rparr>,
                response_puller = responses, key_address_puller = key_addresses, rid = 0,
                rng = draws\<rparr>))))"

section \<open>Routing\<close>

definition query_routing :: "wire \<Rightarrow> string \<Rightarrow> int \<Rightarrow> (AnnaTcpClient, string list) prog" where
  "query_routing w key port =
     bindS (getS (\<lambda>self. get_key_address_connect_addr (ut self))) (\<lambda>ra.
     bindS get_request_id (\<lambda>i.
     bindS (getS (\<lambda>self. ''tcp://'' @ elb_addr self @ '':'' @ str_int port)) (\<lambda>dst_addr.
     bindS (pusher_get dst_addr) (\<lambda>send_sock.
     seqS (send_on (KeyAddressRequest_ser w)
             \<lparr>kar_response_address = ra, kar_keys = [key], kar_request_id = i\<rparr> send_sock)
    (bindS (zoom key_address_puller (\<lambda>p self. self\<lparr>key_address_puller := p\<rparr>)
              (recv_response (KeyAddressResponse_parse w) kar_response_id [i])) (\<lambda>responses.
     bindS (liftE (list_get responses 0)) (\<lambda>response.
     if kar_error response \<noteq> 0 then returnS []
     else returnS (concat (map (\<lambda>(k, ips). if k = key then ips else []) (kar_addresses response))))))))))"

definition get_worker_address :: "wire \<Rightarrow> string \<Rightarrow> bool \<Rightarrow> (AnnaTcpClient, workers) prog" where
  "get_worker_address w key pick =
     bindS (getS (\<lambda>self. cached_addresses self key)) (\<lambda>cached.
     seqS (if cached = [] then
             bindS (getS elb_ports) (\<lambda>ports.
             bindS (random_choice ports) (\<lambda>port.
             bindS (query_routing w key port) (\<lambda>addresses.
             modS (\<lambda>self. self\<lparr>address_cache := dict_set key addresses (address_cache self)\<rparr>))))
           else returnS ())
    (bindS (getS (\<lambda>self. dict_getitem (address_cache self) key)) (\<lambda>r.
     bindS (liftE r) (\<lambda>addresses.
     if addresses = [] then returnS NoWorker
     else if pick then bindS (random_choice addresses) (\<lambda>a. returnS (Worker a))
     else returnS (Workers addresses)))))"

definition invalidate_cache :: "string \<Rightarrow> (AnnaTcpClient, unit) prog" where
  "invalidate_cache key =
     bindS (getS (\<lambda>self. dict_delitem key (address_cache self))) (\<lambda>r.
     bindS (liftE r) (\<lambda>d. modS (\<lambda>self. self\<lparr>address_cache := d\<rparr>)))"

section \<open>Operations\<close>

type_synonym kv_pairs = "(string, obj option) dict"

text \<open>The handling of one tuple of a response in \<open>get\<close>.\<close>

definition get_tuple :: "wire \<Rightarrow> KeyTuple \<Rightarrow> kv_pairs \<Rightarrow> (AnnaTcpClient, kv_pairs) prog" where
  "get_tuple w tup kv =
     seqS (if invalidate tup then invalidate_cache (tup_key tup) else returnS ())
       (if tup_error tup = NO_ERROR then
          bindS (liftE (deserialize (wire_values w) (A_KeyTuple tup))) (\<lambda>l.
          returnS (dict_set (tup_key tup) (Some l) kv))
        else returnS kv)"

definition get_send :: "wire \<Rightarrow> string \<times> workers \<Rightarrow> string list \<Rightarrow> (AnnaTcpClient, string list) prog" where
  "get_send w ka request_ids = (case ka of (key, a) \<Rightarrow>
     if worker_true a then
       (case a of Worker addr \<Rightarrow>
          bindS (pusher_get addr) (\<lambda>send_sock.
          bindS (prepare_data_request [key]) (\<lambda>req.
          seqS (send_on (KeyRequest_ser w) (req\<lparr>req_type := GET\<rparr>) send_sock)
            (returnS (request_ids @ [request_id req]))))
        | _ \<Rightarrow> raiseS TypeError)
     else returnS request_ids)"

definition get_workers :: "wire \<Rightarrow> bool \<Rightarrow> string list \<Rightarrow> (AnnaTcpClient, (string, workers) dict) prog" where
  "get_workers w pick keys =
     foldS (\<lambda>key d. bindS (get_worker_address w key pick) (\<lambda>a. returnS (dict_set key a d))) keys []"

definition no_pairs :: "string list \<Rightarrow> kv_pairs" where
  "no_pairs keys = fold (\<lambda>key d. dict_set key None d) keys []"

definition get :: "wire \<Rightarrow> string arg \<Rightarrow> (AnnaTcpClient, kv_pairs) prog" where
  "get w keys =
     bindS (get_workers w True (as_list keys)) (\<lambda>worker_addresses.
     bindS (foldS (get_send w) worker_addresses []) (\<lambda>request_ids.
     bindS (recv_responses w request_ids) (\<lambda>responses.
     foldS (\<lambda>response. foldS (get_tuple w) (resp_tuples response)) responses
       (no_pairs (as_list keys)))))"

text \<open>\<open>get_all\<close>: the request of a key is prepared from the \<open>str\<close> itself, and the list of awaited ids,
  \<open>None\<close> while it is unbound, is made anew for every key with addresses.\<close>

definition get_all_send ::
  "wire \<Rightarrow> (string, workers) dict \<Rightarrow> string \<Rightarrow> string list option \<Rightarrow> (AnnaTcpClient, string list option) prog" where
  "get_all_send w worker_addresses key req_ids =
     bindS (liftE (dict_getitem worker_addresses key)) (\<lambda>a.
     if worker_true a then
       bindS (prepare_data_request (str_iter key)) (\<lambda>req.
       bindS (foldS (\<lambda>address rq.
            bindS get_request_id (\<lambda>i.
            bindS (pusher_get address) (\<lambda>send_sock.
            seqS (send_on (KeyRequest_ser w) (rq\<lparr>request_id := i\<rparr>) send_sock)
              (returnS (rq\<lparr>request_id := i\<rparr>)))))
          (worker_list a) (req\<lparr>req_type := GET\<rparr>)) (\<lambda>rq.
       returnS (Some [request_id rq])))
     else returnS req_ids)"

definition get_all_tuple :: "wire \<Rightarrow> KeyTuple \<Rightarrow> kv_pairs \<Rightarrow> (AnnaTcpClient, kv_pairs) prog" where
  "get_all_tuple w tup kv =
     seqS (if invalidate tup then invalidate_cache (tup_key tup) else returnS ())
       (if tup_error tup = NO_ERROR then
          bindS (liftE (deserialize (wire_values w) (A_KeyTuple tup))) (\<lambda>v.
          bindS (liftE (dict_getitem kv (tup_key tup))) (\<lambda>old.
          case old of
            Some l \<Rightarrow> bindS (liftE (lattice_merge l (PObj v))) (\<lambda>(self', _).
                       returnS (dict_set (tup_key tup) (Some self') kv))
          | None \<Rightarrow> returnS (dict_set (tup_key tup) (Some v) kv)))
        else returnS kv)"

definition get_all :: "wire \<Rightarrow> string arg \<Rightarrow> (AnnaTcpClient, kv_pairs) prog" where
  "get_all w keys =
     (case keys of
        Single _ \<Rightarrow> raiseS ValueError
      | ListOf ks \<Rightarrow>
          bindS (get_workers w False ks) (\<lambda>worker_addresses.
          bindS (foldS (get_all_send w worker_addresses) ks None) (\<lambda>ids.
          case ids of
            None \<Rightarrow> raiseS UnboundLocalError
          | Some req_ids \<Rightarrow>
              bindS (recv_responses w req_ids) (\<lambda>responses.
              foldS (\<lambda>resp. foldS (get_all_tuple w) (resp_tuples resp)) responses (no_pairs ks)))))"

text \<open>\<open>put\<close>: the loop that sends the requests returns the ids, \<open>None\<close> for the early return.\<close>

fun put_send ::
  "wire \<Rightarrow> (string \<times> val) list \<Rightarrow> string list \<Rightarrow> (AnnaTcpClient, string list option) prog" where
  "put_send w [] request_ids = returnS (Some request_ids)"
| "put_send w ((key, v) # kvs) request_ids =
     bindS (get_worker_address w key True) (\<lambda>worker_address.
     if \<not> worker_true worker_address then returnS None
     else
       (case worker_address of Worker addr \<Rightarrow>
          bindS (pusher_get addr) (\<lambda>send_sock.
          bindS (prepare_data_request [key]) (\<lambda>req.
          bindS (liftE (list_get (req_tuples req) 0)) (\<lambda>tup.
          bindS (liftE (serialize (wire_values w) v)) (\<lambda>(p, typ).
          seqS (send_on (KeyRequest_ser w)
                  (req\<lparr>req_type := PUT, req_tuples := [tup\<lparr>payload := p, lattice_type := typ\<rparr>]\<rparr>) send_sock)
            (put_send w kvs (request_ids @ [request_id req]))))))
        | _ \<Rightarrow> raiseS TypeError))"

datatype put_result = PutFalse | PutResults "(string, bool) dict"

definition put_response :: "KeyResponse \<Rightarrow> (string, bool) dict \<Rightarrow> (AnnaTcpClient, (string, bool) dict) prog" where
  "put_response response results =
     bindS (liftE (list_get (resp_tuples response) 0)) (\<lambda>tup.
     seqS (if invalidate tup then invalidate_cache (tup_key tup) else returnS ())
       (returnS (dict_set (tup_key tup) (tup_error tup = NO_ERROR) results)))"

definition put :: "wire \<Rightarrow> string arg \<Rightarrow> val arg \<Rightarrow> (AnnaTcpClient, put_result) prog" where
  "put w keys values =
     bindS (put_send w (zip (as_list keys) (as_list values)) []) (\<lambda>ids.
     case ids of
       None \<Rightarrow> returnS PutFalse
     | Some request_ids \<Rightarrow>
         bindS (recv_responses w request_ids) (\<lambda>responses.
         bindS (foldS put_response responses []) (\<lambda>results.
         returnS (PutResults results))))"

text \<open>\<open>put_all\<close>: \<open>tup\<close> is the list of the prepared tuples, and assigning its attribute \<open>payload\<close>
  raises after the value was serialised; what follows in the method, the loops that send the requests
  and read the responses, is never reached. \<open>durable_put\<close> is no attribute of the client.\<close>

definition list_setattr :: "unit res" where
  "list_setattr = Inl AttributeError"

fun put_all_responses :: "KeyResponse list \<Rightarrow> (AnnaTcpClient, bool) prog" where
  "put_all_responses [] = returnS True"
| "put_all_responses (resp # responses) =
     bindS (liftE (list_get (resp_tuples resp) 0)) (\<lambda>tup.
     if invalidate tup then seqS (invalidate_cache (tup_key tup)) (raiseS AttributeError)
     else if tup_error tup \<noteq> NO_ERROR then returnS False
     else put_all_responses responses)"

definition put_all_send :: "wire \<Rightarrow> KeyRequest \<Rightarrow> workers \<Rightarrow> (AnnaTcpClient, string list) prog" where
  "put_all_send w req worker_addresses =
     bindS (foldS (\<lambda>address (rq, req_ids).
          bindS get_request_id (\<lambda>i.
          bindS (pusher_get address) (\<lambda>send_sock.
          seqS (send_on (KeyRequest_ser w) (rq\<lparr>request_id := i\<rparr>) send_sock)
            (returnS (rq\<lparr>request_id := i\<rparr>, req_ids @ [i])))))
        (worker_list worker_addresses) (req, [])) (\<lambda>(rq, req_ids). returnS req_ids)"

definition put_all :: "wire \<Rightarrow> string \<Rightarrow> val \<Rightarrow> (AnnaTcpClient, bool) prog" where
  "put_all w key v =
     bindS (get_worker_address w key False) (\<lambda>worker_addresses.
     if \<not> worker_true worker_addresses then returnS False
     else
       bindS (prepare_data_request (str_iter key)) (\<lambda>req.
       bindS (liftE (serialize (wire_values w) v)) (\<lambda>_.
       bindS (liftE list_setattr) (\<lambda>_.
       bindS (put_all_send w (req\<lparr>req_type := PUT\<rparr>) worker_addresses) (\<lambda>req_ids.
       bindS (recv_responses w req_ids) put_all_responses)))))"

lemma put_all_raises:
  "put_all w key v =
     bindS (get_worker_address w key False) (\<lambda>worker_addresses.
     if \<not> worker_true worker_addresses then returnS False
     else
       bindS (prepare_data_request (str_iter key)) (\<lambda>req.
       bindS (liftE (serialize (wire_values w) v)) (\<lambda>_. raiseS AttributeError)))"
proof -
  have "bindS (liftE list_setattr) f = raiseS AttributeError" for f :: "unit \<Rightarrow> (AnnaTcpClient, bool) prog"
    by (rule ext) (simp add: list_setattr_def)
  then show ?thesis unfolding put_all_def by (simp only:)
qed

end
