(* ===== verification/Anna_Client_Laws.thy ===== *)
theory Anna_Client_Laws
  imports Anna_Client "HOL-Library.Sublist"
begin

text \<open>
  The laws of the client: the invariant of the client object, which every operation keeps
  however it ends; the address cache as a cache that fills itself; and what the operations send,
  await and return.
\<close>

section \<open>What was sent\<close>

abbreviation links :: "AnnaTcpClient \<Rightarrow> string list" where
  "links s \<equiv> connected (ctx (pusher_cache s))"

abbreviation outbox :: "AnnaTcpClient \<Rightarrow> (nat \<times> bytes) list" where
  "outbox s \<equiv> sent (ctx (pusher_cache s))"

text \<open>The data sent so far with the address that each was sent to.\<close>

definition delivered :: "AnnaTcpClient \<Rightarrow> (string \<times> bytes) list" where
  "delivered s = map (\<lambda>(sock, b). (links s ! sock, b)) (outbox s)"

definition client_inv :: "AnnaTcpClient \<Rightarrow> bool" where
  "client_inv s \<longleftrightarrow> 0 \<le> rid s \<and> rid s < 10000 \<and> dict_wf (address_cache s) \<and>
     cache_inv (pusher_cache s) \<and> (\<forall>(sock, b) \<in> set (outbox s). sock < length (links s))"

lemma pusher_get_run:
  assumes "client_inv s"
  obtains sock c where "pusher_get addr s = (Return sock, s\<lparr>pusher_cache := c\<rparr>)"
    and "sock < length (connected (ctx c))" and "connected (ctx c) ! sock = addr"
    and "prefix (links s) (connected (ctx c))" and "sent (ctx c) = outbox s" and "cache_inv c"
proof -
  obtain r c where rc: "SocketCache_get addr (pusher_cache s) = (r, c)" by fastforce
  then have "cache_inv c" using assms by (auto simp: client_inv_def intro: cache_inv_get)
  have keep: "sent (ctx c) = outbox s" "prefix (links s) (connected (ctx c))"
    using rc by (auto simp: SocketCache_get_def dict_mem_def dict_getitem_def Let_def
        split: if_splits option.splits)
  obtain sock where sock: "r = Return sock"
    using rc by (auto simp: SocketCache_get_def dict_mem_def dict_getitem_def Let_def
        split: if_splits option.splits)
  then have "(addr, sock) \<in> set (cache c)"
    using sc.get_caches [of addr "pusher_cache s"] rc by (auto intro: map_of_SomeD)
  with \<open>cache_inv c\<close> have "sock < length (connected (ctx c))" "connected (ctx c) ! sock = addr"
    by (auto simp: cache_inv_def)
  with keep \<open>cache_inv c\<close> rc sock show thesis
    by (intro that) (simp_all add: pusher_get_def)
qed

lemma send_on_run [simp]:
  "send_on ser req sock s = (Return (), s\<lparr>pusher_cache := (pusher_cache s)
     \<lparr>ctx := (ctx (pusher_cache s))\<lparr>sent := outbox s @ [(sock, ser req)]\<rparr>\<rparr>\<rparr>)"
  by (simp add: send_on_def send_request_def zoom_def)

lemma delivered_links:
  assumes "client_inv s" and "prefix (links s) (links t)" and "outbox t = outbox s"
  shows "delivered t = delivered s"
  using assms by (auto simp: delivered_def client_inv_def prefix_def nth_append)

section \<open>The invariant\<close>

text \<open>
  The invariant relative to an earlier state \<open>s0\<close>: what was delivered stays delivered. The number
  \<open>n\<close> bounds the sockets known to be connected, so that the rule for a program that first asks for
  a socket can pass its number on.
\<close>

definition inv_from :: "AnnaTcpClient \<Rightarrow> nat \<Rightarrow> AnnaTcpClient \<Rightarrow> bool" where
  "inv_from s0 n s \<longleftrightarrow> client_inv s \<and> prefix (delivered s0) (delivered s) \<and> n \<le> length (links s) \<and>
     ut s = ut s0 \<and> elb_addr s = elb_addr s0 \<and> elb_ports s = elb_ports s0"

named_theorems client_keeps "programs of the client that keep the invariant"

lemma keeps_pusher:
  assumes "\<And>sock m. sock < m \<Longrightarrow> keeps (inv_from s0 m) (f sock)"
  shows "keeps (inv_from s0 n) (bindS (pusher_get addr) f)"
proof (rule keepsI)
  fix s
  assume s: "inv_from s0 n s"
  then have "client_inv s" by (simp add: inv_from_def)
  then obtain sock c where c: "pusher_get addr s = (Return sock, s\<lparr>pusher_cache := c\<rparr>)"
    "sock < length (connected (ctx c))" "prefix (links s) (connected (ctx c))"
    "sent (ctx c) = outbox s" "cache_inv c"
    by (rule pusher_get_run)
  let ?t = "s\<lparr>pusher_cache := c\<rparr>" and ?m = "length (connected (ctx c))"
  have "delivered ?t = delivered s" using \<open>client_inv s\<close> c by (intro delivered_links) simp_all
  moreover have "client_inv ?t"
    using \<open>client_inv s\<close> c(4,5) prefix_length_le [OF c(3)] by (fastforce simp: client_inv_def)
  ultimately have "inv_from s0 ?m ?t" using s by (simp add: inv_from_def)
  then have "inv_from s0 ?m (snd (f sock ?t))" using assms [OF c(2)] by (simp add: keeps_def)
  moreover have "n \<le> ?m" using s prefix_length_le [OF c(3)] by (simp add: inv_from_def)
  ultimately show "inv_from s0 n (snd (bindS (pusher_get addr) f s))"
    using c(1) by (simp add: inv_from_def)
qed

lemma keeps_case_workers [client_keeps]:
  "keeps P m \<Longrightarrow> (\<And>a. keeps P (f a)) \<Longrightarrow> (\<And>l. keeps P (g l)) \<Longrightarrow>
   keeps P (case z of NoWorker \<Rightarrow> m | Worker a \<Rightarrow> f a | Workers l \<Rightarrow> g l)"
  by (cases z) simp_all

lemma keeps_send_on [client_keeps]:
  "sock < n \<Longrightarrow> keeps (inv_from s0 n) (send_on ser req sock)"
  by (rule keepsI) (auto simp: inv_from_def client_inv_def cache_inv_def delivered_def prefix_def)

lemma keeps_request_id [client_keeps]: "keeps (inv_from s0 n) get_request_id"
  by (rule keepsI) (simp add: inv_from_def client_inv_def delivered_def)

lemma keeps_prepare [client_keeps]: "keeps (inv_from s0 n) (prepare_data_request keys)"
  by (rule keepsI) (simp add: inv_from_def client_inv_def delivered_def)

lemma keeps_random_choice [client_keeps]: "keeps (inv_from s0 n) (random_choice xs)"
  unfolding random_choice_def
  by (intro py_keeps keeps_modS) (simp add: inv_from_def client_inv_def delivered_def)

lemma keeps_invalidate [client_keeps]: "keeps (inv_from s0 n) (invalidate_cache key)"
proof (rule keepsI)
  fix s
  assume "inv_from s0 n s"
  then show "inv_from s0 n (snd (invalidate_cache key s))"
    by (cases "dict_mem key (address_cache s)")
      (auto simp: invalidate_cache_def dict_delitem_def inv_from_def client_inv_def delivered_def)
qed

lemma keeps_recv [client_keeps]:
  "keeps (inv_from s0 n) (zoom response_puller (\<lambda>p self. self\<lparr>response_puller := p\<rparr>) m)"
  "keeps (inv_from s0 n) (zoom key_address_puller (\<lambda>p self. self\<lparr>key_address_puller := p\<rparr>) m')"
  by (rule keepsI; simp add: zoom_def inv_from_def client_inv_def delivered_def split: prod.splits)+

lemma keeps_recv_responses [client_keeps]: "keeps (inv_from s0 n) (recv_responses w ids)"
  unfolding recv_responses_def by (rule client_keeps)

lemma keeps_query_routing [client_keeps]: "keeps (inv_from s0 n) (query_routing w key port)"
  unfolding query_routing_def
  by ((rule keeps_pusher | rule client_keeps | rule py_keeps | assumption)+)

lemma keeps_enter_addresses [client_keeps]:
  "keeps (inv_from s0 n) (modS (\<lambda>self. self\<lparr>address_cache := dict_set key a (address_cache self)\<rparr>))"
  by (rule keeps_modS) (auto simp: inv_from_def client_inv_def delivered_def)

lemma keeps_get_worker_address [client_keeps]: "keeps (inv_from s0 n) (get_worker_address w key pick)"
  unfolding get_worker_address_def
  by ((rule client_keeps | rule py_keeps)+)

lemma keeps_get_workers [client_keeps]: "keeps (inv_from s0 n) (get_workers w pick keys)"
  unfolding get_workers_def by ((rule client_keeps | rule py_keeps)+)

lemma keeps_get_tuple [client_keeps]: "keeps (inv_from s0 n) (get_tuple w tup kv)"
  unfolding get_tuple_def by ((rule client_keeps | rule py_keeps)+)

lemma keeps_get_send [client_keeps]: "keeps (inv_from s0 n) (get_send w ka ids)"
  unfolding get_send_def
  by ((rule keeps_pusher | rule client_keeps | rule py_keeps | assumption)+)

lemma keeps_get: "keeps (inv_from s0 n) (get w keys)"
  unfolding get_def by ((rule client_keeps | rule py_keeps)+)

lemma keeps_get_all_send [client_keeps]: "keeps (inv_from s0 n) (get_all_send w d key ids)"
  unfolding get_all_send_def
  by ((rule keeps_pusher | rule client_keeps | rule py_keeps | assumption)+)

lemma keeps_get_all_tuple [client_keeps]: "keeps (inv_from s0 n) (get_all_tuple w tup kv)"
  unfolding get_all_tuple_def by ((rule client_keeps | rule py_keeps)+)

lemma keeps_get_all: "keeps (inv_from s0 n) (get_all w keys)"
  unfolding get_all_def by (cases keys; simp only: arg.case; (rule client_keeps | rule py_keeps)+)

lemma keeps_put_send [client_keeps]: "keeps (inv_from s0 n) (put_send w kvs ids)"
proof (induction kvs arbitrary: n ids)
  case (Cons kv kvs)
  show ?case
    by (cases kv; simp only: put_send.simps)
      ((rule keeps_pusher | rule client_keeps | rule py_keeps | assumption | rule Cons.IH)+)
qed (simp add: keeps_returnS)

lemma keeps_put_response [client_keeps]: "keeps (inv_from s0 n) (put_response r d)"
  unfolding put_response_def by ((rule client_keeps | rule py_keeps)+)

lemma keeps_put: "keeps (inv_from s0 n) (put w keys values)"
  unfolding put_def by ((rule client_keeps | rule py_keeps)+)

lemma keeps_put_all: "keeps (inv_from s0 n) (put_all w key v)"
  unfolding put_all_raises by ((rule client_keeps | rule py_keeps)+)

lemma inv_from_refl: "client_inv s \<Longrightarrow> inv_from s 0 s"
  by (simp add: inv_from_def)

lemma SocketCache_init_sel [simp]: "ctx (SocketCache_init c) = c" "cache (SocketCache_init c) = []"
  by (simp_all add: SocketCache_init_def)

lemma client_inv_init:
  "AnnaTcpClient_init elb i local offset inferred rs ks draws bound = (Return s, bound') \<Longrightarrow> client_inv s"
  by (auto simp: AnnaTcpClient_init_def client_inv_def cache_inv_init py_inv Let_def split: option.splits if_splits)

definition started_client :: "string \<Rightarrow> string \<Rightarrow> bool \<Rightarrow> int \<Rightarrow> bytes list \<Rightarrow> bytes list \<Rightarrow> nat list \<Rightarrow> AnnaTcpClient" where
  "started_client elb a local offset rs ks draws =
     \<lparr>elb_addr = elb, elb_ports = (if local then [6450] else [6450, 6451, 6452, 6453]),
      ut = Thread_init a offset, address_cache = [],
      pusher_cache = SocketCache_init \<lparr>connected = [], sent = []\<rparr>,
      response_puller = rs, key_address_puller = ks, rid = 0, rng = draws\<rparr>"

definition bind_addrs :: "int \<Rightarrow> string list" where
  "bind_addrs offset = [''tcp://*:'' @ str_int (offset + 6760), ''tcp://*:'' @ str_int (offset + 6460)]"

lemma AnnaTcpClient_init_run:
  assumes "a \<noteq> []"
  shows "AnnaTcpClient_init elb (Some a) local offset inferred rs ks draws bound =
    (if ''tcp://*:'' @ str_int (offset + 6460) \<in> set bound then (Raise ZMQError, bound)
     else if ''tcp://*:'' @ str_int (offset + 6760) \<in> set bound
     then (Raise ZMQError, (''tcp://*:'' @ str_int (offset + 6460)) # bound)
     else (Return (started_client elb a local offset rs ks draws), bind_addrs offset @ bound))"
proof -
  have u: "get_request_pull_bind_addr (Thread_init a offset) = ''tcp://*:'' @ str_int (offset + 6460)"
    "get_key_address_bind_addr (Thread_init a offset) = ''tcp://*:'' @ str_int (offset + 6760)"
    by (simp_all add: get_request_pull_bind_addr_def get_key_address_bind_addr_def Thread_init_def
        REQUEST_PULLING_BASE_PORT_def KEY_ADDRESS_BASE_PORT_def)
  have "str_int (offset + 6760) \<noteq> str_int (offset + 6460)" by simp
  then show ?thesis
    using assms unfolding AnnaTcpClient_init_def Let_def option.case
    by (simp add: u bind_addr_def started_client_def bind_addrs_def seqS_def bindS_def)
qed

text \<open>Clients on one machine. Once a client runs, a second one with the same offset cannot
  start, and neither can one whose offset is 300 less or more; with any other offset it starts,
  with an empty address cache and request number 0.\<close>

lemma second_client_starts:
  assumes "a \<noteq> []" and "b \<noteq> []"
    and "AnnaTcpClient_init elb (Some a) local m inferred rs ks draws [] = (Return s, bound)"
  shows "if n = m \<or> n = m + 300 \<or> n = m - 300
    then fst (AnnaTcpClient_init elb' (Some b) local' n inferred' rs' ks' draws' bound) = Raise ZMQError
    else fst (AnnaTcpClient_init elb' (Some b) local' n inferred' rs' ks' draws' bound) =
      Return (started_client elb' b local' n rs' ks' draws')"
  using assms(3) unfolding AnnaTcpClient_init_run [OF assms(1)] AnnaTcpClient_init_run [OF assms(2)]
  by (auto simp: bind_addrs_def)

lemma second_client_starts_witness:
  "\<exists>s bound. AnnaTcpClient_init ''lb'' (Some ''h'') False 0 (Inl OSError) [] [] [] [] = (Return s, bound) \<and>
     fst (AnnaTcpClient_init ''lb'' (Some ''h'') False 300 (Inl OSError) [] [] [] bound) = Raise ZMQError \<and>
     fst (AnnaTcpClient_init ''lb'' (Some ''h'') False 1 (Inl OSError) [] [] [] bound) =
       Return (started_client ''lb'' ''h'' False 1 [] [] [])"
proof -
  obtain s bound where
    s: "AnnaTcpClient_init ''lb'' (Some ''h'') False 0 (Inl OSError) [] [] [] [] = (Return s, bound)"
    by (simp add: AnnaTcpClient_init_run)
  with second_client_starts [OF _ _ s, of "''h''" 300 "''lb''" False "Inl OSError" "[]" "[]" "[]"]
    second_client_starts [OF _ _ s, of "''h''" 1 "''lb''" False "Inl OSError" "[]" "[]" "[]"]
  show ?thesis by auto
qed

text \<open>The life of a client: its operations in any order, each ending in any way, and the arrival
  of data at its two sockets.\<close>

inductive client_step :: "wire \<Rightarrow> AnnaTcpClient \<Rightarrow> AnnaTcpClient \<Rightarrow> bool" for w where
  get_step: "get w keys s = (r, t) \<Longrightarrow> client_step w s t"
| get_all_step: "get_all w keys s = (r, t) \<Longrightarrow> client_step w s t"
| put_step: "put w keys values s = (r', t) \<Longrightarrow> client_step w s t"
| put_all_step: "put_all w key v s = (r'', t) \<Longrightarrow> client_step w s t"
| arrival: "client_step w s (s\<lparr>response_puller := response_puller s @ rs,
              key_address_puller := key_address_puller s @ ks\<rparr>)"

inductive client_reachable :: "wire \<Rightarrow> AnnaTcpClient \<Rightarrow> bool" for w where
  started: "AnnaTcpClient_init elb i local offset inferred rs ks draws bound = (Return s, bound') \<Longrightarrow>
     client_reachable w s"
| stepped: "client_reachable w s \<Longrightarrow> client_step w s t \<Longrightarrow> client_reachable w t"

lemma client_step_inv_from: "client_step w s t \<Longrightarrow> client_inv s \<Longrightarrow> inv_from s 0 t"
proof (induction rule: client_step.induct)
  case (arrival s rs ks)
  then show ?case by (simp add: inv_from_def client_inv_def delivered_def)
qed (auto intro: keepsD [OF keeps_get] keepsD [OF keeps_get_all] keepsD [OF keeps_put]
    keepsD [OF keeps_put_all] inv_from_refl)

text \<open>C11: in every state that a client reaches, by any sequence of operations however they ended,
  its request number is in range, its address cache has one entry per key, every cached socket is
  connected to the address it is cached for and everything that was sent went to a connected
  socket; and a further operation only ever adds to what was delivered, and keeps the client's
  own addresses.\<close>

theorem client_reachable_inv:
  assumes "client_reachable w s"
  shows "client_inv s \<and> (\<forall>t. client_step w s t \<longrightarrow> prefix (delivered s) (delivered t) \<and> ut t = ut s)"
proof -
  have "client_inv s"
    using assms by induction (auto simp: client_inv_init dest: client_step_inv_from simp: inv_from_def)
  then show ?thesis using client_step_inv_from by (auto simp: inv_from_def)
qed

definition demo_wire :: wire where
  "demo_wire = \<lparr>KeyRequest_ser = (\<lambda>m. utf8 (request_id m)),
     KeyResponse_parse = (\<lambda>b. Inl DecodeError), KeyAddressRequest_ser = (\<lambda>m. []),
     KeyAddressResponse_parse = (\<lambda>b. Inl DecodeError), wire_values = demo_codec\<rparr>"

theorem client_reachable_inv_witness:
  "\<exists>s. client_reachable demo_wire s \<and> client_inv s \<and>
     (\<forall>t. client_step demo_wire s t \<longrightarrow> prefix (delivered s) (delivered t) \<and> ut t = ut s)"
proof -
  obtain s b where "AnnaTcpClient_init ''lb'' (Some ''h'') True 0 (Inl OSError) [] [] [] [] = (Return s, b)"
    by (simp add: AnnaTcpClient_init_run)
  then have "client_reachable demo_wire s" by (rule started)
  with client_reachable_inv [OF this] show ?thesis by blast
qed

section \<open>The address cache\<close>

lemma random_choice_run:
  assumes "xs \<noteq> []"
  obtains x where "x \<in> set xs" "random_choice xs s = (Return x, s\<lparr>rng := tl (rng s)\<rparr>)"
proof -
  let ?r = "case rng s of [] \<Rightarrow> 0 | r # _ \<Rightarrow> r"
  obtain x where "choice ?r xs = Inr x" using choice_total [OF assms] by blast
  moreover from this have "x \<in> set xs" by (rule choice_member)
  ultimately show thesis by (intro that) (simp_all add: random_choice_def)
qed

lemma keeps_address_cache_query:
  "keeps (\<lambda>s. address_cache s = d) (query_routing w key port)"
proof -
  have *: "keeps (\<lambda>s. address_cache s = d) (pusher_get a)" for a
    by (rule keepsI) (simp add: pusher_get_def zoom_def split: prod.splits)
  have **: "keeps (\<lambda>s. address_cache s = d) get_request_id"
      "keeps (\<lambda>s. address_cache s = d) (send_on ser req sock)" for ser :: "'m \<Rightarrow> bytes" and req sock
    by (rule keepsI; simp)+
  have ***: "keeps (\<lambda>s. address_cache s = d)
      (zoom key_address_puller (\<lambda>p self. self\<lparr>key_address_puller := p\<rparr>) m)" for m :: "(bytes list, 'm) prog"
    by (rule keepsI) (simp add: zoom_def split: prod.splits)
  show ?thesis
    unfolding query_routing_def by ((rule * | rule ** | rule *** | rule py_keeps)+)
qed

lemma get_worker_address_hit:
  assumes "cached_addresses s key \<noteq> []"
  shows "get_worker_address w key False s = (Return (Workers (cached_addresses s key)), s)"
    and "\<exists>a \<in> set (cached_addresses s key).
      get_worker_address w key True s = (Return (Worker a), s\<lparr>rng := tl (rng s)\<rparr>)"
proof -
  have get: "dict_getitem (address_cache s) key = Inr (cached_addresses s key)"
    using assms by (auto simp: cached_addresses_def dict_getitem_def split: option.splits)
  then show "get_worker_address w key False s = (Return (Workers (cached_addresses s key)), s)"
    using assms by (simp add: get_worker_address_def)
  obtain a where "a \<in> set (cached_addresses s key)"
      "random_choice (cached_addresses s key) s = (Return a, s\<lparr>rng := tl (rng s)\<rparr>)"
    by (rule random_choice_run [OF assms])
  then show "\<exists>a \<in> set (cached_addresses s key).
      get_worker_address w key True s = (Return (Worker a), s\<lparr>rng := tl (rng s)\<rparr>)"
    using assms get by (intro bexI) (simp_all add: get_worker_address_def)
qed

definition address_look :: "AnnaTcpClient \<Rightarrow> string \<Rightarrow> workers option" where
  "address_look s key =
     (if cached_addresses s key = [] then None else Some (Workers (cached_addresses s key)))"

lemma keeps_address_cache_choice: "keeps (\<lambda>s. address_cache s = d) (random_choice xs)"
  unfolding random_choice_def by (intro py_keeps keeps_modS) simp

lemma get_worker_address_answered:
  assumes "cached_addresses s key = []" and "random_choice (elb_ports s) s = (Return port, u)"
    and "query_routing w key port u = (Return l, v)"
  shows "get_worker_address w key False s =
    (Return (if l = [] then NoWorker else Workers l),
     v\<lparr>address_cache := dict_set key l (address_cache v)\<rparr>)"
  by (simp add: get_worker_address_def assms)

lemma get_worker_address_no_answer:
  assumes "cached_addresses s key = []" and "random_choice (elb_ports s) s = (Return port, u)"
    and "query_routing w key port u = (q, v)" and "\<nexists>l. q = Return l"
  shows "\<exists>r. get_worker_address w key False s = (r, v) \<and> (\<nexists>x. r = Return x)"
  by (cases q) (use assms in \<open>simp_all add: get_worker_address_def\<close>)

lemma get_worker_address_no_port:
  assumes "cached_addresses s key = []" and "random_choice (elb_ports s) s = (p, u)" and "\<nexists>x. p = Return x"
  shows "\<exists>r. get_worker_address w key False s = (r, u) \<and> (\<nexists>x. r = Return x)"
  by (cases p) (use assms in \<open>simp_all add: get_worker_address_def\<close>)

lemma get_worker_address_miss:
  assumes "cached_addresses s key = []" and "get_worker_address w key False s = (r, t)"
  shows "(\<exists>l. r = Return (if l = [] then NoWorker else Workers l) \<and>
      address_cache t = dict_set key l (address_cache s)) \<or>
    (\<nexists>x. r = Return x) \<and> address_cache t = address_cache s"
proof -
  obtain p u where p: "random_choice (elb_ports s) s = (p, u)" by fastforce
  have u: "address_cache u = address_cache s"
    by (rule keepsD [OF keeps_address_cache_choice _ p]) simp
  show ?thesis
  proof (cases "\<exists>port. p = Return port")
    case True
    then obtain port where port: "random_choice (elb_ports s) s = (Return port, u)" using p by blast
    obtain q v where q: "query_routing w key port u = (q, v)" by fastforce
    have v: "address_cache v = address_cache s"
      by (rule keepsD [OF keeps_address_cache_query _ q]) (rule u)
    show ?thesis
    proof (cases "\<exists>l. q = Return l")
      case True
      then obtain l where "query_routing w key port u = (Return l, v)" using q by blast
      from get_worker_address_answered [OF assms(1) port this] assms(2) v show ?thesis by auto
    next
      case False
      from get_worker_address_no_answer [OF assms(1) port q this] assms(2) v show ?thesis by simp
    qed
  next
    case False
    from get_worker_address_no_port [OF assms(1) p this, of w] assms(2) u show ?thesis by simp
  qed
qed

interpretation wa: memo_cache address_look "\<lambda>v. v \<noteq> NoWorker" "\<lambda>key. get_worker_address w key False" for w
proof unfold_locales
  fix s :: AnnaTcpClient and k k' v r t
  show "address_look s k = Some v \<Longrightarrow> get_worker_address w k False s = (Return v, s)"
    by (auto simp: address_look_def get_worker_address_hit(1) split: if_splits)
  assume "address_look s k = None"
  then have miss: "cached_addresses s k = []" by (simp add: address_look_def split: if_splits)
  show "get_worker_address w k False s = (Return v, t) \<Longrightarrow> v \<noteq> NoWorker \<Longrightarrow> address_look t k = Some v"
    using get_worker_address_miss [OF miss, of w "Return v" t]
    by (auto simp: address_look_def cached_addresses_def update_conv' split: if_splits)
  show "get_worker_address w k False s = (r, t) \<Longrightarrow> k' \<noteq> k \<Longrightarrow> address_look t k' = address_look s k'"
    using get_worker_address_miss [OF miss, of w r t]
    by (auto simp: address_look_def cached_addresses_def update_conv')
qed

text \<open>C26: the worker addresses of a key are asked for once. After a call has returned the addresses
  of a key, and after any calls for other keys (however they ended), the call returns the same
  addresses again and changes nothing: no request is sent and no random number is drawn.\<close>

theorem worker_addresses_cached:
  assumes "get_worker_address w key False s = (Return (Workers l), t)"
    and "forS keys (\<lambda>k. seqS (get_worker_address w k False) (returnS ())) t = (r, u)"
  shows "get_worker_address w key False u = (Return (Workers l), u)"
  by (rule wa.get_after_others [OF assms(1) _ assms(2)]) simp

definition demo_routed :: AnnaTcpClient where
  "demo_routed = demo_client\<lparr>address_cache := [(''k'', [''w1'', ''w2''])]\<rparr>"

theorem worker_addresses_cached_witness:
  "get_worker_address demo_wire ''k'' False demo_routed = (Return (Workers [''w1'', ''w2'']), demo_routed) \<and>
   (\<exists>r u. forS [''j''] (\<lambda>k. seqS (get_worker_address demo_wire k False) (returnS ())) demo_routed = (r, u) \<and>
     get_worker_address demo_wire ''k'' False u = (Return (Workers [''w1'', ''w2'']), u))"
proof -
  have 1: "get_worker_address demo_wire ''k'' False demo_routed =
      (Return (Workers [''w1'', ''w2'']), demo_routed)"
    using get_worker_address_hit(1) [of demo_routed "''k''" demo_wire]
    by (simp add: cached_addresses_def demo_routed_def)
  obtain r u where
    2: "forS [''j''] (\<lambda>k. seqS (get_worker_address demo_wire k False) (returnS ())) demo_routed = (r, u)"
    by fastforce
  from 1 2 worker_addresses_cached [OF 1 2] show ?thesis by blast
qed

section \<open>Sending\<close>

definition put_request :: "AnnaTcpClient \<Rightarrow> string \<Rightarrow> bytes \<times> LatticeType \<Rightarrow> KeyRequest" where
  "put_request s key pt =
     \<lparr>req_type = PUT, req_tuples = [(request_tuple s key)\<lparr>payload := fst pt, lattice_type := snd pt\<rparr>],
      req_response_address = response_address s, request_id = rid_str s\<rparr>"

definition advance :: "nat \<Rightarrow> AnnaTcpClient \<Rightarrow> AnnaTcpClient" where
  "advance i s = s\<lparr>rid := (rid s + int i) mod 10000\<rparr>"

text \<open>Two states agree on what a request is made of.\<close>

definition same_view :: "AnnaTcpClient \<Rightarrow> AnnaTcpClient \<Rightarrow> bool" where
  "same_view s t \<longleftrightarrow> address_cache t = address_cache s \<and> ut t = ut s \<and> rid t = rid s \<and>
     response_puller t = response_puller s \<and> key_address_puller t = key_address_puller s"

lemma same_view_request:
  assumes "same_view s t"
  shows "put_request t key pt = put_request s key pt" "rid_str t = rid_str s"
    "data_request keys t = data_request keys s" "cached_addresses t key = cached_addresses s key"
    "same_view (advance n s) (advance n t)"
  using assms by (simp_all add: same_view_def put_request_def rid_str_def data_request_def
      request_tuple_def [abs_def] cached_addresses_def response_address_def advance_def)

lemma push_state:
  assumes "client_inv s" and "sock < length (connected (ctx c))" and "connected (ctx c) ! sock = addr"
    and "prefix (links s) (connected (ctx c))" and "sent (ctx c) = outbox s" and "cache_inv c"
    and "t = (next_rid (s\<lparr>rng := g, pusher_cache := c\<rparr>))
      \<lparr>pusher_cache := c\<lparr>ctx := (ctx c)\<lparr>sent := sent (ctx c) @ [(sock, b)]\<rparr>\<rparr>\<rparr>"
  shows "client_inv t \<and> delivered t = delivered s @ [(addr, b)] \<and> same_view (advance 1 s) t"
proof -
  have "client_inv t"
    using assms prefix_length_le [OF assms(4)] by (fastforce simp: client_inv_def cache_inv_def)
  moreover have "delivered (s\<lparr>pusher_cache := c\<rparr>) = delivered s"
    using assms by (intro delivered_links) simp_all
  then have "delivered t = delivered s @ [(addr, b)]"
    using assms(3,7) by (simp add: delivered_def)
  moreover have "same_view (advance 1 s) t"
    by (simp add: assms(7) same_view_def advance_def)
  ultimately show ?thesis by blast
qed

lemma put_send_one:
  assumes "client_inv s" and "cached_addresses s key \<noteq> []" and "[] \<notin> set (cached_addresses s key)"
    and "serialize (wire_values w) v = Inr pt"
  shows "\<exists>a t. a \<in> set (cached_addresses s key) \<and> client_inv t \<and> same_view (advance 1 s) t \<and>
    delivered t = delivered s @ [(a, KeyRequest_ser w (put_request s key pt))] \<and>
    (\<forall>kvs ids. put_send w ((key, v) # kvs) ids s = put_send w kvs (ids @ [rid_str s]) t)"
proof -
  obtain a where a: "a \<in> set (cached_addresses s key)"
    and hit: "get_worker_address w key True s = (Return (Worker a), s\<lparr>rng := tl (rng s)\<rparr>)"
    using get_worker_address_hit(2) [OF assms(2)] by blast
  then have "a \<noteq> []" using assms(3) by metis
  let ?s = "s\<lparr>rng := tl (rng s)\<rparr>"
  have "client_inv ?s" using assms(1) by (simp add: client_inv_def)
  then obtain sock c where push: "pusher_get a ?s = (Return sock, ?s\<lparr>pusher_cache := c\<rparr>)"
    and c: "sock < length (connected (ctx c))" "connected (ctx c) ! sock = a"
      "prefix (links ?s) (connected (ctx c))" "sent (ctx c) = outbox ?s" "cache_inv c"
    by (rule pusher_get_run)
  let ?b = "KeyRequest_ser w (put_request s key pt)"
  define t where "t = (next_rid (s\<lparr>rng := tl (rng s), pusher_cache := c\<rparr>))
      \<lparr>pusher_cache := c\<lparr>ctx := (ctx c)\<lparr>sent := sent (ctx c) @ [(sock, ?b)]\<rparr>\<rparr>\<rparr>"
  have view: "same_view s (s\<lparr>rng := tl (rng s), pusher_cache := c\<rparr>)" by (simp add: same_view_def)
  have "(data_request [key] (s\<lparr>rng := tl (rng s), pusher_cache := c\<rparr>))
      \<lparr>req_type := PUT, req_tuples := [(request_tuple s key)\<lparr>payload := fst pt, lattice_type := snd pt\<rparr>]\<rparr> =
      put_request s key pt"
    unfolding same_view_request(3) [OF view] by (simp add: data_request_def put_request_def)
  moreover have "list_get (req_tuples (data_request [key] (s\<lparr>rng := tl (rng s), pusher_cache := c\<rparr>))) 0 =
      Inr (request_tuple s key)"
    unfolding same_view_request(3) [OF view] by (simp add: data_request_def list_get_def)
  moreover have "request_id (data_request [key] (s\<lparr>rng := tl (rng s), pusher_cache := c\<rparr>)) = rid_str s"
    unfolding same_view_request(3) [OF view] by (simp add: data_request_def)
  ultimately have "put_send w ((key, v) # kvs) ids s = put_send w kvs (ids @ [rid_str s]) t" for kvs ids
    using hit push \<open>a \<noteq> []\<close> assms(4) by (simp add: t_def case_prod_unfold)
  moreover have "client_inv t \<and> delivered t = delivered s @ [(a, ?b)] \<and> same_view (advance 1 s) t"
    by (rule push_state [OF assms(1) c(1,2) _ _ c(5) t_def]) (use c(3,4) in simp_all)
  ultimately show ?thesis using a by blast
qed

lemma advance_advance [simp]: "advance i (advance j s) = advance (j + i) s"
  by (simp add: advance_def mod_simps algebra_simps)

lemma advance_0: "client_inv s \<Longrightarrow> advance 0 s = s"
  by (simp add: advance_def client_inv_def)

lemma advance_cached [simp]: "cached_addresses (advance i s) key = cached_addresses s key"
  by (simp add: advance_def cached_addresses_def)

lemma same_view_trans: "same_view r s \<Longrightarrow> same_view s t \<Longrightarrow> same_view r t"
  by (simp add: same_view_def)

definition put_sent :: "wire \<Rightarrow> AnnaTcpClient \<Rightarrow> (string \<times> val) list \<Rightarrow> (bytes \<times> LatticeType) list \<Rightarrow> bytes list" where
  "put_sent w s kvs pts =
     map (\<lambda>i. KeyRequest_ser w (put_request (advance i s) (fst (kvs ! i)) (pts ! i))) [0..<length kvs]"

lemma put_sent_Cons:
  assumes "client_inv s" and "same_view (advance 1 s) t"
  shows "put_sent w s (kv # kvs) (pt # pts) =
    KeyRequest_ser w (put_request s (fst kv) pt) # put_sent w t kvs pts"
proof -
  have "put_request (advance i t) k p = put_request (advance (Suc i) s) k p" for i k p
    using same_view_request(1) [OF same_view_request(5) [OF assms(2)]] by simp
  then show ?thesis
    using advance_0 [OF assms(1)] by (simp add: put_sent_def map_upt_Suc del: upt_Suc)
qed

lemma put_send_all:
  assumes "client_inv s"
    and "\<forall>(key, v) \<in> set kvs. cached_addresses s key \<noteq> [] \<and> [] \<notin> set (cached_addresses s key)"
    and "mapE (\<lambda>(key, v). serialize (wire_values w) v) kvs = Inr pts"
  shows "\<exists>addrs t. put_send w kvs ids s =
      (Return (Some (ids @ map (\<lambda>i. rid_str (advance i s)) [0..<length kvs])), t) \<and>
    list_all2 (\<lambda>a (key, v). a \<in> set (cached_addresses s key)) addrs kvs \<and>
    client_inv t \<and> same_view (advance (length kvs) s) t \<and>
    delivered t = delivered s @ zip addrs (put_sent w s kvs pts)"
  using assms
proof (induction kvs arbitrary: s ids pts)
  case Nil
  then show ?case by (auto simp: advance_0 same_view_def put_sent_def)
next
  case (Cons kv kvs)
  obtain key v where kv: "kv = (key, v)" by fastforce
  obtain pt pts' where pts: "pts = pt # pts'" "serialize (wire_values w) v = Inr pt"
    "mapE (\<lambda>(key, v). serialize (wire_values w) v) kvs = Inr pts'"
    using Cons.prems(3) by (auto simp: kv py_inv)
  obtain a t where a: "a \<in> set (cached_addresses s key)" and t: "client_inv t" "same_view (advance 1 s) t"
    and one: "delivered t = delivered s @ [(a, KeyRequest_ser w (put_request s key pt))]"
      "\<And>kvs ids. put_send w ((key, v) # kvs) ids s = put_send w kvs (ids @ [rid_str s]) t"
    using put_send_one [of s key w v pt] Cons.prems(1,2) pts(2) by (auto simp: kv)
  have cached: "cached_addresses t k = cached_addresses s k" for k
    using same_view_request(4) [OF t(2)] by simp
  obtain addrs u where u: "put_send w kvs (ids @ [rid_str s]) t =
      (Return (Some ((ids @ [rid_str s]) @ map (\<lambda>i. rid_str (advance i t)) [0..<length kvs])), u)"
    "list_all2 (\<lambda>a (key, v). a \<in> set (cached_addresses s key)) addrs kvs" "client_inv u"
    "same_view (advance (length kvs) t) u" "delivered u = delivered t @ zip addrs (put_sent w t kvs pts')"
    using Cons.IH [OF t(1) _ pts(3), of "ids @ [rid_str s]"] Cons.prems(2) by (auto simp: cached)
  have "rid_str (advance i t) = rid_str (advance (Suc i) s)" for i
    using same_view_request(2) [OF same_view_request(5) [OF t(2)]] by simp
  then have ids: "rid_str s # map (\<lambda>i. rid_str (advance i t)) [0..<length kvs] =
      map (\<lambda>i. rid_str (advance i s)) [0..<length (kv # kvs)]"
    using advance_0 [OF Cons.prems(1)] by (simp add: map_upt_Suc del: upt_Suc)
  have "same_view (advance (length (kv # kvs)) s) u"
    using same_view_trans [OF same_view_request(5) [OF t(2), of "length kvs"] u(4)] by simp
  with a t u one ids show ?case
    by (intro exI [of _ "a # addrs"] exI [of _ u])
      (simp add: kv pts(1) put_sent_Cons [OF Cons.prems(1) t(2)])
qed

section \<open>Complete operations\<close>

definition put_ids :: "AnnaTcpClient \<Rightarrow> nat \<Rightarrow> string list" where
  "put_ids s n = map (\<lambda>i. rid_str (advance i s)) [0..<n]"

definition put_results :: "KeyResponse list \<Rightarrow> (string, bool) dict" where
  "put_results rs =
     fold (\<lambda>r. dict_set (tup_key (hd (resp_tuples r))) (tup_error (hd (resp_tuples r)) = NO_ERROR)) rs []"

definition plain_response :: "KeyResponse \<Rightarrow> bool" where
  "plain_response r \<longleftrightarrow> resp_tuples r \<noteq> [] \<and> \<not> invalidate (hd (resp_tuples r))"

lemma put_responses_run:
  assumes "list_all plain_response rs"
  shows "foldS put_response rs [] s = (Return (put_results rs), s)"
  unfolding put_results_def
proof (rule foldS_total)
  fix r d and t :: AnnaTcpClient
  assume "r \<in> set rs"
  then obtain tup ts where "resp_tuples r = tup # ts" "\<not> invalidate tup"
    using assms by (cases "resp_tuples r") (auto simp: list_all_iff plain_response_def)
  then show "put_response r d t = (Return (dict_set (tup_key (hd (resp_tuples r)))
      (tup_error (hd (resp_tuples r)) = NO_ERROR) d), t)"
    by (simp add: put_response_def list_get_def)
qed

lemma recv_responses_run:
  assumes "mapE (KeyResponse_parse w) (response_puller s) = Inr rs"
    and "length ids \<le> length (filter (\<lambda>r. response_id r \<in> set ids) rs)"
  shows "\<exists>k. recv_responses w ids s = (Return (take (length ids) (filter (\<lambda>r. response_id r \<in> set ids) rs)),
    s\<lparr>response_puller := drop k (response_puller s)\<rparr>)"
  using recv_missing_enough [OF assms(1), of "length ids" response_id ids "[]"] assms(2)
  by (auto simp: recv_responses_def recv_response_def zoom_def)

lemma delivered_recv [simp]: "delivered (s\<lparr>response_puller := p\<rparr>) = delivered s"
  by (simp add: delivered_def)

text \<open>C2: a \<open>put\<close> of keys whose workers are known sends exactly one request for each pair of a key and
  a value, in order, each to one of the key's workers and carrying the serialised value under the
  next request id; it then takes the first responses to these requests and returns, for the key
  each of them names, whether the worker reported no error.\<close>

theorem put_known_keys:
  assumes "kvs = zip ks vs" and "client_inv s"
    and "\<forall>(key, v) \<in> set kvs. cached_addresses s key \<noteq> [] \<and> [] \<notin> set (cached_addresses s key)"
    and "mapE (\<lambda>(key, v). serialize (wire_values w) v) kvs = Inr pts"
    and "mapE (KeyResponse_parse w) (response_puller s) = Inr rs"
    and "mine = filter (\<lambda>r. response_id r \<in> set (put_ids s (length kvs))) rs"
    and "length kvs \<le> length mine" and "list_all plain_response (take (length kvs) mine)"
  shows "\<exists>addrs t. put w (ListOf ks) (ListOf vs) s =
      (Return (PutResults (put_results (take (length kvs) mine))), t) \<and>
    list_all2 (\<lambda>a (key, v). a \<in> set (cached_addresses s key)) addrs kvs \<and>
    delivered t = delivered s @ zip addrs (put_sent w s kvs pts)"
proof -
  obtain addrs t where t: "put_send w kvs [] s = (Return (Some (put_ids s (length kvs))), t)"
    "list_all2 (\<lambda>a (key, v). a \<in> set (cached_addresses s key)) addrs kvs"
    "same_view (advance (length kvs) s) t" "delivered t = delivered s @ zip addrs (put_sent w s kvs pts)"
    using put_send_all [OF assms(2,3,4), of "[]"] by (auto simp: put_ids_def)
  have "response_puller t = response_puller s" using t(3) by (simp add: same_view_def advance_def)
  moreover have "length (put_ids s (length kvs)) = length kvs" by (simp add: put_ids_def)
  ultimately obtain k where "recv_responses w (put_ids s (length kvs)) t =
      (Return (take (length kvs) mine), t\<lparr>response_puller := drop k (response_puller s)\<rparr>)"
    using recv_responses_run [of w t rs "put_ids s (length kvs)"] assms(5-7) by auto
  with t put_responses_run [OF assms(8)] show ?thesis
    by (intro exI [of _ addrs] exI [of _ "t\<lparr>response_puller := drop k (response_puller s)\<rparr>"])
      (simp add: put_def assms(1))
qed

definition demo_answer :: KeyResponse where
  "demo_answer = \<lparr>resp_tuples = [demo_tuple\<lparr>payload := [7, 1], lattice_type := LWW\<rparr>],
     response_id = ''c:9998''\<rparr>"

definition demo_wire_answered :: wire where
  "demo_wire_answered = demo_wire\<lparr>KeyResponse_parse := (\<lambda>b. Inr demo_answer)\<rparr>"

definition demo_waiting :: AnnaTcpClient where
  "demo_waiting = demo_routed\<lparr>response_puller := [[0]]\<rparr>"

lemma str_nat_9998: "str_nat 9998 = ''9998''"
  by (simp add: str_nat.simps digit_char_def)

lemma demo_waiting_inv: "client_inv demo_waiting"
  by (simp add: client_inv_def demo_waiting_def demo_routed_def demo_client_def dict_wf_def
      cache_inv_def demo_context_def SocketCache_init_def)

lemma demo_waiting_rid: "rid_str demo_waiting = ''c:9998''"
  by (simp add: rid_str_def demo_waiting_def demo_routed_def demo_client_def Thread_init_def
      str_int_def str_nat_9998)

lemma demo_waiting_cached: "cached_addresses demo_waiting ''k'' = [''w1'', ''w2'']"
  by (simp add: demo_waiting_def demo_routed_def cached_addresses_def)

theorem put_known_keys_witness:
  "\<exists>addrs t. put demo_wire_answered (ListOf [''k'']) (ListOf [PObj (LWWPairLattice 7 [1])]) demo_waiting =
      (Return (PutResults [(''k'', True)]), t) \<and>
    list_all2 (\<lambda>a (key, v). a \<in> set (cached_addresses demo_waiting key)) addrs
      [(''k'', PObj (LWWPairLattice 7 [1]))] \<and>
    delivered t = delivered demo_waiting @
      zip addrs (put_sent demo_wire_answered demo_waiting [(''k'', PObj (LWWPairLattice 7 [1]))] [([7, 1], LWW)])"
proof -
  let ?kvs = "[(''k'', PObj (LWWPairLattice 7 [1]))]"
  have ids: "put_ids demo_waiting (Suc 0) = [''c:9998'']"
    by (simp add: put_ids_def advance_0 demo_waiting_inv demo_waiting_rid)
  have ser: "mapE (\<lambda>(key, v). serialize (wire_values demo_wire_answered) v) ?kvs = Inr [([7, 1], LWW)]"
    by (simp add: serialize_def LWWPairLattice_serialize_def demo_wire_answered_def demo_wire_def demo_codec_def)
  have arrived: "mapE (KeyResponse_parse demo_wire_answered) (response_puller demo_waiting) = Inr [demo_answer]"
    by (simp add: demo_wire_answered_def demo_waiting_def)
  have mine: "[demo_answer] =
      filter (\<lambda>r. response_id r \<in> set (put_ids demo_waiting (length ?kvs))) [demo_answer]"
    by (simp add: ids demo_answer_def)
  have plain: "list_all plain_response (take (length ?kvs) [demo_answer])"
    by (simp add: plain_response_def demo_answer_def demo_tuple_def)
  have results: "put_results (take (length ?kvs) [demo_answer]) = [(''k'', True)]"
    by (simp add: put_results_def demo_answer_def demo_tuple_def NO_ERROR_def)
  have kvs: "?kvs = zip [''k''] [PObj (LWWPairLattice 7 [1])]" by simp
  show ?thesis
    using put_known_keys [OF kvs demo_waiting_inv _ ser arrived mine _ plain]
    unfolding results by (simp add: demo_waiting_cached)
qed

definition get_request :: "AnnaTcpClient \<Rightarrow> string \<Rightarrow> KeyRequest" where
  "get_request s key = (data_request [key] s)\<lparr>req_type := GET\<rparr>"

lemma get_send_one:
  assumes "client_inv s" and "a \<noteq> []"
  shows "\<exists>t. get_send w (key, Worker a) ids s = (Return (ids @ [rid_str s]), t) \<and> client_inv t \<and>
    same_view (advance 1 s) t \<and> delivered t = delivered s @ [(a, KeyRequest_ser w (get_request s key))]"
proof -
  obtain sock c where push: "pusher_get a s = (Return sock, s\<lparr>pusher_cache := c\<rparr>)"
    and c: "sock < length (connected (ctx c))" "connected (ctx c) ! sock = a"
      "prefix (links s) (connected (ctx c))" "sent (ctx c) = outbox s" "cache_inv c"
    by (rule pusher_get_run [OF assms(1)])
  have view: "same_view s (s\<lparr>pusher_cache := c\<rparr>)" by (simp add: same_view_def)
  define t where "t = (next_rid (s\<lparr>rng := rng s, pusher_cache := c\<rparr>))
      \<lparr>pusher_cache := c\<lparr>ctx := (ctx c)\<lparr>sent := sent (ctx c) @ [(sock, KeyRequest_ser w (get_request s key))]\<rparr>\<rparr>\<rparr>"
  have "get_send w (key, Worker a) ids s = (Return (ids @ [rid_str s]), t)"
    using push assms(2) same_view_request(3) [OF view, of "[key]"]
    by (simp add: get_send_def t_def get_request_def data_request_def)
  moreover have "client_inv t \<and> delivered t = delivered s @ [(a, KeyRequest_ser w (get_request s key))] \<and>
      same_view (advance 1 s) t"
    by (rule push_state [OF assms(1) c t_def])
  ultimately show ?thesis by blast
qed

lemma get_single:
  assumes "client_inv s" and "cached_addresses s key \<noteq> []" and "[] \<notin> set (cached_addresses s key)"
    and "response_puller s = b # rest" and "KeyResponse_parse w b = Inr r" and "response_id r = rid_str s"
  shows "\<exists>a t. a \<in> set (cached_addresses s key) \<and>
    delivered t = delivered s @ [(a, KeyRequest_ser w (get_request s key))] \<and>
    response_puller t = rest \<and> address_cache t = address_cache s \<and>
    get w (Single key) s = foldS (get_tuple w) (resp_tuples r) [(key, None)] t"
proof -
  obtain a where a: "a \<in> set (cached_addresses s key)"
    and hit: "get_worker_address w key True s = (Return (Worker a), s\<lparr>rng := tl (rng s)\<rparr>)"
    using get_worker_address_hit(2) [OF assms(2)] by blast
  let ?s = "s\<lparr>rng := tl (rng s)\<rparr>"
  have "client_inv ?s" "a \<noteq> []" using assms(1,3) a by (auto simp: client_inv_def)
  from get_send_one [OF this, of w key "[]"] obtain t where
    t: "get_send w (key, Worker a) [] ?s = (Return [rid_str ?s], t)" "same_view (advance 1 ?s) t"
      "delivered t = delivered ?s @ [(a, KeyRequest_ser w (get_request ?s key))]"
    by auto
  have view: "same_view s ?s" by (simp add: same_view_def)
  have "get_request ?s key = get_request s key" "rid_str ?s = rid_str s"
    using same_view_request(2,3) [OF view] by (simp_all add: get_request_def)
  moreover have "delivered ?s = delivered s" by (simp add: delivered_def)
  moreover have puller: "response_puller t = b # rest" "address_cache t = address_cache s"
    using t(2) assms(4) by (simp_all add: same_view_def advance_def)
  then have "recv_responses w [rid_str s] t = (Return [r], t\<lparr>response_puller := rest\<rparr>)"
    using assms(5,6) by (simp add: recv_responses_def recv_response_def zoom_def)
  ultimately show ?thesis
    using a t hit puller
    by (intro exI [of _ a] exI [of _ "t\<lparr>response_puller := rest\<rparr>"])
      (simp add: get_def get_workers_def no_pairs_def)
qed

text \<open>C1: \<open>get\<close> returns what was put. When the first data to arrive is the response to the request
  and carries the payload and lattice type that some storable lattice is serialised to, \<open>get\<close> of a
  key whose workers are known sends one request, to one of them, and returns that lattice for the
  key; the later data stays unread.\<close>

theorem get_returns_stored:
  assumes "client_inv s" and "cached_addresses s key \<noteq> []" and "[] \<notin> set (cached_addresses s key)"
    and "response_puller s = b # rest" and "KeyResponse_parse w b = Inr r" and "response_id r = rid_str s"
    and "resp_tuples r = [tup]" and "tup_key tup = key" and "tup_error tup = NO_ERROR" and "\<not> invalidate tup"
    and "serialize (wire_values w) (PObj l) = Inr (payload tup, lattice_type tup)"
    and "uint_fields (wire_values w)" and "storable l"
    and "\<forall>m typ. lattice_serialize (uint_field (wire_values w)) l = Inr (m, typ) \<longrightarrow> reads_back (wire_values w) m"
  shows "\<exists>a t. get w (Single key) s = (Return [(key, Some l)], t) \<and> a \<in> set (cached_addresses s key) \<and>
    delivered t = delivered s @ [(a, KeyRequest_ser w (get_request s key))] \<and> response_puller t = rest"
proof -
  have "deserialize (wire_values w) (A_KeyTuple tup) = Inr l"
    using roundtrip_storable [OF assms(12-14), of tup] assms(11) by simp
  then have "foldS (get_tuple w) (resp_tuples r) [(key, None)] t = (Return [(key, Some l)], t)" for t
    using assms(7-10) by (simp add: get_tuple_def)
  with get_single [OF assms(1-6)] show ?thesis by metis
qed

theorem get_returns_stored_witness:
  "\<exists>a t. get demo_wire_answered (Single ''k'') demo_waiting =
      (Return [(''k'', Some (LWWPairLattice 7 [1]))], t) \<and> a \<in> set (cached_addresses demo_waiting ''k'') \<and>
    delivered t = delivered demo_waiting @
      [(a, KeyRequest_ser demo_wire_answered (get_request demo_waiting ''k''))] \<and> response_puller t = []"
proof (rule get_returns_stored [where b = "[0]" and r = demo_answer and
      tup = "demo_tuple\<lparr>payload := [7, 1], lattice_type := LWW\<rparr>"])
  show "client_inv demo_waiting" by (rule demo_waiting_inv)
  show "response_id demo_answer = rid_str demo_waiting"
    by (simp add: demo_waiting_rid demo_answer_def)
  show "cached_addresses demo_waiting ''k'' \<noteq> []" "[] \<notin> set (cached_addresses demo_waiting ''k'')"
    by (simp_all add: demo_waiting_cached)
qed (simp_all add: demo_waiting_def demo_wire_answered_def demo_answer_def
    demo_tuple_def serialize_def LWWPairLattice_serialize_def demo_wire_def demo_codec_def
    uint_fields_def reads_back_def)

section \<open>Operations on all replicas\<close>

definition replica_send :: "wire \<Rightarrow> string \<Rightarrow> KeyRequest \<Rightarrow> (AnnaTcpClient, KeyRequest) prog" where
  "replica_send w address rq =
     bindS get_request_id (\<lambda>i. bindS (pusher_get address) (\<lambda>send_sock.
     seqS (send_on (KeyRequest_ser w) (rq\<lparr>request_id := i\<rparr>) send_sock) (returnS (rq\<lparr>request_id := i\<rparr>))))"

lemma replica_send_one:
  assumes "client_inv s"
  shows "\<exists>t. replica_send w a rq s = (Return (rq\<lparr>request_id := rid_str s\<rparr>), t) \<and> client_inv t \<and>
    same_view (advance 1 s) t \<and>
    delivered t = delivered s @ [(a, KeyRequest_ser w (rq\<lparr>request_id := rid_str s\<rparr>))]"
proof -
  have "client_inv (next_rid s)" using assms by (simp add: client_inv_def)
  then obtain sock c where push: "pusher_get a (next_rid s) = (Return sock, (next_rid s)\<lparr>pusher_cache := c\<rparr>)"
    and c: "sock < length (connected (ctx c))" "connected (ctx c) ! sock = a"
      "prefix (links (next_rid s)) (connected (ctx c))" "sent (ctx c) = outbox (next_rid s)" "cache_inv c"
    by (rule pusher_get_run)
  let ?b = "KeyRequest_ser w (rq\<lparr>request_id := rid_str s\<rparr>)"
  define t where "t = (next_rid (s\<lparr>rng := rng s, pusher_cache := c\<rparr>))
      \<lparr>pusher_cache := c\<lparr>ctx := (ctx c)\<lparr>sent := sent (ctx c) @ [(sock, ?b)]\<rparr>\<rparr>\<rparr>"
  have "replica_send w a rq s = (Return (rq\<lparr>request_id := rid_str s\<rparr>), t)"
    using push by (simp add: replica_send_def t_def next_rid_def)
  moreover have "client_inv t \<and> delivered t = delivered s @ [(a, ?b)] \<and> same_view (advance 1 s) t"
    by (rule push_state [OF assms c(1,2) _ _ c(5) t_def]) (use c(3,4) in simp_all)
  ultimately show ?thesis by blast
qed

definition replica_requests :: "wire \<Rightarrow> AnnaTcpClient \<Rightarrow> KeyRequest \<Rightarrow> string list \<Rightarrow> (string \<times> bytes) list" where
  "replica_requests w s rq as =
     map (\<lambda>i. (as ! i, KeyRequest_ser w (rq\<lparr>request_id := rid_str (advance i s)\<rparr>))) [0..<length as]"

lemma replica_sends:
  assumes "client_inv s"
  shows "\<exists>t. foldS (replica_send w) as rq s =
      (Return (if as = [] then rq else rq\<lparr>request_id := rid_str (advance (length as - 1) s)\<rparr>), t) \<and>
    client_inv t \<and> same_view (advance (length as) s) t \<and>
    delivered t = delivered s @ replica_requests w s rq as"
  using assms
proof (induction as arbitrary: s rq)
  case Nil
  then show ?case by (simp add: advance_0 same_view_def replica_requests_def)
next
  case (Cons a as)
  let ?rq = "rq\<lparr>request_id := rid_str s\<rparr>"
  obtain t where t: "replica_send w a rq s = (Return ?rq, t)" "client_inv t" "same_view (advance 1 s) t"
    "delivered t = delivered s @ [(a, KeyRequest_ser w ?rq)]"
    using replica_send_one [OF Cons.prems] by blast
  obtain u where u: "foldS (replica_send w) as ?rq t =
      (Return (if as = [] then ?rq else ?rq\<lparr>request_id := rid_str (advance (length as - 1) t)\<rparr>), u)"
    "client_inv u" "same_view (advance (length as) t) u"
    "delivered u = delivered t @ replica_requests w t ?rq as"
    using Cons.IH [OF t(2)] by blast
  have rid: "rid_str (advance i t) = rid_str (advance (Suc i) s)" for i
    using same_view_request(2) [OF same_view_request(5) [OF t(3)]] by simp
  have "replica_requests w s rq (a # as) = (a, KeyRequest_ser w ?rq) # replica_requests w t ?rq as"
    using advance_0 [OF Cons.prems] by (simp add: replica_requests_def map_upt_Suc rid del: upt_Suc)
  moreover have "same_view (advance (Suc (length as)) s) u"
    using same_view_trans [OF same_view_request(5) [OF t(3), of "length as"] u(3)] by simp
  moreover have "as \<noteq> [] \<Longrightarrow> rid_str (advance (length as - 1) t) = rid_str (advance (length as) s)"
    using rid [of "length as - 1"] by simp
  ultimately show ?case
    using t u advance_0 [OF Cons.prems] by (intro exI [of _ u]) auto
qed



end
