(* ===== verification/Py_Document.thy ===== *)
theory Py_Document
  imports Py_Prelude
begin

text \<open>
  Documents and text: what a YAML or JSON file holds, as a value with \<open>str\<close> keys, and how Python reads
  and changes it; the methods of \<open>str\<close> that the scripts use, on code points below 256; slices; IP
  addresses as the standard library's \<^verbatim>\<open>ipaddress\<close> reads and prints them.
\<close>

section \<open>Documents\<close>

type_synonym yaml = "unit pyval"

text \<open>\<open>y[key]\<close> with a \<open>str\<close>, and with the index 0.\<close>

fun yaml_get :: "yaml \<Rightarrow> string \<Rightarrow> yaml res" where
  "yaml_get (PDict d) key = dict_getitem d key"
| "yaml_get _ key = Inl TypeError"

fun yaml_first :: "yaml \<Rightarrow> yaml res" where
  "yaml_first (PList xs) = list_get xs 0"
| "yaml_first (PStr s) = bindE (list_get s 0) (\<lambda>c. Inr (PStr [c]))"
| "yaml_first (PDict d) = Inl KeyError"
| "yaml_first _ = Inl TypeError"

text \<open>\<open>y[key] = v\<close>.\<close>

fun yaml_set :: "yaml \<Rightarrow> string \<Rightarrow> yaml \<Rightarrow> yaml res" where
  "yaml_set (PDict d) key v = Inr (PDict (dict_set key v d))"
| "yaml_set _ key v = Inl TypeError"

text \<open>A change in place of the part at \<open>y[key]\<close>, of the first element, and of every element of a list
  that a loop runs over (the elements of a \<open>dict\<close> or a \<open>str\<close> are strings).\<close>

definition yaml_at :: "string \<Rightarrow> (yaml \<Rightarrow> yaml res) \<Rightarrow> yaml \<Rightarrow> yaml res" where
  "yaml_at key f y = bindE (yaml_get y key) (\<lambda>v. bindE (f v) (yaml_set y key))"

definition yaml_at_first :: "(yaml \<Rightarrow> yaml res) \<Rightarrow> yaml \<Rightarrow> yaml res" where
  "yaml_at_first f y = bindE (yaml_first y) (\<lambda>v. bindE (f v) (\<lambda>v'.
     case y of PList xs \<Rightarrow> Inr (PList (xs[0 := v'])) | _ \<Rightarrow> Inl TypeError))"

definition yaml_each :: "(yaml \<Rightarrow> yaml res) \<Rightarrow> yaml \<Rightarrow> yaml res" where
  "yaml_each f y =
     (case y of
        PList xs \<Rightarrow> bindE (mapE f xs) (\<lambda>xs'. Inr (PList xs'))
      | PDict d \<Rightarrow> bindE (mapE (\<lambda>(k, v). f (PStr k)) d) (\<lambda>_. Inr y)
      | PStr s \<Rightarrow> bindE (mapE (\<lambda>c. f (PStr [c])) s) (\<lambda>_. Inr y)
      | _ \<Rightarrow> Inl TypeError)"

text \<open>\<open>os.path.join(a, b)\<close>.\<close>

definition path_join :: "string \<Rightarrow> string \<Rightarrow> string" where
  "path_join a b =
     (if startswith b ''/'' then b
      else if a = [] \<or> last a = CHR ''/'' then a @ b
      else a @ ''/'' @ b)"

section \<open>Containers\<close>

text \<open>\<open>bool(y)\<close> and \<open>len(y)\<close>.\<close>

fun py_truth :: "yaml \<Rightarrow> bool" where
  "py_truth PNone = False"
| "py_truth (PBool b) = b"
| "py_truth (PInt i) = (i \<noteq> 0)"
| "py_truth (PFloat f) = (f \<noteq> Fin 0)"
| "py_truth (PStr s) = (s \<noteq> [])"
| "py_truth (PBytes b) = (b \<noteq> [])"
| "py_truth (PList xs) = (xs \<noteq> [])"
| "py_truth (PTuple xs) = (xs \<noteq> [])"
| "py_truth (PSet xs) = (xs \<noteq> [])"
| "py_truth (PDict d) = (d \<noteq> [])"
| "py_truth (PMessageMap d) = (d \<noteq> [])"
| "py_truth _ = True"

fun py_len :: "yaml \<Rightarrow> int res" where
  "py_len (PStr s) = Inr (int (length s))"
| "py_len (PBytes b) = Inr (int (length b))"
| "py_len (PList xs) = Inr (int (length xs))"
| "py_len (PTuple xs) = Inr (int (length xs))"
| "py_len (PSet xs) = Inr (int (length xs))"
| "py_len (PDict d) = Inr (int (length d))"
| "py_len (PMessageMap d) = Inr (int (length d))"
| "py_len _ = Inl TypeError"

text \<open>\<open>p in s\<close> for two strings.\<close>

primrec substring :: "string \<Rightarrow> string \<Rightarrow> bool" where
  "substring p [] = (p = [])"
| "substring p (c # s) = (startswith (c # s) p \<or> substring p s)"

text \<open>\<open>k in y\<close> for a \<open>str\<close> \<open>k\<close>.\<close>

fun py_in :: "string \<Rightarrow> yaml \<Rightarrow> bool res" where
  "py_in k (PDict d) = Inr (dict_mem k d)"
| "py_in k (PStr s) = Inr (substring k s)"
| "py_in k (PList xs) = Inr (PStr k \<in> set xs)"
| "py_in k (PTuple xs) = Inr (PStr k \<in> set xs)"
| "py_in k (PSet xs) = Inr (PStr k \<in> set xs)"
| "py_in k (PMessageMap d) = Inr (dict_mem k d)"
| "py_in k _ = Inl TypeError"

text \<open>\<open>y.items()\<close>, \<open>y.get(k, default)\<close> and \<open>del y[k]\<close>.\<close>

fun yaml_items :: "yaml \<Rightarrow> (string, yaml) dict res" where
  "yaml_items (PDict d) = Inr d"
| "yaml_items _ = Inl AttributeError"

definition dict_get :: "('k, 'v) dict \<Rightarrow> 'k \<Rightarrow> 'v \<Rightarrow> 'v" where
  "dict_get d k v = (case map_of d k of None \<Rightarrow> v | Some x \<Rightarrow> x)"

fun yaml_del :: "string \<Rightarrow> yaml \<Rightarrow> yaml res" where
  "yaml_del k (PDict d) = bindE (dict_delitem k d) (\<lambda>d'. Inr (PDict d'))"
| "yaml_del k _ = Inl TypeError"

text \<open>\<open>xs[:b]\<close> and \<open>xs[a:b]\<close>: a negative bound counts from the end.\<close>

definition slice_bound :: "'a list \<Rightarrow> int \<Rightarrow> nat" where
  "slice_bound xs b = (if b < 0 then nat (int (length xs) + b) else nat b)"

definition slice :: "'a list \<Rightarrow> int \<Rightarrow> int \<Rightarrow> 'a list" where
  "slice xs a b = drop (slice_bound xs a) (take (slice_bound xs b) xs)"

section \<open>Text\<close>

text \<open>The classes of the code points below 256. Superscript digits count as digits for \<open>isdigit\<close>.\<close>

definition py_isspace :: "char \<Rightarrow> bool" where
  "py_isspace c \<longleftrightarrow> (let n = (of_char c :: nat) in 9 \<le> n \<and> n \<le> 13 \<or> 28 \<le> n \<and> n \<le> 32 \<or> n = 133 \<or> n = 160)"

definition py_isdigit :: "char \<Rightarrow> bool" where
  "py_isdigit c \<longleftrightarrow> is_digit c \<or> (of_char c :: nat) \<in> {178, 179, 185}"

definition py_isalpha :: "char \<Rightarrow> bool" where
  "py_isalpha c \<longleftrightarrow> (let n = (of_char c :: nat) in
     65 \<le> n \<and> n \<le> 90 \<or> 97 \<le> n \<and> n \<le> 122 \<or> n = 170 \<or> n = 181 \<or> n = 186 \<or>
     192 \<le> n \<and> n \<noteq> 215 \<and> n \<noteq> 247)"

text \<open>\<open>c.isalnum()\<close>: letters, digits and the fractions and superscripts that have a numeric value; with
  the underscore these are the characters that the regular expression \<^verbatim>\<open>\w\<close> matches.\<close>

definition py_isalnum :: "char \<Rightarrow> bool" where
  "py_isalnum c \<longleftrightarrow> py_isalpha c \<or> py_isdigit c \<or> (of_char c :: nat) \<in> {188, 189, 190}"

definition lower_char :: "char \<Rightarrow> char" where
  "lower_char c = (let n = (of_char c :: nat) in
     if 65 \<le> n \<and> n \<le> 90 \<or> 192 \<le> n \<and> n \<le> 222 \<and> n \<noteq> 215 then char_of (n + 32) else c)"

definition py_lower :: "string \<Rightarrow> string" where
  "py_lower s = map lower_char s"

definition py_strip :: "string \<Rightarrow> string" where
  "py_strip s = rev (dropWhile py_isspace (rev (dropWhile py_isspace s)))"

text \<open>\<open>int(s)\<close> with what it accepts beyond \<open>int_of_str\<close>: blanks around the number and single
  underscores between digits.\<close>

primrec underscores_between :: "char \<Rightarrow> string \<Rightarrow> bool" where
  "underscores_between p [] = (p \<noteq> CHR ''_'')"
| "underscores_between p (c # s) = ((c = CHR ''_'' \<longrightarrow> is_digit p) \<and> underscores_between c s)"

definition int_of_text :: "string \<Rightarrow> int res" where
  "int_of_text s =
     (let t = py_strip s in
      if underscores_between CHR '' '' t
      then int_of_str (filter (\<lambda>c. c \<noteq> CHR ''_'') t) else Inl ValueError)"

section \<open>IP addresses\<close>

definition guardE :: "bool \<Rightarrow> unit res" where
  "guardE b = (if b then Inr () else Inl ValueError)"

definition parse_octet :: "string \<Rightarrow> nat res" where
  "parse_octet s =
     (if s \<noteq> [] \<and> list_all is_digit s \<and> length s \<le> 3 \<and> (s = ''0'' \<or> hd s \<noteq> CHR ''0'') \<and> nat_of_digits s \<le> 255
      then Inr (nat_of_digits s) else Inl ValueError)"

text \<open>\<open>int(IPv4Address(s))\<close>.\<close>

definition ipv4_int :: "string \<Rightarrow> nat res" where
  "ipv4_int s =
     (case split_on CHR ''.'' s of
        [a, b, c, d] \<Rightarrow>
          bindE (parse_octet a) (\<lambda>a. bindE (parse_octet b) (\<lambda>b. bindE (parse_octet c) (\<lambda>c.
          bindE (parse_octet d) (\<lambda>d. Inr (((a * 256 + b) * 256 + c) * 256 + d)))))
      | _ \<Rightarrow> Inl ValueError)"

definition hex_val :: "char \<Rightarrow> nat" where
  "hex_val c = index_in (lower_char c) ''0123456789abcdef''"

definition is_hex :: "char \<Rightarrow> bool" where
  "is_hex c \<longleftrightarrow> c \<in> set ''0123456789abcdefABCDEF''"

definition parse_hextet :: "string \<Rightarrow> nat res" where
  "parse_hextet s =
     (if s \<noteq> [] \<and> list_all is_hex s \<and> length s \<le> 4
      then Inr (fold (\<lambda>c n. 16 * n + hex_val c) s 0) else Inl ValueError)"

definition hextets_int :: "string list \<Rightarrow> nat \<Rightarrow> nat res" where
  "hextets_int ps n = foldE (\<lambda>p n. bindE (parse_hextet p) (\<lambda>h. Inr (n * 65536 + h))) ps n"

text \<open>\<open>'%x' % n\<close>.\<close>

fun hex_str :: "nat \<Rightarrow> string" where
  "hex_str n = (if n < 16 then [''0123456789abcdef'' ! n] else hex_str (n div 16) @ [''0123456789abcdef'' ! (n mod 16)])"

declare hex_str.simps [simp del]

text \<open>\<open>int(IPv6Address(s))\<close>: an IPv4 address may stand for the last two parts and one empty part for the
  missing ones.\<close>

definition ipv6_last_ipv4 :: "string list \<Rightarrow> string list res" where
  "ipv6_last_ipv4 ps =
     (if CHR ''.'' \<in> set (last ps) then
        bindE (ipv4_int (last ps)) (\<lambda>n. Inr (butlast ps @ [hex_str (n div 65536), hex_str (n mod 65536)]))
      else Inr ps)"

definition ipv6_skips :: "string list \<Rightarrow> nat list" where
  "ipv6_skips ps = filter (\<lambda>i. ps ! i = []) [1 ..< length ps - 1]"

definition ipv6_parts_int :: "string list \<Rightarrow> nat res" where
  "ipv6_parts_int ps =
     (case ipv6_skips ps of
        [] \<Rightarrow> bindE (guardE (length ps = 8)) (\<lambda>_. hextets_int ps 0)
      | [k] \<Rightarrow>
          (let hi = (if hd ps = [] then k - 1 else k);
               lo = (if last ps = [] then length ps - k - 2 else length ps - k - 1) in
           bindE (guardE ((hd ps = [] \<longrightarrow> hi = 0) \<and> (last ps = [] \<longrightarrow> lo = 0) \<and> hi + lo < 8)) (\<lambda>_.
           bindE (hextets_int (take hi ps) 0) (\<lambda>n.
           hextets_int (drop (length ps - lo) ps) (n * 65536 ^ (8 - (hi + lo))))))
      | _ \<Rightarrow> Inl ValueError)"

definition ipv6_int :: "string \<Rightarrow> nat res" where
  "ipv6_int s =
     (let addr = takeWhile (\<lambda>c. c \<noteq> CHR ''%'') s; scope = dropWhile (\<lambda>c. c \<noteq> CHR ''%'') s;
          ps = split_on CHR '':'' addr in
      bindE (guardE (CHR ''/'' \<notin> set s \<and> (scope \<noteq> [] \<longrightarrow> tl scope \<noteq> [] \<and> CHR ''%'' \<notin> set (tl scope)) \<and> 3 \<le> length ps)) (\<lambda>_.
      bindE (ipv6_last_ipv4 ps) (\<lambda>ps. bindE (guardE (length ps \<le> 9)) (\<lambda>_. ipv6_parts_int ps))))"

text \<open>\<open>int(ip_address(s))\<close>, and \<open>ip_address(n).exploded\<close>: a number below \<open>2 ** 32\<close> is an IPv4 address.\<close>

definition ip_int :: "string \<Rightarrow> nat res" where
  "ip_int s = (case ipv4_int s of Inr n \<Rightarrow> Inr n | Inl _ \<Rightarrow> ipv6_int s)"

definition ipv4_str :: "nat \<Rightarrow> string" where
  "ipv4_str n = join ''.'' (map str_nat [n div 16777216, n div 65536 mod 256, n div 256 mod 256, n mod 256])"

definition hextet_str :: "nat \<Rightarrow> string" where
  "hextet_str n = map (\<lambda>i. ''0123456789abcdef'' ! (n div 16 ^ i mod 16)) [3, 2, 1, 0]"

definition ipv6_str :: "nat \<Rightarrow> string" where
  "ipv6_str n = join '':'' (map (\<lambda>i. hextet_str (n div 65536 ^ i mod 65536)) [7, 6, 5, 4, 3, 2, 1, 0])"

definition ip_exploded :: "nat \<Rightarrow> string" where
  "ip_exploded n = (if n < 2 ^ 32 then ipv4_str n else ipv6_str n)"

section \<open>Conversions and paths\<close>

text \<open>\<open>int(v)\<close>, and \<open>str(v)\<close> with the text of a \<open>float\<close> or a container left to \<open>repr\<close>.\<close>

fun py_int :: "yaml \<Rightarrow> int res" where
  "py_int (PInt i) = Inr i"
| "py_int (PBool b) = Inr (of_bool b)"
| "py_int (PFloat (Fin q)) = Inr (if q < 0 then - floor (- q) else floor q)"
| "py_int (PFloat NaN) = Inl ValueError"
| "py_int (PFloat _) = Inl OverflowError"
| "py_int (PStr s) = int_of_text s"
| "py_int _ = Inl TypeError"

fun py_str :: "(yaml \<Rightarrow> string) \<Rightarrow> yaml \<Rightarrow> string" where
  "py_str repr (PStr s) = s"
| "py_str repr (PInt i) = str_int i"
| "py_str repr (PBool b) = (if b then ''True'' else ''False'')"
| "py_str repr PNone = ''None''"
| "py_str repr v = repr v"

fun as_str :: "yaml \<Rightarrow> string res" where
  "as_str (PStr s) = Inr s"
| "as_str _ = Inl TypeError"

text \<open>\<open>v.method(...)\<close> for a method of \<open>str\<close>, and \<open>v[k]\<close> where \<open>v\<close> has to be a \<open>dict\<close>.\<close>

fun str_self :: "yaml \<Rightarrow> string res" where
  "str_self (PStr s) = Inr s"
| "str_self _ = Inl AttributeError"

fun as_dict :: "yaml \<Rightarrow> (string, yaml) dict res" where
  "as_dict (PDict d) = Inr d"
| "as_dict _ = Inl TypeError"

text \<open>\<open>os.path.splitext(name)[-1]\<close> for the name of a file: leading dots start no extension.\<close>

definition file_ext :: "string \<Rightarrow> string" where
  "file_ext s =
     (let e = takeWhile (\<lambda>c. c \<noteq> CHR ''.'') (rev s); stem = drop (Suc (length e)) (rev s) in
      if list_ex (\<lambda>c. c \<noteq> CHR ''.'') stem then CHR ''.'' # rev e else [])"

text \<open>\<open>os.path.dirname(p)\<close>, \<open>os.path.normpath(p)\<close> and \<open>os.path.abspath(p)\<close>.\<close>

definition path_dirname :: "string \<Rightarrow> string" where
  "path_dirname p =
     (let h = rev (dropWhile (\<lambda>c. c \<noteq> CHR ''/'') (rev p)); t = rev (dropWhile (\<lambda>c. c = CHR ''/'') (rev h)) in
      if t = [] then h else t)"

definition norm_part :: "bool \<Rightarrow> string \<Rightarrow> string list \<Rightarrow> string list" where
  "norm_part absolute part parts =
     (if part = [] \<or> part = ''.'' then parts
      else if part \<noteq> ''..'' \<or> (\<not> absolute \<and> parts = []) \<or> (parts \<noteq> [] \<and> last parts = ''..'') then parts @ [part]
      else butlast parts)"

definition path_normpath :: "string \<Rightarrow> string" where
  "path_normpath p =
     (let slashes = (if startswith p ''//'' \<and> \<not> startswith p ''///'' then ''//'' else if startswith p ''/'' then ''/'' else []);
          q = slashes @ join ''/'' (fold (norm_part (slashes \<noteq> [])) (split_on CHR ''/'' p) []) in
      if q = [] then ''.'' else q)"

definition path_abspath :: "string \<Rightarrow> string \<Rightarrow> string" where
  "path_abspath cwd p = path_normpath (path_join cwd p)"

end
