(* ===== verification/Dinomo_World.thy ===== *)
theory Dinomo_World
  imports Py_Document
begin

text \<open>
  What the cluster scripts under \<^verbatim>\<open>cluster/dinomo\<close> see of the world, and the effects they have on
  it.

  The world answers: the Kubernetes API (the state of the cluster changes between two calls, so
  it is a list of snapshots of which every call takes one), the processes that are started (how
  each of them ends), the sockets that reply, the clock and the random numbers. A list of answers
  that is used up stands for an answer that never comes. What the scripts do is recorded in a
  trace, in order. Files, YAML documents and tar archives are read through the parameter \<open>host\<close>.
\<close>

section \<open>The cluster\<close>

record pod =
  pod_name :: string
  node_name :: "string option"
  containers :: "string list"
  pod_ip :: "string option"
  phase :: string
  restart_counts :: "int list"

record snapshot =
  pods_of :: "string \<Rightarrow> pod list"  \<comment> \<open>by label selector; the empty one selects all\<close>
  node_addresses :: "string list list"

section \<open>Files and documents\<close>

record host =
  read_file :: "string \<Rightarrow> string res"
  safe_load :: "string \<Rightarrow> yaml option"  \<comment> \<open>\<open>None\<close> for a \<open>YAMLError\<close>\<close>
  archive :: "string \<Rightarrow> bytes res"  \<comment> \<open>a tar archive of one file\<close>
  set_order :: "(string \<times> string \<times> string option) list \<Rightarrow> (string \<times> string \<times> string option) list"
    \<comment> \<open>the order in which a loop visits a set\<close>
  getoutput :: "string \<Rightarrow> string"  \<comment> \<open>what a shell command prints\<close>

section \<open>Effects\<close>

datatype proc_exit = Exited int | NoSuchProgram

datatype event =
    LoadKubeConfig
  | CreatePod yaml
  | CreateDaemonSet yaml
  | ExecInPod string string "string list"  \<comment> \<open>pod, container, command\<close>
  | WriteStdin bytes
  | CloseStream
  | RunProcess "string list" string
  | Background "string list" string
  | System string
  | SentTo string bytes
  | PutEnv string string
  | Bound string

record world =
  snapshots :: "snapshot list"
  exits :: "proc_exit list"
  streams :: "(bool \<times> bool) list list"  \<comment> \<open>per stream and update: still open, wrote to stderr\<close>
  replies :: "bytes list"
  clock :: "nat \<Rightarrow> rat"
  ticks :: nat  \<comment> \<open>how often the clock was read\<close>
  isfile :: "bool list"
  draws :: "nat list"
  environ :: "(string, string) dict"
  trace :: "event list"

definition emit :: "event \<Rightarrow> (world, unit) prog" where
  "emit e = modS (\<lambda>w. w\<lparr>trace := trace w @ [e]\<rparr>)"

text \<open>The next answer of a list of answers.\<close>

definition next_answer :: "(world \<Rightarrow> 'a list) \<Rightarrow> ('a list \<Rightarrow> world \<Rightarrow> world) \<Rightarrow> (world, 'a) prog" where
  "next_answer sel upd = (\<lambda>w. case sel w of [] \<Rightarrow> (Diverge, w) | x # xs \<Rightarrow> (Return x, upd xs w))"

definition next_snapshot :: "(world, snapshot) prog" where
  "next_snapshot = next_answer snapshots (\<lambda>xs w. w\<lparr>snapshots := xs\<rparr>)"

definition next_exit :: "(world, proc_exit) prog" where
  "next_exit = next_answer exits (\<lambda>xs w. w\<lparr>exits := xs\<rparr>)"

definition next_stream :: "(world, (bool \<times> bool) list) prog" where
  "next_stream = next_answer streams (\<lambda>xs w. w\<lparr>streams := xs\<rparr>)"

definition next_reply :: "(world, bytes) prog" where
  "next_reply = next_answer replies (\<lambda>xs w. w\<lparr>replies := xs\<rparr>)"

definition time_time :: "(world, rat) prog" where
  "time_time = (\<lambda>w. (Return (clock w (ticks w)), w\<lparr>ticks := Suc (ticks w)\<rparr>))"

definition world_choice :: "'a list \<Rightarrow> (world, 'a) prog" where
  "world_choice xs =
     bindS (getS draws) (\<lambda>ds.
     seqS (modS (\<lambda>w. w\<lparr>draws := tl ds\<rparr>))
       (liftE (choice (case ds of [] \<Rightarrow> 0 | r # _ \<Rightarrow> r) xs)))"

definition list_namespaced_pod :: "string \<Rightarrow> (world, pod list) prog" where
  "list_namespaced_pod selector = bindS next_snapshot (\<lambda>s. returnS (pods_of s selector))"

definition list_node :: "(world, string list list) prog" where
  "list_node = bindS next_snapshot (\<lambda>s. returnS (node_addresses s))"

definition os_system :: "string \<Rightarrow> (world, unit) prog" where
  "os_system cmd = emit (System cmd)"

definition environ_get :: "string \<Rightarrow> (world, string) prog" where
  "environ_get name = bindS (getS environ) (\<lambda>e. liftE (dict_getitem e name))"

definition environ_set :: "string \<Rightarrow> string \<Rightarrow> (world, unit) prog" where
  "environ_set name v =
     seqS (modS (\<lambda>w. w\<lparr>environ := dict_set name v (environ w)\<rparr>)) (emit (PutEnv name v))"

text \<open>\<open>while not os.path.isfile(f): pass\<close>: one answer per check of the file.\<close>

fun wait_isfile :: "(bool list, unit) prog" where
  "wait_isfile [] = (Diverge, [])"
| "wait_isfile (b # bs) = (if b then (Return (), bs) else wait_isfile bs)"

definition wait_for_file :: "string \<Rightarrow> (world, unit) prog" where
  "wait_for_file f = zoom isfile (\<lambda>bs w. w\<lparr>isfile := bs\<rparr>) wait_isfile"

text \<open>Whether bytes decode as UTF-8: no stray or missing continuation byte, no overlong form, no
  surrogate and nothing above the last code point.\<close>

definition cont_byte :: "8 word \<Rightarrow> bool" where
  "cont_byte b \<longleftrightarrow> 0x80 \<le> b \<and> b \<le> 0xBF"

fun valid_utf8 :: "bytes \<Rightarrow> bool" where
  "valid_utf8 [] = True"
| "valid_utf8 (a # bs) =
     (if a \<le> 0x7F then valid_utf8 bs
      else if 0xC2 \<le> a \<and> a \<le> 0xDF then
        (case bs of b # bs' \<Rightarrow> cont_byte b \<and> valid_utf8 bs' | _ \<Rightarrow> False)
      else if 0xE0 \<le> a \<and> a \<le> 0xEF then
        (case bs of b # c # bs' \<Rightarrow>
           cont_byte b \<and> cont_byte c \<and> (a = 0xE0 \<longrightarrow> 0xA0 \<le> b) \<and> (a = 0xED \<longrightarrow> b \<le> 0x9F) \<and> valid_utf8 bs'
         | _ \<Rightarrow> False)
      else if 0xF0 \<le> a \<and> a \<le> 0xF4 then
        (case bs of b # c # d # bs' \<Rightarrow>
           cont_byte b \<and> cont_byte c \<and> cont_byte d \<and> (a = 0xF0 \<longrightarrow> 0x90 \<le> b) \<and> (a = 0xF4 \<longrightarrow> b \<le> 0x8F) \<and>
           valid_utf8 bs'
         | _ \<Rightarrow> False)
      else False)"

section \<open>Lemmas\<close>

lemma emit_run [simp]: "emit e w = (Return (), w\<lparr>trace := trace w @ [e]\<rparr>)"
  by (simp add: emit_def)

lemma os_system_run [simp]: "os_system c w = (Return (), w\<lparr>trace := trace w @ [System c]\<rparr>)"
  by (simp add: os_system_def)

lemma next_snapshot_run [simp]:
  "snapshots w = s # ss \<Longrightarrow> next_snapshot w = (Return s, w\<lparr>snapshots := ss\<rparr>)"
  "snapshots w = [] \<Longrightarrow> next_snapshot w = (Diverge, w)"
  by (simp_all add: next_snapshot_def next_answer_def)

lemma next_exit_run [simp]:
  "exits w = x # xs \<Longrightarrow> next_exit w = (Return x, w\<lparr>exits := xs\<rparr>)"
  "exits w = [] \<Longrightarrow> next_exit w = (Diverge, w)"
  by (simp_all add: next_exit_def next_answer_def)

lemma next_reply_run [simp]:
  "replies w = x # xs \<Longrightarrow> next_reply w = (Return x, w\<lparr>replies := xs\<rparr>)"
  "replies w = [] \<Longrightarrow> next_reply w = (Diverge, w)"
  by (simp_all add: next_reply_def next_answer_def)

lemma time_time_run [simp]: "time_time w = (Return (clock w (ticks w)), w\<lparr>ticks := Suc (ticks w)\<rparr>)"
  by (simp add: time_time_def)

lemma list_namespaced_pod_run [simp]:
  "snapshots w = s # ss \<Longrightarrow> list_namespaced_pod sel w = (Return (pods_of s sel), w\<lparr>snapshots := ss\<rparr>)"
  "snapshots w = [] \<Longrightarrow> list_namespaced_pod sel w = (Diverge, w)"
  by (simp_all add: list_namespaced_pod_def)

lemma list_node_run [simp]:
  "snapshots w = s # ss \<Longrightarrow> list_node w = (Return (node_addresses s), w\<lparr>snapshots := ss\<rparr>)"
  "snapshots w = [] \<Longrightarrow> list_node w = (Diverge, w)"
  by (simp_all add: list_node_def)

lemma world_choice_run:
  assumes "xs \<noteq> []"
  obtains x where "x \<in> set xs" "world_choice xs w = (Return x, w\<lparr>draws := tl (draws w)\<rparr>)"
proof -
  let ?r = "case draws w of [] \<Rightarrow> 0 | r # _ \<Rightarrow> r"
  obtain x where "choice ?r xs = Inr x" using choice_total [OF assms] by blast
  moreover from this have "x \<in> set xs" by (rule choice_member)
  ultimately show thesis by (intro that) (simp_all add: world_choice_def)
qed

lemma world_choice_empty: "world_choice [] w = (Raise IndexError, w\<lparr>draws := tl (draws w)\<rparr>)"
  by (simp add: world_choice_def choice_def)

end
