(* ===== verification/Dinomo_Util.thy ===== *)
theory Dinomo_Util
  imports Dinomo_World
begin

text \<open>
  \<^verbatim>\<open>cluster/dinomo/shared/util.py\<close>: the helpers that the cluster scripts and the management server
  share. A function that waits for the cluster is shown to return as soon as the cluster answers
  as it waits for, and to wait otherwise.
\<close>

definition NAMESPACE :: string where
  "NAMESPACE = ''default''"

section \<open>YAML\<close>

text \<open>\<open>replace_yaml_val\<close> changes the first pair with the name, in place: the result is the list after
  the change.\<close>

fun replace_pairs :: "yaml list \<Rightarrow> string \<Rightarrow> yaml \<Rightarrow> yaml list res" where
  "replace_pairs [] name v = Inr []"
| "replace_pairs (pair # pairs) name v =
     bindE (yaml_get pair ''name'') (\<lambda>n.
     if n = PStr name then bindE (yaml_set pair ''value'' v) (\<lambda>pair'. Inr (pair' # pairs))
     else bindE (replace_pairs pairs name v) (\<lambda>pairs'. Inr (pair # pairs')))"

definition replace_yaml_val :: "string \<Rightarrow> yaml \<Rightarrow> yaml \<Rightarrow> yaml res" where
  "replace_yaml_val name v yaml_dict =
     (case yaml_dict of
        PList pairs \<Rightarrow> bindE (replace_pairs pairs name v) (\<lambda>pairs'. Inr (PList pairs'))
      | PDict [] \<Rightarrow> Inr yaml_dict
      | PStr [] \<Rightarrow> Inr yaml_dict
      | _ \<Rightarrow> Inl TypeError)"

text \<open>\<open>e.stderr\<close>, in the message about a malformed document, is not an attribute of a \<open>YAMLError\<close>: the
  handler raises before it reaches \<open>sys.exit(1)\<close>.\<close>

definition load_yaml :: "host \<Rightarrow> string \<Rightarrow> string option \<Rightarrow> yaml res" where
  "load_yaml h filename prefix =
     (let f = (case prefix of
                 Some p \<Rightarrow> if p \<noteq> [] then path_join p filename else filename
               | None \<Rightarrow> filename)
      in bindE (read_file h f) (\<lambda>text.
         case safe_load h text of Some y \<Rightarrow> Inr y | None \<Rightarrow> Inl AttributeError))"

section \<open>Processes and environment\<close>

definition init_k8s :: "(world, unit) prog" where
  "init_k8s = emit LoadKubeConfig"

definition run_process :: "string list \<Rightarrow> string \<Rightarrow> (world, unit) prog" where
  "run_process command current_workdir =
     seqS (emit (RunProcess command current_workdir))
    (bindS next_exit (\<lambda>x.
     case x of
       Exited n \<Rightarrow> if n = 0 then returnS () else raiseS (SystemExit 1)
     | NoSuchProgram \<Rightarrow> raiseS OSError))"

definition run_background_process :: "string list \<Rightarrow> string \<Rightarrow> (world, unit) prog" where
  "run_background_process command current_workdir = emit (Background command current_workdir)"

definition check_or_get_env_arg :: "string \<Rightarrow> (world, string) prog" where
  "check_or_get_env_arg arg_name =
     bindS (getS environ) (\<lambda>env.
     if \<not> dict_mem arg_name env then raiseS ValueError else environ_get arg_name)"

section \<open>Pods\<close>

text \<open>The loop of \<open>get_pod_ips\<close>, which asks until every pod has an address (and, on demand, runs).\<close>

definition pods_ready :: "bool \<Rightarrow> pod list \<Rightarrow> bool" where
  "pods_ready is_running pod_list \<longleftrightarrow>
     None \<notin> set (map pod_ip pod_list) \<and>
     (is_running \<longrightarrow> length (filter (\<lambda>pod. phase pod \<noteq> ''Running'') pod_list) = 0)"

fun wait_pods :: "string \<Rightarrow> bool \<Rightarrow> (snapshot list, string list) prog" where
  "wait_pods selector is_running [] = (Diverge, [])"
| "wait_pods selector is_running (s # ss) =
     (let pod_list = pods_of s selector
      in if pods_ready is_running pod_list then (Return (map (the \<circ> pod_ip) pod_list), ss)
         else wait_pods selector is_running ss)"

text \<open>The first list is always asked for again: \<open>running\<close> is false before the loop.\<close>

definition get_pod_ips :: "string \<Rightarrow> bool \<Rightarrow> (world, string list) prog" where
  "get_pod_ips selector is_running =
     bindS (list_namespaced_pod selector) (\<lambda>_.
     zoom snapshots (\<lambda>ss w. w\<lparr>snapshots := ss\<rparr>) (wait_pods selector is_running))"

definition get_previous_count :: "string \<Rightarrow> (world, nat) prog" where
  "get_previous_count kind = bindS (list_namespaced_pod (''role='' @ kind)) (\<lambda>items. returnS (length items))"

fun find_hostname :: "string list list \<Rightarrow> string \<Rightarrow> string option res" where
  "find_hostname [] i = Inr None"
| "find_hostname (addresses # nodes) i =
     bindE (list_get addresses 0) (\<lambda>a.
     if a = i then bindE (list_get addresses 1) (\<lambda>h. Inr (Some h)) else find_hostname nodes i)"

definition get_hostname_from_ip :: "string \<Rightarrow> (world, string option) prog" where
  "get_hostname_from_ip i = bindS list_node (\<lambda>nodes. liftE (find_hostname nodes i))"

definition get_pod_from_ip :: "string \<Rightarrow> (world, pod) prog" where
  "get_pod_from_ip i =
     bindS (list_namespaced_pod '''') (\<lambda>pods. liftE (list_get (filter (\<lambda>pod. pod_ip pod = Some i) pods) 0))"

section \<open>Copying a file\<close>

text \<open>One turn of the loop per update of the stream: \<open>commands\<close> holds the archive until it was
  written.\<close>

fun copy_loop :: "(bool \<times> bool) list \<Rightarrow> bytes list \<Rightarrow> (world, unit) prog" where
  "copy_loop [] commands = returnS ()"
| "copy_loop ((is_open, err) # resp) commands =
     (if \<not> is_open then returnS ()
      else if err then raiseS (SystemExit 1)
      else case commands of
        c # cs \<Rightarrow> seqS (emit (WriteStdin c)) (copy_loop resp cs)
      | [] \<Rightarrow> returnS ())"

definition copy_file_to_pod :: "host \<Rightarrow> string \<Rightarrow> string \<Rightarrow> string \<Rightarrow> string \<Rightarrow> (world, unit) prog" where
  "copy_file_to_pod h file_path name pod_path container =
     seqS (emit (ExecInPod name container [''tar'', ''xmvf'', ''-'', ''-C'', pod_path]))
    (bindS next_stream (\<lambda>resp.
     bindS (liftE (archive h file_path)) (\<lambda>tar.
     if \<not> valid_utf8 tar then raiseS UnicodeError
     else seqS (copy_loop resp [tar]) (emit CloseStream))))"

section \<open>Properties\<close>

lemma wait_pods_spec:
  "wait_pods sel r ss =
     (case dropWhile (\<lambda>s. \<not> pods_ready r (pods_of s sel)) ss of
        [] \<Rightarrow> (Diverge, [])
      | s # rest \<Rightarrow> (Return (map (the \<circ> pod_ip) (pods_of s sel)), rest))"
  by (induction ss) (auto simp: Let_def)

lemma pods_ready_ips:
  assumes "pods_ready r ps"
  shows "map pod_ip ps = map Some (map (the \<circ> pod_ip) ps)"
proof -
  have "pod_ip p = Some (the (pod_ip p))" if "p \<in> set ps" for p
    using assms that by (cases "pod_ip p") (force simp: pods_ready_def)+
  then show ?thesis by simp
qed

lemma wait_pods_returns:
  assumes "\<forall>s \<in> set early. \<not> pods_ready r (pods_of s sel)" and "pods_ready r (pods_of s sel)"
  shows "wait_pods sel r (early @ s # late) = (Return (map (the \<circ> pod_ip) (pods_of s sel)), late)"
  using assms(1) by (simp add: wait_pods_spec dropWhile_append3 assms(2))

lemma get_pod_ips_returns:
  assumes "snapshots w = s0 # early @ s # late"
    and "\<forall>u \<in> set early. \<not> pods_ready r (pods_of u sel)" and "pods_ready r (pods_of s sel)"
  shows "get_pod_ips sel r w = (Return (map (the \<circ> pod_ip) (pods_of s sel)), w\<lparr>snapshots := late\<rparr>)"
  using assms(1) wait_pods_returns [OF assms(2,3), of late] by (simp add: get_pod_ips_def zoom_def)

text \<open>C28: \<open>get_pod_ips\<close> returns as soon as it can: it asks once, then asks again until every selected
  pod has an address (and runs, when that is asked for), and returns the addresses of the first
  such answer, in order and without reading a later one; when no such answer ever comes it does
  not return. The first answer is never used.\<close>

theorem get_pod_ips_liveness:
  assumes "snapshots w = s0 # ss"
  shows "if \<exists>s \<in> set ss. pods_ready r (pods_of s sel)
    then \<exists>early s late. ss = early @ s # late \<and> (\<forall>u \<in> set early. \<not> pods_ready r (pods_of u sel)) \<and>
      pods_ready r (pods_of s sel) \<and> map pod_ip (pods_of s sel) = map Some (map (the \<circ> pod_ip) (pods_of s sel)) \<and>
      get_pod_ips sel r w = (Return (map (the \<circ> pod_ip) (pods_of s sel)), w\<lparr>snapshots := late\<rparr>)
    else fst (get_pod_ips sel r w) = Diverge"
proof (cases "\<exists>s \<in> set ss. pods_ready r (pods_of s sel)")
  case True
  obtain early s late where "ss = early @ s # late" "pods_ready r (pods_of s sel)"
    "\<forall>u \<in> set early. \<not> pods_ready r (pods_of u sel)"
    using split_list_first_prop [OF True] by blast
  moreover from this(2) have "map pod_ip (pods_of s sel) = map Some (map (the \<circ> pod_ip) (pods_of s sel))"
    by (rule pods_ready_ips)
  ultimately show ?thesis
    using True get_pod_ips_returns [of w s0 early s late r sel] assms by auto
next
  case False
  then have "dropWhile (\<lambda>s. \<not> pods_ready r (pods_of s sel)) ss = []" by simp
  then have "wait_pods sel r ss = (Diverge, [])" unfolding wait_pods_spec by (simp only: list.case)
  with False assms show ?thesis by (simp add: get_pod_ips_def zoom_def)
qed

definition demo_pod :: "string option \<Rightarrow> pod" where
  "demo_pod i = \<lparr>pod_name = ''memory-0'', node_name = Some ''dinomo7'', containers = [''c''], pod_ip = i,
     phase = ''Running'', restart_counts = [2]\<rparr>"

definition demo_world :: world where
  "demo_world = \<lparr>snapshots =
      [\<lparr>pods_of = (\<lambda>_. []), node_addresses = []\<rparr>,
       \<lparr>pods_of = (\<lambda>_. [demo_pod None]), node_addresses = []\<rparr>,
       \<lparr>pods_of = (\<lambda>_. [demo_pod (Some ''10.0.0.7'')]), node_addresses = []\<rparr>],
     exits = [], streams = [], replies = [], clock = rat_of_nat, ticks = 0, isfile = [], draws = [], environ = [], trace = []\<rparr>"

theorem get_pod_ips_liveness_witness:
  "fst (get_pod_ips ''role=memory'' True demo_world) = Return [''10.0.0.7'']"
proof -
  let ?ss = "[\<lparr>pods_of = (\<lambda>_ :: string. [demo_pod None]), node_addresses = []\<rparr>,
       \<lparr>pods_of = (\<lambda>_. [demo_pod (Some ''10.0.0.7'')]), node_addresses = []\<rparr>]"
  have "snapshots demo_world = \<lparr>pods_of = (\<lambda>_. []), node_addresses = []\<rparr> # ?ss"
    by (simp add: demo_world_def)
  from get_pod_ips_liveness [OF this, of True "''role=memory''"] show ?thesis
    by (auto simp: pods_ready_def demo_pod_def Cons_eq_append_conv)
qed


definition demo_host :: host where
  "demo_host = \<lparr>read_file = (\<lambda>_. Inl OSError), safe_load = (\<lambda>_. None), archive = (\<lambda>_. Inr [0x41]),
     set_order = id, getoutput = (\<lambda>_. ''10.0.0.1'')\<rparr>"


end
