(* ===== verification/Dinomo_Add_Nodes.thy ===== *)
theory Dinomo_Add_Nodes
  imports Dinomo_Util
begin

text \<open>
  \<^verbatim>\<open>cluster/dinomo/cluster/add_nodes.py\<close>: adding nodes of given kinds to the cluster, waiting until
  their pods run and copying the configuration into the new ones; and adding many nodes in
  batches. A Python set is a list without duplicates; the order in which a loop visits it is the
  parameter \<open>set_order\<close>.
\<close>

section \<open>Pods and containers\<close>

type_synonym pod_container = "string \<times> string \<times> string option"

definition get_current_pod_container_pairs :: "pod list \<Rightarrow> pod_container list" where
  "get_current_pod_container_pairs pods =
     remdups (concat (map (\<lambda>pod. map (\<lambda>cname. (pod_name pod, cname, node_name pod)) (containers pod)) pods))"

text \<open>The role under which the pods of a kind are labelled.\<close>

definition pod_kind :: "string \<Rightarrow> string" where
  "pod_kind kind =
     (let kind' = (if kind = ''clover'' \<or> kind = ''asymnvm'' then ''memory'' else kind)
      in if kind' = ''clover-bench'' \<or> kind' = ''asymnvm-bench'' then ''benchmark'' else kind')"

section \<open>Adding nodes\<close>

text \<open>The first loop, for one kind: the pods that are there already, how many, and the script that
  adds servers.\<close>

definition add_servers ::
  "string \<Rightarrow> int \<Rightarrow> (world, pod_container list \<times> int) prog" where
  "add_servers kind count =
     (let role = pod_kind kind in
      bindS (list_namespaced_pod (''role='' @ role)) (\<lambda>pods.
      bindS (get_previous_count role) (\<lambda>prev_count.
      seqS (run_process [''./add_servers.sh'', role, str_int count] ''dinomo/cluster/kubespray'')
        (returnS (get_current_pod_container_pairs pods, count + int prev_count)))))"

definition add_all_servers ::
  "string list \<Rightarrow> int list \<Rightarrow> (world, (pod_container list \<times> int) list) prog" where
  "add_all_servers kinds counts =
     foldS (\<lambda>i acc.
        bindS (liftE (list_get counts i)) (\<lambda>count.
        bindS (liftE (list_get kinds i)) (\<lambda>kind.
        bindS (add_servers kind count) (\<lambda>x. returnS (acc @ [x])))))
       [0..<length kinds] []"

text \<open>The environment of every container of a daemon set.\<close>

definition fill_env :: "string \<Rightarrow> string \<Rightarrow> string \<Rightarrow> string \<Rightarrow> yaml \<Rightarrow> yaml res" where
  "fill_env route_str mon_str management_ip seed_ip =
     yaml_at ''spec'' (yaml_at ''template'' (yaml_at ''spec'' (yaml_at ''containers'' (yaml_each
       (yaml_at ''env'' (\<lambda>env.
          bindE (replace_yaml_val ''ROUTING_IPS'' (PStr route_str) env) (\<lambda>env.
          bindE (replace_yaml_val ''MON_IPS'' (PStr mon_str) env) (\<lambda>env.
          bindE (replace_yaml_val ''MGMT_IP'' (PStr management_ip) env) (\<lambda>env.
          replace_yaml_val ''SEED_IP'' (PStr seed_ip) env)))))))))"

definition create_daemon_set ::
  "host \<Rightarrow> string \<Rightarrow> string option \<Rightarrow> string \<Rightarrow> string \<Rightarrow> string \<Rightarrow> string \<Rightarrow> (world, unit) prog" where
  "create_daemon_set h kind prefix route_str mon_str management_ip seed_ip =
     bindS (liftE (load_yaml h (''yaml/ds/'' @ kind @ ''-ds.yml'') prefix)) (\<lambda>yml.
     bindS (liftE (fill_env route_str mon_str management_ip seed_ip yml)) (\<lambda>yml'.
     emit (CreateDaemonSet yml')))"

text \<open>The loop that waits until the number of pods is the expected one; \<open>res\<close> is the last answer.\<close>

lemma wait_pods_shrinks: "wait_pods sel r ss = (x, ss') \<Longrightarrow> length ss' \<le> length ss"
  by (induction sel r ss rule: wait_pods.induct) (auto simp: Let_def split: if_splits)

function wait_count :: "string \<Rightarrow> int \<Rightarrow> string list \<Rightarrow> (snapshot list, unit) prog" where
  "wait_count selector expected res ss =
     (if int (length res) = expected then (Return (), ss)
      else case ss of
        [] \<Rightarrow> (Diverge, [])
      | s # ss1 \<Rightarrow>
          (case wait_pods selector True ss1 of
             (Return ips, ss2) \<Rightarrow> wait_count selector expected ips ss2
           | (Raise e, ss2) \<Rightarrow> (Raise e, ss2)
           | (Diverge, ss2) \<Rightarrow> (Diverge, ss2)))"
  by pat_completeness auto
termination
  by (relation "measure (\<lambda>(_, _, _, ss). length ss)") (auto simp: less_Suc_eq_le dest: wait_pods_shrinks [OF sym])

declare wait_count.simps [simp del]

text \<open>The configuration of one new pod.\<close>

definition configure_pod :: "host \<Rightarrow> string \<Rightarrow> string \<Rightarrow> pod_container \<Rightarrow> (world, unit) prog" where
  "configure_pod h cfile role pch = (case pch of (pname, cname, hname) \<Rightarrow>
     seqS (os_system (''cp '' @ cfile @ '' ./dinomo-config.yml''))
    (seqS (if role = ''memory'' then
             (case hname of
                None \<Rightarrow> raiseS TypeError
              | Some hn \<Rightarrow> os_system (''sed -i \"s|NODE_UID|'' @ drop 6 hn @ ''|g\" ./dinomo-config.yml''))
           else returnS ())
    (seqS (copy_file_to_pod h ''dinomo-config.yml'' pname ''/DINOMO/conf/'' cname)
      (os_system ''rm ./dinomo-config.yml''))))"

definition new_pods :: "host \<Rightarrow> pod_container list \<Rightarrow> pod_container list \<Rightarrow> pod_container list" where
  "new_pods h created previously = set_order h (filter (\<lambda>x. x \<notin> set previously) created)"

text \<open>The second loop, for one kind.\<close>

definition start_kind ::
  "host \<Rightarrow> string \<Rightarrow> string \<Rightarrow> bool \<Rightarrow> string option \<Rightarrow> string \<Rightarrow> string \<Rightarrow> string \<Rightarrow> string \<Rightarrow>
   pod_container list \<times> int \<Rightarrow> (world, unit) prog" where
  "start_kind h cfile kind create prefix route_str mon_str management_ip seed_ip before =
     (case before of (previously, expected) \<Rightarrow>
      seqS (if create then create_daemon_set h kind prefix route_str mon_str management_ip seed_ip
            else returnS ())
     (let role = pod_kind kind in
      seqS (zoom snapshots (\<lambda>ss w. w\<lparr>snapshots := ss\<rparr>) (wait_count (''role='' @ role) expected []))
     (bindS (list_namespaced_pod (''role='' @ role)) (\<lambda>pods.
      forS (new_pods h (get_current_pod_container_pairs pods) previously) (configure_pod h cfile role)))))"

text \<open>What follows the first loop, once the management address is known.\<close>

definition start_nodes ::
  "host \<Rightarrow> string \<Rightarrow> string list \<Rightarrow> bool \<Rightarrow> string option \<Rightarrow> (pod_container list \<times> int) list \<Rightarrow> string \<Rightarrow>
   (world, unit) prog" where
  "start_nodes h cfile kinds create prefix before management_ip =
     bindS (get_pod_ips ''role=routing'' False) (\<lambda>route_ips.
     bindS (if length route_ips > 0 then world_choice route_ips else returnS '''') (\<lambda>seed_ip.
     bindS (get_pod_ips ''role=monitoring'' False) (\<lambda>mon_ips.
     forS (zip kinds before) (\<lambda>(kind, b).
       start_kind h cfile kind create prefix (join '' '' route_ips) (join '' '' mon_ips)
         management_ip seed_ip b))))"

definition add_nodes ::
  "host \<Rightarrow> string \<Rightarrow> string list \<Rightarrow> int list \<Rightarrow> bool \<Rightarrow> string option \<Rightarrow> (world, unit) prog" where
  "add_nodes h cfile kinds counts create prefix =
     bindS (add_all_servers kinds counts) (\<lambda>before.
     bindS (get_pod_ips ''role=management'' False) (\<lambda>management_ips.
     bindS (liftE (list_get management_ips 0)) (\<lambda>management_ip.
     start_nodes h cfile kinds create prefix before management_ip)))"

section \<open>Every call consumes answers of the cluster\<close>

text \<open>\<open>add_nodes\<close> asks for the management pod, so it has read at least one more answer when it returns;
  the loop over batches ends or waits for that reason, whatever the batch size.\<close>

abbreviation (input) shrunk :: "nat \<Rightarrow> world \<Rightarrow> bool" where
  "shrunk n \<equiv> (\<lambda>w. length (snapshots w) \<le> n)"

lemma keeps_shrunk_emit [py_keeps]: "keeps (shrunk n) (emit e)"
  by (simp add: keeps_def)

lemma keeps_shrunk_answer [py_keeps]:
  "keeps (shrunk n) next_snapshot" "keeps (shrunk n) next_exit" "keeps (shrunk n) next_stream"
  by (auto simp: keeps_def next_snapshot_def next_exit_def next_stream_def next_answer_def split: list.splits)

lemma keeps_shrunk_choice [py_keeps]: "keeps (shrunk n) (world_choice xs)"
  unfolding world_choice_def by (intro py_keeps keeps_modS) simp

lemma keeps_shrunk_list [py_keeps]: "keeps (shrunk n) (list_namespaced_pod sel)"
  unfolding list_namespaced_pod_def by (intro py_keeps)

lemma keeps_shrunk_wait_pods [py_keeps]:
  "keeps (shrunk n) (zoom snapshots (\<lambda>ss w. w\<lparr>snapshots := ss\<rparr>) (wait_pods sel r))"
  by (rule keepsI) (auto simp: zoom_def split: prod.splits dest: wait_pods_shrinks)

lemma keeps_shrunk_get_pod_ips [py_keeps]: "keeps (shrunk n) (get_pod_ips sel r)"
  unfolding get_pod_ips_def by (intro py_keeps)

lemma wait_count_shrinks: "wait_count sel n res ss = (x, ss') \<Longrightarrow> length ss' \<le> length ss"
proof (induction sel n res ss rule: wait_count.induct)
  case (1 sel n res ss)
  show ?case
  proof (cases "int (length res) = n \<or> ss = []")
    case True
    with "1.prems" show ?thesis by (auto simp: wait_count.simps split: if_splits)
  next
    case False
    then obtain s ss1 where ss: "ss = s # ss1" by (cases ss) auto
    obtain r ss2 where r: "wait_pods sel True ss1 = (r, ss2)" by fastforce
    have "length ss2 \<le> length ss1" using r by (rule wait_pods_shrinks)
    moreover have "length ss' \<le> length ss2"
    proof (cases r)
      case (Return ips)
      then have "wait_count sel n ips ss2 = (x, ss')"
        using "1.prems" False ss r by (simp add: wait_count.simps [of _ _ res])
      from "1.IH" [OF _ ss r [symmetric, unfolded Return]] False this show ?thesis by auto
    qed (use "1.prems" False ss r in \<open>auto simp: wait_count.simps [of _ _ res]\<close>)
    ultimately show ?thesis by (simp add: ss)
  qed
qed

lemma keeps_shrunk_wait_count [py_keeps]:
  "keeps (shrunk n) (zoom snapshots (\<lambda>ss w. w\<lparr>snapshots := ss\<rparr>) (wait_count sel e res))"
  by (rule keepsI) (auto simp: zoom_def split: prod.splits dest: wait_count_shrinks)

lemma keeps_shrunk_run_process [py_keeps]: "keeps (shrunk n) (run_process c d)"
proof -
  have "keeps (shrunk n) (case x of Exited n \<Rightarrow> if n = 0 then returnS () else raiseS (SystemExit 1)
    | NoSuchProgram \<Rightarrow> raiseS OSError)" for x
    by (cases x) (auto intro: py_keeps)
  then show ?thesis unfolding run_process_def by (intro py_keeps)
qed

lemma keeps_shrunk_copy [py_keeps]: "keeps (shrunk n) (copy_file_to_pod h f name dir c)"
proof -
  have loop: "keeps (shrunk n) (copy_loop resp cs)" for resp cs
  proof (induction resp arbitrary: cs)
    case (Cons r resp)
    show ?case by (cases r; simp only: copy_loop.simps) ((rule py_keeps | rule Cons.IH)+)
  qed (simp only: copy_loop.simps keeps_returnS)
  show ?thesis unfolding copy_file_to_pod_def by ((rule py_keeps | rule loop)+)
qed

lemma keeps_shrunk_configure [py_keeps]: "keeps (shrunk n) (configure_pod h cfile role p)"
  unfolding configure_pod_def os_system_def by ((rule py_keeps)+)

lemma keeps_shrunk_start_kind [py_keeps]: "keeps (shrunk n) (start_kind h cfile kind create p a b c d e)"
  unfolding start_kind_def create_daemon_set_def Let_def by ((rule py_keeps)+)

lemma keeps_shrunk_start_nodes [py_keeps]: "keeps (shrunk n) (start_nodes h cfile kinds create p b m)"
  unfolding start_nodes_def by ((rule py_keeps)+)

lemma keeps_shrunk_add_all [py_keeps]: "keeps (shrunk n) (add_all_servers kinds counts)"
  unfolding add_all_servers_def add_servers_def get_previous_count_def Let_def by ((rule py_keeps)+)

lemma get_pod_ips_consumes:
  "get_pod_ips sel r w = (Return ips, w') \<Longrightarrow> length (snapshots w') < length (snapshots w)"
  by (cases "snapshots w")
    (auto simp: get_pod_ips_def zoom_def less_Suc_eq_le split: prod.splits dest: wait_pods_shrinks)

lemma add_nodes_consumes:
  assumes "add_nodes h cfile kinds counts create prefix w = (Return (), w')"
  shows "length (snapshots w') < length (snapshots w)"
proof -
  obtain before u mips v m where 1: "add_all_servers kinds counts w = (Return before, u)"
    and 2: "get_pod_ips ''role=management'' False u = (Return mips, v)"
    and 3: "start_nodes h cfile kinds create prefix before m v = (Return (), w')"
    using assms by (auto simp: add_nodes_def py_inv)
  have "shrunk (length (snapshots w)) u" by (rule keepsD [OF keeps_shrunk_add_all _ 1]) simp
  moreover have "length (snapshots v) < length (snapshots u)" using 2 by (rule get_pod_ips_consumes)
  moreover have "shrunk (length (snapshots v)) w'" by (rule keepsD [OF keeps_shrunk_start_nodes _ 3]) simp
  ultimately show ?thesis by simp
qed

section \<open>Batches\<close>

text \<open>The loop over the remaining nodes of a kind.\<close>

function batch_loop ::
  "host \<Rightarrow> string \<Rightarrow> string \<Rightarrow> int \<Rightarrow> string option \<Rightarrow> int \<Rightarrow> (world, unit) prog" where
  "batch_loop h cfile kind batch_size prefix remaining_count w =
     (if \<not> remaining_count > 0 then (Return (), w)
      else if remaining_count \<le> batch_size then
        (case add_nodes h cfile [kind] [remaining_count] False prefix w of
           (Return (), w') \<Rightarrow> batch_loop h cfile kind batch_size prefix 0 w'
         | (Raise e, w') \<Rightarrow> (Raise e, w')
         | (Diverge, w') \<Rightarrow> (Diverge, w'))
      else
        (case add_nodes h cfile [kind] [batch_size] False prefix w of
           (Return (), w') \<Rightarrow> batch_loop h cfile kind batch_size prefix (remaining_count - batch_size) w'
         | (Raise e, w') \<Rightarrow> (Raise e, w')
         | (Diverge, w') \<Rightarrow> (Diverge, w')))"
  by pat_completeness auto
termination
  by (relation "measure (\<lambda>(_, _, _, _, _, _, w). length (snapshots w))")
    (auto dest: add_nodes_consumes [OF sym])

declare batch_loop.simps [simp del]

text \<open>The body of \<open>batch_add_nodes\<close>, with the function that its recursive call calls as an argument. The
  recursive call passes a single kind whose count is at most the batch size, for which the body
  does not call itself again: two levels give the recursive function
  (\<open>batch_add_nodes_recursive\<close> below is the equation of the source).\<close>

definition batch_body ::
  "(string list \<Rightarrow> int list \<Rightarrow> (world, unit) prog) \<Rightarrow> host \<Rightarrow> string \<Rightarrow> int \<Rightarrow> string option \<Rightarrow>
   string list \<Rightarrow> int list \<Rightarrow> (world, unit) prog" where
  "batch_body self h cfile batch_size prefix node_types node_counts =
     (if sum_list node_counts \<le> batch_size then add_nodes h cfile node_types node_counts True prefix
      else
        forS [0..<length node_types] (\<lambda>i.
          bindS (liftE (list_get node_types i)) (\<lambda>node_type.
          bindS (liftE (list_get node_counts i)) (\<lambda>node_count.
          if node_count \<le> batch_size then self [node_type] [node_count]
          else
            seqS (add_nodes h cfile [node_type] [batch_size] True prefix)
              (batch_loop h cfile node_type batch_size prefix (node_count - batch_size))))))"

definition batch_add_nodes ::
  "host \<Rightarrow> string \<Rightarrow> string list \<Rightarrow> int list \<Rightarrow> int \<Rightarrow> string option \<Rightarrow> (world, unit) prog" where
  "batch_add_nodes h cfile node_types node_counts batch_size prefix =
     batch_body (batch_body (\<lambda>_ _. divergeS) h cfile batch_size prefix) h cfile batch_size prefix
       node_types node_counts"

lemma batch_add_nodes_recursive:
  "batch_add_nodes h cfile node_types node_counts batch_size prefix =
   batch_body (\<lambda>ts cs. batch_add_nodes h cfile ts cs batch_size prefix) h cfile batch_size prefix
     node_types node_counts"
proof -
  have "batch_body f h cfile b prefix [t] [c] = add_nodes h cfile [t] [c] True prefix" if "c \<le> b" for f t c b
    using that by (simp add: batch_body_def)
  then show ?thesis
    unfolding batch_add_nodes_def batch_body_def [of _ h cfile batch_size prefix node_types node_counts]
    by (simp cong: if_cong)
qed

section \<open>The plan of a batched addition\<close>

text \<open>The batches of a count: the batch size as often as it fits, then the rest.\<close>

function batches :: "int \<Rightarrow> int \<Rightarrow> int list" where
  "batches b n = (if n \<le> 0 \<or> b \<le> 0 then [] else if n \<le> b then [n] else b # batches b (n - b))"
  by pat_completeness auto
termination
  by (relation "measure (\<lambda>(b, n). nat n)") auto

declare batches.simps [simp del]

lemma batches_sum: "0 < b \<Longrightarrow> 0 \<le> n \<Longrightarrow> sum_list (batches b n) = n"
  by (induction b n rule: batches.induct) (simp add: batches.simps)

lemma batches_bounds: "x \<in> set (batches b n) \<Longrightarrow> 0 < x \<and> x \<le> b"
proof (induction b n rule: batches.induct)
  case (1 b n)
  then show ?case by (subst (asm) batches.simps) (auto split: if_splits)
qed

lemma batches_length: "0 < b \<Longrightarrow> 0 \<le> n \<Longrightarrow> int (length (batches b n)) = (n + b - 1) div b"
proof (induction b n rule: batches.induct)
  case (1 b n)
  have eq: "(n + b - 1) div b = (n - 1) div b + 1"
    using div_add_self2 [of b "n - 1"] "1.prems" by (simp add: algebra_simps)
  consider "n = 0" | "0 < n" "n \<le> b" | "b < n" using "1.prems" by linarith
  then show ?case
  proof cases
    case 2
    then have "(n - 1) div b = 0" by (simp add: div_pos_pos_trivial)
    with 2 eq show ?thesis by (simp add: batches.simps)
  next
    case 3
    with "1.IH" "1.prems" have "int (length (batches b (n - b))) = (n - b + b - 1) div b" by simp
    then show ?thesis using 3 eq "1.prems" by (simp add: batches.simps [of b n])
  qed (use "1.prems" in \<open>simp add: batches.simps div_pos_pos_trivial\<close>)
qed

lemma batch_loop_plan:
  assumes "0 < b"
  shows "batch_loop h cfile kind b prefix n w =
    forS (batches b n) (\<lambda>k. add_nodes h cfile [kind] [k] False prefix) w"
  using assms
proof (induction b n arbitrary: w rule: batches.induct)
  case (1 b n)
  consider "n \<le> 0" | "0 < n" "n \<le> b" | "b < n" by linarith
  then show ?case
  proof cases
    case 2
    then show ?thesis
      using "1.prems" by (auto simp: batch_loop.simps [of _ _ _ _ _ n] batch_loop.simps [of _ _ _ _ _ 0] batches.simps
          seqS_def bindS_def split: prod.splits outcome.splits unit.splits)
  next
    case 3
    then show ?thesis
      using "1.prems" "1.IH" by (auto simp: batch_loop.simps [of _ _ _ _ _ n] batches.simps [of b n]
          seqS_def bindS_def split: prod.splits outcome.splits unit.splits)
  qed (simp add: batch_loop.simps batches.simps)
qed

definition plan :: "int \<Rightarrow> int \<Rightarrow> (int \<times> bool) list" where
  "plan b c = (if c \<le> b then [(c, True)] else (b, True) # map (\<lambda>k. (k, False)) (batches b (c - b)))"

lemma forS_zip:
  assumes "length xs = length ys"
  shows "forS [0..<length xs] (\<lambda>i. bindS (liftE (list_get xs i)) (\<lambda>x. bindS (liftE (list_get ys i)) (f x))) w =
    forS (zip xs ys) (\<lambda>(x, y). f x y) w"
proof -
  have "forS [k..<length xs] (\<lambda>i. bindS (liftE (list_get xs i)) (\<lambda>x. bindS (liftE (list_get ys i)) (f x))) w =
      forS (zip (drop k xs) (drop k ys)) (\<lambda>(x, y). f x y) w" if "k \<le> length xs" for k w
    using that
  proof (induction "length xs - k" arbitrary: k w)
    case (Suc n)
    then have k: "k < length xs" "[k..<length xs] = k # [Suc k..<length xs]"
      by (simp_all add: upt_conv_Cons)
    have "drop k xs = xs ! k # drop (Suc k) xs" "drop k ys = ys ! k # drop (Suc k) ys"
      using k(1) assms by (simp_all add: Cons_nth_drop_Suc)
    moreover have "list_get xs k = Inr (xs ! k)" "list_get ys k = Inr (ys ! k)"
      using k(1) assms by (simp_all add: list_get_def)
    ultimately show ?case
      using Suc.hyps(1) [of "Suc k"] Suc.hyps(2) k
      by (auto simp: seqS_def bindS_def split: prod.splits outcome.splits)
  qed simp
  from this [of 0 w] show ?thesis by simp
qed

lemma batch_single:
  assumes "0 < b"
  shows "(if c \<le> b then batch_add_nodes h cfile [t] [c] b prefix
      else seqS (add_nodes h cfile [t] [b] True prefix) (batch_loop h cfile t b prefix (c - b))) =
    forS (plan b c) (\<lambda>(k, create). add_nodes h cfile [t] [k] create prefix)"
proof -
  have *: "forS (map (\<lambda>k. (k, False)) ks) (\<lambda>(k, create). add_nodes h cfile [t] [k] create prefix) =
      forS ks (\<lambda>k. add_nodes h cfile [t] [k] False prefix)" for ks
    by (induction ks) simp_all
  have **: "seqS m (returnS ()) = m" for m :: "(world, unit) prog"
    by (rule ext) (auto simp: seqS_def bindS_def returnS_def split: prod.splits outcome.splits)
  have "batch_loop h cfile t b prefix (c - b) = forS (batches b (c - b)) (\<lambda>k. add_nodes h cfile [t] [k] False prefix)"
    using batch_loop_plan [OF assms] by (rule ext)
  then show ?thesis
    by (simp add: plan_def * ** batch_add_nodes_def batch_body_def)
qed

text \<open>C12: adding nodes in batches adds exactly the nodes asked for. With a positive batch size,
  \<open>batch_add_nodes\<close> adds everything in one call when it fits in a batch, and otherwise goes through
  the kinds in order and carries out the plan of each: the calls add up to the count of the kind,
  none adds more than the batch size, there are no more of them than necessary, and only the
  first of them creates the daemon set.\<close>

theorem batch_add_nodes_plan:
  assumes "0 < b" and "length ts = length cs" and "\<forall>c \<in> set cs. 0 \<le> c"
  shows "batch_add_nodes h cfile ts cs b prefix w =
      (if sum_list cs \<le> b then add_nodes h cfile ts cs True prefix w
       else forS (zip ts cs) (\<lambda>(t, c).
         forS (plan b c) (\<lambda>(k, create). add_nodes h cfile [t] [k] create prefix)) w) \<and>
    (\<forall>c \<in> set cs. sum_list (map fst (plan b c)) = c \<and> (\<forall>(k, create) \<in> set (plan b c). k \<le> b) \<and>
      int (length (plan b c)) = max 1 ((c + b - 1) div b) \<and>
      map snd (plan b c) = True # replicate (length (plan b c) - 1) False)"
proof
  show "batch_add_nodes h cfile ts cs b prefix w =
      (if sum_list cs \<le> b then add_nodes h cfile ts cs True prefix w
       else forS (zip ts cs) (\<lambda>(t, c).
         forS (plan b c) (\<lambda>(k, create). add_nodes h cfile [t] [k] create prefix)) w)"
    unfolding batch_add_nodes_recursive [of h cfile ts cs] batch_body_def batch_single [OF assms(1)]
    using forS_zip [OF assms(2), of "\<lambda>t c. forS (plan b c) (\<lambda>(k, create). add_nodes h cfile [t] [k] create prefix)"]
    by simp
  show "\<forall>c \<in> set cs. sum_list (map fst (plan b c)) = c \<and> (\<forall>(k, create) \<in> set (plan b c). k \<le> b) \<and>
      int (length (plan b c)) = max 1 ((c + b - 1) div b) \<and>
      map snd (plan b c) = True # replicate (length (plan b c) - 1) False"
  proof
    fix c
    assume "c \<in> set cs"
    then have "0 \<le> c" using assms(3) by blast
    have eq: "(c + b - 1) div b = (c - 1) div b + 1"
      using div_add_self2 [of b "c - 1"] assms(1) by (simp add: algebra_simps)
    show "sum_list (map fst (plan b c)) = c \<and> (\<forall>(k, create) \<in> set (plan b c). k \<le> b) \<and>
      int (length (plan b c)) = max 1 ((c + b - 1) div b) \<and>
      map snd (plan b c) = True # replicate (length (plan b c) - 1) False"
    proof (cases "c \<le> b")
      case True
      have "(c - 1) div b \<le> 0"
        using True assms(1) \<open>0 \<le> c\<close> by (cases "c = 0") (simp_all add: div_neg_pos_less0 div_pos_pos_trivial less_imp_le)
      with True eq show ?thesis by (simp add: plan_def)
    next
      case False
      then have "int (length (batches b (c - b))) = (c - 1) div b" "sum_list (batches b (c - b)) = c - b"
        using batches_length [of b "c - b"] batches_sum [of b "c - b"] assms(1) by simp_all
      moreover have "0 \<le> (c - 1) div b" using False assms(1) by (simp add: pos_imp_zdiv_nonneg_iff)
      ultimately show ?thesis
        using False eq batches_bounds by (auto simp: plan_def comp_def map_replicate_const)
    qed
  qed
qed

theorem batch_add_nodes_plan_witness:
  "plan 100 250 = [(100, True), (100, False), (50, False)] \<and>
   batch_add_nodes demo_host ''conf'' [''memory''] [250] 100 None demo_world =
     forS (zip [''memory''] [250]) (\<lambda>(t, c).
       forS (plan 100 c) (\<lambda>(k, create). add_nodes demo_host ''conf'' [t] [k] create None)) demo_world"
  using batch_add_nodes_plan [of 100 "[''memory'']" "[250]" demo_host "''conf''" None demo_world]
  by (simp add: plan_def batches.simps)

section \<open>The configuration reaches the new pods\<close>

fun is_exec :: "event \<Rightarrow> bool" where
  "is_exec (ExecInPod _ _ _) = True"
| "is_exec _ = False"

abbreviation execs :: "world \<Rightarrow> event list" where
  "execs w \<equiv> filter is_exec (trace w)"

definition copy_command :: "pod_container \<Rightarrow> event" where
  "copy_command p = (case p of (pname, cname, hname) \<Rightarrow>
     ExecInPod pname cname [''tar'', ''xmvf'', ''-'', ''-C'', ''/DINOMO/conf/''])"

lemma copy_loop_execs: "copy_loop resp cs w = (r, w') \<Longrightarrow> execs w' = execs w"
  by (induction resp cs arbitrary: w rule: copy_loop.induct) (auto split: if_splits list.splits)

lemma copy_file_execs:
  "copy_file_to_pod h f pname dir cname w = (Return (), w') \<Longrightarrow>
   execs w' = execs w @ [ExecInPod pname cname [''tar'', ''xmvf'', ''-'', ''-C'', dir]]"
  by (auto simp: copy_file_to_pod_def py_inv next_stream_def next_answer_def
      split: if_splits list.splits dest: copy_loop_execs)

lemma configure_pod_execs:
  "configure_pod h cfile role p w = (Return (), w') \<Longrightarrow> execs w' = execs w @ [copy_command p]"
  by (cases p) (auto simp: configure_pod_def copy_command_def py_inv split: if_splits option.splits
      dest!: copy_file_execs)

lemma configure_pods_execs:
  "forS ps (configure_pod h cfile role) w = (Return (), w') \<Longrightarrow> execs w' = execs w @ map copy_command ps"
  by (induction ps arbitrary: w) (auto simp: py_inv dest!: configure_pod_execs)

lemma wait_count_snapshots:
  "wait_count sel n res ss = (Return (), ss') \<Longrightarrow> set ss' \<subseteq> set ss"
proof (induction sel n res ss rule: wait_count.induct)
  case (1 sel n res ss)
  show ?case
  proof (cases "int (length res) = n \<or> ss = []")
    case True
    with "1.prems" show ?thesis by (auto simp: wait_count.simps split: if_splits)
  next
    case False
    then obtain s ss1 where ss: "ss = s # ss1" by (cases ss) auto
    obtain ips ss2 where r: "wait_pods sel True ss1 = (Return ips, ss2)"
      and rest: "wait_count sel n ips ss2 = (Return (), ss')"
      using "1.prems" False ss
      by (auto simp: wait_count.simps [of _ _ res] split: prod.splits outcome.splits)
    have "set ss2 \<subseteq> set ss1"
      using r by (auto simp: wait_pods_spec split: list.splits dest!: arg_cong [of "dropWhile _ _" _ set]
          intro: set_dropWhileD)
    moreover have "set ss' \<subseteq> set ss2"
      using "1.IH" [OF _ ss r [symmetric]] False rest by blast
    ultimately show ?thesis by (auto simp: ss)
  qed
qed


definition demo_added :: world where
  "demo_added = demo_world\<lparr>snapshots := [\<lparr>pods_of = (\<lambda>_. [demo_pod (Some ''10.0.0.7'')]), node_addresses = []\<rparr>],
     streams := [[(True, False)]]\<rparr>"


end
