(* ===== verification/Dinomo_Management.thy ===== *)
theory Dinomo_Management
  imports Dinomo_Add_Nodes
begin

text \<open>
  The management tier: \<^verbatim>\<open>cluster/dinomo/management/util.py\<close> (addresses and sending), the scaler of
  \<^verbatim>\<open>management/scaler\<close>, the management server of \<^verbatim>\<open>management/management_server.py\<close>, which watches the
  hash ring and fails departed nodes over, the server of \<^verbatim>\<open>management/k8s_server.py\<close>, which adds and
  removes nodes on request, and \<^verbatim>\<open>cluster/remove_node.py\<close>.

  A server's loop is a program over the results of its polls: each gives the message that has
  arrived at a socket, if one has; a list of polls that is used up stands for a server that waits.
  The parser of the membership message is the parameter \<open>parse_membership\<close>.
\<close>

section \<open>management/util.py\<close>

definition NUM_EXEC_THREADS :: int where
  "NUM_EXEC_THREADS = 3"

definition TCP_BASE :: "string \<Rightarrow> int \<Rightarrow> string" where
  "TCP_BASE i port = ''tcp://'' @ i @ '':'' @ str_int port"

definition EXECUTOR_DEPART_PORT :: int where "EXECUTOR_DEPART_PORT = 4050"
definition EXECUTOR_PIN_PORT :: int where "EXECUTOR_PIN_PORT = 4000"
definition EXECUTOR_UNPIN_PORT :: int where "EXECUTOR_UNPIN_PORT = 4010"
definition KVS_NODE_DEPART_PORT :: int where "KVS_NODE_DEPART_PORT = 6100"
definition KVS_NODE_FAILOVER_PORT :: int where "KVS_NODE_FAILOVER_PORT = 6600"
definition ROUTING_SEED_PORT :: int where "ROUTING_SEED_PORT = 7000"
definition ROUTING_NOTIFY_PORT :: int where "ROUTING_NOTIFY_PORT = 7100"
definition MONITORING_NOTIFY_PORT :: int where "MONITORING_NOTIFY_PORT = 7400"

lemmas port_defs = EXECUTOR_DEPART_PORT_def EXECUTOR_PIN_PORT_def EXECUTOR_UNPIN_PORT_def
  KVS_NODE_DEPART_PORT_def KVS_NODE_FAILOVER_PORT_def ROUTING_SEED_PORT_def ROUTING_NOTIFY_PORT_def
  MONITORING_NOTIFY_PORT_def

datatype message = MStr string | MBytes bytes

definition send_message :: "message \<Rightarrow> string \<Rightarrow> (world, unit) prog" where
  "send_message message address =
     (case message of
        MStr s \<Rightarrow> emit (SentTo address (utf8 s))
      | MBytes b \<Rightarrow> emit (SentTo address b))"

definition get_executor_depart_address :: "string \<Rightarrow> int \<Rightarrow> string" where
  "get_executor_depart_address i tid = TCP_BASE i (tid + EXECUTOR_DEPART_PORT)"

definition get_executor_pin_address :: "string \<Rightarrow> int \<Rightarrow> string" where
  "get_executor_pin_address i tid = TCP_BASE i (tid + EXECUTOR_PIN_PORT)"

definition get_executor_unpin_address :: "string \<Rightarrow> int \<Rightarrow> string" where
  "get_executor_unpin_address i tid = TCP_BASE i (tid + EXECUTOR_UNPIN_PORT)"

definition get_routing_seed_address :: "string \<Rightarrow> int \<Rightarrow> string" where
  "get_routing_seed_address i tid = TCP_BASE i (tid + ROUTING_SEED_PORT)"

definition get_storage_depart_address :: "string \<Rightarrow> int \<Rightarrow> string" where
  "get_storage_depart_address i tid = TCP_BASE i (tid + KVS_NODE_DEPART_PORT)"

definition get_storage_failover_address :: "string \<Rightarrow> int \<Rightarrow> string" where
  "get_storage_failover_address i tid = TCP_BASE i (tid + KVS_NODE_FAILOVER_PORT)"

definition get_routing_depart_address :: "string \<Rightarrow> int \<Rightarrow> string" where
  "get_routing_depart_address i tid = TCP_BASE i (tid + ROUTING_NOTIFY_PORT)"

definition get_monitoring_depart_address :: "string \<Rightarrow> string" where
  "get_monitoring_depart_address i = TCP_BASE i MONITORING_NOTIFY_PORT"

section \<open>The scaler\<close>

definition BaseScaler_abstract :: "(world, 'a) prog" where
  "BaseScaler_abstract = raiseS NotImplementedError"

record DefaultScaler =
  scaler_ip :: string
  add_socket :: string  \<comment> \<open>the address the socket is connected to\<close>
  remove_socket :: string

definition DefaultScaler_init :: "string \<Rightarrow> string \<Rightarrow> string \<Rightarrow> DefaultScaler" where
  "DefaultScaler_init i a r = \<lparr>scaler_ip = i, add_socket = a, remove_socket = r\<rparr>"

definition add_vms :: "DefaultScaler \<Rightarrow> string \<Rightarrow> string \<Rightarrow> (world, unit) prog" where
  "add_vms self kind count = emit (SentTo (add_socket self) (utf8 (kind @ '':'' @ count)))"

definition remove_vms :: "DefaultScaler \<Rightarrow> string \<Rightarrow> string \<Rightarrow> (world, unit) prog" where
  "remove_vms self kind i = emit (SentTo (remove_socket self) (utf8 (kind @ '':'' @ i)))"

section \<open>Watching the hash ring\<close>

record server =
  public_ip :: string
  private_ip :: string

record tier =
  tier_id :: int
  servers :: "server list"

definition MEMORY :: int where
  "MEMORY = 1"

text \<open>The memory tier and, when there is one, the EBS tier.\<close>

fun split_tiers :: "tier list \<Rightarrow> (tier \<times> tier option) option" where
  "split_tiers [] = None"
| "split_tiers [t] = Some (t, None)"
| "split_tiers (t # u # ts) = Some (if tier_id t = MEMORY then (t, Some u) else (u, Some t))"

definition departed_servers :: "string \<Rightarrow> string list \<Rightarrow> tier \<Rightarrow> (string \<times> server) list" where
  "departed_servers label ips t =
     map (\<lambda>node. (label, node)) (filter (\<lambda>node. private_ip node \<notin> set ips) (servers t))"

text \<open>The log segments of a departed node are merged by a storage node picked at random.\<close>

definition failover :: "string list \<Rightarrow> string \<times> server \<Rightarrow> (world, unit) prog" where
  "failover storage_ips pair =
     bindS (get_hostname_from_ip (private_ip (snd pair))) (\<lambda>hostname.
     bindS (world_choice storage_ips) (\<lambda>i.
     case hostname of
       None \<Rightarrow> raiseS TypeError
     | Some hn \<Rightarrow>
         seqS (emit (SentTo (get_storage_failover_address i 0) (utf8 (fst pair @ '':'' @ drop 6 hn))))
           (bindS next_reply (\<lambda>_. returnS ()))))"

text \<open>\<open>range(n)\<close> of a number read from the configuration.\<close>

fun py_range :: "yaml \<Rightarrow> int list res" where
  "py_range (PInt n) = Inr (map int [0..<nat n])"
| "py_range (PBool b) = Inr (if b then [0] else [])"
| "py_range _ = Inl TypeError"

definition announce ::
  "string list \<Rightarrow> string list \<Rightarrow> string list \<Rightarrow> yaml \<Rightarrow> yaml \<Rightarrow> string \<times> server \<Rightarrow> (world, unit) prog" where
  "announce storage_ips route_ips mon_ips num_memory_threads num_routing_threads pair =
     (let msg = fst pair @ '':'' @ public_ip (snd pair) @ '':'' @ private_ip (snd pair) in
      seqS (forS storage_ips (\<lambda>i. bindS (liftE (py_range num_memory_threads)) (\<lambda>ts.
              forS ts (\<lambda>t. send_message (MStr msg) (get_storage_depart_address i t)))))
     (let msg = ''depart:'' @ msg in
      seqS (forS route_ips (\<lambda>i. bindS (liftE (py_range num_routing_threads)) (\<lambda>ts.
              forS ts (\<lambda>t. send_message (MStr msg) (get_routing_depart_address i t)))))
       (forS mon_ips (\<lambda>i. send_message (MStr msg) (get_monitoring_depart_address i)))))"

text \<open>All failovers come before the first announcement.\<close>

definition handle_departed ::
  "string list \<Rightarrow> string list \<Rightarrow> string list \<Rightarrow> yaml \<Rightarrow> yaml \<Rightarrow> (string \<times> server) list \<Rightarrow> (world, unit) prog" where
  "handle_departed storage_ips route_ips mon_ips num_memory_threads num_routing_threads departed =
     seqS (forS departed (failover storage_ips))
       (forS departed (announce storage_ips route_ips mon_ips num_memory_threads num_routing_threads))"

definition check_tiers ::
  "tier \<Rightarrow> tier option \<Rightarrow> string list \<Rightarrow> yaml \<Rightarrow> yaml \<Rightarrow> (world, unit) prog" where
  "check_tiers mem_tier ebs_tier route_ips num_memory_threads num_routing_threads =
     bindS (get_pod_ips ''role=memory'' False) (\<lambda>mem_ips.
     bindS (case ebs_tier of
              None \<Rightarrow> returnS ([], [])
            | Some ebs \<Rightarrow>
                bindS (get_pod_ips ''role=ebs'' False) (\<lambda>ebs_ips.
                returnS (ebs_ips, departed_servers ''STORAGE'' ebs_ips ebs))) (\<lambda>(ebs_ips, ebs_departed).
     let departed = departed_servers ''MEMORY'' mem_ips mem_tier @ ebs_departed in
     bindS (get_pod_ips ''role=monitoring'' False) (\<lambda>mon_ips.
     let storage_ips = mem_ips @ ebs_ips in
     bindS time_time (\<lambda>failover_start.
     seqS (handle_departed storage_ips route_ips mon_ips num_memory_threads num_routing_threads departed)
     (bindS time_time (\<lambda>failover_end. returnS ()))))))"

definition check_hash_ring ::
  "(bytes \<Rightarrow> tier list res) \<Rightarrow> yaml \<Rightarrow> yaml \<Rightarrow> (world, unit) prog" where
  "check_hash_ring parse_membership num_memory_threads num_routing_threads =
     bindS (get_pod_ips ''role=routing'' False) (\<lambda>route_ips.
     if route_ips = [] then returnS ()
     else
       bindS (world_choice route_ips) (\<lambda>i.
       seqS (emit (SentTo (get_routing_seed_address i 0) (utf8 '''')))
      (bindS next_reply (\<lambda>resp.
       bindS (liftE (parse_membership resp)) (\<lambda>tiers.
       case split_tiers tiers of
         None \<Rightarrow> returnS ()
       | Some (mem_tier, ebs_tier) \<Rightarrow>
           check_tiers mem_tier ebs_tier route_ips num_memory_threads num_routing_threads)))))"

section \<open>The management server\<close>

record poll =
  churn :: "string option"
  restart :: "string option"

definition REPORT_PERIOD :: rat where
  "REPORT_PERIOD = 5"

definition handle_churn :: "DefaultScaler \<Rightarrow> string \<Rightarrow> (world, unit) prog" where
  "handle_churn scaler msg =
     (let args = split_on CHR '':'' msg in
      bindS (liftE (list_get args 0)) (\<lambda>a0.
      if a0 = ''add'' then
        bindS (liftE (list_get args 2)) (\<lambda>a2. bindS (liftE (list_get args 1)) (\<lambda>a1. add_vms scaler a2 a1))
      else if a0 = ''remove'' then
        bindS (liftE (list_get args 2)) (\<lambda>a2. bindS (liftE (list_get args 1)) (\<lambda>a1. remove_vms scaler a2 a1))
      else returnS ()))"

definition handle_restart :: "string \<Rightarrow> (world, unit) prog" where
  "handle_restart msg =
     (let args = split_on CHR '':'' msg in
      bindS (liftE (list_get args 1)) (\<lambda>a1.
      bindS (get_pod_from_ip a1) (\<lambda>pod.
      bindS (liftE (list_get (restart_counts pod) 0)) (\<lambda>n.
      emit (SentTo ''tcp://*:8100'' (utf8 (str_int n)))))))"

text \<open>One turn of the loop; the result is the time at which the current period began.\<close>

definition management_turn ::
  "(bytes \<Rightarrow> tier list res) \<Rightarrow> DefaultScaler \<Rightarrow> yaml \<Rightarrow> yaml \<Rightarrow> poll \<Rightarrow> rat \<Rightarrow> (world, rat) prog" where
  "management_turn parse_membership scaler num_memory_threads num_routing_threads p start =
     seqS (case churn p of Some msg \<Rightarrow> handle_churn scaler msg | None \<Rightarrow> returnS ())
    (seqS (case restart p of Some msg \<Rightarrow> handle_restart msg | None \<Rightarrow> returnS ())
    (bindS time_time (\<lambda>end_time.
     if end_time - start > REPORT_PERIOD then
       seqS (check_hash_ring parse_membership num_memory_threads num_routing_threads) time_time
     else returnS start)))"

primrec management_loop ::
  "(bytes \<Rightarrow> tier list res) \<Rightarrow> DefaultScaler \<Rightarrow> yaml \<Rightarrow> yaml \<Rightarrow> poll list \<Rightarrow> rat \<Rightarrow> (world, unit) prog" where
  "management_loop parse_membership scaler nm nr [] start = divergeS"
| "management_loop parse_membership scaler nm nr (p # ps) start =
     bindS (management_turn parse_membership scaler nm nr p start)
       (management_loop parse_membership scaler nm nr ps)"

definition management_run ::
  "host \<Rightarrow> (bytes \<Rightarrow> tier list res) \<Rightarrow> poll list \<Rightarrow> string \<Rightarrow> (world, unit) prog" where
  "management_run h parse_membership polls self_ip =
     seqS (forS [''tcp://*:8100'', ''tcp://*:8101'', ''tcp://*:8102'', ''tcp://*:5010''] (\<lambda>a. emit (Bound a)))
    (seqS init_k8s
     (let scaler = DefaultScaler_init self_ip ''ipc:///tmp/node_add'' ''ipc:///tmp/node_remove'' in
     bindS (liftE (load_yaml h ''/DINOMO/conf/dinomo-config.yml'' None)) (\<lambda>kvs_spec.
     bindS (liftE (bindE (yaml_get kvs_spec ''threads'') (\<lambda>y. yaml_get y ''memory''))) (\<lambda>m.
     bindS (liftE (bindE (yaml_get kvs_spec ''threads'') (\<lambda>y. yaml_get y ''routing''))) (\<lambda>r.
     bindS time_time (\<lambda>start.
     management_loop parse_membership scaler m r polls start))))))"

definition management_main ::
  "host \<Rightarrow> (bytes \<Rightarrow> tier list res) \<Rightarrow> poll list \<Rightarrow> string list \<Rightarrow> (world, unit) prog" where
  "management_main h parse_membership polls argv =
     bindS (environ_get ''DINOMO_HOME'') (\<lambda>home.
     seqS (wait_for_file (path_join home ''setup_complete''))
    (bindS (environ_get ''HOME'') (\<lambda>user_home.
     seqS (wait_for_file (path_join user_home ''.kube/config''))
    (bindS (liftE (list_get argv 1)) (\<lambda>self_ip.
     management_run h parse_membership polls self_ip)))))"

section \<open>remove_node.py\<close>

definition remove_node :: "string \<Rightarrow> string \<Rightarrow> (world, unit) prog" where
  "remove_node i ntype =
     seqS init_k8s
    (bindS (get_hostname_from_ip i) (\<lambda>hostname.
     case hostname of
       None \<Rightarrow> raiseS TypeError
     | Some hn \<Rightarrow> run_process [''./remove_server.sh'', hn, ntype] ''dinomo/cluster/kubespray''))"

section \<open>The Kubernetes server\<close>

record k8s_poll =
  node_add :: "string option"
  node_remove :: "string option"

definition handle_node_add :: "host \<Rightarrow> string \<Rightarrow> string \<Rightarrow> string \<Rightarrow> (world, unit) prog" where
  "handle_node_add h cfile prefix msg =
     (let args = split_on CHR '':'' msg in
      bindS (liftE (list_get args 0)) (\<lambda>ntype.
      bindS (liftE (list_get args 1)) (\<lambda>a1.
      bindS (liftE (int_of_str a1)) (\<lambda>num.
      add_nodes h cfile [ntype] [num] False (Some prefix)))))"

definition handle_node_remove :: "string \<Rightarrow> (world, unit) prog" where
  "handle_node_remove msg =
     (let args = split_on CHR '':'' msg in
      bindS (liftE (list_get args 0)) (\<lambda>ntype.
      bindS (liftE (list_get args 1)) (\<lambda>i.
      remove_node i ntype)))"

definition k8s_turn :: "host \<Rightarrow> string \<Rightarrow> string \<Rightarrow> k8s_poll \<Rightarrow> (world, unit) prog" where
  "k8s_turn h cfile prefix p =
     seqS (case node_add p of Some msg \<Rightarrow> handle_node_add h cfile prefix msg | None \<Rightarrow> returnS ())
       (case node_remove p of Some msg \<Rightarrow> handle_node_remove msg | None \<Rightarrow> returnS ())"

definition k8s_run :: "host \<Rightarrow> k8s_poll list \<Rightarrow> (world, unit) prog" where
  "k8s_run h polls =
     seqS init_k8s
    (bindS (environ_get ''DINOMO_HOME'') (\<lambda>home.
     let prefix = path_join home ''cluster/dinomo/cluster'' in
     seqS (forS [''ipc:///tmp/node_add'', ''ipc:///tmp/node_remove''] (\<lambda>a. emit (Bound a)))
    (let cfile = path_join home ''conf/dinomo-config.yml'' in
     seqS (forS polls (k8s_turn h cfile prefix)) divergeS)))"

definition k8s_main :: "host \<Rightarrow> k8s_poll list \<Rightarrow> (world, unit) prog" where
  "k8s_main h polls =
     bindS (environ_get ''DINOMO_HOME'') (\<lambda>home.
     seqS (wait_for_file (path_join home ''setup_complete'')) (k8s_run h polls))"

end
