(* ===== verification/Dinomo_Management_Laws.thy ===== *)
theory Dinomo_Management_Laws
  imports Dinomo_Management
begin

text \<open>
  What the management tier guarantees: which nodes are taken for departed, that their logs are
  merged before anybody is told, who is told, and how a request to add nodes travels from the
  management server to the Kubernetes server.
\<close>

section \<open>Announcements\<close>

definition announcement ::
  "string list \<Rightarrow> string list \<Rightarrow> string list \<Rightarrow> nat \<Rightarrow> nat \<Rightarrow> string \<times> server \<Rightarrow> event list" where
  "announcement storage_ips route_ips mon_ips a b pair =
     (let msg = fst pair @ '':'' @ public_ip (snd pair) @ '':'' @ private_ip (snd pair) in
      concat (map (\<lambda>i. map (\<lambda>t. SentTo (TCP_BASE i (int t + 6100)) (utf8 msg)) [0..<a]) storage_ips) @
      concat (map (\<lambda>i. map (\<lambda>t. SentTo (TCP_BASE i (int t + 7100)) (utf8 (''depart:'' @ msg))) [0..<b]) route_ips) @
      map (\<lambda>i. SentTo (TCP_BASE i 7400) (utf8 (''depart:'' @ msg))) mon_ips)"

lemma forS_emits:
  assumes "\<And>x w. x \<in> set xs \<Longrightarrow> f x w = (Return (), w\<lparr>trace := trace w @ g x\<rparr>)"
  shows "forS xs f w = (Return (), w\<lparr>trace := trace w @ concat (map g xs)\<rparr>)"
  using assms by (induction xs arbitrary: w) auto

lemma forS_emit: "forS xs (\<lambda>x. emit (g x)) w = (Return (), w\<lparr>trace := trace w @ map g xs\<rparr>)"
  by (subst forS_emits [where g = "\<lambda>x. [g x]"]) (simp_all add: concat_map_singleton)

lemma announce_run:
  "announce storage_ips route_ips mon_ips (PInt a) (PInt b) pair w =
   (Return (), w\<lparr>trace := trace w @ announcement storage_ips route_ips mon_ips (nat a) (nat b) pair\<rparr>)"
  unfolding announce_def send_message_def message.case Let_def
  by (simp add: forS_emits [where g = "\<lambda>i. map (\<lambda>t. SentTo (TCP_BASE i (int t + 6100)) (utf8 (fst pair @ '':'' @
        public_ip (snd pair) @ '':'' @ private_ip (snd pair)))) [0..<nat a]"] forS_emit
      forS_emits [where g = "\<lambda>i. map (\<lambda>t. SentTo (TCP_BASE i (int t + 7100)) (utf8 (''depart:'' @ fst pair @ '':'' @
        public_ip (snd pair) @ '':'' @ private_ip (snd pair)))) [0..<nat b]"]
      get_storage_depart_address_def get_routing_depart_address_def get_monitoring_depart_address_def
      port_defs announcement_def Let_def comp_def)

lemma announces_run:
  "forS departed (announce storage_ips route_ips mon_ips (PInt a) (PInt b)) w =
   (Return (), w\<lparr>trace := trace w @
      concat (map (announcement storage_ips route_ips mon_ips (nat a) (nat b)) departed)\<rparr>)"
  by (rule forS_emits) (rule announce_run)

section \<open>Failover\<close>

definition failover_request :: "string list \<Rightarrow> event \<Rightarrow> string \<times> server \<Rightarrow> bool" where
  "failover_request storage_ips e pair \<longleftrightarrow>
     (\<exists>i \<in> set storage_ips. \<exists>hn. e = SentTo (TCP_BASE i 6600) (utf8 (fst pair @ '':'' @ drop 6 hn)))"

lemma world_choice_member:
  "world_choice xs w = (Return x, w') \<Longrightarrow> x \<in> set xs \<and> trace w' = trace w"
  by (auto simp: world_choice_def py_inv dest: choice_member)

lemma failover_trace:
  assumes "failover storage_ips pair w = (Return (), w')"
  shows "\<exists>e. trace w' = trace w @ [e] \<and> failover_request storage_ips e pair"
proof -
  obtain hostname u i v where 1: "get_hostname_from_ip (private_ip (snd pair)) w = (Return hostname, u)"
    and 2: "world_choice storage_ips u = (Return i, v)"
    and 3: "(case hostname of None \<Rightarrow> raiseS TypeError
      | Some hn \<Rightarrow> seqS (emit (SentTo (get_storage_failover_address i 0) (utf8 (fst pair @ '':'' @ drop 6 hn))))
           (bindS next_reply (\<lambda>_. returnS ()))) v = (Return (), w')"
    using assms unfolding failover_def bindS_eq_Return [of "get_hostname_from_ip _"]
      bindS_eq_Return [of "world_choice _"] by blast
  obtain hn where hn: "hostname = Some hn" using 3 by (cases hostname) auto
  have "trace u = trace w"
    using 1 by (cases "snapshots w") (auto simp: get_hostname_from_ip_def py_inv)
  moreover have "trace w' = trace v @ [SentTo (get_storage_failover_address i 0) (utf8 (fst pair @ '':'' @ drop 6 hn))]"
    using 3 hn by (cases "replies v") (auto simp: py_inv next_reply_def next_answer_def)
  ultimately show ?thesis
    using world_choice_member [OF 2]
    by (auto simp: failover_request_def get_storage_failover_address_def port_defs)
qed

lemma failovers_trace:
  "forS departed (failover storage_ips) w = (Return (), w') \<Longrightarrow>
   \<exists>es. trace w' = trace w @ es \<and> list_all2 (failover_request storage_ips) es departed"
proof (induction departed arbitrary: w)
  case (Cons pair departed)
  then obtain u where u: "failover storage_ips pair w = (Return (), u)"
    "forS departed (failover storage_ips) u = (Return (), w')"
    by (auto simp: py_inv)
  obtain e es where "trace u = trace w @ [e]" "failover_request storage_ips e pair"
    "trace w' = trace u @ es" "list_all2 (failover_request storage_ips) es departed"
    using failover_trace [OF u(1)] Cons.IH [OF u(2)] by blast
  then show ?case by (intro exI [of _ "e # es"]) simp
qed simp

lemma get_pod_ips_from:
  assumes "get_pod_ips sel r w = (Return ips, w')"
  shows "\<exists>s \<in> set (snapshots w). map pod_ip (pods_of s sel) = map Some ips"
    and "trace w' = trace w" and "set (snapshots w') \<subseteq> set (snapshots w)"
proof -
  obtain s0 ss where ss: "snapshots w = s0 # ss" using assms
    by (cases "snapshots w") (auto simp: get_pod_ips_def)
  obtain ss' where w: "wait_pods sel r ss = (Return ips, ss')" "w' = w\<lparr>snapshots := ss'\<rparr>"
    using assms ss by (auto simp: get_pod_ips_def zoom_def split: prod.splits)
  obtain s where s: "dropWhile (\<lambda>s. \<not> pods_ready r (pods_of s sel)) ss = s # ss'"
      "ips = map (the \<circ> pod_ip) (pods_of s sel)"
    using w(1) by (auto simp: wait_pods_spec split: list.splits)
  then have ready: "pods_ready r (pods_of s sel)" "s \<in> set ss" "set ss' \<subseteq> set ss"
    by (auto simp: dropWhile_eq_Cons_conv dest: set_takeWhileD arg_cong [of _ _ set])
  have "map pod_ip (pods_of s sel) = map Some ips"
    unfolding s(2) by (rule pods_ready_ips) (rule ready(1))
  then show "\<exists>s \<in> set (snapshots w). map pod_ip (pods_of s sel) = map Some ips"
    using ready(2) ss by (intro bexI [of _ s]) simp_all
  show "trace w' = trace w" "set (snapshots w') \<subseteq> set (snapshots w)"
    using ready(3) ss w(2) by auto
qed

lemma handle_departed_trace:
  assumes "handle_departed storage_ips route_ips mon_ips (PInt a) (PInt b) departed w = (Return (), w')"
  shows "\<exists>es. trace w' = trace w @ es @ concat (map (announcement storage_ips route_ips mon_ips (nat a) (nat b)) departed) \<and>
    list_all2 (failover_request storage_ips) es departed"
proof -
  obtain u where u: "forS departed (failover storage_ips) w = (Return (), u)"
    "w' = u\<lparr>trace := trace u @ concat (map (announcement storage_ips route_ips mon_ips (nat a) (nat b)) departed)\<rparr>"
    using assms by (auto simp: handle_departed_def py_inv announces_run)
  with failovers_trace [OF u(1)] show ?thesis by auto
qed

text \<open>The nodes of a tier that have no pod.\<close>

definition no_pod :: "pod list \<Rightarrow> tier \<Rightarrow> server list" where
  "no_pod pods t = filter (\<lambda>n. \<not> (\<exists>p \<in> set pods. pod_ip p = Some (private_ip n))) (servers t)"

lemma departed_servers_no_pod:
  assumes "map pod_ip pods = map Some ips"
  shows "departed_servers label ips t = map (Pair label) (no_pod pods t)"
proof -
  have "Some ` set ips = pod_ip ` set pods"
    using arg_cong [OF assms, of set] by simp
  then have "i \<in> set ips \<longleftrightarrow> (\<exists>p \<in> set pods. pod_ip p = Some i)" for i by (force simp: image_iff)
  then show ?thesis by (simp add: departed_servers_def no_pod_def)
qed


definition demo_ring :: world where
  "demo_ring = demo_world\<lparr>snapshots := replicate 5
      \<lparr>pods_of = (\<lambda>_. [demo_pod (Some ''10.0.0.7'')]), node_addresses = [[''10.0.0.9'', ''dinomo9'']]\<rparr>,
     replies := [[]]\<rparr>"

definition demo_tier :: tier where
  "demo_tier = \<lparr>tier_id = MEMORY, servers =
     [\<lparr>public_ip = ''10.0.0.7'', private_ip = ''10.0.0.7''\<rparr>, \<lparr>public_ip = ''10.0.0.9'', private_ip = ''10.0.0.9''\<rparr>]\<rparr>"


text \<open>A departed node that Kubernetes no longer lists stops the management server. When the host
  name of the first departed node is not known, its failover raises, after a storage node was
  picked and before anything is sent: no log is merged and no departure is announced, not even of
  the other departed nodes. The same holds when there is no storage node left to pick.\<close>

lemma departed_unknown_host:
  assumes "snapshots w = s # ss" and "find_hostname (node_addresses s) (private_ip n) = Inr hostname"
    and "hostname = None \<or> storage_ips = []"
  shows "\<exists>w'. handle_departed storage_ips route_ips mon_ips nm nr ((label, n) # departed) w =
      (Raise (if storage_ips = [] then IndexError else TypeError), w') \<and> trace w' = trace w"
proof (cases "storage_ips = []")
  case True
  then show ?thesis
    using assms(1,2) by (simp add: handle_departed_def failover_def get_hostname_from_ip_def world_choice_empty)
next
  case False
  then obtain i where "world_choice storage_ips (w\<lparr>snapshots := ss\<rparr>) =
      (Return i, w\<lparr>snapshots := ss, draws := tl (draws w)\<rparr>)"
    using world_choice_run [OF False, of "w\<lparr>snapshots := ss\<rparr>"] by auto
  with False assms show ?thesis by (simp add: handle_departed_def failover_def get_hostname_from_ip_def)
qed

lemma departed_unknown_host_witness:
  "find_hostname [[''10.0.0.9'', ''dinomo9'']] ''10.0.0.8'' = Inr None \<and>
   (\<exists>w'. handle_departed [''10.0.0.7''] [''10.0.0.1''] [] (PInt 4) (PInt 4)
      [(''MEMORY'', \<lparr>public_ip = ''10.0.0.8'', private_ip = ''10.0.0.8''\<rparr>)] demo_ring = (Raise TypeError, w') \<and>
      trace w' = [])"
proof -
  let ?s = "\<lparr>pods_of = (\<lambda>_. [demo_pod (Some ''10.0.0.7'')]), node_addresses = [[''10.0.0.9'', ''dinomo9'']]\<rparr>"
  have "snapshots demo_ring = ?s # replicate 4 ?s" by (simp add: demo_ring_def numeral_eq_Suc)
  from departed_unknown_host [OF this, of "\<lparr>public_ip = ''10.0.0.8'', private_ip = ''10.0.0.8''\<rparr>" None
      "[''10.0.0.7'']" "[''10.0.0.1'']" "[]" "PInt 4" "PInt 4" "''MEMORY''" "[]"]
  show ?thesis by (simp add: list_get_def demo_ring_def demo_world_def)
qed

section \<open>Requests to add and remove nodes\<close>

text \<open>C27: a request to the management server reaches the Kubernetes server unchanged. The message
  \<open>add:n:kind\<close> makes the management server send one message, which the Kubernetes server reads as
  the request to add \<open>n\<close> nodes of that kind; \<open>remove:ip:kind\<close> becomes the removal of that node.\<close>

theorem churn_reaches_k8s_server:
  assumes "CHR '':'' \<notin> set kind" and "CHR '':'' \<notin> set i"
  shows "handle_churn (DefaultScaler_init self a r) (''add:'' @ str_int n @ '':'' @ kind) w =
      (Return (), w\<lparr>trace := trace w @ [SentTo a (utf8 (kind @ '':'' @ str_int n))]\<rparr>) \<and>
    handle_node_add h cfile prefix (kind @ '':'' @ str_int n) = add_nodes h cfile [kind] [n] False (Some prefix) \<and>
    handle_churn (DefaultScaler_init self a r) (''remove:'' @ i @ '':'' @ kind) w =
      (Return (), w\<lparr>trace := trace w @ [SentTo r (utf8 (kind @ '':'' @ i))]\<rparr>) \<and>
    handle_node_remove (kind @ '':'' @ i) = remove_node i kind"
proof -
  have n: "CHR '':'' \<notin> set (str_int n)" by (rule str_int_no_char) (simp_all add: is_digit_def)
  have add: "split_on CHR '':'' (''add:'' @ str_int n @ '':'' @ kind) = [''add'', str_int n, kind]"
    using split_on_join [of "[''add'', str_int n, kind]" "CHR '':''"] n assms(1) by auto
  have remove: "split_on CHR '':'' (''remove:'' @ i @ '':'' @ kind) = [''remove'', i, kind]"
    using split_on_join [of "[''remove'', i, kind]" "CHR '':''"] assms by auto
  have kind: "split_on CHR '':'' (kind @ '':'' @ str_int n) = [kind, str_int n]"
    "split_on CHR '':'' (kind @ '':'' @ i) = [kind, i]"
    using split_on_sep [OF assms(1)] n assms(2) by simp_all
  have bind: "bindS (returnS x) f = f x" for x :: 'a and f :: "'a \<Rightarrow> (world, unit) prog"
    by (rule ext) simp
  have lift: "liftE (Inr x) = returnS x" for x by (simp add: liftE_def)
  show ?thesis
    unfolding handle_churn_def handle_node_add_def handle_node_remove_def Let_def add remove kind
    by (simp add: list_get_def lift liftE_def bindS_def returnS_def DefaultScaler_init_def add_vms_def remove_vms_def)
qed

theorem churn_reaches_k8s_server_witness:
  "handle_churn (DefaultScaler_init ''10.0.0.2'' ''ipc:///tmp/node_add'' ''ipc:///tmp/node_remove'')
      ''add:3:memory'' demo_world =
      (Return (), demo_world\<lparr>trace := [SentTo ''ipc:///tmp/node_add'' (utf8 ''memory:3'')]\<rparr>) \<and>
   handle_node_add demo_host ''c'' ''p'' ''memory:3'' = add_nodes demo_host ''c'' [''memory''] [3] False (Some ''p'')"
  using churn_reaches_k8s_server [of "''memory''" "''10.0.0.9''" "''10.0.0.2''" "''ipc:///tmp/node_add''"
      "''ipc:///tmp/node_remove''" 3 demo_world demo_host "''c''" "''p''"]
  by (simp add: str_int_def str_nat.simps digit_char_def demo_world_def)

end
