(* ===== verification/Py_Argparse.thy ===== *)
theory Py_Argparse
  imports Py_Prelude
begin

text \<open>
  The part of the standard library's \<^verbatim>\<open>argparse\<close> that the scripts use: options with one argument (also
  as a list of one), with an optional argument, switches and \<open>--help\<close>; conversion to \<open>int\<close>; defaults and
  required options; positional arguments; one mutually exclusive group. The forms of an option on
  the command line are all there: its exact name, a unique beginning of a long name, \<open>--name=value\<close>,
  a value attached to a short name, and several short switches in one word.

  A parser either returns the namespace, a \<open>dict\<close>, or ends the program: with status 0 for \<open>--help\<close>,
  with status 2 for a command line that it does not accept.
\<close>

section \<open>Parsers\<close>

type_synonym argval = "unit pyval"

datatype arity = One | ListOne | MaybeOne | Switch | Help

record option_spec =
  flags :: "string list"
  arity :: arity
  is_int :: bool
  dest :: string
  required :: bool
  default :: argval

record parser =
  options :: "option_spec list"
  positionals :: "string list"
  exclusive :: "string list"  \<comment> \<open>the destinations of the mutually exclusive group\<close>
  exclusive_required :: bool

definition help_option :: option_spec where
  "help_option = \<lparr>flags = [''-h'', ''--help''], arity = Help, is_int = False, dest = ''help'', required = False,
     default = PNone\<rparr>"

definition int_option :: "string list \<Rightarrow> arity \<Rightarrow> string \<Rightarrow> bool \<Rightarrow> argval \<Rightarrow> option_spec" where
  "int_option fs a d req dflt = \<lparr>flags = fs, arity = a, is_int = True, dest = d, required = req, default = dflt\<rparr>"

definition str_option :: "string list \<Rightarrow> arity \<Rightarrow> string \<Rightarrow> argval \<Rightarrow> option_spec" where
  "str_option fs a d dflt = \<lparr>flags = fs, arity = a, is_int = False, dest = d, required = False, default = dflt\<rparr>"

definition switch :: "string list \<Rightarrow> string \<Rightarrow> option_spec" where
  "switch fs d = \<lparr>flags = fs, arity = Switch, is_int = False, dest = d, required = False, default = PBool False\<rparr>"

definition all_options :: "parser \<Rightarrow> option_spec list" where
  "all_options p = help_option # options p"

definition takes_value :: "option_spec \<Rightarrow> bool" where
  "takes_value opt \<longleftrightarrow> arity opt \<in> {One, ListOne, MaybeOne}"

section \<open>Reading the words of the command line\<close>

definition cut_at :: "char \<Rightarrow> string \<Rightarrow> (string \<times> string) option" where
  "cut_at c s = (if c \<in> set s then Some (takeWhile (\<lambda>x. x \<noteq> c) s, tl (dropWhile (\<lambda>x. x \<noteq> c) s)) else None)"

definition find_flag :: "parser \<Rightarrow> string \<Rightarrow> option_spec option" where
  "find_flag p s = find (\<lambda>opt. s \<in> set (flags opt)) (all_options p)"

text \<open>All option names with their options.\<close>

definition named_flags :: "parser \<Rightarrow> (string \<times> option_spec) list" where
  "named_flags p = concat (map (\<lambda>opt. map (\<lambda>f. (f, opt)) (flags opt)) (all_options p))"

text \<open>The options that a word which is no exact name may stand for, with the value attached.\<close>

definition flag_candidates :: "parser \<Rightarrow> string \<Rightarrow> (string \<times> option_spec \<times> string option) list" where
  "flag_candidates p s =
     (if startswith s ''--'' then
        (case cut_at CHR ''='' s of
           Some (prefix, v) \<Rightarrow> map (\<lambda>(f, opt). (f, opt, Some v)) (filter (\<lambda>(f, opt). startswith f prefix) (named_flags p))
         | None \<Rightarrow> map (\<lambda>(f, opt). (f, opt, None)) (filter (\<lambda>(f, opt). startswith f s) (named_flags p)))
      else
        concat (map (\<lambda>(f, opt).
          if f = take 2 s then [(f, opt, Some (drop 2 s))]
          else if startswith f s then [(f, opt, None)] else []) (named_flags p)))"

definition negative_number :: "string \<Rightarrow> bool" where
  "negative_number s =
     (case s of
        c # ds \<Rightarrow> c = CHR ''-'' \<and>
          (ds \<noteq> [] \<and> list_all is_digit ds \<or>
           (case cut_at CHR ''.'' ds of
              Some (a, b) \<Rightarrow> list_all is_digit a \<and> b \<noteq> [] \<and> list_all is_digit b
            | None \<Rightarrow> False))
      | [] \<Rightarrow> False)"

datatype word = Arg string | Unknown string | Named option_spec string "string option"

text \<open>\<open>None\<close> for an ambiguous word.\<close>

definition read_word :: "parser \<Rightarrow> string \<Rightarrow> word option" where
  "read_word p s =
     (if s = [] \<or> hd s \<noteq> CHR ''-'' then Some (Arg s)
      else case find_flag p s of
        Some opt \<Rightarrow> Some (Named opt s None)
      | None \<Rightarrow>
          if length s = 1 then Some (Arg s)
          else case (case cut_at CHR ''='' s of
                 Some (f, v) \<Rightarrow> map_option (\<lambda>opt. Named opt f (Some v)) (find_flag p f) | None \<Rightarrow> None) of
            Some w \<Rightarrow> Some w
          | None \<Rightarrow>
              (case flag_candidates p s of
                 [(f, opt, v)] \<Rightarrow> Some (Named opt f v)
               | _ # _ # _ \<Rightarrow> None
               | [] \<Rightarrow>
                   if negative_number s \<or> CHR '' '' \<in> set s then Some (Arg s) else Some (Unknown s)))"

primrec read_words :: "parser \<Rightarrow> string list \<Rightarrow> word list option" where
  "read_words p [] = Some []"
| "read_words p (s # ss) =
     (if s = ''--'' then Some (map Arg ss)
      else case read_word p s of
        None \<Rightarrow> None
      | Some w \<Rightarrow> map_option (\<lambda>ws. w # ws) (read_words p ss))"

section \<open>Running a parser\<close>

text \<open>The switches that a word of several short ones stands for; \<open>None\<close> when it is not accepted.\<close>

fun expand_cluster :: "parser \<Rightarrow> option_spec \<Rightarrow> string \<Rightarrow> string \<Rightarrow> (option_spec \<times> string option) list option" where
  "expand_cluster p opt f [] = None"
| "expand_cluster p opt f (c # cs) =
     (if takes_value opt then Some [(opt, Some (c # cs))]
      else if startswith f ''--'' then None
      else case find_flag p [CHR ''-'', c] of
        None \<Rightarrow> None
      | Some opt' \<Rightarrow>
          if cs = [] then Some [(opt, None), (opt', None)]
          else map_option (\<lambda>l. (opt, None) # l) (expand_cluster p opt' [CHR ''-'', c] cs))"

definition expand_word ::
  "parser \<Rightarrow> option_spec \<Rightarrow> string \<Rightarrow> string option \<Rightarrow> (option_spec \<times> string option) list option" where
  "expand_word p opt f v =
     (case v of
        None \<Rightarrow> Some [(opt, None)]
      | Some x \<Rightarrow> if takes_value opt then Some [(opt, Some x)] else expand_cluster p opt f x)"

definition convert :: "option_spec \<Rightarrow> string \<Rightarrow> argval res" where
  "convert opt s =
     (if is_int opt then
        (case int_of_str s of Inr i \<Rightarrow> Inr (PInt i) | Inl _ \<Rightarrow> Inl (SystemExit 2))
      else Inr (PStr s))"

record parse_state =
  namespace :: "(string, argval) dict"
  seen :: "string list"
  pending :: "string list"  \<comment> \<open>positional arguments still missing\<close>
  extras :: "string list"

definition parse_init :: "parser \<Rightarrow> parse_state" where
  "parse_init p = \<lparr>namespace = fold (\<lambda>opt ns. dict_set (dest opt) (default opt) ns) (options p) [],
     seen = [], pending = positionals p, extras = []\<rparr>"

text \<open>The action of an option with the value it got.\<close>

definition act :: "parser \<Rightarrow> option_spec \<Rightarrow> string option \<Rightarrow> parse_state \<Rightarrow> parse_state res" where
  "act p opt v st =
     (if dest opt \<in> set (exclusive p) \<and>
         (\<exists>d \<in> set (seen st). d \<in> set (exclusive p) \<and> d \<noteq> dest opt) then Inl (SystemExit 2)
      else
        bindE
          (case arity opt of
             Help \<Rightarrow> Inl (SystemExit 0)
           | Switch \<Rightarrow> Inr (PBool True)
           | One \<Rightarrow> (case v of Some s \<Rightarrow> convert opt s | None \<Rightarrow> Inl (SystemExit 2))
           | ListOne \<Rightarrow> (case v of Some s \<Rightarrow> bindE (convert opt s) (\<lambda>x. Inr (PList [x])) | None \<Rightarrow> Inl (SystemExit 2))
           | MaybeOne \<Rightarrow> (case v of Some s \<Rightarrow> convert opt s | None \<Rightarrow> Inr PNone))
          (\<lambda>x. Inr (st\<lparr>namespace := dict_set (dest opt) x (namespace st), seen := dest opt # seen st\<rparr>)))"

text \<open>The value of an option: the one attached to it, else, if it takes one, the next word when that is
  an argument.\<close>

definition value_for :: "option_spec \<Rightarrow> string option \<Rightarrow> word list \<Rightarrow> string option \<times> word list" where
  "value_for opt v ws =
     (case v of
        Some x \<Rightarrow> (Some x, ws)
      | None \<Rightarrow>
          if takes_value opt then (case ws of Arg s # ws' \<Rightarrow> (Some s, ws') | _ \<Rightarrow> (None, ws))
          else (None, ws))"

lemma value_for_length: "value_for opt v ws = (x, ws') \<Longrightarrow> length ws' \<le> length ws"
  by (auto simp: value_for_def split: option.splits if_splits list.splits word.splits)

text \<open>All actions of a word but the last are switches.\<close>

function run_words :: "parser \<Rightarrow> word list \<Rightarrow> parse_state \<Rightarrow> parse_state res" where
  "run_words p [] st = Inr st"
| "run_words p (Arg s # ws) st =
     (case pending st of
        d # ds \<Rightarrow> run_words p ws (st\<lparr>namespace := dict_set d (PStr s) (namespace st), pending := ds\<rparr>)
      | [] \<Rightarrow> run_words p ws (st\<lparr>extras := extras st @ [s]\<rparr>))"
| "run_words p (Unknown s # ws) st = run_words p ws (st\<lparr>extras := extras st @ [s]\<rparr>)"
| "run_words p (Named opt f v # ws) st =
     (case expand_word p opt f v of
        None \<Rightarrow> Inl (SystemExit 2)
      | Some acts \<Rightarrow>
          bindE (foldE (\<lambda>(o', v'). act p o' v') (butlast acts) st) (\<lambda>st'.
          case value_for (fst (last acts)) (snd (last acts)) ws of
            (x, ws') \<Rightarrow> bindE (act p (fst (last acts)) x st') (run_words p ws')))"
  by pat_completeness auto
termination
  by (relation "measure (\<lambda>(_, ws, _). length ws)") (auto simp: less_Suc_eq_le dest: value_for_length [OF sym])

definition missing :: "parser \<Rightarrow> parse_state \<Rightarrow> bool" where
  "missing p st \<longleftrightarrow> pending st \<noteq> [] \<or>
     (\<exists>opt \<in> set (options p). required opt \<and> dest opt \<notin> set (seen st)) \<or>
     (exclusive_required p \<and> (\<forall>d \<in> set (exclusive p). d \<notin> set (seen st)))"

definition parse_args :: "parser \<Rightarrow> string list \<Rightarrow> (string, argval) dict res" where
  "parse_args p argv =
     (case read_words p argv of
        None \<Rightarrow> Inl (SystemExit 2)
      | Some ws \<Rightarrow>
          bindE (run_words p ws (parse_init p)) (\<lambda>st.
          if missing p st \<or> extras st \<noteq> [] then Inl (SystemExit 2) else Inr (namespace st)))"

section \<open>How a parser ends\<close>

lemma convert_exit: "convert opt s = Inl e \<Longrightarrow> e = SystemExit 2"
  by (auto simp: convert_def split: if_splits sum.splits)

lemma act_exit: "act p opt v st = Inl e \<Longrightarrow> e \<in> {SystemExit 0, SystemExit 2}"
  by (auto simp: act_def bindE_def split: if_splits arity.splits option.splits sum.splits dest: convert_exit)

lemma foldE_act_exit: "foldE (\<lambda>(o', v'). act p o' v') acts st = Inl e \<Longrightarrow> e \<in> {SystemExit 0, SystemExit 2}"
  by (induction acts arbitrary: st) (auto simp: bindE_def split: sum.splits dest: act_exit)

lemma run_words_exit: "run_words p ws st = Inl e \<Longrightarrow> e \<in> {SystemExit 0, SystemExit 2}"
proof (induction "length ws" arbitrary: ws st rule: less_induct)
  case less
  note IH = less.hyps and prem = less.prems
  show ?case
  proof (cases "(p, ws, st)" rule: run_words.cases)
    case (2 p s us st)
    with prem IH [of us] show ?thesis by (auto split: list.splits)
  next
    case (3 p s us st)
    with prem IH [of us] show ?thesis by auto
  next
    case (4 p' opt f v us st')
    show ?thesis
    proof (cases "expand_word p opt f v")
      case (Some acts)
      obtain x ws' where x: "value_for (fst (last acts)) (snd (last acts)) us = (x, ws')" by fastforce
      have IH': "run_words p ws' st'' = Inl e \<Longrightarrow> e \<in> {SystemExit 0, SystemExit 2}" for st''
        using IH [of ws'] value_for_length [OF x] 4 by simp
      from prem 4 Some x IH' show ?thesis
        by (auto simp: bindE_eq_Inl dest!: foldE_act_exit act_exit)
    qed (use prem 4 in simp)
  qed (use prem in simp)
qed

lemma parse_args_exit: "parse_args p argv = Inl e \<Longrightarrow> e \<in> {SystemExit 0, SystemExit 2}"
  by (auto simp: parse_args_def bindE_def split: option.splits sum.splits if_splits dest: run_words_exit)

end
