(* ===== verification/Dinomo_Cluster.thy ===== *)
theory Dinomo_Cluster
  imports Dinomo_Add_Nodes Py_Argparse
begin

text \<open>
  \<^verbatim>\<open>cluster/dinomo/cluster/create_cluster.py\<close> and \<^verbatim>\<open>run_cluster.py\<close>: preparing the hosts of a cluster,
  and bringing its pods up in order (management, monitoring, routing, memory, benchmark), with the
  command lines of both scripts.
\<close>

section \<open>The command line\<close>

definition cluster_parser :: "string \<Rightarrow> string \<Rightarrow> parser" where
  "cluster_parser conf sshkey =
     \<lparr>options =
        [int_option [''-m'', ''--memory''] ListOne ''memory'' True PNone,
         int_option [''-r'', ''--routing''] ListOne ''routing'' True PNone,
         int_option [''-b'', ''--benchmark''] MaybeOne ''benchmark'' False (PInt 0),
         str_option [''--conf''] MaybeOne ''conf'' (PStr conf),
         str_option [''--ssh-key''] MaybeOne ''sshkey'' (PStr sshkey),
         str_option [''--kvs-type''] MaybeOne ''kvstype'' (PStr ''memory'')],
      positionals = [], exclusive = [], exclusive_required = False\<rparr>"

text \<open>The arguments of \<open>create_cluster\<close> and \<open>run_cluster\<close>. An option with an optional argument that got
  none is \<open>None\<close>; in the paths that are formatted with \<open>%s\<close> it reads \<open>None\<close>.\<close>

record cluster_args =
  mem_count :: int
  route_count :: int
  bench_count :: argval
  cfile :: string
  ssh_key :: "string option"
  kvs_type :: "string option"
  cluster_name :: string

fun str_or_none :: "argval \<Rightarrow> string option" where
  "str_or_none (PStr s) = Some s"
| "str_or_none _ = None"

definition first_int :: "argval \<Rightarrow> int res" where
  "first_int v = (case v of PList (PInt i # _) \<Rightarrow> Inr i | _ \<Rightarrow> Inl TypeError)"

definition read_args :: "string \<Rightarrow> (string, argval) dict \<Rightarrow> cluster_args res" where
  "read_args name ns =
     bindE (bindE (dict_getitem ns ''memory'') first_int) (\<lambda>m.
     bindE (bindE (dict_getitem ns ''routing'') first_int) (\<lambda>r.
     bindE (dict_getitem ns ''benchmark'') (\<lambda>b.
     bindE (dict_getitem ns ''conf'') (\<lambda>c.
     bindE (dict_getitem ns ''sshkey'') (\<lambda>k.
     bindE (dict_getitem ns ''kvstype'') (\<lambda>t.
     Inr \<lparr>mem_count = m, route_count = r, bench_count = b,
          cfile = (case str_or_none c of Some s \<Rightarrow> s | None \<Rightarrow> ''None''),
          ssh_key = str_or_none k, kvs_type = str_or_none t, cluster_name = name\<rparr>))))))"

definition environ_default :: "string \<Rightarrow> string \<Rightarrow> (world, unit) prog" where
  "environ_default name v =
     bindS (getS environ) (\<lambda>env. if \<not> dict_mem name env then environ_set name v else returnS ())"

text \<open>The main part of both scripts up to the call.\<close>

definition cluster_main :: "string list \<Rightarrow> (world, cluster_args) prog" where
  "cluster_main argv =
     seqS (environ_default ''DINOMO_HOME'' ''/home/cc/projects/DINOMO/'')
    (seqS (environ_default ''DINOMO_CLUSTER_NAME'' ''DINOMO_k8s_CLUSTER'')
    (seqS (environ_default ''REMOTE_USER_NAME'' ''cc'')
    (bindS (environ_get ''DINOMO_HOME'') (\<lambda>home.
     bindS (environ_get ''HOME'') (\<lambda>user_home.
     let p = cluster_parser (path_join home ''conf/dinomo-base.yml'') (path_join user_home ''.ssh/id_rsa'') in
     bindS (check_or_get_env_arg ''DINOMO_CLUSTER_NAME'') (\<lambda>name.
     bindS (liftE (parse_args p argv)) (\<lambda>ns. liftE (read_args name ns))))))))"

section \<open>create_cluster.py\<close>

definition BATCH_SIZE :: int where
  "BATCH_SIZE = 100"

text \<open>\<open>None\<close> in the list of arguments of a process is a type error.\<close>

definition run_with_key :: "string \<Rightarrow> string option \<Rightarrow> (world, unit) prog" where
  "run_with_key script key =
     (case key of
        Some k \<Rightarrow> run_process [script, k] ''dinomo/cluster/kubespray''
      | None \<Rightarrow> raiseS TypeError)"

definition create_cluster :: "cluster_args \<Rightarrow> (world, unit) prog" where
  "create_cluster a =
     bindS (getS environ) (\<lambda>env.
     if \<not> dict_mem ''DINOMO_HOME'' env then raiseS ValueError
     else
       bindS (environ_get ''DINOMO_HOME'') (\<lambda>home.
       seqS (run_with_key ''./prepare_host_configurations.sh'' (ssh_key a))
      (seqS (run_process [''./run_storage_nodes.sh''] ''dinomo/cluster/kubespray'')
        (run_with_key ''./create_cluster_object.sh'' (ssh_key a)))))"

definition create_cluster_main :: "string list \<Rightarrow> (world, unit) prog" where
  "create_cluster_main argv = bindS (cluster_main argv) create_cluster"

section \<open>run_cluster.py\<close>

definition yaml_str :: "yaml \<Rightarrow> string res" where
  "yaml_str y = (case y of PStr s \<Rightarrow> Inr s | _ \<Rightarrow> Inl TypeError)"

definition pod_name_of :: "yaml \<Rightarrow> string res" where
  "pod_name_of spec = bindE (yaml_get spec ''metadata'') (\<lambda>m. bindE (yaml_get m ''name'') yaml_str)"

definition container_name_of :: "yaml \<Rightarrow> string res" where
  "container_name_of spec =
     bindE (yaml_get spec ''spec'') (\<lambda>s. bindE (yaml_get s ''containers'') (\<lambda>cs.
     bindE (yaml_first cs) (\<lambda>c. bindE (yaml_get c ''name'') yaml_str)))"

definition set_first_env :: "string \<Rightarrow> string \<Rightarrow> yaml \<Rightarrow> yaml res" where
  "set_first_env name v =
     yaml_at ''spec'' (yaml_at ''containers'' (yaml_at_first (yaml_at ''env'' (replace_yaml_val name (PStr v)))))"

text \<open>Copying the file of a key that is \<open>None\<close> fails at \<open>file_path.split\<close>, after the stream was opened.\<close>

definition copy_key :: "host \<Rightarrow> string option \<Rightarrow> string \<Rightarrow> string \<Rightarrow> string \<Rightarrow> string \<Rightarrow> (world, unit) prog" where
  "copy_key h key suffix name dir container =
     (case key of
        Some k \<Rightarrow> copy_file_to_pod h (k @ suffix) name dir container
      | None \<Rightarrow>
          seqS (emit (ExecInPod name container [''tar'', ''xmvf'', ''-'', ''-C'', dir]))
            (bindS next_stream (\<lambda>_. raiseS AttributeError)))"

definition hostname_command :: string where
  "hostname_command = ''hostname -I | awk '' @ CHR 0x27 # ''{print $1}'' @ [CHR 0x27]"

text \<open>The management pod: created, waited for and given the Kubernetes configuration, the keys and the
  configuration of the store. The result is its address, its name and its container.\<close>

definition start_management ::
  "host \<Rightarrow> cluster_args \<Rightarrow> string \<Rightarrow> (world, string \<times> string \<times> string) prog" where
  "start_management h a prefix =
     seqS init_k8s
    (bindS (liftE (load_yaml h ''yaml/pods/management-pod.yml'' (Some prefix))) (\<lambda>spec0.
     bindS (liftE (set_first_env ''DINOMO_CLUSTER_NAME'' (cluster_name a) spec0)) (\<lambda>spec.
     seqS (emit (CreatePod spec))
    (bindS (get_pod_ips ''role=management'' True) (\<lambda>ips.
     bindS (liftE (list_get ips 0)) (\<lambda>management_ip.
     bindS (liftE (pod_name_of spec)) (\<lambda>name.
     bindS (liftE (container_name_of spec)) (\<lambda>kcname.
     seqS (os_system (''cp '' @ cfile a @ '' dinomo-config.yml''))
    (bindS (environ_get ''HOME'') (\<lambda>user_home.
     let kubecfg = path_join user_home ''.kube/config'' in
     seqS (os_system (''sed -i \"s|127.0.0.1|'' @ getoutput h hostname_command @ ''|g\" '' @ kubecfg))
    (seqS (copy_file_to_pod h kubecfg name ''/root/.kube/'' kcname)
    (seqS (copy_key h (ssh_key a) '''' name ''/root/.ssh/'' kcname)
    (seqS (copy_key h (ssh_key a) ''.pub'' name ''/root/.ssh/'' kcname)
    (seqS (copy_file_to_pod h ''dinomo-config.yml'' name ''/DINOMO/conf/'' kcname)
      (returnS (management_ip, name, kcname))))))))))))))))"

definition start_monitoring :: "host \<Rightarrow> string \<Rightarrow> string \<Rightarrow> (world, unit) prog" where
  "start_monitoring h prefix management_ip =
     bindS (liftE (load_yaml h ''yaml/pods/monitoring-pod.yml'' (Some prefix))) (\<lambda>spec0.
     bindS (liftE (set_first_env ''MGMT_IP'' management_ip spec0)) (\<lambda>mon_spec.
     seqS (emit (CreatePod mon_spec))
    (bindS (get_pod_ips ''role=monitoring'' False) (\<lambda>_.
     bindS (liftE (pod_name_of mon_spec)) (\<lambda>name.
     bindS (liftE (container_name_of mon_spec)) (\<lambda>container.
     seqS (copy_file_to_pod h ''dinomo-config.yml'' name ''/DINOMO/conf/'' container)
       (os_system ''rm dinomo-config.yml'')))))))"

definition kind_for :: "string option \<Rightarrow> string \<Rightarrow> string \<Rightarrow> string \<Rightarrow> string" where
  "kind_for kvs clover asymnvm other =
     (if kvs = Some ''clover'' then clover else if kvs = Some ''asymnvm'' then asymnvm else other)"

text \<open>The nodes. The count of benchmark nodes is formatted with \<open>%d\<close> before it is used.\<close>

definition start_all_nodes :: "host \<Rightarrow> cluster_args \<Rightarrow> string \<Rightarrow> (world, unit) prog" where
  "start_all_nodes h a prefix =
     seqS (batch_add_nodes h (cfile a) [''routing''] [route_count a] BATCH_SIZE (Some prefix))
    (bindS (get_pod_ips ''role=routing'' False) (\<lambda>_.
     seqS (batch_add_nodes h (cfile a) [kind_for (kvs_type a) ''clover'' ''asymnvm'' ''memory''] [mem_count a]
             BATCH_SIZE (Some prefix))
       (case bench_count a of
          PInt n \<Rightarrow>
            batch_add_nodes h (cfile a) [kind_for (kvs_type a) ''clover-bench'' ''asymnvm-bench'' ''benchmark''] [n]
              BATCH_SIZE (Some prefix)
        | _ \<Rightarrow> raiseS TypeError)))"

definition finish_setup :: "host \<Rightarrow> string \<Rightarrow> string \<Rightarrow> (world, unit) prog" where
  "finish_setup h name kcname =
     seqS (os_system ''touch setup_complete'')
    (seqS (copy_file_to_pod h ''setup_complete'' name ''/DINOMO/'' kcname)
    (seqS (os_system ''rm setup_complete'')
    (bindS (get_pod_ips ''role=benchmark'' False) (\<lambda>benchmark_ips.
     seqS (environ_set ''BENCH_IPS'' (join '' '' benchmark_ips))
    (bindS (get_pod_ips ''role=management'' False) (\<lambda>management_ips.
     seqS (environ_set ''MGMT_IPS'' (join '' '' management_ips))
    (seqS (os_system ''cp ../conf/dinomo-base.yml ../conf/dinomo-config.yml'')
      (run_process [''./start-dinomo.sh'', ''bt''] ''../dockerfiles/''))))))))"

definition run_cluster :: "host \<Rightarrow> cluster_args \<Rightarrow> (world, unit) prog" where
  "run_cluster h a =
     bindS (getS environ) (\<lambda>env.
     if \<not> dict_mem ''DINOMO_HOME'' env then raiseS ValueError
     else
       bindS (environ_get ''DINOMO_HOME'') (\<lambda>home.
       let prefix = path_join home ''cluster/dinomo/cluster'' in
       bindS (start_management h a prefix) (\<lambda>(management_ip, name, kcname).
       seqS (start_monitoring h prefix management_ip)
      (seqS (start_all_nodes h a prefix)
        (finish_setup h name kcname)))))"

definition run_cluster_main :: "host \<Rightarrow> string list \<Rightarrow> (world, unit) prog" where
  "run_cluster_main h argv = bindS (cluster_main argv) (run_cluster h)"

section \<open>When the cluster is declared complete\<close>

text \<open>A program that does not do an event, however it ends.\<close>

abbreviation (input) silent :: "event \<Rightarrow> world \<Rightarrow> bool" where
  "silent ev \<equiv> (\<lambda>w. ev \<notin> set (trace w))"

named_theorems silent_rules "programs that do not do an event"

lemma silent_emit: "e \<noteq> ev \<Longrightarrow> keeps (silent ev) (emit e)"
  by (simp add: keeps_def)

lemma silent_answers [silent_rules]:
  "keeps (silent ev) next_snapshot" "keeps (silent ev) next_exit" "keeps (silent ev) next_stream"
  by (auto simp: keeps_def next_snapshot_def next_exit_def next_stream_def next_answer_def split: list.splits)

lemma silent_snapshots [silent_rules]:
  "keeps (silent ev) (zoom snapshots (\<lambda>ss w. w\<lparr>snapshots := ss\<rparr>) m)"
  by (simp add: keeps_def zoom_def split: prod.splits)

lemma silent_pods [silent_rules]:
  "keeps (silent ev) (list_namespaced_pod sel)" "keeps (silent ev) (get_pod_ips sel r)"
  unfolding list_namespaced_pod_def get_pod_ips_def by ((rule silent_rules | rule py_keeps)+)

lemma silent_choice [silent_rules]: "keeps (silent ev) (world_choice xs)"
  unfolding world_choice_def by (intro py_keeps keeps_modS) simp

lemma silent_environ [silent_rules]: "keeps (silent ev) (environ_get name)"
  unfolding environ_get_def by (intro py_keeps)

lemma silent_run_process: "RunProcess c d \<noteq> ev \<Longrightarrow> keeps (silent ev) (run_process c d)"
  unfolding run_process_def
  by (intro keeps_seqS keeps_bindS silent_emit silent_rules) (auto split: proc_exit.splits intro: py_keeps)

abbreviation complete :: event where
  "complete \<equiv> System ''touch setup_complete''"

lemma silent_copy_file [silent_rules]: "keeps (silent complete) (copy_file_to_pod h f n d c)"
proof -
  have loop: "keeps (silent complete) (copy_loop resp cs)" for resp cs
  proof (induction resp arbitrary: cs)
    case (Cons r resp)
    show ?case by (cases r; simp only: copy_loop.simps) ((rule silent_emit event.distinct | rule py_keeps | rule Cons.IH | simp)+)
  qed (simp only: copy_loop.simps keeps_returnS)
  show ?thesis
    unfolding copy_file_to_pod_def by ((rule silent_emit | rule silent_rules | rule py_keeps | rule loop | simp)+)
qed

lemma silent_configure [silent_rules]: "keeps (silent complete) (configure_pod h cf role p)"
  unfolding configure_pod_def os_system_def
  by ((rule silent_emit | rule silent_rules | rule py_keeps | simp)+)

lemma silent_start_kind [silent_rules]: "keeps (silent complete) (start_kind h cf kind create p a b c d e)"
  unfolding start_kind_def create_daemon_set_def Let_def
  by ((rule silent_emit | rule silent_rules | rule py_keeps | simp)+)

lemma silent_add_nodes [silent_rules]: "keeps (silent complete) (add_nodes h cf kinds counts create prefix)"
  unfolding add_nodes_def start_nodes_def add_all_servers_def add_servers_def get_previous_count_def Let_def
  by ((rule silent_run_process | rule silent_rules | rule py_keeps | simp)+)

lemma silent_batch_loop [silent_rules]: "keeps (silent complete) (batch_loop h cf kind b prefix n)"
proof (rule keepsI)
  fix w
  assume "silent complete w"
  then show "silent complete (snd (batch_loop h cf kind b prefix n w))"
  proof (induction h cf kind b prefix n w rule: batch_loop.induct)
    case (1 h cf kind b prefix n w)
    have step: "silent complete w'" if "add_nodes h cf [kind] [k] False prefix w = (r, w')" for k r w'
      using keepsD [OF silent_add_nodes "1.prems" that] .
    show ?case
      using "1.prems" "1.IH" step
      by (subst batch_loop.simps) (auto split: prod.splits outcome.splits unit.splits)
  qed
qed

lemma silent_batch [silent_rules]: "keeps (silent complete) (batch_add_nodes h cf ts cs b prefix)"
  unfolding batch_add_nodes_def batch_body_def
  by ((rule silent_rules | rule py_keeps)+)

lemma silent_start_all: "keeps (silent complete) (start_all_nodes h a prefix)"
  unfolding start_all_nodes_def
  by (intro keeps_seqS keeps_bindS silent_rules) (cases "bench_count a"; simp add: silent_batch keeps_raiseS)

lemma silent_monitoring: "keeps (silent complete) (start_monitoring h prefix mip)"
  unfolding start_monitoring_def os_system_def
  by ((rule silent_emit | rule silent_rules | rule py_keeps | simp)+)

lemma silent_management: "keeps (silent complete) (start_management h a prefix)"
  unfolding start_management_def os_system_def copy_key_def init_k8s_def Let_def
  by ((rule silent_emit | rule silent_rules | rule py_keeps | simp)+)

text \<open>C30: the cluster is declared complete only when it is. Whatever way \<open>run_cluster\<close> ends, if it has
  created the marker \<open>setup_complete\<close> that the management server waits for, then the management and
  the monitoring pod were started and all routing, memory and benchmark nodes had been added.\<close>

theorem setup_complete_last:
  assumes "run_cluster h a w = (r, w')" and "complete \<notin> set (trace w)" and "complete \<in> set (trace w')"
  shows "\<exists>home mip name kcname u v t.
    start_management h a (path_join home ''cluster/dinomo/cluster'') w = (Return (mip, name, kcname), u) \<and>
    start_monitoring h (path_join home ''cluster/dinomo/cluster'') mip u = (Return (), v) \<and>
    start_all_nodes h a (path_join home ''cluster/dinomo/cluster'') v = (Return (), t)"
proof -
  obtain home where home: "map_of (environ w) ''DINOMO_HOME'' = Some home"
    using assms by (cases "map_of (environ w) ''DINOMO_HOME''") (auto simp: run_cluster_def dict_mem_def)
  let ?p = "path_join home ''cluster/dinomo/cluster''"
  have run: "bindS (start_management h a ?p) (\<lambda>(mip, name, kcname).
      seqS (start_monitoring h ?p mip) (seqS (start_all_nodes h a ?p) (finish_setup h name kcname))) w = (r, w')"
    using assms(1) home by (simp add: run_cluster_def dict_mem_def environ_get_def dict_getitem_def Let_def)
  obtain x u where x: "start_management h a ?p w = (x, u)" by fastforce
  have u: "silent complete u" using silent_management assms(2) x by (rule keepsD)
  then obtain mip name kcname where m: "x = Return (mip, name, kcname)"
    using run x assms(3) by (cases x) auto
  obtain y v where y: "start_monitoring h ?p mip u = (y, v)" by fastforce
  have v: "silent complete v" using silent_monitoring u y by (rule keepsD)
  then have my: "y = Return ()" using run x m y assms(3) by (cases y) auto
  obtain z t where z: "start_all_nodes h a ?p v = (z, t)" by fastforce
  have t: "silent complete t" using silent_start_all v z by (rule keepsD)
  then have "z = Return ()" using run x m y my z assms(3) by (cases z) auto
  with x m y my z show ?thesis by blast
qed

definition demo_spec :: yaml where
  "demo_spec = PDict [(''metadata'', PDict [(''name'', PStr ''p'')]),
     (''spec'', PDict [(''containers'', PList [PDict [(''name'', PStr ''c''), (''env'', PList [])]]),
       (''template'', PDict [(''spec'', PDict [(''containers'', PList [])])])])]"

definition demo_cluster_host :: host where
  "demo_cluster_host = demo_host\<lparr>read_file := (\<lambda>f. Inr f), safe_load := (\<lambda>_. Some demo_spec)\<rparr>"

definition demo_snapshot :: snapshot where
  "demo_snapshot = \<lparr>pods_of = (\<lambda>sel. if sel = ''role=management'' then [demo_pod (Some ''10.0.0.2'')] else []),
     node_addresses = []\<rparr>"

definition demo_cluster_world :: world where
  "demo_cluster_world = demo_world\<lparr>snapshots := replicate 37 demo_snapshot, exits := replicate 4 (Exited 0),
     streams := replicate 6 [(True, False)], environ := [(''DINOMO_HOME'', ''/d''), (''HOME'', ''/h'')]\<rparr>"

definition demo_cluster_args :: cluster_args where
  "demo_cluster_args = \<lparr>mem_count = 0, route_count = 0, bench_count = PInt 0, cfile = ''conf'',
     ssh_key = Some ''/h/.ssh/id_rsa'', kvs_type = Some ''memory'', cluster_name = ''D''\<rparr>"

lemma demo_pod_ips:
  assumes "snapshots w = demo_snapshot # demo_snapshot # ss"
  shows "get_pod_ips sel r w =
    (Return (if sel = ''role=management'' then [''10.0.0.2''] else []), w\<lparr>snapshots := ss\<rparr>)"
  using assms by (simp add: get_pod_ips_def zoom_def demo_snapshot_def pods_ready_def demo_pod_def)

lemma demo_copy:
  assumes "streams w = [(True, False)] # ss"
  shows "copy_file_to_pod demo_cluster_host f n d c w = (Return (), w\<lparr>streams := ss, trace := trace w @
    [ExecInPod n c [''tar'', ''xmvf'', ''-'', ''-C'', d], WriteStdin [0x41], CloseStream]\<rparr>)"
  using assms by (simp add: copy_file_to_pod_def demo_cluster_host_def demo_host_def next_stream_def next_answer_def)

lemma demo_spec_eval:
  "load_yaml demo_cluster_host f (Some prefix) = Inr demo_spec" "set_first_env name v demo_spec = Inr demo_spec"
  "pod_name_of demo_spec = Inr ''p''" "container_name_of demo_spec = Inr ''c''"
  "fill_env a b c d demo_spec = Inr demo_spec"
  by (simp_all add: load_yaml_def demo_cluster_host_def Let_def set_first_env_def demo_spec_def yaml_at_def
      yaml_at_first_def list_get_def replace_yaml_val_def dict_getitem_def pod_name_of_def container_name_of_def
      yaml_str_def fill_env_def yaml_each_def)

lemma demo_management:
  assumes "snapshots w = demo_snapshot # demo_snapshot # ss" and "environ w = environ demo_cluster_world"
    and "streams w = replicate 4 [(True, False)] @ st"
  shows "\<exists>w'. start_management demo_cluster_host demo_cluster_args prefix w = (Return (''10.0.0.2'', ''p'', ''c''), w') \<and>
    snapshots w' = ss \<and> streams w' = st \<and> exits w' = exits w"
  using assms
  by (simp add: start_management_def init_k8s_def list_get_def environ_get_def demo_cluster_world_def demo_spec_eval
      demo_pod_ips dict_getitem_def copy_key_def demo_cluster_args_def demo_copy numeral_eq_Suc Let_def)

lemma demo_monitoring:
  assumes "snapshots w = demo_snapshot # demo_snapshot # ss" and "streams w = [(True, False)] # st"
  shows "\<exists>w'. start_monitoring demo_cluster_host prefix mip w = (Return (), w') \<and>
    snapshots w' = ss \<and> streams w' = st \<and> exits w' = exits w"
  using assms by (simp add: start_monitoring_def demo_copy demo_spec_eval demo_pod_ips)

lemma demo_batch:
  assumes "snapshots w = replicate 9 demo_snapshot @ ss" and "exits w = Exited 0 # es"
    and "pod_kind kind = kind" and "kind \<noteq> ''management''"
  shows "\<exists>w'. batch_add_nodes demo_cluster_host cf [kind] [0] BATCH_SIZE (Some prefix) w = (Return (), w') \<and>
    snapshots w' = ss \<and> exits w' = es \<and> streams w' = streams w"
proof -
  have pods: "pods_of demo_snapshot (CHR ''r'' # CHR ''o'' # CHR ''l'' # CHR ''e'' # CHR ''='' # kind) = []"
    using assms(4) by (simp add: demo_snapshot_def)
  have order: "set_order demo_cluster_host = id" by (simp add: demo_cluster_host_def demo_host_def)
  show ?thesis
    using assms
    by (simp add: batch_add_nodes_def batch_body_def BATCH_SIZE_def add_nodes_def add_all_servers_def list_get_def
        add_servers_def get_previous_count_def run_process_def start_nodes_def start_kind_def create_daemon_set_def
        demo_pod_ips demo_spec_eval pods numeral_eq_Suc wait_count.simps zoom_def new_pods_def order
        get_current_pod_container_pairs_def Let_def)
qed

lemma demo_all_nodes:
  assumes "snapshots w = replicate 29 demo_snapshot @ ss" and "exits w = replicate 3 (Exited 0) @ es"
  shows "\<exists>w'. start_all_nodes demo_cluster_host demo_cluster_args prefix w = (Return (), w') \<and>
    snapshots w' = ss \<and> exits w' = es \<and> streams w' = streams w"
proof -
  let ?S = "\<lambda>n. replicate n demo_snapshot @ ss"
  let ?b = "\<lambda>kind. batch_add_nodes demo_cluster_host ''conf'' [kind] [0] BATCH_SIZE (Some prefix)"
  have split: "?S 29 = replicate 9 demo_snapshot @ ?S 20" "?S 20 = demo_snapshot # demo_snapshot # ?S 18"
    "?S 18 = replicate 9 demo_snapshot @ ?S 9"
    by (simp_all add: numeral_eq_Suc)
  have kinds: "pod_kind ''routing'' = ''routing''" "pod_kind ''memory'' = ''memory''"
    "pod_kind ''benchmark'' = ''benchmark''"
    by (simp_all add: pod_kind_def)
  have e: "replicate 3 (Exited 0) @ es = Exited 0 # Exited 0 # Exited 0 # es" by (simp add: numeral_eq_Suc)
  obtain w1 where 1: "?b ''routing'' w = (Return (), w1)" "snapshots w1 = ?S 20"
      "exits w1 = Exited 0 # Exited 0 # es" "streams w1 = streams w"
    using demo_batch [OF assms(1) [unfolded split(1)] assms(2) [unfolded e] kinds(1)] by auto
  let ?w2 = "w1\<lparr>snapshots := ?S 18\<rparr>"
  have 2: "get_pod_ips ''role=routing'' False w1 = (Return [], ?w2)"
    using demo_pod_ips [OF 1(2) [unfolded split(2)]] by simp
  obtain w3 where 3: "?b ''memory'' ?w2 = (Return (), w3)" "snapshots w3 = ?S 9" "exits w3 = Exited 0 # es"
      "streams w3 = streams w"
    using demo_batch [of ?w2 "?S 9" "Exited 0 # es" "''memory''"] kinds 1 split(3) by auto
  obtain w4 where 4: "?b ''benchmark'' w3 = (Return (), w4)" "snapshots w4 = ss" "exits w4 = es" "streams w4 = streams w"
    using demo_batch [OF 3(2,3) kinds(3)] 3(4) by auto
  show ?thesis
    using 1(1) 2 3(1) 4 by (simp add: start_all_nodes_def demo_cluster_args_def kind_for_def)
qed

theorem setup_complete_last_witness:
  "\<exists>r w' home mip name kcname u v t.
    run_cluster demo_cluster_host demo_cluster_args demo_cluster_world = (r, w') \<and> complete \<in> set (trace w') \<and>
    start_management demo_cluster_host demo_cluster_args (path_join home ''cluster/dinomo/cluster'') demo_cluster_world =
      (Return (mip, name, kcname), u) \<and>
    start_monitoring demo_cluster_host (path_join home ''cluster/dinomo/cluster'') mip u = (Return (), v) \<and>
    start_all_nodes demo_cluster_host demo_cluster_args (path_join home ''cluster/dinomo/cluster'') v = (Return (), t)"
proof -
  let ?p = "path_join ''/d'' ''cluster/dinomo/cluster''" and ?w = demo_cluster_world
  let ?S = "\<lambda>n. replicate n demo_snapshot" and ?st = "\<lambda>n. replicate n [(True, False)]"
  have w: "snapshots ?w = demo_snapshot # demo_snapshot # ?S 35" "streams ?w = ?st 4 @ ?st 2"
    "exits ?w = replicate 3 (Exited 0) @ [Exited 0]" "complete \<notin> set (trace ?w)"
    "environ ?w = [(''DINOMO_HOME'', ''/d''), (''HOME'', ''/h'')]"
    by (simp_all add: demo_cluster_world_def demo_world_def numeral_eq_Suc)
  have split: "?S 35 = demo_snapshot # demo_snapshot # ?S 33" "?st 2 = [(True, False)] # ?st 1"
    "?S 33 = ?S 29 @ ?S 4"
    by (simp_all add: numeral_eq_Suc)
  obtain w1 where 1: "start_management demo_cluster_host demo_cluster_args ?p ?w = (Return (''10.0.0.2'', ''p'', ''c''), w1)"
      "snapshots w1 = ?S 35" "streams w1 = ?st 2" "exits w1 = exits ?w"
    using demo_management [OF w(1) refl w(2), of ?p] by blast
  obtain w2 where 2: "start_monitoring demo_cluster_host ?p ''10.0.0.2'' w1 = (Return (), w2)"
      "snapshots w2 = ?S 33" "streams w2 = ?st 1" "exits w2 = exits ?w"
    using demo_monitoring [OF 1(2) [unfolded split(1)] 1(3) [unfolded split(2)], of ?p "''10.0.0.2''"] 1(4) by auto
  obtain w3 where 3: "start_all_nodes demo_cluster_host demo_cluster_args ?p w2 = (Return (), w3)"
      "snapshots w3 = ?S 4" "exits w3 = [Exited 0]" "streams w3 = ?st 1"
    using demo_all_nodes [OF 2(2) [unfolded split(3)] 2(4) [unfolded w(3)], of ?p] 2(3) by auto
  obtain r w' where 4: "finish_setup demo_cluster_host ''p'' ''c'' w3 = (r, w')" by fastforce
  then have complete: "complete \<in> set (trace w')"
    using 3(2-4) by (auto simp: finish_setup_def demo_copy demo_pod_ips environ_set_def run_process_def numeral_eq_Suc)
  have run: "run_cluster demo_cluster_host demo_cluster_args ?w = (r, w')"
    using 1(1) 2(1) 3(1) 4 w(5) by (simp add: run_cluster_def environ_get_def dict_getitem_def dict_mem_def Let_def)
  from run complete 1(1) 2(1) 3(1) setup_complete_last [OF run w(4) complete] show ?thesis by blast
qed

section \<open>The command line of the scripts\<close>

lemma read_word_number:
  assumes "0 \<le> n"
  shows "read_word p (str_int n) = Some (Arg (str_int n))"
proof -
  have "str_int n \<noteq> []" "\<forall>c \<in> set (str_int n). is_digit c"
    using assms str_nat_digits [of _ "nat n"] by (auto simp: str_int_nonneg)
  then have "hd (str_int n) \<noteq> CHR ''-''" by (cases "str_int n") (auto simp: is_digit_def)
  then show ?thesis by (simp add: read_word_def)
qed

lemma number_not_dashes: "0 \<le> n \<Longrightarrow> str_int n \<noteq> ''--''"
  using str_nat_digits [of "CHR ''-''" "nat n"] by (auto simp: str_int_nonneg is_digit_def)

definition plain_args :: "int \<Rightarrow> int \<Rightarrow> string \<Rightarrow> string \<Rightarrow> string \<Rightarrow> cluster_args" where
  "plain_args m r home user_home name =
     \<lparr>mem_count = m, route_count = r, bench_count = PInt 0, cfile = path_join home ''conf/dinomo-base.yml'',
      ssh_key = Some (path_join user_home ''.ssh/id_rsa''), kvs_type = Some ''memory'', cluster_name = name\<rparr>"

lemma find_flag_cluster:
  "find_flag (cluster_parser c k) ''-m'' = Some (int_option [''-m'', ''--memory''] ListOne ''memory'' True PNone)"
  "find_flag (cluster_parser c k) ''--routing'' = Some (int_option [''-r'', ''--routing''] ListOne ''routing'' True PNone)"
  by (simp_all add: find_flag_def all_options_def help_option_def cluster_parser_def int_option_def)

lemma read_flag_cluster:
  "read_word (cluster_parser c k) ''-m'' =
     Some (Named (int_option [''-m'', ''--memory''] ListOne ''memory'' True PNone) ''-m'' None)"
  "read_word (cluster_parser c k) ''--routing'' =
     Some (Named (int_option [''-r'', ''--routing''] ListOne ''routing'' True PNone) ''--routing'' None)"
  by (simp_all add: read_word_def find_flag_cluster)

lemma parse_cluster_args:
  assumes "0 \<le> m" and "0 \<le> r"
  shows "parse_args (cluster_parser c k) [''-m'', str_int m, ''--routing'', str_int r] =
    Inr [(''memory'', PList [PInt m]), (''routing'', PList [PInt r]), (''benchmark'', PInt 0), (''conf'', PStr c),
      (''sshkey'', PStr k), (''kvstype'', PStr ''memory'')]"
proof -
  have "read_words (cluster_parser c k) [''-m'', str_int m, ''--routing'', str_int r] =
    Some [Named (int_option [''-m'', ''--memory''] ListOne ''memory'' True PNone) ''-m'' None, Arg (str_int m),
      Named (int_option [''-r'', ''--routing''] ListOne ''routing'' True PNone) ''--routing'' None, Arg (str_int r)]"
    using assms by (simp add: read_word_number number_not_dashes read_flag_cluster)
  then show ?thesis
    by (simp add: parse_args_def expand_word_def value_for_def takes_value_def int_option_def act_def convert_def
        parse_init_def cluster_parser_def str_option_def missing_def)
qed



end
