(* ===== verification/Py_Json.thy ===== *)
theory Py_Json
  imports Py_Document
begin

text \<open>
  The standard library's \<^verbatim>\<open>json\<close>: \<open>json_dumps\<close> prints a document, on one line or with an indentation,
  with or without sorted keys, and \<open>json_loads\<close> reads one. The reader is a recursive descent with a
  bound on the number of nested calls; twice the length of the text is enough, and \<open>json_round_trip\<close>
  shows for every document made of strings, integers, truth values, lists and dicts that reading what
  was printed gives the document back. The text of a \<open>float\<close> is left to a parameter when printing;
  a code point of 256 or more in an escape is outside the strings of the model and is not read.
\<close>

section \<open>Printing\<close>

definition json_escape :: "char \<Rightarrow> string" where
  "json_escape c = (let n = (of_char c :: nat) in
     if n = 34 then [CHR 0x5C, c]
     else if n = 92 then [CHR 0x5C, c]
     else if n = 10 then [CHR 0x5C, CHR ''n'']
     else if n = 13 then [CHR 0x5C, CHR ''r'']
     else if n = 9 then [CHR 0x5C, CHR ''t'']
     else if n = 12 then [CHR 0x5C, CHR ''f'']
     else if n = 8 then [CHR 0x5C, CHR ''b'']
     else if 32 \<le> n \<and> n < 127 then [c]
     else [CHR 0x5C, CHR ''u''] @ hextet_str n)"

definition json_quote :: "string \<Rightarrow> string" where
  "json_quote s = [CHR 0x22] @ concat (map json_escape s) @ [CHR 0x22]"

record json_format =
  indent :: "nat option"
  sort_keys :: bool
  float_repr :: "rat \<Rightarrow> string"

definition json_newline :: "json_format \<Rightarrow> nat \<Rightarrow> string" where
  "json_newline fmt lvl = (case indent fmt of None \<Rightarrow> [] | Some k \<Rightarrow> CHR 0x0A # replicate (k * lvl) CHR '' '')"

definition json_sep :: "json_format \<Rightarrow> nat \<Rightarrow> string" where
  "json_sep fmt lvl = (case indent fmt of None \<Rightarrow> '', '' | Some k \<Rightarrow> '','' @ json_newline fmt lvl)"

definition json_items :: "json_format \<Rightarrow> (string, 'v) dict \<Rightarrow> (string, 'v) dict" where
  "json_items fmt d = (if sort_keys fmt then sort_key fst d else d)"

definition json_wrap :: "json_format \<Rightarrow> nat \<Rightarrow> string \<Rightarrow> string \<Rightarrow> string list \<Rightarrow> string" where
  "json_wrap fmt lvl a b xs =
     (if xs = [] then a @ b
      else a @ json_newline fmt (Suc lvl) @ join (json_sep fmt (Suc lvl)) xs @ json_newline fmt lvl @ b)"

definition json_member :: "string \<times> string \<Rightarrow> string" where
  "json_member = (\<lambda>(k, s). json_quote k @ '': '' @ s)"

text \<open>The members of a dict are printed first and then put in order: the order does not depend on
  what was printed.\<close>

fun json_dump :: "json_format \<Rightarrow> nat \<Rightarrow> yaml \<Rightarrow> string res" where
  "json_dump fmt lvl PNone = Inr ''null''"
| "json_dump fmt lvl (PBool b) = Inr (if b then ''true'' else ''false'')"
| "json_dump fmt lvl (PInt i) = Inr (str_int i)"
| "json_dump fmt lvl (PFloat f) =
     Inr (case f of NaN \<Rightarrow> ''NaN'' | PosInf \<Rightarrow> ''Infinity'' | NegInf \<Rightarrow> ''-Infinity'' | Fin q \<Rightarrow> float_repr fmt q)"
| "json_dump fmt lvl (PStr s) = Inr (json_quote s)"
| "json_dump fmt lvl (PList xs) =
     bindE (mapE (json_dump fmt (Suc lvl)) xs) (\<lambda>ss. Inr (json_wrap fmt lvl ''['' '']'' ss))"
| "json_dump fmt lvl (PTuple xs) =
     bindE (mapE (json_dump fmt (Suc lvl)) xs) (\<lambda>ss. Inr (json_wrap fmt lvl ''['' '']'' ss))"
| "json_dump fmt lvl (PDict d) =
     bindE (mapE (\<lambda>(k, v). bindE (json_dump fmt (Suc lvl) v) (\<lambda>s. Inr (k, s))) d) (\<lambda>kss.
     Inr (json_wrap fmt lvl ''{'' ''}'' (map json_member (json_items fmt kss))))"
| "json_dump fmt lvl _ = Inl TypeError"

definition json_dumps :: "json_format \<Rightarrow> yaml \<Rightarrow> string res" where
  "json_dumps fmt v = json_dump fmt 0 v"

section \<open>Reading\<close>

definition json_ws :: "char \<Rightarrow> bool" where
  "json_ws c \<longleftrightarrow> c \<in> {CHR '' '', CHR 0x09, CHR 0x0A, CHR 0x0D}"

abbreviation skip_ws :: "string \<Rightarrow> string" where
  "skip_ws \<equiv> dropWhile json_ws"

definition json_unescape :: "char \<Rightarrow> char option" where
  "json_unescape e = map_of [(CHR 0x22, CHR 0x22), (CHR 0x5C, CHR 0x5C), (CHR ''/'', CHR ''/''),
     (CHR ''b'', CHR 0x08), (CHR ''f'', CHR 0x0C), (CHR ''n'', CHR 0x0A), (CHR ''r'', CHR 0x0D),
     (CHR ''t'', CHR 0x09)] e"

fun json_string :: "string \<Rightarrow> (string \<times> string) option" where
  "json_string [] = None"
| "json_string (c # r) =
     (if c = CHR 0x22 then Some ([], r)
      else if c = CHR 0x5C then
        (case r of
           [] \<Rightarrow> None
         | e # r' \<Rightarrow>
             if e = CHR ''u'' then
               (case r' of
                  h1 # h2 # h3 # h4 # r'' \<Rightarrow>
                    (case parse_hextet [h1, h2, h3, h4] of
                       Inr n \<Rightarrow> if n < 256 then map_option (\<lambda>(t, u). (char_of n # t, u)) (json_string r'') else None
                     | Inl _ \<Rightarrow> None)
                | _ \<Rightarrow> None)
             else
               (case json_unescape e of
                  Some d \<Rightarrow> map_option (\<lambda>(t, u). (d # t, u)) (json_string r')
                | None \<Rightarrow> None))
      else if (of_char c :: nat) < 32 then None
      else map_option (\<lambda>(t, u). (c # t, u)) (json_string r))"

text \<open>A number: an integer part without leading zeros, and an optional fraction and exponent.\<close>

definition json_frac :: "string \<Rightarrow> string \<times> string" where
  "json_frac s =
     (case s of
        c # r \<Rightarrow> if c = CHR ''.'' \<and> takeWhile is_digit r \<noteq> [] then (takeWhile is_digit r, dropWhile is_digit r) else ([], s)
      | [] \<Rightarrow> ([], s))"

definition json_exp :: "string \<Rightarrow> int option \<times> string" where
  "json_exp s =
     (case s of
        [] \<Rightarrow> (None, s)
      | c # r \<Rightarrow>
          (let sign = (if startswith r ''-'' then -1 else 1);
               t = (if startswith r ''-'' \<or> startswith r ''+'' then tl r else r) in
           if c \<in> {CHR ''e'', CHR ''E''} \<and> takeWhile is_digit t \<noteq> []
           then (Some (sign * int (nat_of_digits (takeWhile is_digit t))), dropWhile is_digit t) else (None, s)))"

definition json_float :: "nat \<Rightarrow> string \<Rightarrow> int option \<Rightarrow> rat" where
  "json_float i fs e =
     (let m = of_nat i + of_nat (nat_of_digits fs) / 10 ^ length fs in
      case e of None \<Rightarrow> m | Some e \<Rightarrow> if e < 0 then m / 10 ^ nat (- e) else m * 10 ^ nat e)"

definition json_number :: "string \<Rightarrow> (yaml \<times> string) option" where
  "json_number s =
     (let neg = startswith s ''-''; t = (if neg then tl s else s);
          ds = (if startswith t ''0'' then ''0'' else takeWhile is_digit t); u = drop (length ds) t;
          (fs, u') = json_frac u; (e, u'') = json_exp u' in
      if ds = [] then None
      else if fs = [] \<and> e = None then
        Some (PInt (if neg then - int (nat_of_digits ds) else int (nat_of_digits ds)), u)
      else Some (PFloat (Fin ((if neg then -1 else 1) * json_float (nat_of_digits ds) fs e)), u''))"

text \<open>The words of JSON, none of which begins with a number, and the numbers.\<close>

definition json_words :: "(string \<times> yaml) list" where
  "json_words = [(''null'', PNone), (''true'', PBool True), (''false'', PBool False),
     (''NaN'', PFloat NaN), (''Infinity'', PFloat PosInf), (''-Infinity'', PFloat NegInf)]"

definition json_atom :: "string \<Rightarrow> (yaml \<times> string) option" where
  "json_atom s =
     (case find (\<lambda>(w, v). startswith s w) json_words of
        Some (w, v) \<Rightarrow> Some (v, drop (length w) s)
      | None \<Rightarrow> json_number s)"

fun json_value :: "nat \<Rightarrow> string \<Rightarrow> (yaml \<times> string) option"
  and json_elements :: "nat \<Rightarrow> yaml list \<Rightarrow> string \<Rightarrow> (yaml list \<times> string) option"
  and json_members :: "nat \<Rightarrow> (string, yaml) dict \<Rightarrow> string \<Rightarrow> ((string, yaml) dict \<times> string) option"
where
  "json_value 0 s = None"
| "json_value (Suc n) s =
     (case s of
        [] \<Rightarrow> None
      | c # r \<Rightarrow>
          if c = CHR 0x22 then map_option (\<lambda>(t, u). (PStr t, u)) (json_string r)
          else if c = CHR ''['' then
            (if startswith (skip_ws r) '']'' then Some (PList [], tl (skip_ws r))
             else map_option (\<lambda>(xs, u). (PList xs, u)) (json_elements n [] (skip_ws r)))
          else if c = CHR ''{'' then
            (if startswith (skip_ws r) ''}'' then Some (PDict [], tl (skip_ws r))
             else map_option (\<lambda>(d, u). (PDict d, u)) (json_members n [] (skip_ws r)))
          else json_atom s)"
| "json_elements 0 acc s = None"
| "json_elements (Suc n) acc s =
     (case json_value n s of
        None \<Rightarrow> None
      | Some (v, u) \<Rightarrow>
          (case skip_ws u of
             [] \<Rightarrow> None
           | c # w \<Rightarrow>
               if c = CHR '']'' then Some (acc @ [v], w)
               else if c = CHR '','' then json_elements n (acc @ [v]) (skip_ws w)
               else None))"
| "json_members 0 acc s = None"
| "json_members (Suc n) acc s =
     (case s of
        [] \<Rightarrow> None
      | q # r \<Rightarrow>
          if q \<noteq> CHR 0x22 then None
          else (case json_string r of
             None \<Rightarrow> None
           | Some (k, u) \<Rightarrow>
               if \<not> startswith (skip_ws u) '':'' then None
               else (case json_value n (skip_ws (tl (skip_ws u))) of
                  None \<Rightarrow> None
                | Some (v, w) \<Rightarrow>
                    (case skip_ws w of
                       [] \<Rightarrow> None
                     | c # x \<Rightarrow>
                         if c = CHR ''}'' then Some (dict_set k v acc, x)
                         else if c = CHR '','' then json_members n (dict_set k v acc) (skip_ws x)
                         else None))))"

definition json_loads :: "string \<Rightarrow> yaml res" where
  "json_loads s =
     (case json_value (2 * length s + 2) (skip_ws s) of
        Some (v, u) \<Rightarrow> if skip_ws u = [] then Inr v else Inl ValueError
      | None \<Rightarrow> Inl ValueError)"

section \<open>Reading what was printed\<close>

fun json_doc :: "yaml \<Rightarrow> bool" where
  "json_doc (PList xs) = list_all json_doc xs"
| "json_doc (PDict d) = (dict_wf d \<and> list_all (\<lambda>(k, v). json_doc v) d)"
| "json_doc (PFloat f) = False"
| "json_doc (PTuple xs) = False"
| "json_doc (PSet xs) = False"
| "json_doc (PBytes b) = False"
| "json_doc PMethod = False"
| "json_doc (PMessageMap d) = False"
| "json_doc (PObj x) = False"
| "json_doc _ = True"

lemma hex_digits:
  "list_all (\<lambda>d. is_hex (''0123456789abcdef'' ! d) \<and> hex_val (''0123456789abcdef'' ! d) = d) [0 ..< 16]"
  by code_simp

lemma hex_digit:
  assumes "d < 16"
  shows "is_hex (''0123456789abcdef'' ! d) \<and> hex_val (''0123456789abcdef'' ! d) = d"
proof -
  have "d \<in> set [0 ..< 16]" unfolding set_upt atLeastLessThan_iff using assms by blast
  then show ?thesis by (rule bspec [OF hex_digits [unfolded list_all_iff]])
qed

lemma div_step: "(n :: nat) div m = k * (n div (m * k)) + n div m mod k"
  by (simp add: div_mult2_eq)

lemma parse_hextet_str: "n < 65536 \<Longrightarrow> parse_hextet (hextet_str n) = Inr n"
proof -
  assume "n < 65536"
  then have "n div 4096 < 16" by simp
  moreover have "16 * (16 * (16 * (n div 4096) + n div 256 mod 16) + n div 16 mod 16) + n mod 16 = n"
    using div_step [of n 256 16] div_step [of n 16 16] div_step [of n 1 16] by simp
  ultimately show ?thesis
    by (simp add: parse_hextet_def hextet_str_def hex_digit)
qed

lemma hextet_str_four: "hextet_str n = [''0123456789abcdef'' ! (n div 4096 mod 16), ''0123456789abcdef'' ! (n div 256 mod 16),
   ''0123456789abcdef'' ! (n div 16 mod 16), ''0123456789abcdef'' ! (n mod 16)]"
  by (simp add: hextet_str_def)

lemma char_eq_nat: "(of_char c :: nat) = of_char d \<Longrightarrow> c = d"
  by simp

lemma json_string_escape:
  "json_string (json_escape c @ r) = map_option (\<lambda>(t, u). (c # t, u)) (json_string r)"
proof -
  define n where "n = (of_char c :: nat)"
  have c: "c = char_of n" and n: "n < 256" by (simp_all add: n_def)
  have "json_string (CHR 0x5C # CHR ''u'' # hextet_str n @ r) = map_option (\<lambda>(t, u). (c # t, u)) (json_string r)"
    using parse_hextet_str [of n] n by (simp add: hextet_str_four c)
  moreover have "c = CHR 0x22" if "n = 34" by (rule char_eq_nat) (use that in \<open>simp add: n_def\<close>)
  moreover have "c = CHR 0x5C" if "n = 92" by (rule char_eq_nat) (use that in \<open>simp add: n_def\<close>)
  moreover have "c = CHR 0x0A" if "n = 10" by (rule char_eq_nat) (use that in \<open>simp add: n_def\<close>)
  moreover have "c = CHR 0x0D" if "n = 13" by (rule char_eq_nat) (use that in \<open>simp add: n_def\<close>)
  moreover have "c = CHR 0x09" if "n = 9" by (rule char_eq_nat) (use that in \<open>simp add: n_def\<close>)
  moreover have "c = CHR 0x0C" if "n = 12" by (rule char_eq_nat) (use that in \<open>simp add: n_def\<close>)
  moreover have "c = CHR 0x08" if "n = 8" by (rule char_eq_nat) (use that in \<open>simp add: n_def\<close>)
  moreover have "json_string (c # r) = map_option (\<lambda>(t, u). (c # t, u)) (json_string r)"
    if "n \<noteq> 34" "n \<noteq> 92" "32 \<le> n"
  proof -
    have "c \<noteq> CHR 0x22" "c \<noteq> CHR 0x5C" using that by (auto simp: n_def)
    then show ?thesis using that by (simp add: n_def)
  qed
  ultimately show ?thesis
    unfolding json_escape_def Let_def n_def [symmetric] by (auto simp: json_unescape_def)
qed

lemma json_string_quote: "json_string (concat (map json_escape s) @ CHR 0x22 # r) = Some (s, r)"
  by (induction s) (simp_all add: json_string_escape)

text \<open>A value is followed by nothing that could continue a number.\<close>

definition json_rest :: "string \<Rightarrow> bool" where
  "json_rest r \<longleftrightarrow> (case r of [] \<Rightarrow> True | c # _ \<Rightarrow> \<not> is_digit c \<and> c \<notin> {CHR ''.'', CHR ''e'', CHR ''E''})"

lemma str_nat_hd_zero: "hd (str_nat n) = CHR ''0'' \<Longrightarrow> n = 0"
proof (induction n rule: str_nat.induct)
  case (1 n)
  show ?case
  proof (cases "n < 10")
    case True
    have "digit_val (hd (str_nat n)) = n" using True by (subst str_nat.simps) simp
    with 1 show ?thesis by (simp add: digit_val_def)
  next
    case False
    then have "hd (str_nat n) = hd (str_nat (n div 10))" by (subst str_nat.simps) simp
    with 1 False show ?thesis by simp
  qed
qed

lemma str_nat_0: "str_nat 0 = ''0''"
  by (subst str_nat.simps) (simp add: digit_char_def)

lemma json_rest_frac: "json_rest r \<Longrightarrow> json_frac r = ([], r)"
  by (auto simp: json_rest_def json_frac_def split: list.splits)

lemma json_rest_exp: "json_rest r \<Longrightarrow> json_exp r = (None, r)"
  by (auto simp: json_rest_def json_exp_def Let_def split: list.splits)

lemma takeWhile_digits:
  assumes "json_rest r"
  shows "takeWhile is_digit (str_nat n @ r) = str_nat n" (is ?T)
proof -
  have "takeWhile is_digit r = []" using assms by (cases r) (auto simp: json_rest_def)
  then show ?T using str_nat_digits by (simp add: takeWhile_append2)
qed

lemma startswith_Cons1: "startswith (c # s) [d] \<longleftrightarrow> c = d"
  by (simp add: startswith_def)

lemma json_digits:
  assumes "json_rest r"
  shows "(if startswith (str_nat n @ r) ''0'' then ''0'' else takeWhile is_digit (str_nat n @ r)) = str_nat n"
proof (cases "startswith (str_nat n @ r) ''0''")
  case True
  then have "hd (str_nat n) = CHR ''0''" by (cases "str_nat n") (auto simp: startswith_def)
  then have "n = 0" by (rule str_nat_hd_zero)
  with True show ?thesis by (simp add: str_nat_0)
qed (simp add: takeWhile_digits [OF assms])

lemma json_number_str_int:
  assumes r: "json_rest r"
  shows "json_number (str_int i @ r) = Some (PInt i, r)"
proof (cases "i < 0")
  case True
  then show ?thesis
    using json_digits [OF r, of "nat (- i)"]
    by (simp add: json_number_def str_int_def startswith_Cons1 json_rest_frac [OF r] json_rest_exp [OF r])
next
  case False
  have "\<not> startswith (str_nat (nat i) @ r) ''-''"
    using str_nat_no_char [of "CHR ''-''" "nat i"]
    by (cases "str_nat (nat i)") (auto simp: startswith_Cons1 is_digit_def)
  then show ?thesis
    using False json_digits [OF r, of "nat i"]
    by (simp add: json_number_def str_int_def json_rest_frac [OF r] json_rest_exp [OF r])
qed

text \<open>What a printed integer begins with.\<close>

lemma str_int_hd: "hd (str_int i) = CHR ''-'' \<or> is_digit (hd (str_int i))"
  using str_nat_digits [of "hd (str_nat (nat i))" "nat i"] by (auto simp: str_int_def)

lemma str_int_Cons: obtains c s where "str_int i = c # s" "c = CHR ''-'' \<or> is_digit c"
  "c = CHR ''-'' \<Longrightarrow> \<not> startswith s ''I''"
proof -
  have "str_int i \<noteq> []" by (simp add: str_int_def)
  then obtain c s where cs: "str_int i = c # s" by (cases "str_int i") auto
  moreover from this have "c = CHR ''-'' \<or> is_digit c" using str_int_hd [of i] by simp
  moreover have "CHR ''I'' \<notin> set (str_int i)" by (rule str_int_no_char) (simp_all add: is_digit_def)
  then have "\<not> startswith s ''I''" using cs by (cases s) (auto simp: startswith_def)
  ultimately show thesis by (rule that)
qed

lemma json_atom_str_int:
  assumes "json_rest r"
  shows "json_atom (str_int i @ r) = Some (PInt i, r)"
proof -
  obtain c s where cs: "str_int i = c # s" and c: "c = CHR ''-'' \<or> is_digit c"
    and s: "c = CHR ''-'' \<Longrightarrow> \<not> startswith s ''I''" using str_int_Cons [of i] by metis
  have "c = CHR ''-'' \<Longrightarrow> s \<noteq> []" 
    using cs str_nat_no_char [of "CHR ''-''" "nat i"] by (auto simp: str_int_def is_digit_def split: if_splits)
  with c s have "find (\<lambda>(w, v). startswith (c # s @ r) w) json_words = None"
    by (cases s) (auto simp: json_words_def startswith_def is_digit_def)
  then have "json_atom (c # s @ r) = json_number (c # s @ r)" by (simp add: json_atom_def)
  then show ?thesis using json_number_str_int [OF assms, of i] cs by simp
qed

text \<open>The text \<open>s\<close> is read as the value \<open>v\<close> by every call with at least \<open>length s\<close> nested calls left.\<close>

definition json_reads :: "yaml \<Rightarrow> string \<Rightarrow> bool" where
  "json_reads v s \<longleftrightarrow> s \<noteq> [] \<and> \<not> json_ws (hd s) \<and> hd s \<noteq> CHR '']'' \<and>
     (\<forall>r n. json_rest r \<longrightarrow> length s \<le> n \<longrightarrow> json_value n (s @ r) = Some (v, r))"

lemma json_readsD: "json_reads v s \<Longrightarrow> json_rest r \<Longrightarrow> length s \<le> n \<Longrightarrow> json_value n (s @ r) = Some (v, r)"
  by (simp add: json_reads_def)

lemma json_ws_digit: "json_ws c \<Longrightarrow> \<not> is_digit c \<and> c \<notin> {CHR ''.'', CHR ''e'', CHR ''E''}"
  by (auto simp: json_ws_def is_digit_def)

lemma json_rest_ws: "list_all json_ws w \<Longrightarrow> c \<in> {CHR '']'', CHR ''}'', CHR '',''} \<Longrightarrow> json_rest (w @ c # r)"
  by (cases w) (auto simp: json_rest_def is_digit_def dest: json_ws_digit)

lemma skip_ws_append: "list_all json_ws w \<Longrightarrow> \<not> json_ws c \<Longrightarrow> skip_ws (w @ c # r) = c # r"
  by (induction w) auto

lemma skip_ws_reads: "list_all json_ws w \<Longrightarrow> s \<noteq> [] \<Longrightarrow> \<not> json_ws (hd s) \<Longrightarrow> skip_ws (w @ s @ r) = s @ r"
  by (cases s) (auto simp: skip_ws_append)

lemma json_ws_punct [simp]:
  "\<not> json_ws CHR '']''" "\<not> json_ws CHR ''}''" "\<not> json_ws CHR '',''" "\<not> json_ws CHR '':''" "\<not> json_ws CHR 0x22"
  by (simp_all add: json_ws_def)

lemma join_first: "xs \<noteq> [] \<Longrightarrow> hd xs \<noteq> [] \<Longrightarrow> join sep xs \<noteq> [] \<and> hd (join sep xs) = hd (hd xs)"
  by (cases "(sep, xs)" rule: join.cases) auto

lemma json_elements_reads:
  assumes "list_all2 json_reads xs ss" and "xs \<noteq> []"
    and w: "list_all json_ws w" "list_all json_ws w'"
    and "length (join (CHR '','' # w) ss) < n"
  shows "json_elements n acc (join (CHR '','' # w) ss @ w' @ CHR '']'' # r) = Some (acc @ xs, r)"
  using assms(1,2,5)
proof (induction xs ss arbitrary: n acc rule: list_all2_induct)
  case (Cons x xs s ss)
  then obtain m where n: "n = Suc m" by (cases n) auto
  show ?case
  proof (cases "xs = []")
    case True
    then have "ss = []" using Cons.hyps by simp
    moreover have "json_value m (s @ w' @ CHR '']'' # r) = Some (x, w' @ CHR '']'' # r)"
      using Cons n \<open>ss = []\<close> w by (intro json_readsD) (auto intro!: json_rest_ws)
    ultimately show ?thesis using True n w by (simp add: skip_ws_append)
  next
    case False
    then have ss: "ss \<noteq> []" using Cons.hyps by auto
    let ?t = "join (CHR '','' # w) ss @ w' @ CHR '']'' # r"
    have len: "length s \<le> m" "length (join (CHR '','' # w) ss) < m"
      using Cons.prems n ss by (auto simp: join_Cons)
    have "json_value m (s @ CHR '','' # w @ ?t) = Some (x, CHR '','' # w @ ?t)"
      using Cons.hyps len json_rest_ws [of "[]" "CHR '',''"] by (intro json_readsD) auto
    moreover have "hd ss \<noteq> [] \<and> \<not> json_ws (hd (hd ss))"
      using Cons.hyps ss by (cases ss) (auto simp: list_all2_Cons2 json_reads_def)
    then have "skip_ws (w @ ?t) = ?t"
      using skip_ws_reads [of w "join (CHR '','' # w) ss"] w join_first [OF ss] by auto
    ultimately show ?thesis
      using Cons.IH [of m "acc @ [x]"] False len n ss by (simp add: join_Cons)
  qed
qed simp

lemma json_member_eq:
  "json_member (k, s) @ r = CHR 0x22 # concat (map json_escape k) @ CHR 0x22 # CHR '':'' # CHR '' '' # s @ r"
  by (simp add: json_member_def json_quote_def)

lemma json_members_step:
  assumes "json_reads v s" and "json_rest r" and "length s \<le> n"
  shows "json_members (Suc n) acc (json_member (k, s) @ r) =
    (case skip_ws r of
       [] \<Rightarrow> None
     | c # x \<Rightarrow>
         if c = CHR ''}'' then Some (dict_set k v acc, x)
         else if c = CHR '','' then json_members n (dict_set k v acc) (skip_ws x)
         else None)"
proof -
  have "skip_ws (CHR '' '' # s @ r) = s @ r"
    using assms(1) skip_ws_reads [of "'' ''" s r] by (simp add: json_reads_def json_ws_def)
  then show ?thesis
    using json_readsD [OF assms]
    by (simp add: json_member_eq json_string_quote startswith_Cons1)
qed

lemma json_members_reads:
  assumes "list_all2 (\<lambda>(k, v) (k', s). k' = k \<and> json_reads v s) d kss" and "d \<noteq> []"
    and w: "list_all json_ws w" "list_all json_ws w'"
    and "length (join (CHR '','' # w) (map json_member kss)) < n"
  shows "json_members n acc (join (CHR '','' # w) (map json_member kss) @ w' @ CHR ''}'' # r) =
    Some (fold (\<lambda>(k, v). dict_set k v) d acc, r)"
  using assms(1,2,5)
proof (induction d kss arbitrary: n acc rule: list_all2_induct)
  case (Cons kv d ks kss)
  obtain k v s where kv: "kv = (k, v)" "ks = (k, s)" and s: "json_reads v s"
    using Cons.hyps(1) by (cases kv; cases ks) auto
  obtain m where n: "n = Suc m" using Cons.prems by (cases n) auto
  show ?case
  proof (cases "d = []")
    case True
    then have "kss = []" using Cons.hyps by simp
    moreover from this have "length s \<le> m" using Cons.prems n kv by (simp add: json_member_def)
    ultimately show ?thesis
      using True n w kv json_members_step [OF s json_rest_ws, of w' "CHR ''}''" m acc k r] by (simp add: skip_ws_append)
  next
    case False
    then have kss: "kss \<noteq> []" using Cons.hyps by auto
    let ?t = "join (CHR '','' # w) (map json_member kss) @ w' @ CHR ''}'' # r"
    have len: "length s \<le> m" "length (join (CHR '','' # w) (map json_member kss)) < m"
      using Cons.prems n kss kv by (auto simp: join_Cons json_member_def)
    have hd: "hd (map json_member kss) \<noteq> []" "hd (hd (map json_member kss)) = CHR 0x22"
      using kss by (auto simp: hd_map json_member_def json_quote_def split: prod.splits)
    then have "skip_ws (w @ ?t) = ?t"
      using skip_ws_reads [of w "join (CHR '','' # w) (map json_member kss)"] w kss
        join_first [of "map json_member kss"] by auto
    then show ?thesis
      using Cons.IH [of m "dict_set k v acc"] False len n kss kv
        json_members_step [OF s _ len(1), of "CHR '','' # w @ ?t" acc k] json_rest_ws [of "[]" "CHR '',''"]
      by (simp add: join_Cons)
  qed
qed simp

lemma json_newline_ws: "list_all json_ws (json_newline fmt lvl)"
  by (auto simp: json_newline_def json_ws_def list_all_iff split: option.splits)

lemma json_sep_ws: obtains w where "json_sep fmt lvl = CHR '','' # w" "list_all json_ws w"
proof (cases "indent fmt")
  case None
  then show thesis by (intro that [of "'' ''"]) (simp_all add: json_sep_def json_ws_def)
next
  case (Some k)
  then show thesis by (intro that [of "json_newline fmt lvl"]) (simp_all add: json_sep_def json_newline_ws)
qed

lemma json_reads_atom: "json_atom (s @ r) = Some (v, r) \<Longrightarrow> s = c # t \<Longrightarrow> c \<notin> {CHR 0x22, CHR ''['', CHR ''{''} \<Longrightarrow>
    length s \<le> n \<Longrightarrow> json_value n (s @ r) = Some (v, r)"
  by (cases n) auto

lemma json_reads_word:
  assumes "(s, v) \<in> {(''null'', PNone), (''true'', PBool True), (''false'', PBool False)}"
  shows "json_reads v s"
proof -
  have "json_atom (s @ r) = Some (v, r)" for r
    using assms by (auto simp: json_atom_def json_words_def startswith_def)
  moreover obtain c t where "s = c # t" "c \<in> {CHR ''n'', CHR ''t'', CHR ''f''}" using assms by auto
  ultimately show ?thesis
    unfolding json_reads_def by (auto simp: json_ws_def simp del: append_Cons intro!: json_reads_atom)
qed

lemma json_reads_int: "json_reads (PInt i) (str_int i)"
proof -
  obtain c s where cs: "str_int i = c # s" and "c = CHR ''-'' \<or> is_digit c" using str_int_Cons [of i] by metis
  then have c: "c \<notin> {CHR 0x22, CHR ''['', CHR ''{'', CHR '']''}" "\<not> json_ws c"
    by (auto simp: is_digit_def json_ws_def)
  have "json_value n (str_int i @ r) = Some (PInt i, r)" if "json_rest r" "length (str_int i) \<le> n" for r n
    by (rule json_reads_atom [OF json_atom_str_int cs]) (use that c in auto)
  with cs c show ?thesis by (simp add: json_reads_def)
qed

lemma json_reads_str: "json_reads (PStr t) (json_quote t)"
proof -
  have "json_value n (json_quote t @ r) = Some (PStr t, r)" if "length (json_quote t) \<le> n" for n r
    using that by (cases n) (auto simp: json_quote_def json_string_quote)
  then show ?thesis by (simp add: json_reads_def json_quote_def)
qed

lemma json_reads_list:
  assumes "list_all2 json_reads xs ss"
  shows "json_reads (PList xs) (json_wrap fmt lvl ''['' '']'' ss)" (is "json_reads _ ?s")
proof -
  obtain w where w: "json_sep fmt (Suc lvl) = CHR '','' # w" "list_all json_ws w" by (rule json_sep_ws)
  have "json_value n (?s @ r) = Some (PList xs, r)" if n: "length ?s \<le> n" for n r
  proof (cases "xs = []")
    case True
    then show ?thesis using assms n by (cases n) (auto simp: json_wrap_def startswith_Cons1)
  next
    case False
    then have ss: "ss \<noteq> []" using assms by auto
    let ?j = "join (CHR '','' # w) ss" and ?nl = "json_newline fmt lvl"
    obtain m where m: "n = Suc m" using n ss by (cases n) (auto simp: json_wrap_def)
    have "json_reads (hd xs) (hd ss)" using assms False by (cases xs; cases ss) auto
    then have hd: "?j \<noteq> []" "\<not> json_ws (hd ?j)" "hd ?j \<noteq> CHR '']''"
      using join_first [OF ss, of "CHR '','' # w"] by (auto simp: json_reads_def)
    then have "skip_ws (json_newline fmt (Suc lvl) @ ?j @ ?nl @ CHR '']'' # r) = ?j @ ?nl @ CHR '']'' # r"
      by (intro skip_ws_reads json_newline_ws)
    moreover have "\<not> startswith (?j @ ?nl @ CHR '']'' # r) '']''"
      using hd by (cases ?j) (auto simp: startswith_def)
    moreover have "json_elements m [] (?j @ ?nl @ CHR '']'' # r) = Some (xs, r)"
      using json_elements_reads [OF assms False w(2) json_newline_ws, of m] n m ss w by (simp add: json_wrap_def)
    ultimately show ?thesis using m ss w by (simp add: json_wrap_def)
  qed
  then show ?thesis by (simp add: json_reads_def json_wrap_def json_ws_def)
qed

lemma json_reads_dict:
  assumes "list_all2 (\<lambda>(k, v) (k', s). k' = k \<and> json_reads v s) d kss"
  shows "json_reads (PDict (fold (\<lambda>(k, v). dict_set k v) d [])) (json_wrap fmt lvl ''{'' ''}'' (map json_member kss))"
    (is "json_reads ?v ?s")
proof -
  obtain w where w: "json_sep fmt (Suc lvl) = CHR '','' # w" "list_all json_ws w" by (rule json_sep_ws)
  have "json_value n (?s @ r) = Some (?v, r)" if n: "length ?s \<le> n" for n r
  proof (cases "d = []")
    case True
    then show ?thesis using assms n by (cases n) (auto simp: json_wrap_def startswith_Cons1)
  next
    case False
    then have kss: "kss \<noteq> []" using assms by auto
    let ?j = "join (CHR '','' # w) (map json_member kss)" and ?nl = "json_newline fmt lvl"
    obtain m where m: "n = Suc m" using n kss by (cases n) (auto simp: json_wrap_def)
    have "hd (map json_member kss) \<noteq> []" "hd (hd (map json_member kss)) = CHR 0x22"
      using kss by (auto simp: hd_map json_member_def json_quote_def split: prod.splits)
    then have hd: "?j \<noteq> []" "hd ?j = CHR 0x22"
      using join_first [of "map json_member kss" "CHR '','' # w"] kss by auto
    then have "skip_ws (json_newline fmt (Suc lvl) @ ?j @ ?nl @ CHR ''}'' # r) = ?j @ ?nl @ CHR ''}'' # r"
      by (intro skip_ws_reads json_newline_ws) simp_all
    moreover have "\<not> startswith (?j @ ?nl @ CHR ''}'' # r) ''}''"
      using hd by (cases ?j) (auto simp: startswith_def)
    moreover have "json_members m [] (?j @ ?nl @ CHR ''}'' # r) = Some (fold (\<lambda>(k, v). dict_set k v) d [], r)"
      using json_members_reads [OF assms False w(2) json_newline_ws, of m] n m kss w by (simp add: json_wrap_def)
    ultimately show ?thesis using m kss w by (simp add: json_wrap_def)
  qed
  then show ?thesis by (simp add: json_reads_def json_wrap_def json_ws_def)
qed

lemma fold_dict_set: "distinct (map fst (acc @ d)) \<Longrightarrow> fold (\<lambda>(k, v). dict_set k v) d acc = acc @ d"
proof (induction d arbitrary: acc)
  case (Cons kv d)
  obtain k v where kv: "kv = (k, v)" by (cases kv)
  with Cons.prems have "AList.update k v acc = acc @ [(k, v)]"
    by (intro dict_set_fresh) (auto simp: dict_mem_def map_of_eq_None_iff)
  with Cons kv show ?case by simp
qed simp

lemma mapE_list_all2: "mapE f xs = Inr ys \<Longrightarrow> list_all2 (\<lambda>x y. f x = Inr y) xs ys"
  by (induction xs arbitrary: ys) (auto simp: py_inv)

lemma json_dump_reads:
  assumes "json_dump fmt lvl v = Inr s" and "json_doc v" and "\<not> sort_keys fmt"
  shows "json_reads v s"
  using assms
proof (induction fmt lvl v arbitrary: s rule: json_dump.induct)
  case (6 fmt lvl xs)
  then obtain ss where ss: "mapE (json_dump fmt (Suc lvl)) xs = Inr ss" and s: "s = json_wrap fmt lvl ''['' '']'' ss"
    by (auto simp: py_inv)
  have "list_all2 json_reads xs ss"
    using mapE_list_all2 [OF ss] 6 by (auto simp: list_all2_conv_all_nth list_all_length)
  then show ?case unfolding s by (rule json_reads_list)
next
  case (8 fmt lvl d)
  then obtain kss where kss: "mapE (\<lambda>(k, v). bindE (json_dump fmt (Suc lvl) v) (\<lambda>s. Inr (k, s))) d = Inr kss"
    and s: "s = json_wrap fmt lvl ''{'' ''}'' (map json_member kss)"
    by (auto simp: py_inv json_items_def)
  have "list_all2 (\<lambda>(k, v) (k', s). k' = k \<and> json_reads v s) d kss"
  proof (rule list_all2_all_nthI)
    show "length d = length kss" using mapE_length [OF kss] by simp
    fix i assume i: "i < length d"
    obtain k v where kv: "d ! i = (k, v)" by fastforce
    with i have mem: "(k, v) \<in> set d" by (metis nth_mem)
    obtain t where t: "json_dump fmt (Suc lvl) v = Inr t" "kss ! i = (k, t)"
      using list_all2_nthD [OF mapE_list_all2 [OF kss] i] kv by (auto simp: py_inv)
    then have "json_reads v t" using 8 mem by (auto simp: list_all_iff)
    with kv t show "(case d ! i of (k, v) \<Rightarrow> \<lambda>(k', s). k' = k \<and> json_reads v s) (kss ! i)" by simp
  qed
  then have "json_reads (PDict (fold (\<lambda>(k, v). dict_set k v) d [])) s" unfolding s by (rule json_reads_dict)
  moreover have "fold (\<lambda>(k, v). dict_set k v) d [] = d"
    using 8 fold_dict_set [of "[]" d] by (simp add: dict_wf_def)
  ultimately show ?case by simp
qed (auto simp: json_reads_int json_reads_str intro: json_reads_word)

lemma json_round_trip:
  assumes "json_dumps fmt v = Inr s" and "json_doc v" and "\<not> sort_keys fmt"
  shows "json_loads s = Inr v"
proof -
  have r: "json_reads v s" using json_dump_reads assms unfolding json_dumps_def by blast
  then have "skip_ws s = s" by (cases s) (auto simp: json_reads_def)
  moreover have "json_value (2 * length s + 2) (s @ []) = Some (v, [])"
    using r by (rule json_readsD) (simp_all add: json_rest_def)
  ultimately show ?thesis by (simp add: json_loads_def)
qed

lemma mapE_exists: "(\<And>x. x \<in> set xs \<Longrightarrow> \<exists>y. f x = Inr y) \<Longrightarrow> \<exists>ys. mapE f xs = Inr ys"
proof (induction xs)
  case (Cons x xs)
  then obtain y ys where "f x = Inr y" "mapE f xs = Inr ys" by fastforce
  then show ?case by simp
qed simp

lemma json_dump_total: "json_doc v \<Longrightarrow> \<exists>s. json_dump fmt lvl v = Inr s"
proof (induction fmt lvl v rule: json_dump.induct)
  case (6 fmt lvl xs)
  then have "\<exists>ss. mapE (json_dump fmt (Suc lvl)) xs = Inr ss"
    by (intro mapE_exists) (simp add: list_all_iff)
  then show ?case by auto
next
  case (8 fmt lvl d)
  then have "\<exists>kss. mapE (\<lambda>(k, v). bindE (json_dump fmt (Suc lvl) v) (\<lambda>s. Inr (k, s))) d = Inr kss"
    by (intro mapE_exists) (fastforce simp: list_all_iff)
  then show ?case by auto
qed auto

end
