(* ===== verification/Kubespray_Inventory.thy ===== *)
theory Kubespray_Inventory
  imports Py_Json
begin

text \<open>
  The inventory builder \<^verbatim>\<open>kubespray/contrib/inventory_builder/inventory.py\<close>: the settings it reads from the
  environment, the class \<open>KubesprayInventory\<close> method by method, and \<open>main\<close>.

  The object and what it acts on are the record \<open>inventory\<close>: the attributes, the files, and what was
  printed. The package \<^verbatim>\<open>ruamel.yaml\<close>, the answers of \<^verbatim>\<open>ssh\<close> and which files can be written are the
  parameter \<open>tools\<close>. A file that does not exist raises \<open>OSError\<close> when it is opened for reading.
\<close>

section \<open>Settings\<close>

definition ROLES :: "string list" where
  "ROLES = [''all'', ''kube_control_plane'', ''kube_node'', ''etcd'', ''k8s_cluster'', ''calico_rr'']"

definition PROTECTED_NAMES :: "string list" where
  "PROTECTED_NAMES = ROLES"

definition AVAILABLE_COMMANDS :: "string list" where
  "AVAILABLE_COMMANDS = [''help'', ''print_cfg'', ''print_ips'', ''print_hostnames'', ''load'', ''add'']"

definition boolean_states :: "(string, bool) dict" where
  "boolean_states = [(''1'', True), (''yes'', True), (''true'', True), (''on'', True),
     (''0'', False), (''no'', False), (''false'', False), (''off'', False)]"

type_synonym env = "(string, string) dict"

definition get_var_as_bool :: "env \<Rightarrow> string \<Rightarrow> bool \<Rightarrow> bool" where
  "get_var_as_bool env name dflt = dict_get boolean_states (py_lower (dict_get env name [])) dflt"

definition get_var_as_int :: "env \<Rightarrow> string \<Rightarrow> int res \<Rightarrow> int res" where
  "get_var_as_int env name dflt = (case map_of env name of Some s \<Rightarrow> int_of_text s | None \<Rightarrow> dflt)"

record settings =
  CONFIG_FILE :: string
  KUBE_CONTROL_HOSTS :: int
  SCALE_THRESHOLD :: int
  MASSIVE_SCALE_THRESHOLD :: int
  DEBUG :: bool
  HOST_PREFIX :: string
  USE_REAL_HOSTNAME :: bool

definition inventory_settings :: "env \<Rightarrow> settings res" where
  "inventory_settings env =
     bindE (get_var_as_int env ''KUBE_CONTROL_HOSTS'' (get_var_as_int env ''KUBE_MASTERS'' (Inr 2))) (\<lambda>k.
     bindE (get_var_as_int env ''SCALE_THRESHOLD'' (Inr 50)) (\<lambda>s.
     bindE (get_var_as_int env ''MASSIVE_SCALE_THRESHOLD'' (Inr 200)) (\<lambda>m.
     Inr \<lparr>CONFIG_FILE = dict_get env ''CONFIG_FILE'' ''./inventory/sample/hosts.yaml'',
       KUBE_CONTROL_HOSTS = k, SCALE_THRESHOLD = s, MASSIVE_SCALE_THRESHOLD = m,
       DEBUG = get_var_as_bool env ''DEBUG'' True, HOST_PREFIX = dict_get env ''HOST_PREFIX'' ''node'',
       USE_REAL_HOSTNAME = get_var_as_bool env ''USE_REAL_HOSTNAME'' False\<rparr>)))"

section \<open>The object\<close>

datatype printed = Line string | ErrorText pyexc

record inventory =
  config_file :: string  \<comment> \<open>empty for \<open>None\<close>\<close>
  yaml_config :: yaml
  hosts :: "(string, yaml) dict"
  files :: "(string, string) dict"
  out :: "printed list"

record tools =
  yaml_text_load :: "string \<Rightarrow> yaml res"
  yaml_text_dump :: "yaml \<Rightarrow> string"
  shell_output :: "string \<Rightarrow> bytes res"
  writable :: "string \<Rightarrow> bool"

type_synonym 'a inv_prog = "(inventory, 'a) prog"

definition print_line :: "string \<Rightarrow> unit inv_prog" where
  "print_line s = modS (\<lambda>v. v\<lparr>out := out v @ [Line s]\<rparr>)"

definition print_error :: "pyexc \<Rightarrow> unit inv_prog" where
  "print_error e = modS (\<lambda>v. v\<lparr>out := out v @ [ErrorText e]\<rparr>)"

text \<open>Reading the text of a file, and a change of \<open>self.yaml_config\<close>.\<close>

definition read_text :: "string \<Rightarrow> string inv_prog" where
  "read_text f = bindS (getS files) (\<lambda>fs. case map_of fs f of Some s \<Rightarrow> returnS s | None \<Rightarrow> raiseS OSError)"

definition on_config :: "(yaml \<Rightarrow> yaml res) \<Rightarrow> unit inv_prog" where
  "on_config f = bindS (getS yaml_config) (\<lambda>c. bindS (liftE (f c)) (\<lambda>c'. modS (\<lambda>v. v\<lparr>yaml_config := c'\<rparr>)))"

definition of_config :: "(yaml \<Rightarrow> 'a res) \<Rightarrow> 'a inv_prog" where
  "of_config f = bindS (getS yaml_config) (\<lambda>c. liftE (f c))"

text \<open>\<open>yaml_config['all'][part]\<close> and \<open>yaml_config['all']['children'][group]\<close>.\<close>

definition all_part :: "string \<Rightarrow> yaml \<Rightarrow> yaml res" where
  "all_part part c = bindE (yaml_get c ''all'') (\<lambda>a. yaml_get a part)"

definition child :: "string \<Rightarrow> yaml \<Rightarrow> yaml res" where
  "child grp c = bindE (all_part ''children'' c) (\<lambda>ch. yaml_get ch grp)"

definition child_hosts :: "string \<Rightarrow> yaml \<Rightarrow> yaml res" where
  "child_hosts grp c = bindE (child grp c) (\<lambda>g. yaml_get g ''hosts'')"

definition at_all :: "string \<Rightarrow> (yaml \<Rightarrow> yaml res) \<Rightarrow> yaml \<Rightarrow> yaml res" where
  "at_all part f = yaml_at ''all'' (yaml_at part f)"

definition at_child :: "string \<Rightarrow> (yaml \<Rightarrow> yaml res) \<Rightarrow> yaml \<Rightarrow> yaml res" where
  "at_child grp f = at_all ''children'' (yaml_at grp f)"

section \<open>Methods\<close>

definition write_config :: "tools \<Rightarrow> string \<Rightarrow> unit inv_prog" where
  "write_config tls f =
     (if f \<noteq> [] then
        bindS (getS config_file) (\<lambda>name.
        if writable tls name then modS (\<lambda>v. v\<lparr>files := dict_set name (yaml_text_dump tls (yaml_config v)) (files v)\<rparr>)
        else raiseS OSError)
      else print_line ''WARNING: Unable to save config. Make sure you set CONFIG_FILE env var.'')"

definition debug :: "settings \<Rightarrow> string \<Rightarrow> unit inv_prog" where
  "debug st msg = (if DEBUG st then print_line (''DEBUG: '' @ msg) else returnS ())"

definition get_ip_from_opts :: "yaml \<Rightarrow> yaml res" where
  "get_ip_from_opts optstring =
     bindE (py_in ''ip'' optstring) (\<lambda>b. if b then yaml_get optstring ''ip'' else Inl ValueError)"

definition ensure_group :: "string \<Rightarrow> yaml \<Rightarrow> yaml res" where
  "ensure_group grp c =
     (if grp = ''all'' then
        bindE (py_in grp c) (\<lambda>b.
        Inr (if b then c else PDict [(''all'', PDict [(''hosts'', PDict []), (''children'', PDict [])])]))
      else
        at_all ''children'' (\<lambda>ch. bindE (py_in grp ch) (\<lambda>b.
          if b then Inr ch else yaml_set ch grp (PDict [(''hosts'', PDict [])]))) c)"

definition ensure_required_groups :: "settings \<Rightarrow> string list \<Rightarrow> unit inv_prog" where
  "ensure_required_groups st groups =
     forS groups (\<lambda>grp. seqS (debug st (''Adding group '' @ grp)) (on_config (ensure_group grp)))"

text \<open>The digits that the regular expression \<^verbatim>\<open>\d+$\<close> finds at the end of a string; \<^verbatim>\<open>$\<close> also matches before
  a newline that ends it.\<close>

definition trailing_digits :: "string \<Rightarrow> string" where
  "trailing_digits s =
     (let t = (if s \<noteq> [] \<and> last s = CHR 0x0A then butlast s else s) in rev (takeWhile is_digit (rev t)))"

definition get_host_id :: "string \<Rightarrow> int res" where
  "get_host_id host =
     (let ds = trailing_digits (hd (split_on CHR ''.'' host)) in
      if ds = [] then Inl ValueError else int_of_str ds)"

definition exists_hostname :: "(string, yaml) dict \<Rightarrow> string \<Rightarrow> bool" where
  "exists_hostname existing_hosts hostname = dict_mem hostname existing_hosts"

fun exists_ip :: "(string, yaml) dict \<Rightarrow> string \<Rightarrow> bool res" where
  "exists_ip [] ip = Inr False"
| "exists_ip ((name, host_opts) # rest) ip =
     bindE (get_ip_from_opts host_opts) (\<lambda>x. if x = PStr ip then Inr True else exists_ip rest ip)"

fun find_by_ip :: "(string, yaml) dict \<Rightarrow> string \<Rightarrow> string res" where
  "find_by_ip [] ip = Inl ValueError"
| "find_by_ip ((name, host_opts) # rest) ip =
     bindE (get_ip_from_opts host_opts) (\<lambda>x. if x = PStr ip then Inr name else find_by_ip rest ip)"

definition delete_host_by_ip :: "(string, yaml) dict \<Rightarrow> string \<Rightarrow> (string, yaml) dict res" where
  "delete_host_by_ip existing_hosts ip =
     bindE (find_by_ip existing_hosts ip) (\<lambda>name. dict_delitem name existing_hosts)"

subsection \<open>Hosts\<close>

text \<open>The hosts of a loaded configuration, and the highest number at the end of a generated name.\<close>

definition existing_host :: "string \<Rightarrow> string \<times> yaml \<Rightarrow> (string, yaml) dict \<times> int \<Rightarrow> ((string, yaml) dict \<times> int) res" where
  "existing_host prefix = (\<lambda>(host, hostConfig) (existing_hosts, highest_host_id).
     if startswith host prefix then
       bindE (get_host_id host) (\<lambda>host_id.
       Inr (dict_set host hostConfig existing_hosts, if host_id > highest_host_id then host_id else highest_host_id))
     else Inr (dict_set host hostConfig existing_hosts, highest_host_id))"

text \<open>A loop over a list or a string fails at its first element, which is no valid subscript.\<close>

definition load_existing :: "settings \<Rightarrow> yaml \<Rightarrow> ((string, yaml) dict \<times> int) res" where
  "load_existing st c =
     bindE (all_part ''hosts'' c) (\<lambda>h.
     case h of
       PDict d \<Rightarrow> foldE (existing_host (HOST_PREFIX st)) d ([], 0)
     | _ \<Rightarrow> bindE (py_iter h) (\<lambda>xs. if xs = [] then Inr ([], 0) else Inl TypeError))"

text \<open>The local variables of \<open>build_hostnames\<close>; those of the last three that are not bound yet are \<open>None\<close>.\<close>

record build_locals =
  all_hosts :: "(string, yaml) dict"
  next_host_id :: int
  local_hostname :: "string option"
  local_ip :: "string option"
  local_access_ip :: "string option"

definition read_local :: "'a option \<Rightarrow> 'a res" where
  "read_local x = (case x of Some v \<Rightarrow> Inr v | None \<Rightarrow> Inl UnboundLocalError)"

definition host_entry :: "string \<Rightarrow> string \<Rightarrow> yaml" where
  "host_entry ip access_ip = PDict [(''ansible_host'', PStr access_ip), (''ip'', PStr ip), (''access_ip'', PStr access_ip)]"

definition delete_marked :: "settings \<Rightarrow> string \<Rightarrow> build_locals \<Rightarrow> build_locals inv_prog" where
  "delete_marked st realhost l =
     (if exists_hostname (all_hosts l) realhost then
        seqS (debug st (''Marked '' @ realhost @ '' for deletion.''))
          (returnS (l\<lparr>all_hosts := AList.delete realhost (all_hosts l)\<rparr>))
      else
        bindS (liftE (exists_ip (all_hosts l) realhost)) (\<lambda>b.
        if b then
          seqS (debug st (''Marked '' @ realhost @ '' for deletion.''))
            (bindS (liftE (delete_host_by_ip (all_hosts l) realhost)) (\<lambda>d. returnS (l\<lparr>all_hosts := d\<rparr>)))
        else returnS l))"

text \<open>\<open>b.strip()\<close> and \<open>b.decode('ascii')\<close> for bytes.\<close>

definition bytes_strip :: "bytes \<Rightarrow> bytes" where
  "bytes_strip b = (let ws = {9, 10, 11, 12, 13, 32} in rev (dropWhile (\<lambda>x. x \<in> ws) (rev (dropWhile (\<lambda>x. x \<in> ws) b))))"

definition decode_ascii :: "bytes \<Rightarrow> string res" where
  "decode_ascii b = (if list_all (\<lambda>x. x < 128) b then Inr (map (\<lambda>x. char_of (unat x)) b) else Inl UnicodeError)"

definition real_hostname :: "tools \<Rightarrow> string \<Rightarrow> string res" where
  "real_hostname tls access_ip =
     bindE (shell_output tls (''ssh -oStrictHostKeyChecking=no '' @ access_ip @ '' '' @ [CHR 0x27] @ ''hostname -s'' @ [CHR 0x27]))
       (\<lambda>b. decode_ascii (bytes_strip b))"

definition skip_existing :: "settings \<Rightarrow> string \<Rightarrow> build_locals \<Rightarrow> build_locals inv_prog" where
  "skip_existing st name l = seqS (debug st (''Skipping existing host '' @ name @ ''.'')) (returnS l)"

definition split_ip_arg :: "string \<Rightarrow> (string \<times> string) res" where
  "split_ip_arg host =
     (if CHR '','' \<in> set host then
        (case split_on CHR '','' host of [ip, access_ip] \<Rightarrow> Inr (ip, access_ip) | _ \<Rightarrow> Inl ValueError)
      else Inr (host, host))"

definition add_by_ip :: "settings \<Rightarrow> tools \<Rightarrow> string \<Rightarrow> build_locals \<Rightarrow> build_locals inv_prog" where
  "add_by_ip st tls host l =
     bindS (liftE (split_ip_arg host)) (\<lambda>(ip, access_ip).
     let l = l\<lparr>local_ip := Some ip, local_access_ip := Some access_ip\<rparr> in
     if exists_hostname (all_hosts l) host then skip_existing st host l
     else
       bindS (liftE (exists_ip (all_hosts l) ip)) (\<lambda>b.
       if b then skip_existing st ip l
       else if USE_REAL_HOSTNAME st then
         bindS (liftE (real_hostname tls access_ip)) (\<lambda>next_host.
         returnS (l\<lparr>all_hosts := dict_set next_host (host_entry ip access_ip) (all_hosts l)\<rparr>))
       else
         returnS (l\<lparr>all_hosts := dict_set (HOST_PREFIX st @ str_int (next_host_id l)) (host_entry ip access_ip) (all_hosts l),
           next_host_id := next_host_id l + 1\<rparr>)))"

definition split_name_arg :: "string \<Rightarrow> build_locals \<Rightarrow> build_locals res" where
  "split_name_arg host l =
     (if CHR '','' \<in> set host then
        (case split_on CHR '','' host of
           [hostname, ip, access_ip] \<Rightarrow>
             Inr (l\<lparr>local_hostname := Some hostname, local_ip := Some ip, local_access_ip := Some access_ip\<rparr>)
         | [hostname, ip] \<Rightarrow>
             Inr (l\<lparr>local_hostname := Some hostname, local_ip := Some ip, local_access_ip := Some ip\<rparr>)
         | _ \<Rightarrow> Inl ValueError)
      else Inr l)"

definition add_by_name :: "settings \<Rightarrow> string \<Rightarrow> build_locals \<Rightarrow> build_locals inv_prog" where
  "add_by_name st host l =
     bindS (liftE (split_name_arg host l)) (\<lambda>l.
     if exists_hostname (all_hosts l) host then skip_existing st host l
     else
       bindS (liftE (read_local (local_ip l))) (\<lambda>ip.
       bindS (liftE (exists_ip (all_hosts l) ip)) (\<lambda>b.
       if b then skip_existing st ip l
       else
         bindS (liftE (read_local (local_access_ip l))) (\<lambda>access_ip.
         bindS (liftE (read_local (local_hostname l))) (\<lambda>hostname.
         returnS (l\<lparr>all_hosts := dict_set hostname (host_entry ip access_ip) (all_hosts l)\<rparr>))))))"

definition change_host :: "settings \<Rightarrow> tools \<Rightarrow> string \<Rightarrow> build_locals \<Rightarrow> build_locals inv_prog" where
  "change_host st tls host l =
     (case host of
        [] \<Rightarrow> raiseS IndexError
      | c # realhost \<Rightarrow>
          if c = CHR ''-'' then delete_marked st realhost l
          else if py_isdigit c then add_by_ip st tls host l
          else if py_isalpha c then add_by_name st host l
          else returnS l)"

definition build_hostnames :: "settings \<Rightarrow> tools \<Rightarrow> string list \<Rightarrow> bool \<Rightarrow> (string, yaml) dict inv_prog" where
  "build_hostnames st tls changed_hosts loadPreviousConfig =
     bindS
       (if loadPreviousConfig then
          bindS (getS yaml_config) (\<lambda>c.
          case load_existing st c of
            Inr r \<Rightarrow> returnS r
          | Inl e \<Rightarrow> seqS (print_error e) (raiseS (SystemExit 1)))
        else returnS ([], 0))
       (\<lambda>(existing_hosts, highest_host_id).
     bindS
       (foldS (change_host st tls) changed_hosts
          \<lparr>all_hosts = existing_hosts, next_host_id = highest_host_id + 1, local_hostname = None, local_ip = None,
           local_access_ip = None\<rparr>)
       (\<lambda>l. returnS (all_hosts l)))"

text \<open>The addresses from \<open>start\<close> to \<open>end\<close>; every failure is that of an address.\<close>

definition ips :: "string \<Rightarrow> string \<Rightarrow> string list res" where
  "ips start_address end_address =
     bindE (ip_int start_address) (\<lambda>s. bindE (ip_int end_address) (\<lambda>e. Inr (map ip_exploded [s ..< Suc e])))"

definition range_arg :: "string \<Rightarrow> string list res" where
  "range_arg host =
     (if CHR ''-'' \<in> set host \<and> \<not> (startswith host ''-'' \<or> py_isalpha (hd host)) then
        (case split_on CHR ''-'' (py_strip host) of
           [s, e] \<Rightarrow> (case ips s e of Inr xs \<Rightarrow> Inr xs | Inl _ \<Rightarrow> Inl PlainException)
         | _ \<Rightarrow> Inl ValueError)
      else Inr [host])"

definition range2ips :: "string list \<Rightarrow> string list res" where
  "range2ips hs = foldE (\<lambda>host reworked_hosts. bindE (range_arg host) (\<lambda>xs. Inr (reworked_hosts @ xs))) hs []"

subsection \<open>Groups\<close>

text \<open>\<open>purge_invalid_hosts\<close> on one dict of hosts, which \<open>sel\<close> reads and \<open>upd\<close> changes.\<close>

definition purge_from ::
  "settings \<Rightarrow> string \<Rightarrow> (yaml \<Rightarrow> yaml res) \<Rightarrow> ((yaml \<Rightarrow> yaml res) \<Rightarrow> yaml \<Rightarrow> yaml res) \<Rightarrow> string list \<Rightarrow> string list \<Rightarrow> unit inv_prog" where
  "purge_from st role sel upd hostnames protected_names =
     bindS (of_config sel) (\<lambda>h.
     if py_truth h then
       bindS (liftE (yaml_items h)) (\<lambda>d.
       forS (dict_keys d) (\<lambda>host.
         if host \<notin> set hostnames \<and> host \<notin> set protected_names then
           seqS (debug st (''Host '' @ host @ '' removed from role '' @ role)) (on_config (upd (yaml_del host)))
         else returnS ()))
     else returnS ())"

definition iter_keys :: "yaml \<Rightarrow> string list res" where
  "iter_keys y =
     (case y of
        PDict d \<Rightarrow> Inr (dict_keys d)
      | _ \<Rightarrow> bindE (py_iter y) (\<lambda>xs. if xs = [] then Inr [] else Inl TypeError))"

definition purge_invalid_hosts :: "settings \<Rightarrow> string list \<Rightarrow> string list \<Rightarrow> unit inv_prog" where
  "purge_invalid_hosts st hostnames protected_names =
     bindS (of_config (\<lambda>c. bindE (all_part ''children'' c) iter_keys)) (\<lambda>roles.
     seqS
       (forS roles (\<lambda>role.
          if role \<noteq> ''k8s_cluster'' then
            purge_from st role (child_hosts role) (\<lambda>f. at_child role (yaml_at ''hosts'' f)) hostnames protected_names
          else returnS ()))
       (purge_from st ''all'' (all_part ''hosts'') (at_all ''hosts'') hostnames protected_names))"

definition add_to_all :: "string \<Rightarrow> yaml \<Rightarrow> yaml \<Rightarrow> yaml res" where
  "add_to_all host opts =
     yaml_at ''all'' (\<lambda>a. bindE (yaml_get a ''hosts'') (\<lambda>h.
       bindE (if h = PNone then yaml_set a ''hosts'' (PDict [(host, PNone)]) else Inr a)
         (yaml_at ''hosts'' (\<lambda>h. yaml_set h host opts))))"

definition add_to_child :: "string \<Rightarrow> string \<Rightarrow> yaml \<Rightarrow> yaml res" where
  "add_to_child grp host =
     at_child grp (\<lambda>g. bindE (yaml_get g ''hosts'') (\<lambda>h.
       if h = PNone then yaml_set g ''hosts'' (PDict [(host, PNone)])
       else yaml_at ''hosts'' (\<lambda>h. yaml_set h host PNone) g))"

definition add_host_to_group :: "settings \<Rightarrow> string \<Rightarrow> string \<Rightarrow> yaml \<Rightarrow> unit inv_prog" where
  "add_host_to_group st grp host opts =
     seqS (debug st (''adding host '' @ host @ '' to group '' @ grp))
       (if grp = ''all'' then on_config (add_to_all host opts)
        else if grp \<noteq> ''k8s_cluster:children'' then on_config (add_to_child grp host)
        else returnS ())"

definition set_kube_control_plane :: "settings \<Rightarrow> string list \<Rightarrow> unit inv_prog" where
  "set_kube_control_plane st hs = forS hs (\<lambda>host. add_host_to_group st ''kube_control_plane'' host (PStr []))"

definition set_all :: "settings \<Rightarrow> (string, yaml) dict \<Rightarrow> unit inv_prog" where
  "set_all st hs = forS hs (\<lambda>(host, opts). add_host_to_group st ''all'' host opts)"

definition k8s_cluster :: yaml where
  "k8s_cluster = PDict [(''children'', PDict [(''kube_control_plane'', PNone), (''kube_node'', PNone)])]"

definition set_k8s_cluster :: "unit inv_prog" where
  "set_k8s_cluster = on_config (at_all ''children'' (\<lambda>ch. yaml_set ch ''k8s_cluster'' k8s_cluster))"

definition set_calico_rr :: "settings \<Rightarrow> string list \<Rightarrow> unit inv_prog" where
  "set_calico_rr st hs =
     forS hs (\<lambda>host.
       bindS (of_config (\<lambda>c. bindE (child ''kube_control_plane'' c) (py_in host))) (\<lambda>b.
       if b then debug st (''Not adding '' @ host @ '' to calico_rr group because it conflicts with kube_control_plane group'')
       else
         bindS (of_config (\<lambda>c. bindE (child ''kube_node'' c) (py_in host))) (\<lambda>b.
         if b then debug st (''Not adding '' @ host @ '' to calico_rr group because it conflicts with kube_node group'')
         else add_host_to_group st ''calico_rr'' host (PStr []))))"

definition kube_node_skips :: "settings \<Rightarrow> string \<Rightarrow> int \<Rightarrow> string \<Rightarrow> bool inv_prog" where
  "kube_node_skips st grp threshold host =
     bindS (of_config (\<lambda>c. bindE (all_part ''hosts'' c) py_len)) (\<lambda>n.
     if n \<ge> threshold then of_config (\<lambda>c. bindE (child_hosts grp c) (py_in host)) else returnS False)"

definition set_kube_node :: "settings \<Rightarrow> string list \<Rightarrow> unit inv_prog" where
  "set_kube_node st hs =
     forS hs (\<lambda>host.
       bindS (kube_node_skips st ''etcd'' (SCALE_THRESHOLD st) host) (\<lambda>b.
       if b then
         debug st (''Not adding '' @ host @ '' to kube_node group because of scale deployment and host is in etcd group.'')
       else
         bindS (kube_node_skips st ''kube_control_plane'' (MASSIVE_SCALE_THRESHOLD st) host) (\<lambda>b.
         if b then
           debug st (''Not adding '' @ host @
             '' to kube_node group because of scale deployment and host is in kube_control_plane group.'')
         else add_host_to_group st ''kube_node'' host (PStr []))))"

definition set_etcd :: "settings \<Rightarrow> string list \<Rightarrow> unit inv_prog" where
  "set_etcd st hs = forS hs (\<lambda>host. add_host_to_group st ''etcd'' host (PStr []))"

subsection \<open>Commands\<close>

definition load_host :: "settings \<Rightarrow> string \<Rightarrow> string \<times> yaml \<Rightarrow> unit inv_prog" where
  "load_host st grp = (\<lambda>(host, opts).
     bindS (liftE (yaml_get opts ''ip'')) (\<lambda>ip.
     seqS (add_host_to_group st ''all'' host (PDict [(''ansible_host'', ip), (''ip'', ip), (''access_ip'', ip)]))
       (add_host_to_group st grp host (PStr []))))"

definition load_one_file :: "settings \<Rightarrow> tools \<Rightarrow> string \<Rightarrow> unit inv_prog" where
  "load_one_file st tls filename =
     bindS (read_text filename) (\<lambda>text.
     bindS (case json_loads text of Inr d \<Rightarrow> returnS d | Inl _ \<Rightarrow> raiseS PlainException) (\<lambda>data.
     seqS (ensure_required_groups st ROLES)
     (seqS set_k8s_cluster
     (bindS (liftE (yaml_items data)) (\<lambda>groups.
      seqS
        (forS groups (\<lambda>(grp, hs).
           seqS (ensure_required_groups st [grp]) (bindS (liftE (yaml_items hs)) (\<lambda>d. forS d (load_host st grp)))))
        (bindS (getS config_file) (write_config tls)))))))"

definition load_file :: "settings \<Rightarrow> tools \<Rightarrow> string list \<Rightarrow> unit inv_prog" where
  "load_file st tls fs = (if fs = [] then raiseS PlainException else forS fs (load_one_file st tls))"

definition help_text :: string where
  "help_text = join [CHR 0x0A]
     [''Usage: inventory.py ip1 [ip2 ...]'',
      ''Examples: inventory.py 10.10.1.3 10.10.1.4 10.10.1.5'',
      '''',
      ''Available commands:'',
      ''help - Display this message'',
      ''print_cfg - Write inventory file to stdout'',
      ''print_ips - Write a space-delimited list of IPs from '' @ [CHR 0x22] @ ''all'' @ [CHR 0x22] @ '' group'',
      ''print_hostnames - Write a space-delimited list of Hostnames from '' @ [CHR 0x22] @ ''all'' @ [CHR 0x22] @ '' group'',
      ''add - Adds specified hosts into an already existing inventory'',
      '''',
      ''Advanced usage:'',
      ''Create new or overwrite old inventory file: inventory.py 10.10.1.5'',
      ''Add another host after initial creation: inventory.py add 10.10.1.6'',
      ''Add range of hosts: inventory.py 10.10.1.3-10.10.1.5'',
      ''Add hosts with different ip and access ip: inventory.py 10.0.0.1,192.168.10.1 10.0.0.2,192.168.10.2 10.0.0.3,192.168.10.3'',
      ''Add hosts with a specific hostname, ip, and optional access ip: first,10.0.0.1,192.168.10.1 second,10.0.0.2 last,10.0.0.3'',
      ''Delete a host: inventory.py -10.10.1.3'',
      ''Delete a host by id: inventory.py -node1'',
      '''',
      ''Configurable env vars:'',
      ''DEBUG                   Enable debug printing. Default: True'',
      ''CONFIG_FILE             File to write config to Default: ./inventory/sample/hosts.yaml'',
      ''HOST_PREFIX             Host prefix for generated hosts. Default: node'',
      ''KUBE_CONTROL_HOSTS      Set the number of kube-control-planes. Default: 2'',
      ''SCALE_THRESHOLD         Separate ETCD role if # of nodes >= 50'',
      ''MASSIVE_SCALE_THRESHOLD Separate K8s control-plane and ETCD if # of nodes >= 200'',
      '''']"

definition show_help :: "unit inv_prog" where
  "show_help = print_line help_text"

definition print_config :: "tools \<Rightarrow> unit inv_prog" where
  "print_config tls = bindS (getS yaml_config) (\<lambda>c. print_line (yaml_text_dump tls c))"

definition print_hostnames :: "unit inv_prog" where
  "print_hostnames =
     bindS (of_config (\<lambda>c. bindE (all_part ''hosts'' c) yaml_items)) (\<lambda>d. print_line (join '' '' (dict_keys d)))"

definition print_ips :: "unit inv_prog" where
  "print_ips =
     bindS (of_config (\<lambda>c. bindE (all_part ''hosts'' c) yaml_items)) (\<lambda>d.
     bindS (liftE (mapE (\<lambda>(host, opts). get_ip_from_opts opts) d)) (\<lambda>xs.
     bindS (liftE (mapE as_str xs)) (\<lambda>ss. print_line (join '' '' ss))))"

definition parse_command :: "settings \<Rightarrow> tools \<Rightarrow> string \<Rightarrow> string list \<Rightarrow> unit inv_prog" where
  "parse_command st tls command args =
     (if command = ''help'' then show_help
      else if command = ''print_cfg'' then print_config tls
      else if command = ''print_ips'' then print_ips
      else if command = ''print_hostnames'' then print_hostnames
      else if command = ''load'' then load_file st tls args
      else raiseS PlainException)"

subsection \<open>The constructor and main\<close>

definition load_previous :: "tools \<Rightarrow> string \<Rightarrow> unit inv_prog" where
  "load_previous tls f =
     (\<lambda>v. case read_text f v of
        (Return text, v') \<Rightarrow> bindS (liftE (yaml_text_load tls text)) (\<lambda>c. modS (\<lambda>v. v\<lparr>yaml_config := c\<rparr>)) v'
      | (_, v') \<Rightarrow> seqS (print_error OSError) (raiseS (SystemExit 1)) v')"

definition distribute :: "settings \<Rightarrow> unit inv_prog" where
  "distribute st =
     bindS (getS hosts) (\<lambda>hs.
     let names = dict_keys hs; n = int (length names); etcd_hosts_count = (if n \<ge> 3 then 3 else 1) in
     seqS (purge_invalid_hosts st names PROTECTED_NAMES)
     (seqS (set_all st hs)
     (seqS set_k8s_cluster
     (seqS (set_etcd st (slice names 0 etcd_hosts_count))
     (seqS
        (if n \<ge> SCALE_THRESHOLD st then
           set_kube_control_plane st (slice names etcd_hosts_count (etcd_hosts_count + KUBE_CONTROL_HOSTS st))
         else set_kube_control_plane st (slice names 0 (KUBE_CONTROL_HOSTS st)))
     (seqS (set_kube_node st names)
       (if n \<ge> SCALE_THRESHOLD st then set_calico_rr st (slice names 0 etcd_hosts_count) else returnS ())))))))"

definition process_hosts :: "settings \<Rightarrow> tools \<Rightarrow> string list \<Rightarrow> bool \<Rightarrow> unit inv_prog" where
  "process_hosts st tls changed_hosts loadPreviousConfig =
     seqS (ensure_required_groups st ROLES)
     (seqS
       (if changed_hosts \<noteq> [] then
          bindS (liftE (range2ips changed_hosts)) (\<lambda>changed.
          bindS (build_hostnames st tls changed loadPreviousConfig) (\<lambda>hs.
          seqS (modS (\<lambda>v. v\<lparr>hosts := hs\<rparr>)) (distribute st)))
        else seqS show_help (raiseS (SystemExit 0)))
       (bindS (getS config_file) (write_config tls)))"

definition KubesprayInventory_init :: "settings \<Rightarrow> tools \<Rightarrow> string list \<Rightarrow> string \<Rightarrow> unit inv_prog" where
  "KubesprayInventory_init st tls changed_hosts cfg =
     seqS (modS (\<lambda>v. v\<lparr>config_file := cfg, yaml_config := PDict []\<rparr>))
     (if changed_hosts \<noteq> [] \<and> hd changed_hosts \<in> set AVAILABLE_COMMANDS \<and> hd changed_hosts \<noteq> ''add'' then
        seqS (parse_command st tls (hd changed_hosts) (drop 1 changed_hosts)) (raiseS (SystemExit 0))
      else
        let add = (changed_hosts \<noteq> [] \<and> hd changed_hosts = ''add'');
            changed_hosts = (if add then drop 1 changed_hosts else changed_hosts) in
        bindS (case changed_hosts of [] \<Rightarrow> returnS False | h # _ \<Rightarrow> liftE (bindE (list_get h 0) (\<lambda>c. Inr (c = CHR ''-'')))) (\<lambda>minus.
        let loadPreviousConfig = (add \<or> minus) in
        seqS (if cfg \<noteq> [] \<and> loadPreviousConfig then load_previous tls cfg else returnS ())
          (process_hosts st tls changed_hosts loadPreviousConfig)))"

definition inventory_main :: "settings \<Rightarrow> tools \<Rightarrow> string list \<Rightarrow> string list option \<Rightarrow> int inv_prog" where
  "inventory_main st tls sys_argv argv =
     (let argv = (case argv of Some (a # as) \<Rightarrow> a # as | _ \<Rightarrow> drop 1 sys_argv) in
      seqS (KubesprayInventory_init st tls argv (CONFIG_FILE st)) (returnS 0))"

end
