(* ===== verification/Kubespray_Inventory_Laws.thy ===== *)
theory Kubespray_Inventory_Laws
  imports Kubespray_Inventory
begin

text \<open>
  Correctness of the inventory builder: ranges of addresses, the hosts that the arguments add and
  remove, the groups of a new inventory, and the commands. A method that only prints and changes the
  configuration is related by \<open>configures\<close> to the function on configurations that it computes; the rules
  of \<open>inv_config\<close> follow the structure of programs.
\<close>

named_theorems inv_config "programs and the functions on configurations that they compute"

section \<open>Ranges of addresses\<close>

lemma str_nat_below_1000: "n < 1000 \<Longrightarrow> length (str_nat n) \<le> 3"
proof -
  assume "n < 1000"
  then have "n div 10 < 100" "n div 10 div 10 < 10" by simp_all
  then show ?thesis
    by (subst str_nat.simps) (simp, subst str_nat.simps, simp, subst str_nat.simps, simp)
qed

lemma parse_octet_str: "n < 256 \<Longrightarrow> parse_octet (str_nat n) = Inr n"
proof -
  assume n: "n < 256"
  have "str_nat n = ''0'' \<or> hd (str_nat n) \<noteq> CHR ''0''"
    using str_nat_hd_zero [of n] str_nat_0 by auto
  moreover have "list_all is_digit (str_nat n)" using str_nat_digits by (auto simp: list_all_iff)
  moreover have "length (str_nat n) \<le> 3" using n by (intro str_nat_below_1000) simp
  ultimately show ?thesis using n by (simp add: parse_octet_def)
qed

lemma ipv4_parts:
  "split_on CHR ''.'' (ipv4_str n) = map str_nat [n div 16777216, n div 65536 mod 256, n div 256 mod 256, n mod 256]"
  unfolding ipv4_str_def by (rule split_on_join) (auto dest: str_nat_digits simp: is_digit_def)

lemma base_256: "z = 256 * w + r \<Longrightarrow> y = 256 * z + r' \<Longrightarrow> x = 256 * y + r'' \<Longrightarrow>
    ((w * 256 + r) * 256 + r') * 256 + r'' = (x :: nat)"
  by simp

lemma ipv4_round_trip: "n < 2 ^ 32 \<Longrightarrow> ipv4_int (ipv4_str n) = Inr n"
proof -
  assume "n < 2 ^ 32"
  then have "n div 16777216 < 256" by simp
  moreover have "n div 65536 = 256 * (n div 16777216) + n div 65536 mod 256"
    "n div 256 = 256 * (n div 65536) + n div 256 mod 256" "n = 256 * (n div 256) + n mod 256"
    using div_step [of n 65536 256] div_step [of n 256 256] by simp_all
  then have "((n div 16777216 * 256 + n div 65536 mod 256) * 256 + n div 256 mod 256) * 256 + n mod 256 = n"
    by (rule base_256)
  ultimately show ?thesis by (simp add: ipv4_int_def ipv4_parts parse_octet_str)
qed

lemma ipv4_str_chars: "c \<in> set (ipv4_str n) \<Longrightarrow> is_digit c \<or> c = CHR ''.''"
  by (auto simp: ipv4_str_def dest: str_nat_digits)

lemma is_digit_cases: "is_digit c \<or> c = CHR ''.'' \<Longrightarrow> \<not> py_isspace c \<and> \<not> py_isalpha c \<and> c \<noteq> CHR ''-''"
  by (auto simp: is_digit_def py_isspace_def py_isalpha_def Let_def)

lemma py_strip_id: "(\<And>c. c \<in> set s \<Longrightarrow> \<not> py_isspace c) \<Longrightarrow> py_strip s = s"
proof -
  assume s: "\<And>c. c \<in> set s \<Longrightarrow> \<not> py_isspace c"
  then have "dropWhile py_isspace s = s" by (cases s) auto
  moreover have "dropWhile py_isspace (rev s) = rev s" using s by (cases "rev s") auto
  ultimately show ?thesis by (simp add: py_strip_def)
qed

lemma ipv4_str_nonempty: "ipv4_str n \<noteq> []"
  by (simp add: ipv4_str_def)

lemma range_arg_ipv4:
  assumes "a < 2 ^ 32" and "b < 2 ^ 32"
  shows "range_arg (ipv4_str a @ ''-'' @ ipv4_str b) = Inr (map ipv4_str [a ..< Suc b])" (is "range_arg ?h = _")
proof -
  have chars: "is_digit c \<or> c = CHR ''.''" if "c \<in> set (ipv4_str a) \<union> set (ipv4_str b)" for c
    using that ipv4_str_chars by auto
  have "\<not> py_isspace CHR ''-''" by (simp add: py_isspace_def Let_def)
  then have "py_strip ?h = ?h" using chars is_digit_cases by (intro py_strip_id) auto
  moreover have "CHR ''-'' \<notin> set (ipv4_str a)" "CHR ''-'' \<notin> set (ipv4_str b)" using chars is_digit_cases by auto
  moreover have "hd ?h \<in> set (ipv4_str a)" using ipv4_str_nonempty by simp
  then have "\<not> py_isalpha (hd ?h)" "\<not> startswith ?h ''-''"
    using chars is_digit_cases ipv4_str_nonempty [of a] by (auto simp: startswith_def take_Suc hd_append)
  moreover have "map ip_exploded [a ..< Suc b] = map ipv4_str [a ..< Suc b]"
    using assms(2) by (auto simp: ip_exploded_def)
  ultimately show ?thesis
    using assms by (simp add: range_arg_def ips_def ip_int_def ipv4_round_trip)
qed

lemma mapE_ip_int: "(\<And>n. n \<in> set ns \<Longrightarrow> n < 2 ^ 32) \<Longrightarrow> mapE ip_int (map ipv4_str ns) = Inr ns"
  by (induction ns) (simp_all add: ip_int_def ipv4_round_trip)

lemma range_below: "b < m \<Longrightarrow> n \<in> set [a ..< Suc b] \<Longrightarrow> n < (m :: nat)"
  unfolding set_upt atLeastLessThan_iff by linarith

text \<open>C22: a range of IPv4 addresses is replaced by all its addresses, in ascending order and each
  written so that it reads back as itself; a range whose end is before its start is replaced by
  nothing, and an argument without a range stays as it is.\<close>

theorem range2ips_addresses:
  fixes a b :: "32 word"
  shows "range2ips [ipv4_str (unat a) @ ''-'' @ ipv4_str (unat b)] = Inr (map ipv4_str [unat a ..< Suc (unat b)])
    \<and> mapE ip_int (map ipv4_str [unat a ..< Suc (unat b)]) = Inr [unat a ..< Suc (unat b)]
    \<and> range2ips [ipv4_str (unat a)] = Inr [ipv4_str (unat a)]"
proof -
  have lt: "unat w < 2 ^ 32" for w :: "32 word" using unsigned_less [of w, where ?'a = nat] by simp
  have "CHR ''-'' \<notin> set (ipv4_str (unat a))" using ipv4_str_chars is_digit_cases by blast
  moreover have "mapE ip_int (map ipv4_str [unat a ..< Suc (unat b)]) = Inr [unat a ..< Suc (unat b)]"
    by (rule mapE_ip_int, rule range_below [OF lt])
  ultimately show ?thesis
    using range_arg_ipv4 [OF lt lt, of a b] by (simp add: range2ips_def range_arg_def)
qed

section \<open>Hosts\<close>

text \<open>Every host has an address, and no two hosts have the same one.\<close>

definition host_ips :: "(string, yaml) dict \<Rightarrow> yaml list res" where
  "host_ips hs = mapE (\<lambda>(name, opts). get_ip_from_opts opts) hs"

definition hosts_ok :: "(string, yaml) dict \<Rightarrow> bool" where
  "hosts_ok hs \<longleftrightarrow> dict_wf hs \<and> (case host_ips hs of Inr xs \<Rightarrow> distinct xs | Inl _ \<Rightarrow> False)"

lemma hosts_okI: "dict_wf hs \<Longrightarrow> host_ips hs = Inr xs \<Longrightarrow> distinct xs \<Longrightarrow> hosts_ok hs"
  by (simp add: hosts_ok_def)

lemma hosts_okE:
  assumes "hosts_ok hs"
  obtains xs where "dict_wf hs" "host_ips hs = Inr xs" "distinct xs"
  using assms by (auto simp: hosts_ok_def split: sum.splits)

lemma hosts_ok_Nil [simp]: "hosts_ok []"
  by (simp add: hosts_ok_def host_ips_def)

lemma host_ips_Cons:
  "host_ips ((name, opts) # hs) = bindE (get_ip_from_opts opts) (\<lambda>x. bindE (host_ips hs) (\<lambda>xs. Inr (x # xs)))"
  by (simp add: host_ips_def)

lemma exists_ip_iff: "host_ips hs = Inr xs \<Longrightarrow> exists_ip hs ip = Inr (PStr ip \<in> set xs)"
  by (induction hs arbitrary: xs) (auto simp: host_ips_def py_inv)

lemma find_by_ip_total: "host_ips hs = Inr xs \<Longrightarrow> PStr ip \<in> set xs \<Longrightarrow> \<exists>name. find_by_ip hs ip = Inr name"
  by (induction hs arbitrary: xs) (auto simp: host_ips_def py_inv)

lemma host_ips_set:
  assumes "host_ips hs = Inr xs" and "get_ip_from_opts v = Inr y"
  shows "\<exists>ys. host_ips (dict_set k v hs) = Inr ys \<and> set ys \<subseteq> insert y (set xs) \<and>
    (distinct xs \<longrightarrow> y \<notin> set xs \<longrightarrow> distinct ys)"
  using assms(1)
proof (induction hs arbitrary: xs)
  case Nil
  then show ?case using assms(2) by (auto simp: host_ips_def)
next
  case (Cons h hs)
  obtain name opts where h: "h = (name, opts)" by (cases h)
  obtain x zs where x: "get_ip_from_opts opts = Inr x" "host_ips hs = Inr zs" "xs = x # zs"
    using Cons.prems by (auto simp: h host_ips_Cons py_inv)
  from Cons.IH [OF x(2)] obtain ys where "host_ips (dict_set k v hs) = Inr ys" "set ys \<subseteq> insert y (set zs)"
    "distinct zs \<longrightarrow> y \<notin> set zs \<longrightarrow> distinct ys" by blast
  then show ?case using x assms(2) by (auto simp: h host_ips_Cons)
qed

lemma host_ips_delete:
  "host_ips hs = Inr xs \<Longrightarrow> \<exists>ys. host_ips (AList.delete k hs) = Inr ys \<and> set ys \<subseteq> set xs \<and> (distinct xs \<longrightarrow> distinct ys)"
proof (induction hs arbitrary: xs)
  case (Cons h hs)
  obtain name opts where h: "h = (name, opts)" by (cases h)
  obtain x zs where x: "get_ip_from_opts opts = Inr x" "host_ips hs = Inr zs" "xs = x # zs"
    using Cons.prems by (auto simp: h host_ips_Cons py_inv)
  from Cons.IH [OF x(2)] obtain ys where "host_ips (AList.delete k hs) = Inr ys" "set ys \<subseteq> set zs"
    "distinct zs \<longrightarrow> distinct ys" by blast
  then show ?case using x by (auto simp: h host_ips_Cons)
qed (simp add: host_ips_def)

lemma hosts_ok_delete: "hosts_ok hs \<Longrightarrow> hosts_ok (AList.delete k hs)"
proof (erule hosts_okE)
  fix xs assume wf: "dict_wf hs" and xs: "host_ips hs = Inr xs" "distinct xs"
  then obtain ys where ys: "host_ips (AList.delete k hs) = Inr ys" "distinct ys" using host_ips_delete by blast
  have "dict_wf (AList.delete k hs)" using wf by (auto simp: dict_wf_def distinct_delete)
  then show ?thesis using ys by (rule hosts_okI)
qed

lemma get_ip_host_entry [simp]: "get_ip_from_opts (host_entry ip access_ip) = Inr (PStr ip)"
  by (simp add: get_ip_from_opts_def host_entry_def dict_mem_def dict_getitem_def)

lemma hosts_ok_add: "hosts_ok hs \<Longrightarrow> exists_ip hs ip = Inr False \<Longrightarrow> hosts_ok (dict_set name (host_entry ip a) hs)"
proof (erule hosts_okE)
  fix xs assume wf: "dict_wf hs" and xs: "host_ips hs = Inr xs" "distinct xs" and "exists_ip hs ip = Inr False"
  then have "PStr ip \<notin> set xs" by (simp add: exists_ip_iff)
  then obtain ys where ys: "host_ips (dict_set name (host_entry ip a) hs) = Inr ys" "distinct ys"
    using host_ips_set [OF xs(1) get_ip_host_entry, of name ip a] xs(2) by blast
  have "dict_wf (dict_set name (host_entry ip a) hs)" using wf by (auto simp: dict_wf_def distinct_update)
  then show ?thesis using ys by (rule hosts_okI)
qed

lemma delete_marked_ok:
  "hosts_ok (all_hosts l) \<Longrightarrow> delete_marked st h l v = (Return l', v') \<Longrightarrow> hosts_ok (all_hosts l')"
  by (auto simp: delete_marked_def py_inv delete_host_by_ip_def dict_delitem_def hosts_ok_delete split: if_splits)

lemma skip_existing_ok: "skip_existing st n l v = (Return l', v') \<Longrightarrow> l' = l"
  by (auto simp: skip_existing_def py_inv)

lemma add_by_ip_ok:
  "hosts_ok (all_hosts l) \<Longrightarrow> add_by_ip st tls h l v = (Return l', v') \<Longrightarrow> hosts_ok (all_hosts l')"
  by (auto simp: add_by_ip_def py_inv Let_def intro: hosts_ok_add split: if_splits dest!: skip_existing_ok)

lemma split_name_arg_hosts: "split_name_arg h l = Inr l' \<Longrightarrow> all_hosts l' = all_hosts l"
  by (auto simp: split_name_arg_def split: if_splits list.splits)

lemma add_by_name_ok:
  "hosts_ok (all_hosts l) \<Longrightarrow> add_by_name st h l v = (Return l', v') \<Longrightarrow> hosts_ok (all_hosts l')"
  by (auto simp: add_by_name_def py_inv intro: hosts_ok_add split: if_splits
      dest!: skip_existing_ok split_name_arg_hosts)

lemma change_host_ok:
  "hosts_ok (all_hosts l) \<Longrightarrow> change_host st tls h l v = (Return l', v') \<Longrightarrow> hosts_ok (all_hosts l')"
  by (auto simp: change_host_def split: list.splits if_splits
      dest: delete_marked_ok add_by_ip_ok add_by_name_ok)

lemma load_existing_dict:
  assumes "foldE (existing_host p) d (acc, n) = Inr (hs, m)" and "distinct (map fst (acc @ d))"
  shows "hs = acc @ d"
proof -
  have "hs = fold (\<lambda>(k, v). dict_set k v) d acc" using assms(1)
  proof (induction d arbitrary: acc n)
    case (Cons kv d)
    obtain k v where "kv = (k, v)" by (cases kv)
    with Cons.prems obtain n' where "foldE (existing_host p) d (dict_set k v acc, n') = Inr (hs, m)"
      by (auto simp: existing_host_def py_inv split: if_splits)
    with \<open>kv = (k, v)\<close> show ?case using Cons.IH by simp
  qed simp
  with fold_dict_set [OF assms(2)] show ?thesis by simp
qed

lemma build_hostnames_hosts_ok:
  assumes "build_hostnames st tls changed previous v = (Return hs, v')"
    and "\<And>d. previous \<Longrightarrow> all_part ''hosts'' (yaml_config v) = Inr (PDict d) \<Longrightarrow> hosts_ok d"
  shows "hosts_ok hs"
proof -
  obtain ex n u l where
    ex: "(if previous then bindS (getS yaml_config) (\<lambda>c. case load_existing st c of
        Inr r \<Rightarrow> returnS r | Inl e \<Rightarrow> seqS (print_error e) (raiseS (SystemExit 1))) else returnS ([], 0)) v = (Return (ex, n), u)"
    and l: "foldS (change_host st tls) changed
      \<lparr>all_hosts = ex, next_host_id = n + 1, local_hostname = None, local_ip = None, local_access_ip = None\<rparr> u = (Return l, v')"
    and hs: "hs = all_hosts l"
    using assms(1) by (auto simp: build_hostnames_def py_inv)
  have "hosts_ok ex"
  proof (cases previous)
    case True
    then obtain h where h: "all_part ''hosts'' (yaml_config v) = Inr h" and load: "load_existing st (yaml_config v) = Inr (ex, n)"
      using ex by (auto simp: py_inv load_existing_def split: sum.splits)
    show ?thesis
    proof (cases "\<exists>d. h = PDict d")
      case True
      then obtain d where d: "h = PDict d" by blast
      then have "hosts_ok d" using assms(2) h \<open>previous\<close> by simp
      moreover from this have "ex = d"
        using load h d load_existing_dict [of "HOST_PREFIX st" d "[]" 0 ex n]
        by (auto simp: load_existing_def hosts_ok_def dict_wf_def)
      ultimately show ?thesis by simp
    next
      case False
      then have "ex = []" using load h by (cases h) (auto simp: load_existing_def py_inv split: if_splits)
      then show ?thesis by simp
    qed
  qed (use ex in simp)
  then show ?thesis
    unfolding hs using foldS_invariant [OF l, of "\<lambda>l. hosts_ok (all_hosts l)"] change_host_ok by fastforce
qed

text \<open>Settings without environment variables, and tools whose files can all be written.\<close>

definition demo_settings :: settings where
  "demo_settings = \<lparr>CONFIG_FILE = ''hosts.yaml'', KUBE_CONTROL_HOSTS = 2, SCALE_THRESHOLD = 50,
     MASSIVE_SCALE_THRESHOLD = 200, DEBUG = False, HOST_PREFIX = ''node'', USE_REAL_HOSTNAME = False\<rparr>"

definition demo_tools :: tools where
  "demo_tools = \<lparr>yaml_text_load = (\<lambda>_. Inr (PDict [])), yaml_text_dump = (\<lambda>_. ''text''),
     shell_output = (\<lambda>_. Inl CalledProcessError), writable = (\<lambda>_. True)\<rparr>"

definition demo_inventory :: inventory where
  "demo_inventory = \<lparr>config_file = [], yaml_config = PDict
     [(''all'', PDict [(''hosts'', PDict [(''node3'', host_entry ''10.0.0.3'' ''10.0.0.3'')]), (''children'', PDict [])])],
     hosts = [], files = [], out = []\<rparr>"

lemma inventory_settings_default:
  "inventory_settings [(''CONFIG_FILE'', ''hosts.yaml''), (''DEBUG'', ''no'')] = Inr demo_settings"
  by (simp add: inventory_settings_def demo_settings_def get_var_as_int_def get_var_as_bool_def dict_get_def
      boolean_states_def py_lower_def lower_char_def)

text \<open>C6: no two hosts get the same address. When the hosts that were loaded have pairwise different
  names and addresses, so have the hosts that \<open>build_hostnames\<close> returns, whatever is added and removed
  and wherever names come from.\<close>

theorem build_hostnames_unique_ips:
  assumes "build_hostnames st tls changed previous v = (Return hs, v')"
    and "\<And>d. previous \<Longrightarrow> all_part ''hosts'' (yaml_config v) = Inr (PDict d) \<Longrightarrow> hosts_ok d"
  shows "hosts_ok hs"
  using assms by (rule build_hostnames_hosts_ok)

lemma demo_build:
  "build_hostnames demo_settings demo_tools [''10.0.0.7'', ''10.0.0.3'', ''first,10.0.0.9''] True demo_inventory =
    (Return [(''node3'', host_entry ''10.0.0.3'' ''10.0.0.3''), (''node4'', host_entry ''10.0.0.7'' ''10.0.0.7''),
       (''first'', host_entry ''10.0.0.9'' ''10.0.0.9'')], demo_inventory)"
  by code_simp

theorem build_hostnames_unique_ips_witness:
  "hosts_ok [(''node3'', host_entry ''10.0.0.3'' ''10.0.0.3''), (''node4'', host_entry ''10.0.0.7'' ''10.0.0.7''),
     (''first'', host_entry ''10.0.0.9'' ''10.0.0.9'')]"
proof (rule build_hostnames_unique_ips [OF demo_build])
  fix d assume "all_part ''hosts'' (yaml_config demo_inventory) = Inr (PDict d)"
  then have "d = [(''node3'', host_entry ''10.0.0.3'' ''10.0.0.3'')]"
    by (simp add: all_part_def demo_inventory_def dict_getitem_def)
  then show "hosts_ok d" by (simp add: hosts_ok_def host_ips_def dict_wf_def)
qed

text \<open>An argument that is a name without an address does not add a host: its address is a local variable
  that was never assigned.\<close>

lemma bare_name_unbound:
  assumes "py_isalpha c" and "CHR '','' \<notin> set (c # r)"
  shows "build_hostnames st tls ((c # r) # rest) False v = (Raise UnboundLocalError, v)"
proof -
  have "\<not> py_isalpha CHR ''-''" "\<not> (py_isalpha c \<and> py_isdigit c)"
    by (auto simp: py_isalpha_def py_isdigit_def is_digit_def Let_def)
  then have "c \<noteq> CHR ''-''" "\<not> py_isdigit c" using assms(1) by auto
  then show ?thesis
    using assms
    by (simp add: build_hostnames_def change_host_def add_by_name_def split_name_arg_def exists_hostname_def read_local_def)
qed

text \<open>A host that was given a name is lost when that name is generated for a later address.\<close>

lemma generated_name_overwrites:
  "fst (build_hostnames demo_settings demo_tools [''node1,10.0.0.1'', ''10.0.0.2''] False demo_inventory) =
    Return [(''node1'', host_entry ''10.0.0.2'' ''10.0.0.2'')]"
  by code_simp

section \<open>Configurations\<close>

text \<open>A program that returns, changes the configuration by a function where that is defined, and otherwise
  only prints.\<close>

definition configures :: "unit inv_prog \<Rightarrow> (yaml \<Rightarrow> yaml res) \<Rightarrow> bool" where
  "configures m f \<longleftrightarrow> (\<forall>v c. f (yaml_config v) = Inr c \<longrightarrow> (\<exists>t. m v = (Return (), v\<lparr>yaml_config := c, out := t\<rparr>)))"

lemma configuresI:
  "(\<And>v c. f (yaml_config v) = Inr c \<Longrightarrow> \<exists>t. m v = (Return (), v\<lparr>yaml_config := c, out := t\<rparr>)) \<Longrightarrow> configures m f"
  by (simp add: configures_def)

lemma configuresE:
  assumes "configures m f" and "f (yaml_config v) = Inr c"
  obtains t where "m v = (Return (), v\<lparr>yaml_config := c, out := t\<rparr>)"
  using assms by (auto simp: configures_def)

lemma configures_returnS [inv_config]: "configures (returnS ()) Inr"
proof (rule configuresI)
  fix v :: inventory and c
  assume "Inr (yaml_config v) = (Inr c :: yaml res)"
  then show "\<exists>t. returnS () v = (Return (), v\<lparr>yaml_config := c, out := t\<rparr>)" by (intro exI [of _ "out v"]) simp
qed

lemma configures_debug [inv_config]: "configures (debug st msg) Inr"
proof (rule configuresI)
  fix v :: inventory and c
  assume "Inr (yaml_config v) = (Inr c :: yaml res)"
  then have "debug st msg v = (Return (), v\<lparr>yaml_config := c, out := if DEBUG st then out v @ [Line (''DEBUG: '' @ msg)] else out v\<rparr>)"
    by (simp add: debug_def print_line_def)
  then show "\<exists>t. debug st msg v = (Return (), v\<lparr>yaml_config := c, out := t\<rparr>)" by blast
qed

lemma configures_on_config [inv_config]: "configures (on_config f) f"
proof (rule configuresI)
  fix v :: inventory and c
  assume "f (yaml_config v) = Inr c"
  then have "on_config f v = (Return (), v\<lparr>yaml_config := c, out := out v\<rparr>)" by (simp add: on_config_def)
  then show "\<exists>t. on_config f v = (Return (), v\<lparr>yaml_config := c, out := t\<rparr>)" by blast
qed

lemma configures_seqS [inv_config]:
  assumes m: "configures m f" and k: "configures k g"
  shows "configures (seqS m k) (\<lambda>c. bindE (f c) g)"
proof (rule configuresI)
  fix v :: inventory and c
  assume "bindE (f (yaml_config v)) g = Inr c"
  then obtain c' where c': "f (yaml_config v) = Inr c'" "g c' = Inr c" by (auto simp: py_inv)
  from m c'(1) obtain t where t: "m v = (Return (), v\<lparr>yaml_config := c', out := t\<rparr>)" by (rule configuresE)
  let ?v = "v\<lparr>yaml_config := c', out := t\<rparr>"
  have "g (yaml_config ?v) = Inr c" using c'(2) by simp
  with k obtain u where "k ?v = (Return (), ?v\<lparr>yaml_config := c, out := u\<rparr>)" by (rule configuresE)
  with t show "\<exists>t. seqS m k v = (Return (), v\<lparr>yaml_config := c, out := t\<rparr>)" by auto
qed

text \<open>A program that only reads the configuration.\<close>

definition reads_config :: "'a inv_prog \<Rightarrow> (yaml \<Rightarrow> 'a res) \<Rightarrow> bool" where
  "reads_config m sel \<longleftrightarrow> (\<forall>v x. sel (yaml_config v) = Inr x \<longrightarrow> m v = (Return x, v))"

lemma reads_of_config: "reads_config (of_config sel) sel"
  by (simp add: reads_config_def of_config_def)

lemma configures_reads:
  assumes "reads_config m sel" and k: "\<And>x. configures (k x) (g x)"
  shows "configures (bindS m k) (\<lambda>c. bindE (sel c) (\<lambda>x. g x c))"
proof (rule configuresI)
  fix v :: inventory and c
  assume "bindE (sel (yaml_config v)) (\<lambda>x. g x (yaml_config v)) = Inr c"
  then obtain x where x: "sel (yaml_config v) = Inr x" "g x (yaml_config v) = Inr c" by (auto simp: py_inv)
  from k x(2) obtain t where "k x v = (Return (), v\<lparr>yaml_config := c, out := t\<rparr>)" by (rule configuresE)
  with x assms(1) show "\<exists>t. bindS m k v = (Return (), v\<lparr>yaml_config := c, out := t\<rparr>)"
    by (intro exI [of _ t]) (simp add: reads_config_def)
qed

lemmas configures_of_config [inv_config] = configures_reads [OF reads_of_config]

lemma configures_if [inv_config]:
  "configures m f \<Longrightarrow> configures k g \<Longrightarrow> configures (if b then m else k) (if b then f else g)"
  by simp

lemma configures_forS [inv_config]:
  assumes "\<And>x. configures (m x) (f x)"
  shows "configures (forS xs m) (foldE f xs)"
proof (induction xs)
  case Nil
  have "foldE f [] = Inr" by (rule ext) simp
  then show ?case unfolding forS.simps by (simp only: configures_returnS)
next
  case (Cons x xs)
  have "foldE f (x # xs) = (\<lambda>c. bindE (f x c) (foldE f xs))" by (rule ext) simp
  then show ?case unfolding forS.simps by (simp only: configures_seqS [OF assms Cons.IH])
qed

lemma configures_add_host [inv_config]:
  "configures (add_host_to_group st ''all'' host opts) (add_to_all host opts)"
  "grp \<notin> {''all'', ''k8s_cluster:children''} \<Longrightarrow> configures (add_host_to_group st grp host opts) (add_to_child grp host)"
  using configures_seqS [OF configures_debug configures_on_config, of st _ "add_to_all host opts"]
    configures_seqS [OF configures_debug configures_on_config, of st _ "add_to_child grp host"]
  by (simp_all add: add_host_to_group_def)

lemma configures_groups [inv_config]:
  "configures (set_etcd st hs) (foldE (add_to_child ''etcd'') hs)"
  "configures (set_kube_control_plane st hs) (foldE (add_to_child ''kube_control_plane'') hs)"
  "configures (set_all st ps) (foldE (\<lambda>(host, opts). add_to_all host opts) ps)"
  "configures set_k8s_cluster (at_all ''children'' (\<lambda>ch. yaml_set ch ''k8s_cluster'' k8s_cluster))"
proof -
  show "configures (set_etcd st hs) (foldE (add_to_child ''etcd'') hs)"
    unfolding set_etcd_def by (rule configures_forS, rule configures_add_host) simp
  show "configures (set_kube_control_plane st hs) (foldE (add_to_child ''kube_control_plane'') hs)"
    unfolding set_kube_control_plane_def by (rule configures_forS, rule configures_add_host) simp
  have "configures (case x of (host, opts) \<Rightarrow> add_host_to_group st ''all'' host opts)
      (case x of (host, opts) \<Rightarrow> add_to_all host opts)" for x
    using configures_add_host(1) by (cases x) simp
  then show "configures (set_all st ps) (foldE (\<lambda>(host, opts). add_to_all host opts) ps)"
    unfolding set_all_def by (rule configures_forS)
  show "configures set_k8s_cluster (at_all ''children'' (\<lambda>ch. yaml_set ch ''k8s_cluster'' k8s_cluster))"
    unfolding set_k8s_cluster_def by (rule configures_on_config)
qed

text \<open>The functions that the other methods compute. \<open>purge_empty\<close> is defined for groups without hosts.\<close>

definition skips_pure :: "string \<Rightarrow> int \<Rightarrow> string \<Rightarrow> yaml \<Rightarrow> bool res" where
  "skips_pure grp threshold host c =
     bindE (bindE (all_part ''hosts'' c) py_len) (\<lambda>n.
     if n \<ge> threshold then bindE (child_hosts grp c) (py_in host) else Inr False)"

definition node_step :: "settings \<Rightarrow> string \<Rightarrow> yaml \<Rightarrow> yaml res" where
  "node_step st host c =
     bindE (skips_pure ''etcd'' (SCALE_THRESHOLD st) host c) (\<lambda>b.
     if b then Inr c
     else bindE (skips_pure ''kube_control_plane'' (MASSIVE_SCALE_THRESHOLD st) host c) (\<lambda>b.
       if b then Inr c else add_to_child ''kube_node'' host c))"

definition calico_step :: "string \<Rightarrow> yaml \<Rightarrow> yaml res" where
  "calico_step host c =
     bindE (bindE (child ''kube_control_plane'' c) (py_in host)) (\<lambda>b.
     if b then Inr c
     else bindE (bindE (child ''kube_node'' c) (py_in host)) (\<lambda>b.
       if b then Inr c else add_to_child ''calico_rr'' host c))"

definition purge_empty :: "(yaml \<Rightarrow> yaml res) \<Rightarrow> yaml \<Rightarrow> yaml res" where
  "purge_empty sel c = bindE (sel c) (\<lambda>h. if py_truth h then Inl ValueError else Inr c)"

definition purge_all_empty :: "yaml \<Rightarrow> yaml res" where
  "purge_all_empty c =
     bindE (bindE (all_part ''children'' c) iter_keys) (\<lambda>roles.
     bindE (foldE (\<lambda>role. if role \<noteq> ''k8s_cluster'' then purge_empty (child_hosts role) else Inr) roles c)
       (purge_empty (all_part ''hosts'')))"

lemma reads_skips: "reads_config (kube_node_skips st grp threshold host) (skips_pure grp threshold host)"
  by (auto simp: reads_config_def kube_node_skips_def skips_pure_def of_config_def py_inv)

lemma configures_if_fun: "configures m f \<Longrightarrow> configures k g \<Longrightarrow> configures (if b then m else k) (\<lambda>c. if b then f c else g c)"
  by simp

lemma configures_nodes [inv_config]: "configures (set_kube_node st hs) (foldE (node_step st) hs)"
proof -
  have "configures
      (bindS (kube_node_skips st ''etcd'' (SCALE_THRESHOLD st) host) (\<lambda>b.
       if b then
         debug st (''Not adding '' @ host @ '' to kube_node group because of scale deployment and host is in etcd group.'')
       else
         bindS (kube_node_skips st ''kube_control_plane'' (MASSIVE_SCALE_THRESHOLD st) host) (\<lambda>b.
         if b then
           debug st (''Not adding '' @ host @
             '' to kube_node group because of scale deployment and host is in kube_control_plane group.'')
         else add_host_to_group st ''kube_node'' host (PStr []))))
      (node_step st host)" for host
    unfolding node_step_def [abs_def]
    by (intro configures_reads [OF reads_skips] configures_if_fun configures_debug configures_add_host) simp
  then show ?thesis unfolding set_kube_node_def by (rule configures_forS)
qed

lemma configures_calico [inv_config]: "configures (set_calico_rr st hs) (foldE calico_step hs)"
proof -
  have "configures
      (bindS (of_config (\<lambda>c. bindE (child ''kube_control_plane'' c) (py_in host))) (\<lambda>b.
       if b then debug st (''Not adding '' @ host @ '' to calico_rr group because it conflicts with kube_control_plane group'')
       else
         bindS (of_config (\<lambda>c. bindE (child ''kube_node'' c) (py_in host))) (\<lambda>b.
         if b then debug st (''Not adding '' @ host @ '' to calico_rr group because it conflicts with kube_node group'')
         else add_host_to_group st ''calico_rr'' host (PStr []))))
      (calico_step host)" for host
    unfolding calico_step_def [abs_def]
    by (intro configures_reads [OF reads_of_config] configures_if_fun configures_debug configures_add_host) simp
  then show ?thesis unfolding set_calico_rr_def by (rule configures_forS)
qed

lemma configures_undefined: "configures m (\<lambda>c. Inl e)"
  by (simp add: configures_def)

lemma configures_purge_from: "configures (purge_from st role sel upd names protected_names) (purge_empty sel)"
  unfolding purge_from_def purge_empty_def [abs_def]
  by (intro configures_of_config configures_if_fun configures_undefined configures_returnS)

lemma configures_purge [inv_config]: "configures (purge_invalid_hosts st names protected_names) purge_all_empty"
  unfolding purge_invalid_hosts_def purge_all_empty_def [abs_def]
  by (intro configures_of_config configures_seqS configures_forS configures_if configures_purge_from configures_returnS)

lemma configures_ensure [inv_config]: "configures (ensure_required_groups st groups) (foldE ensure_group groups)"
proof -
  have "configures (seqS (debug st (''Adding group '' @ grp)) (on_config (ensure_group grp))) (ensure_group grp)" for grp
    using configures_seqS [OF configures_debug configures_on_config [of "ensure_group grp"], of st] by simp
  then show ?thesis unfolding ensure_required_groups_def by (rule configures_forS)
qed

section \<open>The groups of a new inventory\<close>

definition group_doc :: "(string, yaml) dict \<Rightarrow> yaml" where
  "group_doc d = PDict [(''hosts'', PDict d)]"

definition config_doc ::
  "(string, yaml) dict \<Rightarrow> (string, yaml) dict \<Rightarrow> (string, yaml) dict \<Rightarrow> (string, yaml) dict \<Rightarrow> yaml \<Rightarrow> (string, yaml) dict \<Rightarrow> yaml" where
  "config_doc hs cp nd et k rr = PDict [(''all'', PDict [(''hosts'', PDict hs), (''children'', PDict
     [(''kube_control_plane'', group_doc cp), (''kube_node'', group_doc nd), (''etcd'', group_doc et),
      (''k8s_cluster'', k), (''calico_rr'', group_doc rr)])])]"

lemmas config_eval = config_doc_def group_doc_def all_part_def child_def child_hosts_def at_all_def at_child_def
  yaml_at_def dict_getitem_def

text \<open>Which hosts get which role.\<close>

definition members :: "string list \<Rightarrow> (string, yaml) dict" where
  "members names = map (\<lambda>h. (h, PNone)) names"

definition at_scale :: "int \<Rightarrow> string list \<Rightarrow> bool" where
  "at_scale threshold names \<longleftrightarrow> int (length names) \<ge> threshold"

definition etcd_role :: "string list \<Rightarrow> string list" where
  "etcd_role names = take (if length names \<ge> 3 then 3 else 1) names"

definition control_role :: "settings \<Rightarrow> string list \<Rightarrow> string list" where
  "control_role st names =
     (let k = KUBE_CONTROL_HOSTS st; n = (if length names \<ge> 3 then 3 else 1) in
      if at_scale (SCALE_THRESHOLD st) names then slice names n (n + k) else slice names 0 k)"

definition node_role :: "settings \<Rightarrow> string list \<Rightarrow> string list" where
  "node_role st names =
     filter (\<lambda>h. \<not> (at_scale (SCALE_THRESHOLD st) names \<and> h \<in> set (etcd_role names)) \<and>
       \<not> (at_scale (MASSIVE_SCALE_THRESHOLD st) names \<and> h \<in> set (control_role st names))) names"

definition calico_role :: "settings \<Rightarrow> string list \<Rightarrow> string list" where
  "calico_role st names =
     (if at_scale (SCALE_THRESHOLD st) names then filter (\<lambda>h. h \<noteq> ''hosts'') (etcd_role names) else [])"

definition planned_config :: "settings \<Rightarrow> (string, yaml) dict \<Rightarrow> yaml" where
  "planned_config st hs =
     (let names = dict_keys hs in
      config_doc hs (members (control_role st names)) (members (node_role st names)) (members (etcd_role names))
        k8s_cluster (members (calico_role st names)))"

abbreviation join_group :: "string list \<Rightarrow> (string, yaml) dict \<Rightarrow> (string, yaml) dict" where
  "join_group xs d \<equiv> fold (\<lambda>h. dict_set h PNone) xs d"

lemma join_group_members: "distinct xs \<Longrightarrow> join_group xs [] = members xs"
proof -
  assume "distinct xs"
  have "join_group xs d = fold (\<lambda>(k, v). dict_set k v) (members xs) d" for d
    by (induction xs arbitrary: d) (simp_all add: members_def)
  moreover have "map fst (members xs) = xs" by (simp add: members_def comp_def)
  ultimately show ?thesis using fold_dict_set [of "[]" "members xs"] \<open>distinct xs\<close> by simp
qed

lemma dict_mem_members [simp]: "dict_mem h (members xs) \<longleftrightarrow> h \<in> set xs"
  by (simp add: dict_mem_def members_def map_of_eq_None_iff image_image)

lemma add_to_all_config: "add_to_all h opts (config_doc hs cp nd et k rr) = Inr (config_doc (dict_set h opts hs) cp nd et k rr)"
  by (simp add: add_to_all_def config_eval)

lemma add_to_child_config:
  "add_to_child ''kube_control_plane'' h (config_doc hs cp nd et k rr) = Inr (config_doc hs (dict_set h PNone cp) nd et k rr)"
  "add_to_child ''kube_node'' h (config_doc hs cp nd et k rr) = Inr (config_doc hs cp (dict_set h PNone nd) et k rr)"
  "add_to_child ''etcd'' h (config_doc hs cp nd et k rr) = Inr (config_doc hs cp nd (dict_set h PNone et) k rr)"
  "add_to_child ''calico_rr'' h (config_doc hs cp nd et k rr) = Inr (config_doc hs cp nd et k (dict_set h PNone rr))"
  by (simp_all add: add_to_child_def config_eval)

lemma fold_all_config:
  "foldE (\<lambda>(h, opts). add_to_all h opts) ps (config_doc hs cp nd et k rr) =
    Inr (config_doc (fold (\<lambda>(h, opts). dict_set h opts) ps hs) cp nd et k rr)"
  by (induction ps arbitrary: hs) (auto simp: add_to_all_config)

lemma fold_child_config:
  "foldE (add_to_child ''kube_control_plane'') xs (config_doc hs cp nd et k rr) = Inr (config_doc hs (join_group xs cp) nd et k rr)"
  "foldE (add_to_child ''etcd'') xs (config_doc hs cp nd et k rr) = Inr (config_doc hs cp nd (join_group xs et) k rr)"
  by (induction xs arbitrary: cp et) (simp_all add: add_to_child_config)

lemma node_step_config:
  "node_step st h (config_doc hs cp nd et k rr) =
    Inr (if (int (length hs) \<ge> SCALE_THRESHOLD st \<and> dict_mem h et) \<or> (int (length hs) \<ge> MASSIVE_SCALE_THRESHOLD st \<and> dict_mem h cp)
      then config_doc hs cp nd et k rr else config_doc hs cp (dict_set h PNone nd) et k rr)"
proof -
  have "skips_pure ''etcd'' t h (config_doc hs cp nd et k rr) = Inr (int (length hs) \<ge> t \<and> dict_mem h et)"
    "skips_pure ''kube_control_plane'' t h (config_doc hs cp nd et k rr) = Inr (int (length hs) \<ge> t \<and> dict_mem h cp)" for t
    by (simp_all add: skips_pure_def config_eval)
  then show ?thesis by (simp add: node_step_def add_to_child_config)
qed

lemma fold_node_config:
  "foldE (node_step st) xs (config_doc hs cp nd et k rr) =
    Inr (config_doc hs cp (join_group (filter (\<lambda>h. \<not> (int (length hs) \<ge> SCALE_THRESHOLD st \<and> dict_mem h et) \<and>
      \<not> (int (length hs) \<ge> MASSIVE_SCALE_THRESHOLD st \<and> dict_mem h cp)) xs) nd) et k rr)"
  by (induction xs arbitrary: nd) (auto simp: node_step_config)

lemma fold_calico_config:
  "foldE calico_step xs (config_doc hs cp nd et k rr) =
    Inr (config_doc hs cp nd et k (join_group (filter (\<lambda>h. h \<noteq> ''hosts'') xs) rr))"
proof (induction xs arbitrary: rr)
  case (Cons h xs)
  have "calico_step h (config_doc hs cp nd et k rr) =
      Inr (if h = ''hosts'' then config_doc hs cp nd et k rr else config_doc hs cp nd et k (dict_set h PNone rr))"
    by (simp add: calico_step_def config_eval dict_mem_def add_to_child_def)
  with Cons show ?case by simp
qed simp

lemma ensure_fresh: "foldE ensure_group ROLES (PDict []) = Inr (config_doc [] [] [] [] (group_doc []) [])"
  by (simp add: ROLES_def ensure_group_def config_eval dict_mem_def)

lemma purge_fresh: "purge_all_empty (config_doc [] [] [] [] (group_doc []) []) = Inr (config_doc [] [] [] [] (group_doc []) [])"
  by (simp add: purge_all_empty_def purge_empty_def iter_keys_def config_eval)

lemma set_k8s_config:
  "at_all ''children'' (\<lambda>ch. yaml_set ch ''k8s_cluster'' k8s_cluster) (config_doc hs cp nd et k rr) =
    Inr (config_doc hs cp nd et k8s_cluster rr)"
  by (simp add: config_eval)

text \<open>The steps of the constructor with the roles named, and the function they compute.\<close>

definition spread :: "settings \<Rightarrow> (string, yaml) dict \<Rightarrow> unit inv_prog" where
  "spread st hs =
     (let names = dict_keys hs in
      seqS (purge_invalid_hosts st names PROTECTED_NAMES)
      (seqS (set_all st hs)
      (seqS set_k8s_cluster
      (seqS (set_etcd st (etcd_role names))
      (seqS (set_kube_control_plane st (control_role st names))
      (seqS (set_kube_node st names)
        (if at_scale (SCALE_THRESHOLD st) names then set_calico_rr st (etcd_role names) else returnS ())))))))"

definition spread_pure :: "settings \<Rightarrow> (string, yaml) dict \<Rightarrow> yaml \<Rightarrow> yaml res" where
  "spread_pure st hs c =
     (let names = dict_keys hs in
      bindE (purge_all_empty c) (\<lambda>c.
      bindE (foldE (\<lambda>(h, opts). add_to_all h opts) hs c) (\<lambda>c.
      bindE (at_all ''children'' (\<lambda>ch. yaml_set ch ''k8s_cluster'' k8s_cluster) c) (\<lambda>c.
      bindE (foldE (add_to_child ''etcd'') (etcd_role names) c) (\<lambda>c.
      bindE (foldE (add_to_child ''kube_control_plane'') (control_role st names) c) (\<lambda>c.
      bindE (foldE (node_step st) names c)
        (if at_scale (SCALE_THRESHOLD st) names then foldE calico_step (etcd_role names) else Inr)))))))"

lemma slice_etcd: "slice names 0 (if int (length names) \<ge> 3 then 3 else 1) = etcd_role names"
  by (simp add: etcd_role_def slice_def slice_bound_def)

lemma bindS_getS: "bindS (getS f) k s = k (f s) s"
  by simp

lemma distribute_spread: "distribute st v = spread st (hosts v) v"
proof -
  have "(if int (length names) \<ge> SCALE_THRESHOLD st
      then set_kube_control_plane st (slice names (if int (length names) \<ge> 3 then 3 else 1)
        ((if int (length names) \<ge> 3 then 3 else 1) + KUBE_CONTROL_HOSTS st))
      else set_kube_control_plane st (slice names 0 (KUBE_CONTROL_HOSTS st))) =
    set_kube_control_plane st (control_role st names)" for names
    by (simp add: control_role_def at_scale_def Let_def)
  then show ?thesis
    unfolding distribute_def spread_def Let_def slice_etcd at_scale_def by (simp only: bindS_getS)
qed

lemma configures_spread: "configures (spread st hs) (spread_pure st hs)"
  unfolding spread_def spread_pure_def [abs_def] Let_def
  by (intro configures_seqS configures_purge configures_groups configures_nodes configures_if configures_calico configures_returnS)

lemma spread_fresh:
  assumes "dict_wf hs"
  shows "spread_pure st hs (config_doc [] [] [] [] (group_doc []) []) = Inr (planned_config st hs)"
proof -
  have names: "distinct (dict_keys hs)" using assms by (simp add: dict_wf_def)
  then have "distinct (etcd_role (dict_keys hs))" "distinct (control_role st (dict_keys hs))"
    by (auto simp: etcd_role_def control_role_def slice_def Let_def)
  moreover have "fold (\<lambda>(h, opts). dict_set h opts) hs [] = hs" using fold_dict_set [of "[]" hs] names by simp
  moreover have "members [] = []" by (simp add: members_def)
  ultimately show ?thesis
    using names
    by (simp add: spread_pure_def purge_fresh fold_all_config set_k8s_config fold_child_config fold_node_config fold_calico_config
        join_group_members planned_config_def node_role_def calico_role_def at_scale_def Let_def)
qed

text \<open>Without a previous configuration, \<open>build_hostnames\<close> only prints, and its outcome does not depend on the
  object.\<close>

lemma stateless_debug [py_stateless]: "stateless (debug st msg)"
  unfolding debug_def print_line_def by (intro py_stateless)

lemma stateless_build: "stateless (build_hostnames st tls changed False)"
  unfolding build_hostnames_def change_host_def delete_marked_def add_by_ip_def add_by_name_def skip_existing_def Let_def if_False
  by (intro py_stateless)

definition only_prints :: "inventory \<Rightarrow> inventory \<Rightarrow> bool" where
  "only_prints v w \<longleftrightarrow> (\<exists>t. w = v\<lparr>out := t\<rparr>)"

lemma keeps_debug: "keeps (only_prints v) (debug st msg)"
proof -
  have "keeps (only_prints v) (print_line s)" for s
    unfolding print_line_def by (rule keeps_modS) (auto simp: only_prints_def)
  then show ?thesis unfolding debug_def by (intro keeps_if keeps_returnS)
qed

lemma keeps_build: "keeps (only_prints v) (build_hostnames st tls changed False)"
  unfolding build_hostnames_def change_host_def delete_marked_def add_by_ip_def add_by_name_def skip_existing_def Let_def if_False
  by (intro py_keeps keeps_debug)

lemma build_hostnames_fresh:
  assumes "fst (build_hostnames st tls changed False v) = Return hs"
  obtains t where "build_hostnames st tls changed False w = (Return hs, w\<lparr>out := t\<rparr>)"
proof -
  obtain w' where w': "build_hostnames st tls changed False w = (Return hs, w')"
    using assms statelessD [OF stateless_build, of st tls changed v w]
    by (cases "build_hostnames st tls changed False w") auto
  have "only_prints w w" unfolding only_prints_def by (rule exI [of _ "out w"]) simp
  then have "only_prints w w'" using keepsD [OF keeps_build _ w'] by blast
  with w' show thesis using that by (auto simp: only_prints_def)
qed

lemma process_fresh:
  assumes build: "fst (build_hostnames st tls changed False v) = Return hs"
    and args: "args \<noteq> []" "range2ips args = Inr changed"
    and v: "yaml_config v = PDict []" "config_file v = cfg" "cfg \<noteq> []" "writable tls cfg"
  obtains t where "process_hosts st tls args False v =
    (Return (), v\<lparr>yaml_config := planned_config st hs, hosts := hs, out := t,
       files := dict_set cfg (yaml_text_dump tls (planned_config st hs)) (files v)\<rparr>)"
proof -
  let ?fresh = "config_doc [] [] [] [] (group_doc []) []"
  have "dict_wf hs"
    using build build_hostnames_hosts_ok [of st tls changed False v hs]
    by (cases "build_hostnames st tls changed False v") (auto simp: hosts_ok_def)
  obtain t1 where 1: "ensure_required_groups st ROLES v = (Return (), v\<lparr>yaml_config := ?fresh, out := t1\<rparr>)"
    using configures_ensure ensure_fresh v(1) by (metis configuresE)
  let ?v1 = "v\<lparr>yaml_config := ?fresh, out := t1\<rparr>"
  obtain t2 where 2: "build_hostnames st tls changed False ?v1 = (Return hs, ?v1\<lparr>out := t2\<rparr>)"
    using build by (rule build_hostnames_fresh)
  let ?v2 = "?v1\<lparr>out := t2, hosts := hs\<rparr>"
  have "spread_pure st hs (yaml_config ?v2) = Inr (planned_config st hs)" using spread_fresh [OF \<open>dict_wf hs\<close>] by simp
  with configures_spread obtain t3 where
    3: "spread st hs ?v2 = (Return (), ?v2\<lparr>yaml_config := planned_config st hs, out := t3\<rparr>)" by (rule configuresE)
  have "distribute st ?v2 = (Return (), ?v2\<lparr>yaml_config := planned_config st hs, out := t3\<rparr>)"
    using 3 distribute_spread [of st ?v2] by simp
  then show thesis
    using 1 2 args v by (intro that [of t3]) (simp add: process_hosts_def write_config_def)
qed

lemma init_new:
  assumes "h \<notin> set AVAILABLE_COMMANDS" and "h \<noteq> []" and "hd h \<noteq> CHR ''-''"
  shows "KubesprayInventory_init st tls (h # rest) cfg v =
    process_hosts st tls (h # rest) False (v\<lparr>config_file := cfg, yaml_config := PDict []\<rparr>)"
proof -
  have "h \<noteq> ''add''" using assms(1) by (auto simp: AVAILABLE_COMMANDS_def)
  moreover have "list_get h 0 = Inr (hd h)" using assms(2) by (cases h) (simp_all add: list_get_def)
  ultimately show ?thesis using assms by (simp add: KubesprayInventory_init_def)
qed

text \<open>C21: a new inventory. For arguments that are no command and begin with no removal, and from which
  \<open>build_hostnames\<close> makes the hosts \<open>hs\<close>, the script returns 0 and writes the configuration in which all
  of \<open>hs\<close> are hosts with their addresses, the first three (or the first) are etcd, the control plane is
  the first \<open>KUBE_CONTROL_HOSTS\<close> hosts, and all are nodes; from \<open>SCALE_THRESHOLD\<close> hosts on, the control
  plane follows the etcd hosts, and these are no nodes but route reflectors.\<close>

theorem fresh_inventory_roles:
  assumes args: "args \<noteq> []" "hd args \<noteq> []" "hd (hd args) \<noteq> CHR ''-''" "hd args \<notin> set AVAILABLE_COMMANDS"
    and changed: "range2ips args = Inr changed"
    and build: "fst (build_hostnames st tls changed False v) = Return hs"
    and cfg: "CONFIG_FILE st \<noteq> []" "writable tls (CONFIG_FILE st)"
  shows "\<exists>v'. inventory_main st tls (script # args) None v = (Return 0, v') \<and> hosts v' = hs \<and>
    yaml_config v' = planned_config st hs \<and>
    files v' = dict_set (CONFIG_FILE st) (yaml_text_dump tls (planned_config st hs)) (files v)"
proof -
  let ?v = "v\<lparr>config_file := CONFIG_FILE st, yaml_config := PDict []\<rparr>"
  have "fst (build_hostnames st tls changed False ?v) = Return hs"
    using build statelessD [OF stateless_build, of st tls changed v ?v] by simp
  then obtain t where "process_hosts st tls args False ?v =
    (Return (), ?v\<lparr>yaml_config := planned_config st hs, hosts := hs, out := t,
       files := dict_set (CONFIG_FILE st) (yaml_text_dump tls (planned_config st hs)) (files ?v)\<rparr>)"
    by (rule process_fresh) (use args changed cfg in simp_all)
  moreover have "args = hd args # tl args" using args(1) by simp
  then have "KubesprayInventory_init st tls args (CONFIG_FILE st) v = process_hosts st tls args False ?v"
    using init_new [OF args(4,2,3), of st tls "tl args"] by simp
  ultimately show ?thesis by (simp add: inventory_main_def)
qed

theorem fresh_inventory_roles_witness:
  "\<exists>v'. inventory_main demo_settings demo_tools [''inventory.py'', ''10.0.0.1-10.0.0.3'', ''10.0.1.1''] None demo_inventory = (Return 0, v') \<and>
    yaml_config v' = planned_config demo_settings
      [(''node1'', host_entry ''10.0.0.1'' ''10.0.0.1''), (''node2'', host_entry ''10.0.0.2'' ''10.0.0.2''),
       (''node3'', host_entry ''10.0.0.3'' ''10.0.0.3''), (''node4'', host_entry ''10.0.1.1'' ''10.0.1.1'')]"
proof -
  have "range_arg (ipv4_str 167772161 @ ''-'' @ ipv4_str 167772163) = Inr (map ipv4_str [167772161 ..< Suc 167772163])"
    by (rule range_arg_ipv4) simp_all
  then have "range_arg ''10.0.0.1-10.0.0.3'' = Inr [''10.0.0.1'', ''10.0.0.2'', ''10.0.0.3'']"
    by (simp add: ipv4_str_def str_nat.simps digit_char_def)
  moreover have "range_arg ''10.0.1.1'' = Inr [''10.0.1.1'']" by (simp add: range_arg_def)
  ultimately have "range2ips [''10.0.0.1-10.0.0.3'', ''10.0.1.1''] = Inr [''10.0.0.1'', ''10.0.0.2'', ''10.0.0.3'', ''10.0.1.1'']"
    by (simp add: range2ips_def)
  moreover have "fst (build_hostnames demo_settings demo_tools [''10.0.0.1'', ''10.0.0.2'', ''10.0.0.3'', ''10.0.1.1''] False demo_inventory) =
    Return [(''node1'', host_entry ''10.0.0.1'' ''10.0.0.1''), (''node2'', host_entry ''10.0.0.2'' ''10.0.0.2''),
       (''node3'', host_entry ''10.0.0.3'' ''10.0.0.3''), (''node4'', host_entry ''10.0.1.1'' ''10.0.1.1'')]"
    by code_simp
  ultimately show ?thesis
    using fresh_inventory_roles [of "[''10.0.0.1-10.0.0.3'', ''10.0.1.1'']" _ demo_settings demo_tools demo_inventory _ "''inventory.py''"]
    by (auto simp: AVAILABLE_COMMANDS_def demo_settings_def demo_tools_def)
qed

lemma roles_separate:
  assumes "distinct names"
  shows "set (etcd_role names) \<subseteq> set names" and "set (control_role st names) \<subseteq> set names"
    and "\<not> at_scale (SCALE_THRESHOLD st) names \<Longrightarrow> \<not> at_scale (MASSIVE_SCALE_THRESHOLD st) names \<Longrightarrow> node_role st names = names"
    and "at_scale (SCALE_THRESHOLD st) names \<Longrightarrow>
      set (etcd_role names) \<inter> (set (control_role st names) \<union> set (node_role st names)) = {}"
proof -
  show "set (etcd_role names) \<subseteq> set names" by (simp add: etcd_role_def set_take_subset)
  show "set (control_role st names) \<subseteq> set names"
    by (auto simp: control_role_def slice_def Let_def split: if_splits dest: in_set_dropD in_set_takeD)
  show "\<not> at_scale (SCALE_THRESHOLD st) names \<Longrightarrow> \<not> at_scale (MASSIVE_SCALE_THRESHOLD st) names \<Longrightarrow> node_role st names = names"
    by (simp add: node_role_def)
  assume scale: "at_scale (SCALE_THRESHOLD st) names"
  have "set (take n names) \<inter> set (drop n (take m names)) = {}" for n m
    using assms set_take_disj_set_drop_if_distinct [of names n n] by (auto simp: drop_take dest: in_set_takeD)
  then have "set (etcd_role names) \<inter> set (control_role st names) = {}"
    using scale by (simp add: etcd_role_def control_role_def slice_def slice_bound_def Let_def)
  moreover have "set (etcd_role names) \<inter> set (node_role st names) = {}" using scale by (auto simp: node_role_def)
  ultimately show "set (etcd_role names) \<inter> (set (control_role st names) \<union> set (node_role st names)) = {}" by blast
qed

section \<open>Commands\<close>

lemma init_command:
  assumes "cmd \<in> set AVAILABLE_COMMANDS" and "cmd \<noteq> ''add''"
  shows "KubesprayInventory_init st tls (cmd # args) cfg v =
    seqS (parse_command st tls cmd args) (raiseS (SystemExit 0)) (v\<lparr>config_file := cfg, yaml_config := PDict []\<rparr>)"
  using assms by (simp add: KubesprayInventory_init_def)

lemmas command_init = init_command [of "''help''"] init_command [of "''print_cfg''"] init_command [of "''print_ips''"]
  init_command [of "''print_hostnames''"] init_command [of "''load''"]

text \<open>The commands run before any configuration is loaded. \<open>help\<close> prints the help text and ends with
  status 0, and so does \<open>print_cfg\<close> with the empty configuration; \<open>print_ips\<close> and \<open>print_hostnames\<close> raise
  \<open>KeyError\<close>, whatever the configuration file holds; \<open>load\<close> without a file raises. No file changes.\<close>

lemma commands_without_configuration:
  "let w = v\<lparr>config_file := cfg, yaml_config := PDict []\<rparr> in
     KubesprayInventory_init st tls (''help'' # args) cfg v = (Raise (SystemExit 0), w\<lparr>out := out v @ [Line help_text]\<rparr>)
   \<and> KubesprayInventory_init st tls (''print_cfg'' # args) cfg v =
       (Raise (SystemExit 0), w\<lparr>out := out v @ [Line (yaml_text_dump tls (PDict []))]\<rparr>)
   \<and> KubesprayInventory_init st tls (''print_ips'' # args) cfg v = (Raise KeyError, w)
   \<and> KubesprayInventory_init st tls (''print_hostnames'' # args) cfg v = (Raise KeyError, w)
   \<and> KubesprayInventory_init st tls [''load''] cfg v = (Raise PlainException, w)"
  unfolding Let_def
  by (simp add: command_init AVAILABLE_COMMANDS_def parse_command_def show_help_def print_config_def print_ips_def
      print_hostnames_def load_file_def print_line_def of_config_def all_part_def dict_getitem_def)

end
