(* ===== verification/Kubespray_Terraform.thy ===== *)
theory Kubespray_Terraform
  imports Py_Json Py_Argparse
begin

text \<open>
  The dynamic inventory \<^verbatim>\<open>kubespray/contrib/terraform/terraform.py\<close>: the search for state files, the
  resources of a state of version 3 or 4, the hosts and floating addresses among them, the queries and
  \<open>main\<close>.

  A generator is the list of what it yields and how it ends: a consumer that stops early never sees the
  exception that a later element would have raised. Directories, the texts of files, random numbers, the
  order in which a set is visited and the text of containers and floats are the parameter \<open>tf_env\<close>.
  The names of hosts and of groups are strings; in place of another type the model raises \<open>TypeError\<close>.
\<close>

section \<open>Generators\<close>

type_synonym 'a gen = "'a list \<times> pyexc option"

definition gen_append :: "'a gen \<Rightarrow> 'a gen \<Rightarrow> 'a gen" where
  "gen_append g h = (case snd g of Some e \<Rightarrow> g | None \<Rightarrow> (fst g @ fst h, snd h))"

text \<open>A loop that yields at most one value per element, and one that yields a generator's elements.\<close>

fun gen_filter_map :: "('a \<Rightarrow> 'b option res) \<Rightarrow> 'a list \<Rightarrow> pyexc option \<Rightarrow> 'b gen" where
  "gen_filter_map f [] e = ([], e)"
| "gen_filter_map f (x # xs) e =
     (case f x of
        Inl err \<Rightarrow> ([], Some err)
      | Inr None \<Rightarrow> gen_filter_map f xs e
      | Inr (Some y) \<Rightarrow> gen_append ([y], None) (gen_filter_map f xs e))"

definition gen_over :: "('a \<Rightarrow> 'b option res) \<Rightarrow> 'a gen \<Rightarrow> 'b gen" where
  "gen_over f g = gen_filter_map f (fst g) (snd g)"

text \<open>Everything a generator yields, for a consumer that reads it to the end.\<close>

definition gen_all :: "'a gen \<Rightarrow> 'a list res" where
  "gen_all g = (case snd g of None \<Rightarrow> Inr (fst g) | Some e \<Rightarrow> Inl e)"

section \<open>State files\<close>

definition TF_VERSION :: string where
  "TF_VERSION = ''0.4.0pre''"

record tf_env =
  getcwd :: string
  walk :: "string \<Rightarrow> (string \<times> string list) list"  \<comment> \<open>directories below a root, with their files\<close>
  file_text :: "string \<Rightarrow> string option"
  randint :: "nat \<Rightarrow> int"  \<comment> \<open>the random numbers, in the order they are drawn\<close>
  group_order :: "string list \<Rightarrow> string list"  \<comment> \<open>the elements of a set in the order they are visited\<close>
  repr :: "yaml \<Rightarrow> string"
  float_text :: "rat \<Rightarrow> string"
  script_path :: string
  variables :: "(string, string) dict"

definition tfstates :: "tf_env \<Rightarrow> string \<Rightarrow> string list" where
  "tfstates env dir =
     (let dir = (if dir = [] then getcwd env else dir) in
      concat (map (\<lambda>(dirpath, filenames).
        map (path_join dirpath) (filter (\<lambda>name. file_ext name = ''.tfstate'') filenames)) (walk env dir)))"

definition dict_update :: "('k, 'v) dict \<Rightarrow> ('k, 'v) dict \<Rightarrow> ('k, 'v) dict" where
  "dict_update d kvs = fold (\<lambda>(k, v). dict_set k v) kvs d"

text \<open>
  The attributes of version 4 in the form of version 3. \<open>convert_items\<close> is the loop over the attributes
  and \<open>convert_elems\<close> the one over a list; the natural number counts the random numbers drawn.
\<close>

fun convert_to_v3_structure :: "(nat \<Rightarrow> int) \<Rightarrow> string \<Rightarrow> yaml \<Rightarrow> nat \<Rightarrow> ((string, yaml) dict \<times> nat) res"
  and convert_items :: "(nat \<Rightarrow> int) \<Rightarrow> string \<Rightarrow> (string, yaml) dict \<Rightarrow> (string, yaml) dict \<times> nat \<Rightarrow> ((string, yaml) dict \<times> nat) res"
  and convert_elems :: "(nat \<Rightarrow> int) \<Rightarrow> string \<Rightarrow> nat \<Rightarrow> yaml list \<Rightarrow> (string, yaml) dict \<times> nat \<Rightarrow> ((string, yaml) dict \<times> nat) res"
where
  "convert_to_v3_structure rnd prefix (PStr s) k = Inr ([(prefix @ str_int (rnd k), PStr s)], Suc k)"
| "convert_to_v3_structure rnd prefix (PDict attributes) k = convert_items rnd prefix attributes ([], k)"
| "convert_to_v3_structure rnd prefix _ k = Inl AttributeError"
| "convert_items rnd prefix [] (result, k) = Inr (result, k)"
| "convert_items rnd prefix ((key, PList vs) # rest) (result, k) =
     bindE
       (convert_elems rnd (prefix @ key) 0 vs
          (if vs = [] then result else dict_set (prefix @ key @ ''.#'') (PInt (int (length vs))) result, k))
       (convert_items rnd prefix rest)"
| "convert_items rnd prefix ((key, PDict d) # rest) (result, k) =
     convert_items rnd prefix rest
       (dict_update (dict_set (prefix @ key @ ''.%'') (PInt (int (length d))) result)
          (map (\<lambda>(k', v). (prefix @ key @ ''.'' @ k', v)) d), k)"
| "convert_items rnd prefix ((key, v) # rest) (result, k) =
     convert_items rnd prefix rest (dict_set (prefix @ key) v result, k)"
| "convert_elems rnd pk i [] (result, k) = Inr (result, k)"
| "convert_elems rnd pk i (v # vs) (result, k) =
     bindE (convert_to_v3_structure rnd (pk @ ''.'' @ str_nat i @ ''.'') v k) (\<lambda>(r, k').
     convert_elems rnd pk (Suc i) vs (dict_update result r, k'))"

section \<open>Resources\<close>

type_synonym tf_resource = "yaml \<times> string \<times> yaml"  \<comment> \<open>module, key and resource\<close>

text \<open>Nested loops that yield, with the count of random numbers drawn.\<close>

fun gen_loop :: "('a \<Rightarrow> nat \<Rightarrow> 'b gen \<times> nat) \<Rightarrow> 'a list \<Rightarrow> nat \<Rightarrow> 'b gen \<times> nat" where
  "gen_loop f [] k = (([], None), k)"
| "gen_loop f (x # xs) k =
     (case f x k of (g, k') \<Rightarrow>
      case snd g of
        Some e \<Rightarrow> (g, k')
      | None \<Rightarrow> (case gen_loop f xs k' of (h, k'') \<Rightarrow> (gen_append g h, k'')))"

definition gen_fail :: "pyexc \<Rightarrow> 'a gen" where
  "gen_fail e = ([], Some e)"

text \<open>\<open>v[-1]\<close>.\<close>

fun yaml_last :: "yaml \<Rightarrow> yaml res" where
  "yaml_last (PList xs) = (if xs = [] then Inl IndexError else Inr (last xs))"
| "yaml_last (PStr s) = (if s = [] then Inl IndexError else Inr (PStr [last s]))"
| "yaml_last (PDict d) = Inl KeyError"
| "yaml_last _ = Inl TypeError"

text \<open>\<open>v.get(k, d)\<close>.\<close>

definition yaml_get_default :: "yaml \<Rightarrow> string \<Rightarrow> yaml \<Rightarrow> yaml res" where
  "yaml_get_default v k d = bindE (yaml_items v) (\<lambda>kvs. Inr (dict_get kvs k d))"

definition v3_module :: "yaml \<Rightarrow> nat \<Rightarrow> tf_resource gen \<times> nat" where
  "v3_module m k =
     (case bindE (yaml_get m ''path'') (\<lambda>p. bindE (yaml_last p) (\<lambda>name.
        bindE (yaml_get m ''resources'') (\<lambda>r. bindE (yaml_items r) (\<lambda>d. Inr (name, d))))) of
        Inl e \<Rightarrow> (gen_fail e, k)
      | Inr (name, d) \<Rightarrow> ((map (\<lambda>(key, r). (name, key, r)) d, None), k))"

definition v4_key :: "tf_env \<Rightarrow> yaml \<Rightarrow> yaml \<Rightarrow> string res" where
  "v4_key env r inst =
     bindE (yaml_get r ''type'') (\<lambda>t. bindE (yaml_get r ''name'') (\<lambda>n.
     let key = py_str (repr env) t @ ''.'' @ py_str (repr env) n in
     bindE (py_in ''index_key'' inst) (\<lambda>b.
     if b then bindE (yaml_get inst ''index_key'') (\<lambda>i. Inr (key @ ''.'' @ py_str (repr env) i)) else Inr key)))"

definition v4_primary :: "tf_env \<Rightarrow> yaml \<Rightarrow> nat \<Rightarrow> (yaml \<times> nat) res" where
  "v4_primary env inst k =
     bindE (yaml_get inst ''attributes'') (\<lambda>attributes.
     bindE (convert_to_v3_structure (randint env) [] attributes k) (\<lambda>(v3, k').
     bindE (py_in ''id'' attributes) (\<lambda>b.
     bindE (if b then bindE (yaml_get attributes ''id'') (\<lambda>i. Inr [(''id'', i)]) else Inr []) (\<lambda>ids.
     bindE (yaml_get_default attributes ''meta'' (PDict [])) (\<lambda>meta.
     Inr (PDict ([(''attributes'', PDict v3)] @ ids @ [(''meta'', meta)]), k'))))))"

definition v4_instance :: "tf_env \<Rightarrow> yaml \<Rightarrow> yaml \<Rightarrow> yaml \<Rightarrow> nat \<Rightarrow> tf_resource gen \<times> nat" where
  "v4_instance env r name inst k =
     (case bindE (v4_key env r inst) (\<lambda>key.
        bindE (yaml_get r ''type'') (\<lambda>t. bindE (yaml_get r ''provider'') (\<lambda>p.
        bindE (yaml_get_default inst ''depends_on'' (PList [])) (\<lambda>deps.
        bindE (v4_primary env inst k) (\<lambda>(primary, k').
        Inr ((name, key, PDict [(''type'', t), (''provider'', p), (''depends_on'', deps), (''primary'', primary)]), k')))))) of
        Inl e \<Rightarrow> (gen_fail e, k)
      | Inr (x, k') \<Rightarrow> (([x], None), k'))"

definition v4_resource :: "tf_env \<Rightarrow> yaml \<Rightarrow> nat \<Rightarrow> tf_resource gen \<times> nat" where
  "v4_resource env r k =
     (case bindE (yaml_get r ''provider'') (\<lambda>p. bindE (str_self p) (\<lambda>s.
        bindE (yaml_get r ''instances'') (\<lambda>is. bindE (py_iter is) (\<lambda>xs. Inr (PStr (last (split_on CHR ''.'' s)), xs))))) of
        Inl e \<Rightarrow> (gen_fail e, k)
      | Inr (name, xs) \<Rightarrow> gen_loop (v4_instance env r name) xs k)"

definition read_state :: "tf_env \<Rightarrow> string \<Rightarrow> yaml res" where
  "read_state env filename = (case file_text env filename of None \<Rightarrow> Inl OSError | Some t \<Rightarrow> json_loads t)"

text \<open>The exception for another version formats it with \<^verbatim>\<open>%d\<close>.\<close>

definition version_error :: "yaml \<Rightarrow> pyexc" where
  "version_error v =
     (case num_of v of None \<Rightarrow> TypeError | Some NaN \<Rightarrow> ValueError | Some (Fin _) \<Rightarrow> KeyError | _ \<Rightarrow> OverflowError)"

definition state_resources :: "tf_env \<Rightarrow> string \<Rightarrow> nat \<Rightarrow> tf_resource gen \<times> nat" where
  "state_resources env filename k =
     (case bindE (read_state env filename) (\<lambda>state.
        bindE (yaml_get state ''version'') (\<lambda>v.
        if num_of v = Some (Fin 3) then
          bindE (yaml_get state ''modules'') (\<lambda>ms. bindE (py_iter ms) (\<lambda>xs. Inr (gen_loop v3_module xs k)))
        else if num_of v = Some (Fin 4) then
          bindE (yaml_get state ''resources'') (\<lambda>rs. bindE (py_iter rs) (\<lambda>xs. Inr (gen_loop (v4_resource env) xs k)))
        else Inl (version_error v))) of
        Inl e \<Rightarrow> (gen_fail e, k)
      | Inr g \<Rightarrow> g)"

definition iterresources :: "tf_env \<Rightarrow> string list \<Rightarrow> nat \<Rightarrow> tf_resource gen \<times> nat" where
  "iterresources env filenames k = gen_loop (state_resources env) filenames k"

section \<open>Hosts\<close>

type_synonym tf_host = "string \<times> (string, yaml) dict \<times> yaml list"  \<comment> \<open>name, attributes, groups\<close>

definition clean_dc :: "string \<Rightarrow> string" where
  "clean_dc dcname = map (\<lambda>c. if py_isalnum c \<or> c = CHR ''_'' \<or> c = CHR ''-'' then c else CHR ''-'') dcname"

definition parse_prefix :: "(string, yaml) dict \<Rightarrow> string \<Rightarrow> char \<Rightarrow> (string \<times> yaml) list" where
  "parse_prefix source prefix sep =
     concat (map (\<lambda>(compkey, v).
       case split_once sep compkey of
         [curprefix, rest] \<Rightarrow> if curprefix \<noteq> prefix \<or> rest = ''#'' then [] else [(rest, v)]
       | _ \<Rightarrow> []) source)"

definition attr_step :: "char \<Rightarrow> string \<times> yaml \<Rightarrow> (string, (string, yaml) dict) dict \<Rightarrow> (string, (string, yaml) dict) dict res" where
  "attr_step sep = (\<lambda>(compkey, v) attrs.
     case split_once sep compkey of
       [idx, key] \<Rightarrow> Inr (dict_set idx (dict_set key v (dict_get attrs idx [])) attrs)
     | _ \<Rightarrow> Inl ValueError)"

definition parse_attr_list :: "(string, yaml) dict \<Rightarrow> string \<Rightarrow> char \<Rightarrow> yaml list res" where
  "parse_attr_list source prefix sep =
     bindE (foldE (attr_step sep) (parse_prefix source prefix sep) []) (\<lambda>attrs. Inr (map (\<lambda>(idx, d). PDict d) attrs))"

definition parse_dict :: "(string, yaml) dict \<Rightarrow> string \<Rightarrow> char \<Rightarrow> (string, yaml) dict" where
  "parse_dict source prefix sep = dict_update [] (parse_prefix source prefix sep)"

definition parse_list :: "(string, yaml) dict \<Rightarrow> string \<Rightarrow> char \<Rightarrow> yaml list" where
  "parse_list source prefix sep = map snd (parse_prefix source prefix sep)"

fun parse_bool :: "yaml \<Rightarrow> bool res" where
  "parse_bool (PBool b) = Inr b"
| "parse_bool v =
     bindE (str_self v) (\<lambda>s. bindE (list_get (py_lower s) 0) (\<lambda>token.
     if token = CHR ''t'' then Inr True else if token = CHR ''f'' then Inr False else Inl ValueError))"

text \<open>\<open>resource['primary']['attributes']\<close>, which is read by key at once, and a dict display: its values
  are computed in order.\<close>

definition raw_attributes :: "yaml \<Rightarrow> (string, yaml) dict res" where
  "raw_attributes r = bindE (yaml_get r ''primary'') (\<lambda>p. bindE (yaml_get p ''attributes'') as_dict)"

definition dict_display :: "(string \<times> yaml res) list \<Rightarrow> (string, yaml) dict res" where
  "dict_display kvs = mapE (\<lambda>(k, r). bindE r (\<lambda>v. Inr (k, v))) kvs"

definition packet_attrs :: "(string, yaml) dict \<Rightarrow> (string, yaml) dict res" where
  "packet_attrs raw =
     (let item = dict_getitem raw in
      dict_display
        [(''id'', item ''id''),
         (''facilities'', Inr (PList (parse_list raw ''facilities'' CHR ''.''))),
         (''hostname'', item ''hostname''),
         (''operating_system'', item ''operating_system''),
         (''locked'', bindE (item ''locked'') (\<lambda>v. bindE (parse_bool v) (\<lambda>b. Inr (PBool b)))),
         (''tags'', Inr (PList (parse_list raw ''tags'' CHR ''.''))),
         (''plan'', item ''plan''),
         (''project_id'', item ''project_id''),
         (''state'', item ''state''),
         (''ansible_ssh_host'', item ''network.0.address''),
         (''ansible_ssh_user'', Inr (PStr ''root'')),
         (''ipv4_address'', item ''network.0.address''),
         (''public_ipv4'', item ''network.0.address''),
         (''ipv6_address'', item ''network.1.address''),
         (''public_ipv6'', item ''network.1.address''),
         (''private_ipv4'', item ''network.2.address''),
         (''provider'', Inr (PStr ''packet''))])"

definition packet_device :: "yaml \<Rightarrow> tf_host res" where
  "packet_device r =
     bindE (raw_attributes r) (\<lambda>raw.
     bindE (bindE (dict_getitem raw ''hostname'') as_str) (\<lambda>name.
     bindE (packet_attrs raw) (\<lambda>attrs.
     let attrs = (if dict_get raw ''operating_system'' PNone = PStr ''flatcar_stable''
                  then dict_set ''ansible_ssh_user'' (PStr ''core'') attrs else attrs);
         item = dict_getitem attrs in
     bindE (bindE (item ''operating_system'') as_str) (\<lambda>os.
     bindE (item ''locked'') (\<lambda>locked.
     bindE (bindE (item ''state'') as_str) (\<lambda>st.
     bindE (bindE (item ''plan'') as_str) (\<lambda>plan.
     Inr (name, attrs,
       [PStr (''packet_operating_system='' @ os), PStr (''packet_locked='' @ py_str (\<lambda>_. []) locked),
        PStr (''packet_state='' @ st), PStr (''packet_plan='' @ plan)] @ parse_list raw ''tags'' CHR ''.''))))))))"

text \<open>The first definition of \<open>openstack_floating_ips\<close> is replaced by the second.\<close>

definition openstack_floating_ips_first :: "yaml \<Rightarrow> (string, yaml) dict res" where
  "openstack_floating_ips_first r =
     bindE (raw_attributes r) (\<lambda>raw.
     dict_display [(''ip'', dict_getitem raw ''floating_ip''), (''instance_id'', dict_getitem raw ''instance_id'')])"

definition openstack_floating_ips :: "yaml \<Rightarrow> (yaml \<times> yaml) res" where
  "openstack_floating_ips r =
     bindE (raw_attributes r) (\<lambda>raw.
     bindE (dict_getitem raw ''instance_id'') (\<lambda>i. bindE (dict_getitem raw ''floating_ip'') (\<lambda>ip. Inr (i, ip))))"

definition openstack_attrs :: "(string, yaml) dict \<Rightarrow> (string, yaml) dict res" where
  "openstack_attrs raw =
     (let item = dict_getitem raw in
      dict_display
        [(''access_ip_v4'', item ''access_ip_v4''),
         (''access_ip_v6'', item ''access_ip_v6''),
         (''access_ip'', item ''access_ip_v4''),
         (''ip'', item ''network.0.fixed_ip_v4''),
         (''flavor'', Inr (PDict (parse_dict raw ''flavor'' CHR ''_''))),
         (''id'', item ''id''),
         (''image'', Inr (PDict (parse_dict raw ''image'' CHR ''_''))),
         (''key_pair'', item ''key_pair''),
         (''metadata'', Inr (PDict (parse_dict raw ''metadata'' CHR ''.''))),
         (''network'', bindE (parse_attr_list raw ''network'' CHR ''.'') (\<lambda>xs. Inr (PList xs))),
         (''region'', Inr (dict_get raw ''region'' (PStr []))),
         (''security_groups'', Inr (PList (parse_list raw ''security_groups'' CHR ''.''))),
         (''ansible_ssh_port'', Inr (PInt 22)),
         (''host_domain'', Inr (PStr ''novalocal'')),
         (''use_host_domain'', Inr (PBool True)),
         (''public_ipv4'', item ''access_ip_v4''),
         (''private_ipv4'', item ''access_ip_v4''),
         (''provider'', Inr (PStr ''openstack''))])"

text \<open>The address to connect to, and what the handler of \<open>KeyError\<close> and \<open>ValueError\<close> sets instead.\<close>

definition ssh_host_body :: "(string, yaml) dict \<Rightarrow> yaml res" where
  "ssh_host_body raw =
     (if dict_mem ''metadata.prefer_ipv6'' raw \<and> dict_get raw ''metadata.prefer_ipv6'' PNone = PStr ''1'' then
        bindE (dict_getitem raw ''access_ip_v6'') (\<lambda>v. bindE (as_str v) (\<lambda>s.
        Inr (PStr (filter (\<lambda>c. c \<noteq> CHR ''['' \<and> c \<noteq> CHR '']'') s))))
      else dict_getitem raw ''access_ip_v4'')"

definition openstack_ssh_host :: "(string, yaml) dict \<Rightarrow> (string \<times> yaml) list res" where
  "openstack_ssh_host raw =
     (case ssh_host_body raw of
        Inr ip \<Rightarrow> Inr [(''ansible_ssh_host'', ip), (''publicly_routable'', PBool True)]
      | Inl e \<Rightarrow>
          if e = KeyError \<or> e = ValueError \<or> e = UnicodeError
          then Inr [(''ansible_ssh_host'', PStr []), (''publicly_routable'', PBool False)]
          else Inl e)"

text \<open>The regular expression \<^verbatim>\<open>^volume.*.device$\<close>.\<close>

definition volume_device_key :: "string \<Rightarrow> bool" where
  "volume_device_key key =
     (let k = (if key \<noteq> [] \<and> last key = CHR 0x0A then butlast key else key); mid = take (length k - 12) (drop 6 k) in
      startswith k ''volume'' \<and> startswith (rev k) (rev ''device'') \<and> 13 \<le> length k \<and> CHR 0x0A \<notin> set mid)"

definition volume_attrs :: "(string, yaml) dict \<Rightarrow> (string \<times> yaml) list res" where
  "volume_attrs raw =
     (case map_of raw ''volume.#'' of
        None \<Rightarrow> Inr []
      | Some v \<Rightarrow>
          bindE (py_int v) (\<lambda>n.
          if n > 0 then
            (let vs = map snd (filter (\<lambda>(key, v). volume_device_key key) raw) in
             Inr (map (\<lambda>(i, v). (''disk_volume_device_'' @ str_nat i, v)) (zip [1 ..< Suc (length vs)] vs)))
          else Inr []))"

definition openstack_groups :: "tf_env \<Rightarrow> (string, yaml) dict \<Rightarrow> (string, yaml) dict \<Rightarrow> yaml list res" where
  "openstack_groups env attrs metadata =
     (let str = py_str (repr env); item = (\<lambda>a k. bindE (dict_getitem attrs a) (\<lambda>v. yaml_get v k)) in
      bindE (item ''image'' ''id'') (\<lambda>image.
      bindE (item ''flavor'' ''name'') (\<lambda>flavor.
      bindE (dict_getitem attrs ''region'') (\<lambda>region.
      bindE (str_self (dict_get metadata ''kubespray_groups'' (PStr []))) (\<lambda>ks.
      Inr ([PStr (''os_image='' @ str image), PStr (''os_flavor='' @ str flavor)] @
        map (\<lambda>(k, v). PStr (''os_metadata_'' @ k @ ''='' @ str v)) metadata @
        [PStr (''os_region='' @ str region)] @ map PStr (split_on CHR '','' ks)))))))"

definition openstack_host :: "tf_env \<Rightarrow> yaml \<Rightarrow> tf_host res" where
  "openstack_host env r =
     bindE (raw_attributes r) (\<lambda>raw.
     bindE (bindE (dict_getitem raw ''name'') as_str) (\<lambda>name.
     bindE (openstack_attrs raw) (\<lambda>attrs.
     bindE (if dict_mem ''floating_ip'' raw
            then bindE (dict_getitem raw ''network.0.fixed_ip_v4'') (\<lambda>ip. Inr (dict_set ''private_ipv4'' ip attrs))
            else Inr attrs) (\<lambda>attrs.
     bindE (openstack_ssh_host raw) (\<lambda>ssh.
     let attrs = dict_update attrs ssh;
         attrs = (case map_of raw ''metadata.ssh_user'' of Some u \<Rightarrow> dict_set ''ansible_ssh_user'' u attrs | None \<Rightarrow> attrs) in
     bindE (volume_attrs raw) (\<lambda>vols.
     let metadata = parse_dict raw ''metadata'' CHR ''.'';
         attrs = dict_set ''role'' (dict_get metadata ''role'' (PStr ''none'')) (dict_update attrs vols) in
     bindE (openstack_groups env attrs metadata) (\<lambda>groups. Inr (name, attrs, groups))))))))"

definition calculate_mantl_vars :: "('a \<Rightarrow> tf_host res) \<Rightarrow> 'a \<Rightarrow> tf_host res" where
  "calculate_mantl_vars func x =
     bindE (func x) (\<lambda>(name, attrs, groups).
     let attrs = dict_set ''consul_is_server'' (PBool (dict_get attrs ''role'' (PStr []) = PStr ''control'')) attrs in
     Inr (name, attrs,
       if py_truth (dict_get attrs ''publicly_routable'' (PBool False)) then groups @ [PStr ''publicly_routable''] else groups))"

text \<open>The decorator \<open>parses\<close> registers a parser; these are the registrations in the order of the module.\<close>

definition parses :: "string \<Rightarrow> 'f \<Rightarrow> (string, 'f) dict \<Rightarrow> (string, 'f) dict" where
  "parses prefix func parsers = dict_set prefix func parsers"

definition PARSERS :: "tf_env \<Rightarrow> (string, yaml \<Rightarrow> tf_host res) dict" where
  "PARSERS env =
     parses ''openstack_compute_instance_v2'' (calculate_mantl_vars (openstack_host env))
       (parses ''packet_device'' packet_device [])"

definition split_key :: "string \<Rightarrow> string res" where
  "split_key key = (case split_once CHR ''.'' key of [resource_type, name] \<Rightarrow> Inr resource_type | _ \<Rightarrow> Inl ValueError)"

definition iterhosts :: "tf_env \<Rightarrow> tf_resource gen \<Rightarrow> tf_host gen" where
  "iterhosts env rs =
     gen_over (\<lambda>(module_name, key, r).
       bindE (split_key key) (\<lambda>resource_type.
       case map_of (PARSERS env) resource_type of
         None \<Rightarrow> Inr None
       | Some parser \<Rightarrow> bindE (parser r) (\<lambda>h. Inr (Some h)))) rs"

definition iterips :: "tf_resource gen \<Rightarrow> (yaml \<times> yaml) gen" where
  "iterips rs =
     gen_over (\<lambda>(module_name, key, r).
       bindE (split_key key) (\<lambda>resource_type.
       if resource_type = ''openstack_compute_floatingip_associate_v2''
       then bindE (openstack_floating_ips r) (\<lambda>p. Inr (Some p)) else Inr None)) rs"

text \<open>The instance of an address is a string; the keys of the dict of addresses.\<close>

definition ips_dict :: "(yaml \<times> yaml) gen \<Rightarrow> (string, yaml) dict res" where
  "ips_dict g =
     (let g = gen_over (\<lambda>(i, ip). bindE (as_str i) (\<lambda>s. Inr (Some (s, ip)))) g in
      bindE (gen_all g) (\<lambda>ps. Inr (dict_update [] ps)))"

definition host_ip :: "(string, yaml) dict \<Rightarrow> yaml \<Rightarrow> yaml option res" where
  "host_ip ips host_id =
     (case host_id of
        PStr s \<Rightarrow> Inr (map_of ips s)
      | PList _ \<Rightarrow> Inl TypeError | PDict _ \<Rightarrow> Inl TypeError
      | _ \<Rightarrow> Inr None)"

definition update_host_ip :: "(string, yaml) dict \<Rightarrow> tf_host \<Rightarrow> tf_host res" where
  "update_host_ip ips = (\<lambda>(name, attrs, groups).
     bindE (dict_getitem attrs ''id'') (\<lambda>host_id.
     bindE (host_ip ips host_id) (\<lambda>found.
     let attrs = (case found of
         Some ip \<Rightarrow> dict_update attrs
           [(''access_ip_v4'', ip), (''access_ip'', ip), (''public_ipv4'', ip), (''ansible_ssh_host'', ip)]
       | None \<Rightarrow> attrs) in
     bindE (dict_getitem attrs ''metadata'') (\<lambda>metadata.
     bindE (py_in ''use_access_ip'' metadata) (\<lambda>b.
     bindE (if b then yaml_get metadata ''use_access_ip'' else Inr PNone) (\<lambda>u.
     bindE (if u = PStr ''0'' then dict_delitem ''access_ip'' attrs else Inr attrs) (\<lambda>attrs.
     Inr (name, attrs, groups))))))))"

definition iter_host_ips :: "tf_host gen \<Rightarrow> (string, yaml) dict \<Rightarrow> tf_host gen" where
  "iter_host_ips hs ips = gen_over (\<lambda>h. bindE (update_host_ip ips h) (\<lambda>h'. Inr (Some h'))) hs"

section \<open>Queries\<close>

fun query_host_loop :: "tf_host list \<Rightarrow> pyexc option \<Rightarrow> string \<Rightarrow> yaml res" where
  "query_host_loop [] e target = (case e of Some err \<Rightarrow> Inl err | None \<Rightarrow> Inr (PDict []))"
| "query_host_loop ((name, attrs, groups) # hs) e target =
     (if name = target then Inr (PDict attrs) else query_host_loop hs e target)"

definition query_host :: "tf_host gen \<Rightarrow> string \<Rightarrow> yaml res" where
  "query_host hs target = query_host_loop (fst hs) (snd hs) target"

definition group_name :: "string \<Rightarrow> string" where
  "group_name g = (if g = [] then ''all'' else g)"

definition add_to_group :: "string \<Rightarrow> string \<Rightarrow> (string, string list) dict \<Rightarrow> (string, string list) dict" where
  "add_to_group name g groups = dict_set g (dict_get groups g [] @ [name]) groups"

definition list_step :: "tf_env \<Rightarrow> tf_host \<Rightarrow> (string, string list) dict \<times> (string, yaml) dict \<Rightarrow>
    ((string, string list) dict \<times> (string, yaml) dict) res" where
  "list_step env = (\<lambda>(name, attrs, hostgroups) (groups, meta).
     bindE (mapE as_str hostgroups) (\<lambda>gs.
     Inr (fold (\<lambda>g. add_to_group name (group_name g)) (group_order env gs) groups, dict_set name (PDict attrs) meta)))"

definition query_list :: "tf_env \<Rightarrow> tf_host gen \<Rightarrow> (string, yaml) dict res" where
  "query_list env hs =
     bindE (foldE (list_step env) (fst hs) ([], [])) (\<lambda>(groups, meta).
     case snd hs of
       Some e \<Rightarrow> Inl e
     | None \<Rightarrow>
         Inr (dict_set ''_meta'' (PDict [(''hostvars'', PDict meta)])
           (map (\<lambda>(g, names). (g, PDict [(''hosts'', PList (map PStr names))])) groups)))"

definition ljust :: "nat \<Rightarrow> string \<Rightarrow> string" where
  "ljust n s = s @ replicate (n - length s) CHR '' ''"

definition hostfile_line :: "tf_host \<Rightarrow> string res" where
  "hostfile_line = (\<lambda>(name, attrs, groups).
     bindE (dict_getitem attrs ''ansible_ssh_host'') (\<lambda>v. bindE (str_self v) (\<lambda>s.
     Inr (ljust 16 s @ [CHR 0x09] @ name))))"

definition query_hostfile :: "tf_host gen \<Rightarrow> string res" where
  "query_hostfile hs =
     bindE (gen_all (gen_over (\<lambda>h. bindE (hostfile_line h) (\<lambda>s. Inr (Some s))) hs)) (\<lambda>ls.
     Inr (join [CHR 0x0A] ([''## begin hosts generated by terraform.py ##''] @ ls @ [''## end hosts generated by terraform.py ##''])))"

section \<open>Main\<close>

definition default_root :: "tf_env \<Rightarrow> string" where
  "default_root env =
     dict_get (variables env) ''TERRAFORM_STATE_ROOT''
       (path_abspath (getcwd env) (path_join (path_join (path_dirname (script_path env)) ''..'') ''..''))"

definition tf_parser :: "tf_env \<Rightarrow> parser" where
  "tf_parser env =
     \<lparr>options =
        [switch [''--list''] ''list'', str_option [''--host''] One ''host'' PNone, switch [''--version''] ''version'',
         switch [''--hostfile''] ''hostfile'', switch [''--pretty''] ''pretty'', switch [''--nometa''] ''nometa'',
         str_option [''--root''] One ''root'' (PStr (default_root env))],
      positionals = [], exclusive = [''list'', ''host'', ''version'', ''hostfile''], exclusive_required = True\<rparr>"

definition tf_format :: "tf_env \<Rightarrow> (string, argval) dict \<Rightarrow> json_format" where
  "tf_format env args =
     \<lparr>indent = (if py_truth (dict_get args ''pretty'' PNone) then Some 4 else None), sort_keys = False, float_repr = float_text env\<rparr>"

text \<open>Hosts with their floating addresses: the files are read once for the addresses and once for the hosts.\<close>

definition tf_hosts :: "tf_env \<Rightarrow> string \<Rightarrow> tf_host gen res" where
  "tf_hosts env dir =
     (case iterresources env (tfstates env dir) 0 of (rs, k) \<Rightarrow>
      bindE (ips_dict (iterips rs)) (\<lambda>ips.
      let hs = iterhosts env (fst (iterresources env (tfstates env dir) k)) in
      Inr (if ips \<noteq> [] then iter_host_ips hs ips else hs)))"

text \<open>What the script prints after the arguments were read.\<close>

definition tf_output :: "tf_env \<Rightarrow> (string, argval) dict \<Rightarrow> string list res" where
  "tf_output env args =
     bindE (as_str (dict_get args ''root'' (PStr []))) (\<lambda>dir.
     bindE (tf_hosts env dir) (\<lambda>hs.
     if py_truth (dict_get args ''list'' PNone) then
       bindE (query_list env hs) (\<lambda>d.
       bindE (json_dumps (tf_format env args)
         (PDict (if py_truth (dict_get args ''nometa'' PNone) then AList.delete ''_meta'' d else d))) (\<lambda>s. Inr [s]))
     else if py_truth (dict_get args ''host'' PNone) then
       bindE (as_str (dict_get args ''host'' PNone)) (\<lambda>target.
       bindE (query_host hs target) (\<lambda>v. bindE (json_dumps (tf_format env args) v) (\<lambda>s. Inr [s])))
     else if py_truth (dict_get args ''hostfile'' PNone) then bindE (query_hostfile hs) (\<lambda>s. Inr [s])
     else Inr []))"

text \<open>The script always ends with an exception: \<open>parser.exit()\<close> is \<open>SystemExit\<close> with status 0.\<close>

definition terraform_main :: "tf_env \<Rightarrow> string list \<Rightarrow> string list \<times> pyexc" where
  "terraform_main env argv =
     (case parse_args (tf_parser env) argv of
        Inl e \<Rightarrow> ([], e)
      | Inr args \<Rightarrow>
          if py_truth (dict_get args ''version'' PNone) then ([script_path env @ '' '' @ TF_VERSION], SystemExit 0)
          else (case tf_output env args of Inl e \<Rightarrow> ([], e) | Inr ls \<Rightarrow> (ls, SystemExit 0)))"

end
