(* ===== verification/Kubespray_Terraform_Laws.thy ===== *)
theory Kubespray_Terraform_Laws
  imports Kubespray_Terraform
begin

text \<open>
  Correctness of the Terraform inventory: the conversion of attributes returns and keeps lists of
  strings whatever random numbers are drawn; the types of what an OpenStack instance becomes; and that
  the printed inventory reads back as the inventory.
\<close>

section \<open>Conversion of attributes\<close>

text \<open>Attributes of version 4: the elements of their lists are strings or attributes again.\<close>

fun v4_ok :: "yaml \<Rightarrow> bool" where
  "v4_ok (PStr s) = True"
| "v4_ok (PDict d) = list_all (\<lambda>(k, v). case v of PList vs \<Rightarrow> list_all v4_ok vs | _ \<Rightarrow> True) d"
| "v4_ok _ = False"

lemma convert_total:
  "v4_ok v \<Longrightarrow> \<exists>r k'. convert_to_v3_structure rnd p v k = Inr (r, k')"
  "list_all (\<lambda>(k, v). case v of PList vs \<Rightarrow> list_all v4_ok vs | _ \<Rightarrow> True) d \<Longrightarrow> \<exists>r k'. convert_items rnd p d s = Inr (r, k')"
  "list_all v4_ok vs \<Longrightarrow> \<exists>r k'. convert_elems rnd p i vs s = Inr (r, k')"
proof (induction rnd p v k and rnd p d s and rnd p i vs s rule: convert_to_v3_structure_convert_items_convert_elems.induct)
  case (5 rnd prefix key vs rest result k)
  then obtain r k' where "convert_elems rnd (prefix @ key) 0 vs
      (if vs = [] then result else dict_set (prefix @ key @ ''.#'') (PInt (int (length vs))) result, k) = Inr (r, k')"
    by auto
  with 5 show ?case by auto
next
  case (9 rnd pk i v vs result k)
  then obtain r k' where r: "convert_to_v3_structure rnd (pk @ ''.'' @ str_nat i @ ''.'') v k = Inr (r, k')" by auto
  with 9 show ?case by auto
qed auto

lemma dict_update_append: "dict_update (dict_update r a) b = dict_update r (a @ b)"
  by (simp add: dict_update_def)

lemma dict_update_keys: "fst ` set (dict_update r kvs) = fst ` set r \<union> fst ` set kvs"
proof (induction kvs arbitrary: r)
  case (Cons kv kvs)
  have "fst ` set (dict_set (fst kv) (snd kv) r) = insert (fst kv) (fst ` set r)"
    using dict_keys_set [of "fst kv" "snd kv" r] by (auto simp: dict_mem_def map_of_eq_None_iff simp flip: set_map)
  with Cons show ?case by (auto simp: dict_update_def case_prod_unfold)
qed (simp add: dict_update_def)

text \<open>\<open>r'\<close> is \<open>r\<close> after assignments to keys with a property.\<close>

definition touches :: "(string \<Rightarrow> bool) \<Rightarrow> (string, yaml) dict \<Rightarrow> (string, yaml) dict \<Rightarrow> bool" where
  "touches P r r' \<longleftrightarrow> (\<exists>kvs. r' = dict_update r kvs \<and> (\<forall>k \<in> fst ` set kvs. P k))"

lemma touches_update: "(\<And>k. k \<in> fst ` set kvs \<Longrightarrow> P k) \<Longrightarrow> touches P r (dict_update r kvs)"
  unfolding touches_def by blast

lemma touches_refl: "touches P r r"
  using touches_update [of "[]"] by (simp add: dict_update_def)

lemma touches_set: "P k \<Longrightarrow> touches P r (dict_set k v r)"
  using touches_update [of "[(k, v)]" P r] by (simp add: dict_update_def)

lemma touches_trans: "touches P r r' \<Longrightarrow> touches P r' r'' \<Longrightarrow> touches P r r''"
proof -
  assume "touches P r r'" "touches P r' r''"
  then obtain a b where ab: "r' = dict_update r a" "r'' = dict_update r' b" "\<forall>k \<in> fst ` set a. P k" "\<forall>k \<in> fst ` set b. P k"
    unfolding touches_def by blast
  then have "r'' = dict_update r (a @ b)" "\<forall>k \<in> fst ` set (a @ b). P k" by (auto simp: dict_update_append)
  then show ?thesis unfolding touches_def by blast
qed

lemma touches_mono: "touches P r r' \<Longrightarrow> (\<And>k. P k \<Longrightarrow> Q k) \<Longrightarrow> touches Q r r'"
  unfolding touches_def by blast

lemma touches_keys: "touches P r r' \<Longrightarrow> (\<And>k. k \<in> fst ` set r \<Longrightarrow> P k) \<Longrightarrow> k \<in> fst ` set r' \<Longrightarrow> P k"
  unfolding touches_def by (metis UnE dict_update_keys)

text \<open>Every key that the conversion assigns begins with the prefix.\<close>

abbreviation begins :: "string \<Rightarrow> string \<Rightarrow> bool" where
  "begins p k \<equiv> \<exists>x. k = p @ x"

lemma convert_touches:
  "convert_to_v3_structure rnd p v k = Inr (r, k') \<Longrightarrow> touches (begins p) [] r"
  "convert_items rnd p d s = Inr (r, k') \<Longrightarrow> touches (begins p) (fst s) r"
  "convert_elems rnd p i vs s = Inr (r, k') \<Longrightarrow> touches (begins (p @ ''.'')) (fst s) r"
proof (induction rnd p v k and rnd p d s and rnd p i vs s arbitrary: r k' and r k' and r k'
    rule: convert_to_v3_structure_convert_items_convert_elems.induct)
  case (1 rnd prefix s k)
  then show ?case using touches_set [of "begins prefix" _ "[]"] by auto
next
  case (5 rnd prefix key vs rest result k)
  let ?r0 = "if vs = [] then result else dict_set (prefix @ key @ ''.#'') (PInt (int (length vs))) result"
  obtain r1 k1 where r1: "convert_elems rnd (prefix @ key) 0 vs (?r0, k) = Inr (r1, k1)"
    and rest: "convert_items rnd prefix rest (r1, k1) = Inr (r, k')"
    using "5.prems" by (auto simp: bindE_eq_Inr)
  have "touches (begins prefix) result ?r0" by (auto intro: touches_refl touches_set)
  moreover have "touches (begins prefix) ?r0 r1"
    using "5.IH"(1) [OF r1] unfolding fst_conv by (rule touches_mono) auto
  moreover have "touches (begins prefix) r1 r" using "5.IH"(2) [OF r1 rest] by simp
  ultimately show ?case by (auto intro: touches_trans)
next
  case (6 rnd prefix key d rest result k)
  let ?r0 = "dict_update (dict_set (prefix @ key @ ''.%'') (PInt (int (length d))) result)
    (map (\<lambda>(k', v). (prefix @ key @ ''.'' @ k', v)) d)"
  have "touches (begins prefix) result ?r0"
    by (rule touches_trans [OF touches_set touches_update]) auto
  moreover have "touches (begins prefix) ?r0 r" using 6 by simp
  ultimately show ?case by (auto intro: touches_trans)
next
  case (9 rnd pk i v vs result k)
  then obtain r1 k1 where r1: "convert_to_v3_structure rnd (pk @ ''.'' @ str_nat i @ ''.'') v k = Inr (r1, k1)"
    and rest: "convert_elems rnd pk (Suc i) vs (dict_update result r1, k1) = Inr (r, k')"
    by (auto simp: bindE_eq_Inr)
  have "begins (pk @ ''.'' @ str_nat i @ ''.'') key" if "key \<in> fst ` set r1" for key
    using touches_keys [OF "9.IH"(1) [OF r1]] that by auto
  then have "touches (begins (pk @ ''.'')) result (dict_update result r1)"
    by (intro touches_update) fastforce
  moreover have "touches (begins (pk @ ''.'')) (dict_update result r1) r" using "9.IH"(2) [OF r1 _ rest] by simp
  ultimately show ?case by (auto intro: touches_trans)
qed (auto intro: touches_refl touches_trans [OF touches_set])


text \<open>Keys are told apart by what precedes their first dot.\<close>

lemma split_once_begins: "CHR ''.'' \<notin> set p \<Longrightarrow> split_once CHR ''.'' (p @ CHR ''.'' # x) = [p, x]"
  by (induction p) (auto simp: split_once_def)

lemma split_once_other: "split_once c k = [p, x] \<Longrightarrow> k = p @ c # x"
  by (induction k arbitrary: p) (auto simp: split_once_def split: if_splits)

definition other_key :: "string \<Rightarrow> string \<Rightarrow> bool" where
  "other_key key k \<longleftrightarrow> (\<nexists>x. k = key @ CHR ''.'' # x)"

definition parse_key :: "string \<Rightarrow> string \<times> yaml \<Rightarrow> (string \<times> yaml) list" where
  "parse_key prefix = (\<lambda>(compkey, v). case split_once CHR ''.'' compkey of
     [curprefix, rest] \<Rightarrow> if curprefix \<noteq> prefix \<or> rest = ''#'' then [] else [(rest, v)] | _ \<Rightarrow> [])"

lemma parse_prefix_keys: "parse_prefix r key CHR ''.'' = concat (map (parse_key key) r)"
  by (simp add: parse_prefix_def parse_key_def)

lemma parse_key_other: "other_key key k \<Longrightarrow> parse_key key (k, v) = []"
  by (auto simp: parse_key_def other_key_def split: list.split dest: split_once_other)

lemma parse_prefix_other:
  assumes "touches (other_key key) r r'"
  shows "parse_prefix r' key CHR ''.'' = parse_prefix r key CHR ''.''"
proof -
  have one: "concat (map (parse_key key) (dict_set k v r)) = concat (map (parse_key key) r)" if "other_key key k" for k v r
    by (induction r) (auto simp: parse_key_other [OF that])
  have many: "concat (map (parse_key key) (dict_update r kvs)) = concat (map (parse_key key) r)"
    if "\<And>k. k \<in> fst ` set kvs \<Longrightarrow> other_key key k" for kvs r
    using that
  proof (induction kvs arbitrary: r)
    case (Cons kv kvs)
    have "dict_update r (kv # kvs) = dict_update (dict_set (fst kv) (snd kv) r) kvs"
      by (simp add: dict_update_def case_prod_unfold)
    moreover have "other_key key (fst kv)" by (rule Cons.prems) simp
    ultimately show ?case using Cons.IH Cons.prems one by simp
  qed (simp add: dict_update_def)
  obtain kvs where kvs: "r' = dict_update r kvs" "\<And>k. k \<in> fst ` set kvs \<Longrightarrow> other_key key k"
    using assms unfolding touches_def by blast
  show ?thesis unfolding parse_prefix_keys kvs(1) by (rule many) (rule kvs(2))
qed

text \<open>The keys of the other attributes.\<close>

lemma same_begin: "p @ CHR ''.'' # x = q @ CHR ''.'' # y \<Longrightarrow> CHR ''.'' \<notin> set p \<Longrightarrow> CHR ''.'' \<notin> set q \<Longrightarrow> p = q"
  by (metis list.inject split_once_begins)

lemma other_keys: "p \<noteq> key \<Longrightarrow> CHR ''.'' \<notin> set p \<Longrightarrow> CHR ''.'' \<notin> set key \<Longrightarrow> other_key key p \<and> other_key key (p @ CHR ''.'' # x)"
  unfolding other_key_def by (metis in_set_conv_decomp same_begin)

lemma convert_items_other:
  "convert_items rnd [] d (r, k) = Inr (r', k') \<Longrightarrow> CHR ''.'' \<notin> set key \<Longrightarrow>
   \<forall>p \<in> fst ` set d. p \<noteq> key \<and> CHR ''.'' \<notin> set p \<Longrightarrow> touches (other_key key) r r'"
proof (induction d arbitrary: r k)
  case (Cons pv d)
  obtain p v where pv: "pv = (p, v)" by (cases pv)
  have p: "other_key key p" "\<And>x. other_key key (p @ CHR ''.'' # x)"
    using Cons.prems pv other_keys [of p key] by auto
  have "\<exists>r1 k1. touches (other_key key) r r1 \<and> convert_items rnd [] d (r1, k1) = Inr (r', k')"
  proof (cases v)
    case (PList vs)
    let ?r0 = "if vs = [] then r else dict_set ([] @ p @ ''.#'') (PInt (int (length vs))) r"
    obtain r1 k1 where r1: "convert_elems rnd p 0 vs (?r0, k) = Inr (r1, k1)"
      and rest: "convert_items rnd [] d (r1, k1) = Inr (r', k')"
      using Cons.prems(1) pv PList by (auto simp: bindE_eq_Inr)
    have "touches (other_key key) r ?r0" using p by (auto intro: touches_refl touches_set)
    moreover have "touches (other_key key) ?r0 r1"
      using convert_touches(3) [OF r1] unfolding fst_conv by (rule touches_mono) (use p in auto)
    ultimately show ?thesis using rest by (blast intro: touches_trans)
  next
    case (PDict kvs)
    let ?r0 = "dict_update (dict_set (p @ ''.%'') (PInt (int (length kvs))) r) (map (\<lambda>(k', v). (p @ ''.'' @ k', v)) kvs)"
    have "touches (other_key key) r ?r0"
      by (rule touches_trans [OF touches_set touches_update]) (use p in auto)
    then show ?thesis using Cons.prems(1) pv PDict by auto
  qed (use Cons.prems(1) pv p in \<open>auto intro: touches_set\<close>)
  with Cons show ?case by (auto intro: touches_trans)
qed (auto intro: touches_refl)


lemma convert_items_append:
  "convert_items rnd p (a @ b) s = bindE (convert_items rnd p a s) (convert_items rnd p b)"
proof (induction a arbitrary: s)
  case (Cons kv a)
  obtain key v r k where "kv = (key, v)" "s = (r, k)" by (cases kv, cases s)
  with Cons show ?case by (cases v) (simp_all add: bindE_assoc cong: bindE_cong)
next
  case Nil
  show ?case by (cases s) simp
qed

text \<open>No key of the elements from the \<open>i\<close>th on is there yet.\<close>

definition fresh_from :: "string \<Rightarrow> nat \<Rightarrow> (string, yaml) dict \<Rightarrow> bool" where
  "fresh_from key i r \<longleftrightarrow> (\<forall>j x. i \<le> j \<longrightarrow> \<not> dict_mem (key @ ''.'' @ str_nat j @ ''.'' @ x) r)"

lemma elem_keys: "key @ ''.'' @ str_nat i @ ''.'' @ x = key @ ''.'' @ str_nat j @ ''.'' @ y \<Longrightarrow> i = j"
  using same_begin [of "str_nat i" x "str_nat j" y] by (simp add: str_nat_no_char is_digit_def)

lemma fresh_from_set: "fresh_from key i r \<Longrightarrow> fresh_from key (Suc i) (dict_set (key @ ''.'' @ str_nat i @ ''.'' @ x) v r)"
  unfolding fresh_from_def dict_mem_set using elem_keys by (metis Suc_leD Suc_n_not_le_n)

lemma parse_key_elem:
  "CHR ''.'' \<notin> set key \<Longrightarrow> parse_key key (key @ ''.'' @ str_nat i @ ''.'' @ x, v) = [(str_nat i @ ''.'' @ x, v)]"
  using split_once_begins [of key "str_nat i @ ''.'' @ x"] by (cases "str_nat i") (auto simp: parse_key_def)

lemma convert_elems_strings:
  "CHR ''.'' \<notin> set key \<Longrightarrow> fresh_from key i r \<Longrightarrow> convert_elems rnd key i (map PStr ss) (r, k) = Inr (r', k') \<Longrightarrow>
   parse_list r' key CHR ''.'' = parse_list r key CHR ''.'' @ map PStr ss"
proof (induction ss arbitrary: i r k)
  case (Cons s ss)
  let ?key = "key @ ''.'' @ str_nat i @ ''.'' @ str_int (rnd k)"
  have "\<not> dict_mem ?key r" using Cons.prems(2) unfolding fresh_from_def by blast
  then have "dict_set ?key (PStr s) r = r @ [(?key, PStr s)]" by (rule dict_set_fresh)
  then have "parse_list (dict_set ?key (PStr s) r) key CHR ''.'' = parse_list r key CHR ''.'' @ [PStr s]"
    by (simp only: parse_list_def parse_prefix_keys map_append concat_append list.map concat.simps
      parse_key_elem [OF Cons.prems(1)] append_Nil2 snd_conv)
  moreover have "convert_elems rnd key (Suc i) (map PStr ss) (dict_set ?key (PStr s) r, Suc k) = Inr (r', k')"
    using Cons.prems(3) by (simp add: dict_update_def)
  ultimately show ?case
    using Cons.IH [OF Cons.prems(1) fresh_from_set [OF Cons.prems(2)]] by simp
qed simp

lemma fresh_from_other:
  assumes "touches (other_key key) [] r"
  shows "fresh_from key 0 r" "fresh_from key 0 (dict_set (key @ ''.#'') v r)"
proof -
  have other: "other_key key k" if "dict_mem k r" for k
    using touches_keys [OF assms, of k] that by (simp add: dict_mem_keys)
  have hash: "key @ ''.'' @ str_nat j @ ''.'' @ x \<noteq> key @ ''.#''" for j x by (cases "str_nat j") auto
  show "fresh_from key 0 r" using other unfolding fresh_from_def other_key_def by fastforce
  then show "fresh_from key 0 (dict_set (key @ ''.#'') v r)"
    unfolding fresh_from_def dict_mem_set using hash by blast
qed

lemma parse_prefix_Nil: "parse_prefix [] key CHR ''.'' = []"
  by (simp add: parse_prefix_def)

lemma parse_prefix_count: "CHR ''.'' \<notin> set key \<Longrightarrow>
    parse_prefix (dict_set (key @ ''.#'') v r) key CHR ''.'' = parse_prefix r key CHR ''.''"
proof -
  assume "CHR ''.'' \<notin> set key"
  then have "parse_key key (key @ ''.#'', v) = []" for v using split_once_begins [of key "''#''"] by (simp add: parse_key_def)
  then show ?thesis unfolding parse_prefix_keys by (induction r) auto
qed

text \<open>C19: The random numbers of the conversion lose nothing. Attributes of a version 4 state whose lists
  hold strings or attributes are converted without an exception, whatever numbers are drawn, equal ones
  too; and from the flat result \<open>_parse_list\<close> reads every list of strings back as it was, with its
  elements in order.\<close>

theorem tf_lists_survive:
  assumes ok: "v4_ok (PDict d)" and wf: "dict_wf d" and keys: "\<forall>p \<in> fst ` set d. CHR ''.'' \<notin> set p"
    and key: "map_of d key = Some (PList (map PStr ss))"
  shows "\<exists>r k'. convert_to_v3_structure rnd [] (PDict d) k = Inr (r, k') \<and> parse_list r key CHR ''.'' = map PStr ss"
proof -
  obtain a b where d: "d = a @ (key, PList (map PStr ss)) # b" using map_of_SomeD [OF key] split_list by metis
  then have dot: "CHR ''.'' \<notin> set key" and others: "\<forall>p \<in> fst ` set a. p \<noteq> key \<and> CHR ''.'' \<notin> set p"
    "\<forall>p \<in> fst ` set b. p \<noteq> key \<and> CHR ''.'' \<notin> set p"
    using keys wf by (auto simp: dict_wf_def)
  let ?ss = "map PStr ss :: yaml list"
  let ?r0 = "\<lambda>r. if ?ss = [] then r else dict_set ([] @ key @ ''.#'') (PInt (int (length ?ss))) r"
  obtain r k' where r: "convert_items rnd [] d ([], k) = Inr (r, k')"
    using convert_total(1) [OF ok, of rnd "[]" k] by auto
  then obtain r1 k1 r2 k2 where a: "convert_items rnd [] a ([], k) = Inr (r1, k1)"
    and l: "convert_elems rnd ([] @ key) 0 ?ss (?r0 r1, k1) = Inr (r2, k2)"
    and b: "convert_items rnd [] b (r2, k2) = Inr (r, k')"
    unfolding d convert_items_append bindE_eq_Inr split_paired_Ex convert_items.simps by blast
  have 1: "touches (other_key key) [] r1" by (rule convert_items_other [OF a dot others(1)])
  have "parse_list (?r0 r1) key CHR ''.'' = []"
    using parse_prefix_other [OF 1] parse_prefix_count [OF dot] by (simp add: parse_list_def parse_prefix_Nil)
  moreover have "parse_list r2 key CHR ''.'' = parse_list (?r0 r1) key CHR ''.'' @ ?ss"
    unfolding append_Nil by (rule convert_elems_strings [OF dot _ l [unfolded append_Nil]]) (simp add: fresh_from_other [OF 1])
  moreover have "parse_list r key CHR ''.'' = parse_list r2 key CHR ''.''"
    unfolding parse_list_def by (rule arg_cong [OF parse_prefix_other]) (rule convert_items_other [OF b dot others(2)])
  ultimately show ?thesis using r by auto
qed


text \<open>An instance with the same random number for every element.\<close>

definition demo_attributes :: "(string, yaml) dict" where
  "demo_attributes =
     [(''id'', PStr ''i1''), (''tags'', PList [PStr ''kube'', PStr ''etcd'']),
      (''metadata'', PDict [(''role'', PStr ''control'')]), (''facilities'', PList [])]"

theorem tf_lists_survive_witness:
  "v4_ok (PDict demo_attributes) \<and>
   (\<exists>r k'. convert_to_v3_structure (\<lambda>_. 7) [] (PDict demo_attributes) 0 = Inr (r, k') \<and>
      parse_list r ''tags'' CHR ''.'' = [PStr ''kube'', PStr ''etcd''])"
  using tf_lists_survive [of demo_attributes "''tags''" "[''kube'', ''etcd'']" "\<lambda>_. 7" 0]
  by (simp add: demo_attributes_def dict_wf_def)


section \<open>OpenStack instances\<close>

lemma dict_display_get:
  "dict_display kvs = Inr d \<Longrightarrow> map_of kvs k = Some rv \<Longrightarrow> \<exists>v. rv = Inr v \<and> map_of d k = Some v"
  by (induction kvs arbitrary: d) (auto simp: dict_display_def bindE_eq_Inr split: if_splits)

lemma map_of_dict_update: "k \<notin> fst ` set kvs \<Longrightarrow> map_of (dict_update d kvs) k = map_of d k"
  by (induction kvs arbitrary: d) (auto simp: dict_update_def update_conv')

lemma volume_attrs_keys:
  "volume_attrs raw = Inr vols \<Longrightarrow> k \<in> fst ` set vols \<Longrightarrow> \<exists>x. k = ''disk_volume_device_'' @ x"
  by (auto simp: volume_attrs_def bindE_eq_Inr Let_def split: option.splits if_splits)

text \<open>Every attribute is read, so the address to connect to is found and the handler never runs.\<close>

lemma openstack_attrs_facts:
  assumes "openstack_attrs raw = Inr attrs"
  shows "map_of attrs ''metadata'' = Some (PDict (parse_dict raw ''metadata'' CHR ''.''))"
    and "dict_mem ''id'' attrs" and "dict_mem ''access_ip'' attrs"
    and "dict_mem ''access_ip_v4'' raw" and "dict_mem ''access_ip_v6'' raw"
proof -
  note get = dict_display_get [OF assms [unfolded openstack_attrs_def Let_def]]
  show "map_of attrs ''metadata'' = Some (PDict (parse_dict raw ''metadata'' CHR ''.''))"
    using get [of "''metadata''"] by simp
  show "dict_mem ''id'' attrs" using get [of "''id''"] by (auto simp: dict_mem_def)
  show "dict_mem ''access_ip'' attrs" using get [of "''access_ip''"] by (auto simp: dict_mem_def)
  show "dict_mem ''access_ip_v4'' raw" using get [of "''access_ip_v4''"] by (auto simp: dict_mem_def dict_getitem_eq_Inr)
  show "dict_mem ''access_ip_v6'' raw" using get [of "''access_ip_v6''"] by (auto simp: dict_mem_def dict_getitem_eq_Inr)
qed

lemma as_str_error: "as_str v = Inl e \<Longrightarrow> e = TypeError"
  by (cases v) auto

lemma openstack_ssh_host_routable:
  assumes "openstack_attrs raw = Inr attrs" "openstack_ssh_host raw = Inr ssh"
  shows "\<exists>ip. ssh = [(''ansible_ssh_host'', ip), (''publicly_routable'', PBool True)]"
proof (cases "ssh_host_body raw")
  case (Inl e)
  then have "e = TypeError"
    using openstack_attrs_facts(4,5) [OF assms(1)] as_str_error
    by (auto simp: ssh_host_body_def bindE_eq_Inl dict_getitem_eq_Inl split: if_splits)
  with Inl assms(2) show ?thesis by (simp add: openstack_ssh_host_def)
qed (use assms(2) in \<open>auto simp: openstack_ssh_host_def\<close>)

lemma openstack_groups_strings: "openstack_groups env attrs metadata = Inr gs \<Longrightarrow> g \<in> set gs \<Longrightarrow> \<exists>s. g = PStr s"
  by (auto simp: openstack_groups_def bindE_eq_Inr Let_def)


lemma openstack_host_facts:
  assumes "openstack_host env r = Inr (name, attrs, groups)"
  shows "\<exists>md. map_of attrs ''metadata'' = Some (PDict md)" "dict_mem ''id'' attrs" "dict_mem ''access_ip'' attrs"
    "map_of attrs ''publicly_routable'' = Some (PBool True)" "\<forall>g \<in> set groups. \<exists>s. g = PStr s"
proof -
  obtain raw a0 a1 ssh vols where a0: "openstack_attrs raw = Inr a0"
    and a1: "a1 = a0 \<or> (\<exists>ip. a1 = dict_set ''private_ipv4'' ip a0)"
    and ssh: "openstack_ssh_host raw = Inr ssh" and vols: "volume_attrs raw = Inr vols"
    and attrs: "\<exists>a2 role. (a2 = dict_update a1 ssh \<or> (\<exists>u. a2 = dict_set ''ansible_ssh_user'' u (dict_update a1 ssh))) \<and>
      attrs = dict_set ''role'' role (dict_update a2 vols)"
    and groups: "openstack_groups env attrs (parse_dict raw ''metadata'' CHR ''.'') = Inr groups"
    using assms unfolding openstack_host_def Let_def
    by (auto simp: bindE_eq_Inr split: if_splits option.splits) blast+
  obtain ip where ip: "ssh = [(''ansible_ssh_host'', ip), (''publicly_routable'', PBool True)]"
    using openstack_ssh_host_routable [OF a0 ssh] by blast
  then have upd: "dict_update d ssh = dict_set ''publicly_routable'' (PBool True) (dict_set ''ansible_ssh_host'' ip d)" for d
    by (simp add: dict_update_def)
  have vol: "map_of (dict_update d vols) k = map_of d k" if "hd k \<noteq> CHR ''d''" for d k
  proof (rule map_of_dict_update)
    have "hd (''disk_volume_device_'' @ x) = CHR ''d''" for x by simp
    then show "k \<notin> fst ` set vols" using volume_attrs_keys [OF vols, of k] that by metis
  qed
  have keep: "map_of attrs k = map_of a0 k" if "k \<in> {''metadata'', ''id'', ''access_ip''}" for k
    using attrs a1 that by (auto simp: vol update_conv' upd)
  show "map_of attrs ''publicly_routable'' = Some (PBool True)"
    using attrs by (auto simp: vol update_conv' upd)
  show "\<exists>md. map_of attrs ''metadata'' = Some (PDict md)" "dict_mem ''id'' attrs" "dict_mem ''access_ip'' attrs"
    using openstack_attrs_facts [OF a0] keep by (simp_all add: dict_mem_def)
  show "\<forall>g \<in> set groups. \<exists>s. g = PStr s" using openstack_groups_strings [OF groups] by blast
qed

lemma update_host_ip_returns:
  assumes "map_of attrs ''id'' = Some (PStr s)" "map_of attrs ''metadata'' = Some (PDict md)" "dict_mem ''access_ip'' attrs"
  shows "\<exists>h. update_host_ip ips (name, attrs, groups) = Inr h"
  using assms by (auto simp: update_host_ip_def dict_getitem_def host_ip_def dict_update_def update_conv' dict_delitem_def
    dict_mem_def Let_def split: option.splits)

lemma mapE_as_str: "\<forall>g \<in> set gs. \<exists>s. g = PStr s \<Longrightarrow> \<exists>ss. mapE as_str gs = Inr ss"
  by (induction gs) auto

lemma calculate_mantl_vars_facts:
  assumes "calculate_mantl_vars f x = Inr (name, attrs, groups)"
  obtains a g where "f x = Inr (name, a, g)"
    "attrs = dict_set ''consul_is_server'' (PBool (dict_get a ''role'' (PStr []) = PStr ''control'')) a"
    "groups = (if py_truth (dict_get attrs ''publicly_routable'' (PBool False)) then g @ [PStr ''publicly_routable''] else g)"
  using assms by (auto simp: calculate_mantl_vars_def bindE_eq_Inr Let_def)

text \<open>C20: The types of what an OpenStack instance becomes. When its parser returns, the groups are strings
  and among them is \<open>publicly_routable\<close>, whose attribute is true: the handler that clears it cannot run.
  The attributes have metadata that is a dict and a flag \<open>consul_is_server\<close>; so the host can be listed, and
  when its id is a string a floating address can be put in, without an exception.\<close>

theorem openstack_host_types:
  assumes "calculate_mantl_vars (openstack_host env) r = Inr (name, attrs, groups)"
  shows "(\<forall>g \<in> set groups. \<exists>s. g = PStr s) \<and> PStr ''publicly_routable'' \<in> set groups \<and>
    map_of attrs ''publicly_routable'' = Some (PBool True) \<and>
    (\<exists>md. map_of attrs ''metadata'' = Some (PDict md)) \<and> (\<exists>b. map_of attrs ''consul_is_server'' = Some (PBool b)) \<and>
    (\<exists>acc'. list_step env (name, attrs, groups) acc = Inr acc') \<and>
    (\<forall>s. map_of attrs ''id'' = Some (PStr s) \<longrightarrow> (\<exists>h. update_host_ip ips (name, attrs, groups) = Inr h))"
proof -
  obtain a g where ag: "openstack_host env r = Inr (name, a, g)"
    "attrs = dict_set ''consul_is_server'' (PBool (dict_get a ''role'' (PStr []) = PStr ''control'')) a"
    "groups = (if py_truth (dict_get attrs ''publicly_routable'' (PBool False)) then g @ [PStr ''publicly_routable''] else g)"
    using calculate_mantl_vars_facts [OF assms] by blast
  note host = openstack_host_facts [OF ag(1)]
  have routable: "map_of attrs ''publicly_routable'' = Some (PBool True)" using host(4) by (simp add: ag(2) update_conv')
  have "groups = g @ [PStr ''publicly_routable'']" by (simp add: ag(3) dict_get_def routable)
  then have gs: "\<forall>g \<in> set groups. \<exists>s. g = PStr s" "PStr ''publicly_routable'' \<in> set groups" using host(5) by auto
  have md: "\<exists>md. map_of attrs ''metadata'' = Some (PDict md)" and acc: "dict_mem ''access_ip'' attrs"
    using host(1,3) by (auto simp: ag(2) update_conv' dict_mem_def)
  have "\<exists>acc'. list_step env (name, attrs, groups) acc = Inr acc'"
    using mapE_as_str [OF gs(1)] by (cases acc) (auto simp: list_step_def)
  moreover have "\<exists>b. map_of attrs ''consul_is_server'' = Some (PBool b)" by (simp add: ag(2) update_conv')
  ultimately show ?thesis using gs routable md acc update_host_ip_returns by blast
qed

definition demo_tf_env :: tf_env where
  "demo_tf_env =
     \<lparr>getcwd = ''/srv'', walk = (\<lambda>_. []), file_text = (\<lambda>_. None), randint = (\<lambda>_. 7), group_order = remdups,
      repr = (\<lambda>_. []), float_text = (\<lambda>_. []), script_path = ''terraform.py'', variables = []\<rparr>"

definition demo_instance :: yaml where
  "demo_instance =
     PDict [(''primary'', PDict [(''attributes'', PDict
       [(''name'', PStr ''node1''), (''id'', PStr ''i1''), (''access_ip_v4'', PStr ''10.0.0.1''), (''access_ip_v6'', PStr []),
        (''network.0.fixed_ip_v4'', PStr ''10.0.0.1''), (''key_pair'', PStr ''k''), (''image_id'', PStr ''im''),
        (''flavor_name'', PStr ''small''), (''metadata.role'', PStr ''control'')])])]"

theorem openstack_host_types_witness:
  "\<exists>name attrs groups. calculate_mantl_vars (openstack_host demo_tf_env) demo_instance = Inr (name, attrs, groups) \<and>
     PStr ''publicly_routable'' \<in> set groups \<and> (\<exists>h. update_host_ip [] (name, attrs, groups) = Inr h)"
proof -
  obtain name attrs groups where h: "calculate_mantl_vars (openstack_host demo_tf_env) demo_instance = Inr (name, attrs, groups)"
    and i: "map_of attrs ''id'' = Some (PStr ''i1'')"
  proof -
    have "(case calculate_mantl_vars (openstack_host demo_tf_env) demo_instance of
        Inr (name, attrs, groups) \<Rightarrow> map_of attrs ''id'' = Some (PStr ''i1'') | Inl e \<Rightarrow> False)"
      by code_simp
    then show thesis using that by (auto split: sum.splits)
  qed
  show ?thesis using openstack_host_types [OF h] h i by blast
qed


section \<open>The listing\<close>

lemma mapE_as_str_eq: "mapE as_str vs = Inr ss \<Longrightarrow> vs = map PStr ss"
proof (induction vs arbitrary: ss)
  case (Cons v vs)
  then show ?case by (cases v) (auto simp: bindE_eq_Inr)
qed simp

lemma add_to_group_member:
  "n \<in> set (dict_get (add_to_group name g' groups) g []) \<longleftrightarrow> n \<in> set (dict_get groups g []) \<or> n = name \<and> g = g'"
  by (auto simp: add_to_group_def dict_get_def update_conv')

lemma add_to_groups_member:
  "n \<in> set (dict_get (fold (\<lambda>x. add_to_group name (group_name x)) gs groups) g []) \<longleftrightarrow>
     n \<in> set (dict_get groups g []) \<or> n = name \<and> g \<in> group_name ` set gs"
  by (induction gs arbitrary: groups) (auto simp: add_to_group_member)

definition listed_in :: "tf_host list \<Rightarrow> string \<Rightarrow> string \<Rightarrow> bool" where
  "listed_in hs n g \<longleftrightarrow> (\<exists>attrs gs x. (n, attrs, gs) \<in> set hs \<and> PStr x \<in> set gs \<and> g = group_name x)"

lemma listed_in_Cons:
  "listed_in ((name, attrs, gs) # hs) n g \<longleftrightarrow> n = name \<and> (\<exists>x. PStr x \<in> set gs \<and> g = group_name x) \<or> listed_in hs n g"
  unfolding listed_in_def by auto

lemma list_step_groups:
  assumes order: "\<forall>gs. set (group_order env gs) = set gs"
  shows "foldE (list_step env) hs (groups, meta) = Inr (groups', meta') \<Longrightarrow>
    n \<in> set (dict_get groups' g []) \<longleftrightarrow> n \<in> set (dict_get groups g []) \<or> listed_in hs n g"
proof (induction hs arbitrary: groups meta)
  case (Cons h hs)
  obtain name attrs gs where h: "h = (name, attrs, gs)" by (cases h)
  from Cons.prems obtain ss where ss: "mapE as_str gs = Inr ss"
    and rest: "foldE (list_step env) hs (fold (\<lambda>x. add_to_group name (group_name x)) (group_order env ss) groups,
      dict_set name (PDict attrs) meta) = Inr (groups', meta')"
    by (auto simp: h list_step_def bindE_eq_Inr)
  have "listed_in (h # hs) n g \<longleftrightarrow> n = name \<and> g \<in> group_name ` set ss \<or> listed_in hs n g"
    unfolding listed_in_Cons h mapE_as_str_eq [OF ss] by auto
  then show ?case using Cons.IH [OF rest] order by (auto simp: add_to_groups_member)
qed (simp add: listed_in_def)

lemma list_step_meta:
  "foldE (list_step env) hs (groups, meta) = Inr (groups', meta') \<Longrightarrow> distinct (map fst hs) \<Longrightarrow>
   (name, attrs, gs) \<in> set hs \<Longrightarrow> map_of meta' name = Some (PDict attrs)"
proof (induction hs arbitrary: groups meta)
  case (Cons h hs)
  have keep: "foldE (list_step env) hs acc = Inr (groups', meta') \<Longrightarrow> k \<notin> fst ` set hs \<Longrightarrow> map_of meta' k = map_of (snd acc) k"
    for hs acc k
    by (induction hs arbitrary: acc) (force simp: list_step_def bindE_eq_Inr update_conv')+
  obtain n a g groups1 where h: "h = (n, a, g)"
    and rest: "foldE (list_step env) hs (groups1, dict_set n (PDict a) meta) = Inr (groups', meta')"
    using Cons.prems(1) by (cases h) (auto simp: list_step_def bindE_eq_Inr)
  show ?case
  proof (cases "(name, attrs, gs) = h")
    case True
    with h Cons.prems(2) keep [OF rest, of n] show ?thesis by (simp add: update_conv')
  next
    case False
    with Cons.prems(2,3) Cons.IH [OF rest] show ?thesis by auto
  qed
qed simp

lemma query_list_facts:
  assumes q: "query_list env (hs, None) = Inr d" and order: "\<forall>gs. set (group_order env gs) = set gs"
  shows "g \<noteq> ''_meta'' \<Longrightarrow> (\<exists>names. map_of d g = Some (PDict [(''hosts'', PList (map PStr names))]) \<and> n \<in> set names) \<longleftrightarrow>
      listed_in hs n g"
    and "\<exists>meta. map_of d ''_meta'' = Some (PDict [(''hostvars'', PDict meta)]) \<and>
      (distinct (map fst hs) \<longrightarrow> (\<forall>(name, attrs, gs) \<in> set hs. map_of meta name = Some (PDict attrs)))"
proof -
  obtain groups meta where f: "foldE (list_step env) hs ([], []) = Inr (groups, meta)"
    and d: "d = dict_set ''_meta'' (PDict [(''hostvars'', PDict meta)])
      (map (\<lambda>(g, names). (g, PDict [(''hosts'', PList (map PStr names))])) groups)"
    using q by (auto simp: query_list_def bindE_eq_Inr)
  have inj: "map PStr a = (map PStr b :: yaml list) \<longleftrightarrow> a = b" for a b by (simp add: inj_map_eq_map inj_def)
  show "(\<exists>names. map_of d g = Some (PDict [(''hosts'', PList (map PStr names))]) \<and> n \<in> set names) \<longleftrightarrow> listed_in hs n g"
    if "g \<noteq> ''_meta''"
    using list_step_groups [OF order f, of n g] that
    by (cases "map_of groups g") (auto simp: d update_conv' map_of_map inj dict_get_def)
  show "\<exists>meta. map_of d ''_meta'' = Some (PDict [(''hostvars'', PDict meta)]) \<and>
      (distinct (map fst hs) \<longrightarrow> (\<forall>(name, attrs, gs) \<in> set hs. map_of meta name = Some (PDict attrs)))"
    using list_step_meta [OF f] by (auto simp: d update_conv')
qed


definition tf_args :: "tf_env \<Rightarrow> bool \<Rightarrow> (string, argval) dict" where
  "tf_args env pretty =
     [(''list'', PBool True), (''host'', PNone), (''version'', PBool False), (''hostfile'', PBool False),
      (''pretty'', PBool pretty), (''nometa'', PBool False), (''root'', PStr (default_root env))]"

lemma tf_command_line:
  "parse_args (tf_parser env) [''--list''] = Inr (tf_args env False)"
  "parse_args (tf_parser env) [''--list'', ''--pretty''] = Inr (tf_args env True)"
  by (simp_all add: parse_args_def read_word_def find_flag_def all_options_def help_option_def
    expand_word_def value_for_def takes_value_def act_def convert_def
    parse_init_def tf_parser_def str_option_def switch_def missing_def tf_args_def)

text \<open>C8: The inventory that \<open>--list\<close> prints, pretty or not. When the hosts of the state files are read, the
  script prints one JSON text and ends with status 0; reading the text back gives a document in which a
  host is in a group exactly when it names that group (the unnamed group is \<open>all\<close>), and whose
  \<open>_meta\<close> holds the variables of every host.\<close>

theorem tf_list_output:
  assumes "tf_hosts env (default_root env) = Inr (hs, None)" and "query_list env (hs, None) = Inr d"
    and "json_doc (PDict d)" and "\<forall>gs. set (group_order env gs) = set gs" and "argv = [''--list''] \<or> argv = [''--list'', ''--pretty'']"
  shows "\<exists>s. terraform_main env argv = ([s], SystemExit 0) \<and> json_loads s = Inr (PDict d) \<and>
    (\<forall>n g. g \<noteq> ''_meta'' \<longrightarrow>
       ((\<exists>names. map_of d g = Some (PDict [(''hosts'', PList (map PStr names))]) \<and> n \<in> set names) \<longleftrightarrow>
        (\<exists>attrs gs x. (n, attrs, gs) \<in> set hs \<and> PStr x \<in> set gs \<and> g = (if x = [] then ''all'' else x)))) \<and>
    (\<exists>meta. map_of d ''_meta'' = Some (PDict [(''hostvars'', PDict meta)]) \<and>
      (distinct (map fst hs) \<longrightarrow> (\<forall>(name, attrs, gs) \<in> set hs. map_of meta name = Some (PDict attrs))))"
proof -
  obtain p where p: "parse_args (tf_parser env) argv = Inr (tf_args env p)" using assms(5) tf_command_line by blast
  obtain s where s: "json_dumps (tf_format env (tf_args env p)) (PDict d) = Inr s"
    using json_dump_total [OF assms(3)] unfolding json_dumps_def by blast
  have "json_loads s = Inr (PDict d)" by (rule json_round_trip [OF s assms(3)]) (simp add: tf_format_def)
  moreover have "tf_output env (tf_args env p) = Inr [s]"
    using assms(1,2) s by (simp add: tf_output_def tf_args_def dict_get_def)
  then have "terraform_main env argv = ([s], SystemExit 0)"
    by (simp add: terraform_main_def p) (simp add: tf_args_def dict_get_def)
  ultimately show ?thesis
    using query_list_facts(2) [OF assms(2,4)] query_list_facts(1) [OF assms(2,4), unfolded listed_in_def group_name_def]
    by (intro exI [of _ s] conjI allI impI) assumption+
qed

text \<open>A state file of version 4 with one device.\<close>

definition demo_state :: yaml where
  "demo_state =
     PDict [(''version'', PInt 4), (''resources'', PList [PDict
       [(''type'', PStr ''packet_device''), (''name'', PStr ''n''), (''provider'', PStr ''provider.packet''),
        (''instances'', PList [PDict [(''attributes'', PDict
          [(''id'', PStr ''i''), (''hostname'', PStr ''h1''), (''operating_system'', PStr ''u''), (''locked'', PBool False),
           (''plan'', PStr ''x''), (''project_id'', PStr ''p''), (''state'', PStr ''active''), (''network.0.address'', PStr ''1.1.1.1''),
           (''network.1.address'', PStr ''::1''), (''network.2.address'', PStr ''10.0.0.1''), (''tags'', PList [PStr ''kube''])])]])]])]"

definition demo_state_env :: tf_env where
  "demo_state_env = demo_tf_env\<lparr>walk := (\<lambda>_. [(''/srv'', [''a.tfstate'', ''b.txt''])]),
     file_text := (\<lambda>_. Some (case json_dumps \<lparr>indent = None, sort_keys = False, float_repr = (\<lambda>_. [])\<rparr> demo_state of Inr s \<Rightarrow> s | Inl _ \<Rightarrow> [])),
     variables := [(''TERRAFORM_STATE_ROOT'', ''/srv'')]\<rparr>"

definition demo_hosts :: "tf_host list" where
  "demo_hosts = (case tf_hosts demo_state_env ''/srv'' of Inr (hs, _) \<Rightarrow> hs | Inl _ \<Rightarrow> [])"

lemma demo_state_read:
  "tf_hosts demo_state_env (default_root demo_state_env) = Inr (demo_hosts, None)"
  "case query_list demo_state_env (demo_hosts, None) of Inr d \<Rightarrow> json_doc (PDict d) | Inl _ \<Rightarrow> False"
  "list_ex (\<lambda>(n, a, gs). n = ''h1'' \<and> List.member gs (PStr ''kube'')) demo_hosts"
  by code_simp+

theorem tf_list_output_witness:
  "\<exists>s d names. terraform_main demo_state_env [''--list''] = ([s], SystemExit 0) \<and> json_loads s = Inr (PDict d) \<and>
     map_of d ''kube'' = Some (PDict [(''hosts'', PList (map PStr names))]) \<and> ''h1'' \<in> set names"
proof -
  obtain d where d: "query_list demo_state_env (demo_hosts, None) = Inr d" "json_doc (PDict d)"
    using demo_state_read(2) by (auto split: sum.splits)
  obtain attrs gs where h: "(''h1'', attrs, gs) \<in> set demo_hosts" "PStr ''kube'' \<in> set gs"
    using demo_state_read(3) by (auto simp: list_ex_iff)
  have order: "\<forall>gs. set (group_order demo_state_env gs) = set gs" by (simp add: demo_state_env_def demo_tf_env_def)
  obtain s where s: "terraform_main demo_state_env [''--list''] = ([s], SystemExit 0)" "json_loads s = Inr (PDict d)"
    and groups: "\<forall>n g. g \<noteq> ''_meta'' \<longrightarrow>
       ((\<exists>names. map_of d g = Some (PDict [(''hosts'', PList (map PStr names))]) \<and> n \<in> set names) \<longleftrightarrow>
        (\<exists>attrs gs x. (n, attrs, gs) \<in> set demo_hosts \<and> PStr x \<in> set gs \<and> g = (if x = [] then ''all'' else x)))"
    using tf_list_output [OF demo_state_read(1) d order disjI1 [OF refl]] by (elim exE conjE)
  have "\<exists>attrs gs x. (''h1'', attrs, gs) \<in> set demo_hosts \<and> PStr x \<in> set gs \<and> ''kube'' = (if x = [] then ''all'' else x)"
    using h by (intro exI conjI) (assumption | simp)+
  then have "\<exists>names. map_of d ''kube'' = Some (PDict [(''hosts'', PList (map PStr names))]) \<and> ''h1'' \<in> set names"
    using groups [rule_format, of "''kube''" "''h1''"] by simp
  with s show ?thesis by (elim exE) (intro exI conjI, (assumption | simp)+)
qed

end
