(* ===== verification/Kubespray_Kube.thy ===== *)
theory Kubespray_Kube
  imports Py_Document
begin

text \<open>
  The Ansible module \<^verbatim>\<open>kubespray/library/kube.py\<close>: its documented options and its argument specification,
  the class \<open>KubeManager\<close> method by method, and \<open>main\<close>.

  \<open>AnsibleModule\<close> is a package the module calls. It checks and converts the parameters, so that they
  are the record \<open>module_params\<close> with the types of the argument specification; \<open>run_command\<close> gives the
  next of a list of answers and its argument is recorded; \<open>get_bin_path\<close> finds the program or fails with a message;
  \<open>fail_json\<close> and \<open>exit_json\<close> record what they report and end the program.

  The lemmas follow the commands that are run: \<open>guarded\<close> says what a removal may run, \<open>reporting\<close> that a
  program ends with a report.
\<close>

section \<open>Options\<close>

record arg_spec =
  arg_name :: string
  arg_default :: yaml
  arg_choices :: "string list"
  arg_aliases :: "string list"

definition plain_arg :: "string \<Rightarrow> yaml \<Rightarrow> arg_spec" where
  "plain_arg n d = \<lparr>arg_name = n, arg_default = d, arg_choices = [], arg_aliases = []\<rparr>"

text \<open>The options that the documentation lists, with their defaults, choices and aliases.\<close>

definition DOCUMENTATION_options :: "arg_spec list" where
  "DOCUMENTATION_options =
     [plain_arg ''name'' PNone,
      (plain_arg ''filename'' PNone)\<lparr>arg_aliases := [''files'', ''file'', ''filenames'']\<rparr>,
      plain_arg ''kubectl'' PNone,
      plain_arg ''namespace'' PNone,
      plain_arg ''resource'' PNone,
      plain_arg ''label'' PNone,
      plain_arg ''server'' PNone,
      plain_arg ''force'' (PBool False),
      plain_arg ''wait'' (PBool False),
      plain_arg ''all'' (PBool False),
      plain_arg ''log_level'' (PInt 0),
      (plain_arg ''state'' (PStr ''present''))\<lparr>arg_choices := [''present'', ''absent'', ''latest'', ''reloaded'', ''stopped'']\<rparr>,
      plain_arg ''recursive'' (PBool False)]"

definition argument_spec :: "arg_spec list" where
  "argument_spec =
     [plain_arg ''name'' PNone,
      (plain_arg ''filename'' PNone)\<lparr>arg_aliases := [''files'', ''file'', ''filenames'']\<rparr>,
      plain_arg ''namespace'' PNone,
      plain_arg ''resource'' PNone,
      plain_arg ''label'' PNone,
      plain_arg ''server'' PNone,
      plain_arg ''kubectl'' PNone,
      plain_arg ''force'' (PBool False),
      plain_arg ''wait'' (PBool False),
      plain_arg ''all'' (PBool False),
      plain_arg ''log_level'' (PInt 0),
      (plain_arg ''state'' (PStr ''present''))\<lparr>arg_choices := [''present'', ''absent'', ''latest'', ''reloaded'', ''stopped'']\<rparr>,
      plain_arg ''recursive'' (PBool False)]"

record module_params =
  p_name :: "string option"
  p_filename :: "string list option"
  p_namespace :: "string option"
  p_resource :: "string option"
  p_label :: "string option"
  p_server :: "string option"
  p_kubectl :: "string option"
  p_force :: bool
  p_wait :: bool
  p_all :: bool
  p_log_level :: int
  p_state :: string
  p_recursive :: bool

text \<open>The parameters of a task that sets none of them.\<close>

definition default_params :: module_params where
  "default_params = \<lparr>p_name = None, p_filename = None, p_namespace = None, p_resource = None, p_label = None,
     p_server = None, p_kubectl = None, p_force = False, p_wait = False, p_all = False, p_log_level = 0,
     p_state = ''present'', p_recursive = False\<rparr>"

text \<open>The tasks that the examples of the documentation show.\<close>

definition EXAMPLES :: "(string \<times> module_params) list" where
  "EXAMPLES =
     [(''test nginx is present'', default_params\<lparr>p_name := Some ''nginx'', p_resource := Some ''rc'', p_state := ''present''\<rparr>),
      (''test nginx is stopped'', default_params\<lparr>p_name := Some ''nginx'', p_resource := Some ''rc'', p_state := ''stopped''\<rparr>),
      (''test nginx is absent'', default_params\<lparr>p_name := Some ''nginx'', p_resource := Some ''rc'', p_state := ''absent''\<rparr>),
      (''test nginx is present'', default_params\<lparr>p_filename := Some [''/tmp/nginx.yml'']\<rparr>),
      (''test nginx and postgresql are present'', default_params\<lparr>p_filename := Some [''/tmp/nginx.yml'', ''/tmp/postgresql.yml'']\<rparr>),
      (''test nginx and postgresql are present'', default_params\<lparr>p_filename := Some [''/tmp/nginx.yml'', ''/tmp/postgresql.yml'']\<rparr>)]"

section \<open>The module and its world\<close>

datatype run_result = Ran int string string | RunError string

datatype report = Failed string | Exited bool string

record kube_world =
  answers :: "run_result list"
  commands :: "string list list"
  reported :: "report option"

type_synonym 'a kube_prog = "(kube_world, 'a) prog"

definition fail_json :: "string \<Rightarrow> 'a kube_prog" where
  "fail_json msg = seqS (modS (\<lambda>w. w\<lparr>reported := Some (Failed msg)\<rparr>)) (raiseS (SystemExit 1))"

definition exit_json :: "bool \<Rightarrow> string \<Rightarrow> 'a kube_prog" where
  "exit_json changed msg = seqS (modS (\<lambda>w. w\<lparr>reported := Some (Exited changed msg)\<rparr>)) (raiseS (SystemExit 0))"

definition run_command :: "string list \<Rightarrow> run_result kube_prog" where
  "run_command args = (\<lambda>w.
     let w' = w\<lparr>commands := commands w @ [args]\<rparr> in
     case answers w of [] \<Rightarrow> (Diverge, w') | a # as \<Rightarrow> (Return a, w'\<lparr>answers := as\<rparr>))"

text \<open>\<open>s.splitlines()\<close>: a carriage return and a line feed end one line together.\<close>

definition line_end :: "char \<Rightarrow> bool" where
  "line_end c \<longleftrightarrow> (of_char c :: nat) \<in> {10, 11, 12, 13, 28, 29, 30, 133}"

definition after_line :: "string \<Rightarrow> string" where
  "after_line s =
     (let r = dropWhile (\<lambda>c. \<not> line_end c) s in if startswith r [CHR 0x0D, CHR 0x0A] then drop 2 r else drop 1 r)"

lemma after_line_shorter:
  assumes "s \<noteq> []"
  shows "length (after_line s) < length s"
proof -
  have "length (if b then drop 2 r else drop 1 r) < n" if "length r \<le> n" "0 < n" for b n and r :: string
    using that by auto
  then show ?thesis using assms unfolding after_line_def Let_def by (simp add: length_dropWhile_le)
qed

function splitlines :: "string \<Rightarrow> string list" where
  "splitlines s = (if s = [] then [] else takeWhile (\<lambda>c. \<not> line_end c) s # splitlines (after_line s))"
  by pat_completeness auto
termination
  by (relation "measure length") (simp_all add: after_line_shorter)

declare splitlines.simps [simp del]

section \<open>KubeManager\<close>

record KubeManager =
  base_cmd :: "string list"
  m_all :: bool
  m_force :: bool
  m_wait :: bool
  m_name :: "string option"
  m_filename :: "string list"
  m_resource :: "string option"
  m_label :: "string option"
  m_recursive :: bool

definition set_str :: "string option \<Rightarrow> bool" where
  "set_str x \<longleftrightarrow> x \<noteq> None \<and> x \<noteq> Some []"

text \<open>An option with its value, when that is set.\<close>

definition arg_if_set :: "string \<Rightarrow> string option \<Rightarrow> string list" where
  "arg_if_set flag x = (case x of Some v \<Rightarrow> if v = [] then [] else [flag @ v] | None \<Rightarrow> [])"

definition KubeManager_init :: "string + string \<Rightarrow> module_params \<Rightarrow> KubeManager kube_prog" where
  "KubeManager_init bin_path p =
     bindS
       (case p_kubectl p of
          Some k \<Rightarrow> returnS k
        | None \<Rightarrow> (case bin_path of Inr k \<Rightarrow> returnS k | Inl msg \<Rightarrow> fail_json msg))
       (\<lambda>kubectl.
     returnS
       \<lparr>base_cmd = [kubectl] @ arg_if_set ''--server='' (p_server p) @
          (if p_log_level p \<noteq> 0 then [''--v='' @ str_int (p_log_level p)] else []) @
          arg_if_set ''--namespace='' (p_namespace p),
        m_all = p_all p, m_force = p_force p, m_wait = p_wait p, m_name = p_name p,
        m_filename = map py_strip (case p_filename p of Some fs \<Rightarrow> fs | None \<Rightarrow> []),
        m_resource = p_resource p, m_label = p_label p, m_recursive = p_recursive p\<rparr>)"

definition execute :: "KubeManager \<Rightarrow> string list \<Rightarrow> string list kube_prog" where
  "execute m cmd =
     (let args = base_cmd m @ cmd in
      bindS (run_command args) (\<lambda>a.
      case a of
        Ran rc out err \<Rightarrow>
          if rc \<noteq> 0 then
            fail_json (''error running kubectl ('' @ join '' '' args @ '') command (rc='' @ str_int rc @ ''), out='' @
              [CHR 0x27] @ out @ [CHR 0x27] @ '', err='' @ [CHR 0x27] @ err @ [CHR 0x27])
          else returnS (splitlines out)
      | RunError e \<Rightarrow> fail_json (''error running kubectl ('' @ join '' '' args @ '') command: '' @ e)))"

definition execute_nofail :: "KubeManager \<Rightarrow> string list \<Rightarrow> string list option kube_prog" where
  "execute_nofail m cmd =
     bindS (run_command (base_cmd m @ cmd)) (\<lambda>a.
     case a of
       Ran rc out err \<Rightarrow> returnS (if rc \<noteq> 0 then None else Some (splitlines out))
     | RunError e \<Rightarrow> raiseS PlainException)"

definition filename_arg :: "KubeManager \<Rightarrow> string" where
  "filename_arg m = ''--filename='' @ join '','' (m_filename m)"

definition recursive_arg :: "KubeManager \<Rightarrow> string list" where
  "recursive_arg m = (if m_recursive m then [''--recursive=True''] else [])"

text \<open>The arguments that select what a command acts on: the files, or the resource with its filters.\<close>

definition selected :: "KubeManager \<Rightarrow> string \<Rightarrow> string list \<Rightarrow> string list kube_prog" where
  "selected m msg flags =
     (if m_filename m \<noteq> [] then returnS ([filename_arg m] @ recursive_arg m)
      else if \<not> set_str (m_resource m) then fail_json msg
      else returnS (arg_if_set [] (m_resource m) @ arg_if_set [] (m_name m) @ arg_if_set ''--selector='' (m_label m) @ flags))"

definition kube_exists :: "KubeManager \<Rightarrow> bool kube_prog" where
  "kube_exists m =
     bindS (selected m ''resource required without filename'' (if m_all m then [''--all-namespaces''] else [])) (\<lambda>args.
     bindS (execute_nofail m ([''get''] @ args @ [''--no-headers''])) (\<lambda>result.
     returnS (case result of None \<Rightarrow> False | Some ls \<Rightarrow> ls \<noteq> [])))"

definition apply_cmd :: "KubeManager \<Rightarrow> bool \<Rightarrow> string \<Rightarrow> string list kube_prog" where
  "apply_cmd m force msg =
     (let cmd = [''apply''] @ (if force then [''--force''] else []) @ (if m_wait m then [''--wait''] else []) @ recursive_arg m in
      if m_filename m = [] then fail_json msg else execute m (cmd @ [filename_arg m]))"

definition kube_create :: "KubeManager \<Rightarrow> bool \<Rightarrow> bool \<Rightarrow> string list kube_prog" where
  "kube_create m check force =
     bindS (if check then kube_exists m else returnS False) (\<lambda>there.
     if there then returnS [] else apply_cmd m force ''filename required to create'')"

definition kube_replace :: "KubeManager \<Rightarrow> bool \<Rightarrow> string list kube_prog" where
  "kube_replace m force = apply_cmd m force ''filename required to reload''"

definition kube_delete :: "KubeManager \<Rightarrow> string list kube_prog" where
  "kube_delete m =
     bindS (if \<not> m_force m then kube_exists m else returnS True) (\<lambda>there.
     if \<not> there then returnS []
     else
       bindS (selected m ''resource required to delete without filename''
         ((if m_all m then [''--all''] else []) @ (if m_force m then [''--ignore-not-found''] else []) @ recursive_arg m)) (\<lambda>args.
       execute m ([''delete''] @ args)))"

definition kube_stop :: "KubeManager \<Rightarrow> string list kube_prog" where
  "kube_stop m =
     bindS (if \<not> m_force m then kube_exists m else returnS True) (\<lambda>there.
     if \<not> there then returnS []
     else
       bindS (selected m ''resource required to stop without filename''
         ((if m_all m then [''--all''] else []) @ (if m_force m then [''--ignore-not-found''] else []))) (\<lambda>args.
       execute m ([''stop''] @ args)))"

section \<open>Main\<close>

definition perform :: "KubeManager \<Rightarrow> string \<Rightarrow> string list kube_prog" where
  "perform m st =
     (if st = ''present'' then kube_create m False True
      else if st = ''absent'' then kube_delete m
      else if st = ''reloaded'' then kube_replace m True
      else if st = ''stopped'' then kube_stop m
      else if st = ''latest'' then kube_replace m True
      else fail_json (''Unrecognized state '' @ st @ ''.''))"

definition kube_main :: "string + string \<Rightarrow> module_params \<Rightarrow> unit kube_prog" where
  "kube_main bin_path p =
     bindS (KubeManager_init bin_path p) (\<lambda>m.
     bindS (perform m (p_state p)) (\<lambda>result.
     exit_json False (''success: '' @ join '' '' result)))"


section \<open>Commands that are run\<close>

lemma splitlines_Nil_iff [simp]: "splitlines s = [] \<longleftrightarrow> s = []"
  by (simp add: splitlines.simps)

lemma selected_cases:
  obtains args where "selected m msg fl = returnS args" | "selected m msg fl = fail_json msg"
  unfolding selected_def by metis

lemma fail_json_run: "fail_json msg w = (Raise (SystemExit 1), w\<lparr>reported := Some (Failed msg)\<rparr>)"
  by (simp add: fail_json_def seqS_def bindS_def modS_def)

lemma exit_json_run: "exit_json c msg w = (Raise (SystemExit 0), w\<lparr>reported := Some (Exited c msg)\<rparr>)"
  by (simp add: exit_json_def seqS_def bindS_def modS_def)

lemma run_command_run:
  "run_command args w = (case answers w of
     [] \<Rightarrow> (Diverge, w\<lparr>commands := commands w @ [args]\<rparr>)
   | a # as \<Rightarrow> (Return a, w\<lparr>commands := commands w @ [args], answers := as\<rparr>))"
  by (simp add: run_command_def Let_def)

lemma execute_runs: "execute m cmd w = (r, w') \<Longrightarrow> commands w' = commands w @ [base_cmd m @ cmd]"
  by (auto simp: execute_def bindS_def run_command_run fail_json_run Let_def split: list.splits run_result.splits if_splits)

lemma execute_nofail_runs:
  "execute_nofail m cmd w = (r, w') \<Longrightarrow> commands w' = commands w @ [base_cmd m @ cmd] \<and>
   (\<forall>ls. r = Return (Some ls) \<longrightarrow> (\<exists>out err rest. answers w = Ran 0 out err # rest \<and> ls = splitlines out))"
  by (auto simp: execute_nofail_def bindS_def run_command_run split: list.splits run_result.splits if_splits)

text \<open>Whether something is there is asked by one \<open>get\<close>, and it is there when this prints something.\<close>

definition get_cmd :: "KubeManager \<Rightarrow> string list \<Rightarrow> string list" where
  "get_cmd m sel = base_cmd m @ [''get''] @ sel @ [''--no-headers'']"

definition found_by :: "kube_world \<Rightarrow> bool" where
  "found_by w \<longleftrightarrow> (\<exists>out err rest. answers w = Ran 0 out err # rest \<and> out \<noteq> [])"

lemma kube_exists_runs:
  assumes "kube_exists m w = (r, w')"
  shows "commands w' = commands w \<and> (\<forall>b. r \<noteq> Return b) \<or>
    (\<exists>sel. commands w' = commands w @ [get_cmd m sel]) \<and> (r = Return True \<longrightarrow> found_by w)"
proof (rule selected_cases [of m "''resource required without filename''" "if m_all m then [''--all-namespaces''] else []"])
  fix args assume "selected m ''resource required without filename'' (if m_all m then [''--all-namespaces''] else []) = returnS args"
  with assms have run: "bindS (execute_nofail m ([''get''] @ args @ [''--no-headers'']))
      (\<lambda>result. returnS (case result of None \<Rightarrow> False | Some ls \<Rightarrow> ls \<noteq> [])) w = (r, w')"
    by (simp add: kube_exists_def bindS_def)
  obtain r1 w1 where 1: "execute_nofail m ([''get''] @ args @ [''--no-headers'']) w = (r1, w1)" by fastforce
  have "commands w1 = commands w @ [get_cmd m args]" using execute_nofail_runs [OF 1] by (simp add: get_cmd_def)
  moreover have "w' = w1" using run 1 by (cases r1) (simp_all add: bindS_def)
  moreover have "found_by w" if "r = Return True"
  proof -
    from that run 1 obtain ls where "r1 = Return (Some ls)" "ls \<noteq> []"
      by (cases r1) (auto simp: bindS_def split: option.splits)
    then show ?thesis using execute_nofail_runs [OF 1] by (auto simp: found_by_def)
  qed
  ultimately show ?thesis by blast
next
  assume "selected m ''resource required without filename'' (if m_all m then [''--all-namespaces''] else []) = fail_json ''resource required without filename''"
  with assms show ?thesis by (auto simp: kube_exists_def bindS_def fail_json_run)
qed


text \<open>What deleting and stopping share: without force, nothing but \<open>get\<close> is run unless something was found.\<close>

definition guarded :: "KubeManager \<Rightarrow> string \<Rightarrow> kube_world \<Rightarrow> string list list \<Rightarrow> bool" where
  "guarded m verb w cs \<longleftrightarrow> cs = [] \<or> (\<exists>sel. cs = [get_cmd m sel]) \<or>
     (\<exists>sel sel'. cs = [get_cmd m sel, base_cmd m @ [verb] @ sel'] \<and> found_by w)"

lemma removal_runs:
  assumes run: "bindS (kube_exists m) (\<lambda>there. if \<not> there then returnS [] else
      bindS (selected m msg fl) (\<lambda>args. execute m ([verb] @ args))) w = (r, w')"
  shows "\<exists>cs. commands w' = commands w @ cs \<and> guarded m verb w cs"
proof -
  obtain r1 w1 where 1: "kube_exists m w = (r1, w1)" by fastforce
  note exists = kube_exists_runs [OF 1]
  show ?thesis
  proof (cases "r1 = Return True")
    case True
    then obtain sel where sel: "commands w1 = commands w @ [get_cmd m sel]" "found_by w" using exists by auto
    have rest: "bindS (selected m msg fl) (\<lambda>args. execute m ([verb] @ args)) w1 = (r, w')"
      using run 1 True by (simp add: bindS_def)
    show ?thesis
    proof (rule selected_cases [of m msg fl])
      fix args assume "selected m msg fl = returnS args"
      with rest have "execute m ([verb] @ args) w1 = (r, w')" by (simp add: bindS_def)
      then have "commands w' = commands w @ [get_cmd m sel, base_cmd m @ [verb] @ args]"
        using execute_runs sel(1) by fastforce
      then show ?thesis using sel(2) unfolding guarded_def by blast
    next
      assume "selected m msg fl = fail_json msg"
      with rest have "commands w' = commands w1" by (auto simp: bindS_def fail_json_run)
      then show ?thesis using sel(1) unfolding guarded_def by auto
    qed
  next
    case False
    then have "w' = w1" using run 1 by (cases r1) (auto simp: bindS_def)
    then show ?thesis using exists unfolding guarded_def by auto
  qed
qed

lemma perform_runs:
  assumes "st = ''absent'' \<or> st = ''stopped''" "\<not> m_force m" "perform m st w = (r, w')"
  shows "\<exists>cs. commands w' = commands w @ cs \<and> guarded m (if st = ''absent'' then ''delete'' else ''stop'') w cs"
proof -
  have del: "\<exists>cs. commands w' = commands w @ cs \<and> guarded m ''delete'' w cs" if "kube_delete m w = (r, w')"
    using that assms(2) unfolding kube_delete_def by (simp only: simp_thms if_True) (rule removal_runs)
  have stop: "\<exists>cs. commands w' = commands w @ cs \<and> guarded m ''stop'' w cs" if "kube_stop m w = (r, w')"
    using that assms(2) unfolding kube_stop_def by (simp only: simp_thms if_True) (rule removal_runs)
  show ?thesis using assms(1,3) del stop by (auto simp: perform_def)
qed

text \<open>Everything ends with a report, except when the program cannot be run or does not answer.\<close>

definition reporting :: "'a kube_prog \<Rightarrow> bool" where
  "reporting m \<longleftrightarrow> (\<forall>w e w'. m w = (Raise e, w') \<longrightarrow> e = PlainException \<or> e = SystemExit 1 \<and> (\<exists>msg. reported w' = Some (Failed msg)))"

lemma reporting_bindS: "reporting m \<Longrightarrow> (\<And>x. reporting (f x)) \<Longrightarrow> reporting (bindS m f)"
  unfolding reporting_def bindS_def by (auto split: prod.splits outcome.splits)

lemma reporting_basic:
  "reporting (returnS x)" "reporting (fail_json msg)" "reporting (run_command args)"
  by (auto simp: reporting_def fail_json_run run_command_run split: list.splits)

lemma reporting_raise: "reporting (raiseS PlainException)"
  by (simp add: reporting_def)

lemma reporting_execute: "reporting (execute m cmd)" "reporting (execute_nofail m cmd)"
  unfolding execute_def execute_nofail_def Let_def
  by (auto intro!: reporting_bindS reporting_basic reporting_raise split: run_result.split)

lemma reporting_perform: "reporting (perform m st)"
proof -
  have sel: "reporting (selected m msg fl)" for msg fl by (simp add: selected_def reporting_basic)
  have ex: "reporting (kube_exists m)" by (simp add: kube_exists_def sel reporting_bindS reporting_execute reporting_basic)
  have ap: "reporting (apply_cmd m f msg)" for f msg by (simp add: apply_cmd_def reporting_basic reporting_execute Let_def)
  show ?thesis
    by (simp add: perform_def kube_create_def kube_delete_def kube_replace_def kube_stop_def sel ex ap
      reporting_bindS reporting_execute reporting_basic)
qed

lemma reporting_init: "reporting (KubeManager_init bin p)"
  unfolding KubeManager_init_def by (intro reporting_bindS) (auto simp: reporting_basic split: option.split sum.split)

lemma kube_main_ends:
  assumes "kube_main bin p w = (r, w')"
  shows "r = Diverge \<or> r = Raise PlainException \<or> r = Raise (SystemExit 1) \<and> (\<exists>msg. reported w' = Some (Failed msg)) \<or>
    r = Raise (SystemExit 0) \<and> (\<exists>msg. reported w' = Some (Exited False msg))"
proof -
  have "reporting (bindS (KubeManager_init bin p) (\<lambda>m. perform m (p_state p)))"
    by (intro reporting_bindS reporting_init reporting_perform)
  moreover obtain r1 w1 where 1: "bindS (KubeManager_init bin p) (\<lambda>m. perform m (p_state p)) w = (r1, w1)" by fastforce
  moreover have "bindS (bindS (KubeManager_init bin p) (\<lambda>m. perform m (p_state p)))
      (\<lambda>result. exit_json False (''success: '' @ join '' '' result)) w = (r, w')"
    using assms unfolding kube_main_def bindS_assoc .
  ultimately show ?thesis by (cases r1) (auto simp: reporting_def exit_json_run)
qed


lemma KubeManager_init_cases:
  obtains m where "KubeManager_init bin p = returnS m" "m_force m = p_force p" | msg where "KubeManager_init bin p = fail_json msg"
proof (cases "p_kubectl p = None \<and> (\<exists>msg. bin = Inl msg)")
  case True
  then obtain msg where "p_kubectl p = None" "bin = Inl msg" by blast
  then have "KubeManager_init bin p = fail_json msg" by (simp add: KubeManager_init_def bindS_def fail_json_run fun_eq_iff)
  then show ?thesis by (rule that(2))
next
  case False
  then show ?thesis using that(1)
    by (cases "p_kubectl p"; cases bin) (auto simp: KubeManager_init_def bindS_def fun_eq_iff)
qed

text \<open>C14: Without \<open>force\<close>, the states \<open>absent\<close> and \<open>stopped\<close> touch nothing that was not found. Whatever kubectl
  answers, the module runs at most one \<open>get\<close> and then at most one \<open>delete\<close> (or \<open>stop\<close>), and the second only when
  the first succeeded and printed something. The module ends with a report, and never reports a change; the
  exceptions are a kubectl that cannot be run while looking, and one that does not answer.\<close>

theorem kube_removal_guarded:
  assumes "p_state p = ''absent'' \<or> p_state p = ''stopped''" and "\<not> p_force p" and "kube_main bin p w = (r, w')"
  shows "(\<exists>base cs. commands w' = commands w @ cs \<and>
      (cs = [] \<or> (\<exists>sel. cs = [base @ [''get''] @ sel @ [''--no-headers'']]) \<or>
       (\<exists>sel sel' out err rest. cs = [base @ [''get''] @ sel @ [''--no-headers''],
            base @ [if p_state p = ''absent'' then ''delete'' else ''stop''] @ sel'] \<and>
          answers w = Ran 0 out err # rest \<and> out \<noteq> []))) \<and>
    (r = Diverge \<or> r = Raise PlainException \<or> r = Raise (SystemExit 1) \<and> (\<exists>msg. reported w' = Some (Failed msg)) \<or>
     r = Raise (SystemExit 0) \<and> (\<exists>msg. reported w' = Some (Exited False msg)))"
proof (rule conjI [OF _ kube_main_ends [OF assms(3)]], rule KubeManager_init_cases [of bin p])
  fix m assume m: "KubeManager_init bin p = returnS m" "m_force m = p_force p"
  obtain r1 w1 where 1: "perform m (p_state p) w = (r1, w1)" by fastforce
  obtain cs where cs: "commands w1 = commands w @ cs" "guarded m (if p_state p = ''absent'' then ''delete'' else ''stop'') w cs"
    using perform_runs [OF assms(1) _ 1] m(2) assms(2) by blast
  have "commands w' = commands w1"
    using assms(3) m(1) 1 by (cases r1) (auto simp: kube_main_def bindS_def exit_json_run)
  with cs show "\<exists>base cs. commands w' = commands w @ cs \<and>
      (cs = [] \<or> (\<exists>sel. cs = [base @ [''get''] @ sel @ [''--no-headers'']]) \<or>
       (\<exists>sel sel' out err rest. cs = [base @ [''get''] @ sel @ [''--no-headers''],
            base @ [if p_state p = ''absent'' then ''delete'' else ''stop''] @ sel'] \<and>
          answers w = Ran 0 out err # rest \<and> out \<noteq> []))"
    unfolding guarded_def get_cmd_def found_by_def
    by (intro exI [of _ "base_cmd m"] exI [of _ cs]) simp
qed (use assms(3) in \<open>auto simp: kube_main_def bindS_def fail_json_run\<close>)

definition demo_kube_world :: kube_world where
  "demo_kube_world = \<lparr>answers = [Ran 0 ''nginx'' [], Ran 0 ''deleted'' []], commands = [], reported = None\<rparr>"

theorem kube_removal_guarded_witness:
  "\<exists>r w' base sel sel'. kube_main (Inr ''kubectl'') (snd (EXAMPLES ! 2)) demo_kube_world = (r, w') \<and>
     commands w' = [base @ [''get''] @ sel @ [''--no-headers''], base @ [''delete''] @ sel']"
proof -
  let ?p = "snd (EXAMPLES ! 2)"
  obtain r w' where run: "kube_main (Inr ''kubectl'') ?p demo_kube_world = (r, w')" by fastforce
  have "length (commands (snd (kube_main (Inr ''kubectl'') ?p demo_kube_world))) = 2" by code_simp
  then have two: "length (commands w') = 2" using run by simp
  have p: "p_state ?p = ''absent'' \<or> p_state ?p = ''stopped''" "\<not> p_force ?p" and absent: "p_state ?p = ''absent''" by code_simp+
  have "commands demo_kube_world = []" by (simp add: demo_kube_world_def)
  with kube_removal_guarded [OF p run, THEN conjunct1, unfolded absent] two
  obtain base sel sel' where "commands w' = [base @ [''get''] @ sel @ [''--no-headers''], base @ [''delete''] @ sel']"
    by auto
  with run show ?thesis by blast
qed


end
