(* ===== verification/Py_Datetime.thy ===== *)
theory Py_Datetime
  imports Py_Document
begin

text \<open>
  The standard library's \<^verbatim>\<open>datetime\<close>, as far as the cleanup scripts use it: a \<open>datetime\<close> is the number of
  microseconds since the beginning of year 1, a \<open>timedelta\<close> a number of microseconds;
  \<open>strptime\<close> for one format, and \<open>fromisoformat\<close> as in Python 3.7 to 3.10 (later versions read more
  texts).
\<close>

section \<open>The calendar\<close>

definition leap_year :: "nat \<Rightarrow> bool" where
  "leap_year y \<longleftrightarrow> y mod 4 = 0 \<and> (y mod 100 \<noteq> 0 \<or> y mod 400 = 0)"

definition days_in_month :: "nat \<Rightarrow> nat \<Rightarrow> nat" where
  "days_in_month y m = (if m = 2 then if leap_year y then 29 else 28 else if m \<in> {4, 6, 9, 11} then 30 else 31)"

definition days_before_year :: "nat \<Rightarrow> nat" where
  "days_before_year y = (let p = y - 1 in p * 365 + p div 4 - p div 100 + p div 400)"

definition days_before_month :: "nat \<Rightarrow> nat \<Rightarrow> nat" where
  "days_before_month y m = sum_list (map (days_in_month y) [1 ..< m])"

definition valid_date :: "nat \<Rightarrow> nat \<Rightarrow> nat \<Rightarrow> bool" where
  "valid_date y m d \<longleftrightarrow> 1 \<le> y \<and> y \<le> 9999 \<and> 1 \<le> m \<and> m \<le> 12 \<and> 1 \<le> d \<and> d \<le> days_in_month y m"

text \<open>Days since the first day of year 1.\<close>

definition day_number :: "nat \<Rightarrow> nat \<Rightarrow> nat \<Rightarrow> int" where
  "day_number y m d = int (days_before_year y + days_before_month y m + (d - 1))"

definition usec :: int where
  "usec = 1000000"

definition usec_per_day :: int where
  "usec_per_day = 86400 * usec"

definition clock_usec :: "nat \<Rightarrow> nat \<Rightarrow> nat \<Rightarrow> nat \<Rightarrow> int" where
  "clock_usec h mi s us = (int h * 3600 + int mi * 60 + int s) * usec + int us"

definition make_datetime :: "nat \<Rightarrow> nat \<Rightarrow> nat \<Rightarrow> nat \<Rightarrow> nat \<Rightarrow> nat \<Rightarrow> nat \<Rightarrow> int res" where
  "make_datetime y m d h mi s us =
     (if valid_date y m d \<and> h < 24 \<and> mi < 60 \<and> s < 60 \<and> us < 1000000
      then Inr (day_number y m d * usec_per_day + clock_usec h mi s us) else Inl ValueError)"

text \<open>The last microsecond that a \<open>datetime\<close> can hold, a \<open>timedelta\<close> of days or hours, and \<open>t - delta\<close>.\<close>

definition max_datetime :: int where
  "max_datetime = (day_number 9999 12 31 + 1) * usec_per_day - 1"

definition make_timedelta :: "int \<Rightarrow> int res" where
  "make_timedelta us = (if \<bar>us div usec_per_day\<bar> \<le> 999999999 then Inr us else Inl OverflowError)"

definition datetime_minus :: "int \<Rightarrow> int \<Rightarrow> int res" where
  "datetime_minus t delta = (if 0 \<le> t - delta \<and> t - delta \<le> max_datetime then Inr (t - delta) else Inl OverflowError)"

section \<open>Reading a time\<close>

text \<open>A field of one or two digits between two bounds, and one of an exact number of digits.\<close>

definition short_field :: "nat \<Rightarrow> nat \<Rightarrow> string \<Rightarrow> nat res" where
  "short_field lo hi s =
     (if list_all is_digit s \<and> (length s = 1 \<or> length s = 2) \<and> lo \<le> nat_of_digits s \<and> nat_of_digits s \<le> hi
      then Inr (nat_of_digits s) else Inl ValueError)"

definition exact_field :: "nat \<Rightarrow> string \<Rightarrow> nat res" where
  "exact_field n s = (if length s = n \<and> list_all is_digit s then Inr (nat_of_digits s) else Inl ValueError)"

text \<open>\<open>strptime(s, '%Y-%m-%dT%H:%M:%SZ')\<close>. The letters match in both cases, and a day of one digit may have
  a blank before it; 60 and 61 are read as seconds but no \<open>datetime\<close> has them.\<close>

definition day_field :: "string \<Rightarrow> nat res" where
  "day_field s = short_field 1 31 (if length s = 2 \<and> hd s = CHR '' '' then tl s else s)"

definition read_clock :: "string \<Rightarrow> (nat \<times> nat \<times> nat) res" where
  "read_clock s =
     (case split_on CHR '':'' s of
        [h, mi, sec] \<Rightarrow>
          bindE (short_field 0 23 h) (\<lambda>h. bindE (short_field 0 59 mi) (\<lambda>mi. bindE (short_field 0 61 sec) (\<lambda>sec. Inr (h, mi, sec))))
      | _ \<Rightarrow> Inl ValueError)"

definition read_day :: "string \<Rightarrow> (nat \<times> nat \<times> nat) res" where
  "read_day s =
     (case split_on CHR ''-'' s of
        [y, m, d] \<Rightarrow>
          bindE (exact_field 4 y) (\<lambda>y. bindE (short_field 1 12 m) (\<lambda>m. bindE (day_field d) (\<lambda>d. Inr (y, m, d))))
      | _ \<Rightarrow> Inl ValueError)"

definition strptime_utc :: "string \<Rightarrow> int res" where
  "strptime_utc s =
     (case split_on CHR ''T'' (map (\<lambda>c. if c = CHR ''t'' then CHR ''T'' else c) s) of
        [date, rest] \<Rightarrow>
          if rest \<noteq> [] \<and> lower_char (last rest) = CHR ''z'' then
            bindE (read_day date) (\<lambda>(y, m, d). bindE (read_clock (butlast rest)) (\<lambda>(h, mi, sec).
            make_datetime y m d h mi sec 0))
          else Inl ValueError
      | _ \<Rightarrow> Inl ValueError)"

text \<open>\<open>datetime.fromisoformat(s)\<close>: the date, and after any one character the time with up to six digits
  of a fraction (three or six) and an offset. The result is the time and its offset, if it has one.\<close>

fun iso_clock :: "string list \<Rightarrow> (nat \<times> nat \<times> nat) res" where
  "iso_clock [h] = bindE (exact_field 2 h) (\<lambda>h. Inr (h, 0, 0))"
| "iso_clock [h, mi] = bindE (exact_field 2 h) (\<lambda>h. bindE (exact_field 2 mi) (\<lambda>mi. Inr (h, mi, 0)))"
| "iso_clock [h, mi, s] =
     bindE (exact_field 2 h) (\<lambda>h. bindE (exact_field 2 mi) (\<lambda>mi. bindE (exact_field 2 s) (\<lambda>s. Inr (h, mi, s))))"
| "iso_clock _ = Inl ValueError"

definition iso_fraction :: "string \<Rightarrow> nat res" where
  "iso_fraction f =
     (if length f = 3 then bindE (exact_field 3 f) (\<lambda>n. Inr (n * 1000)) else exact_field 6 f)"

definition iso_time :: "string \<Rightarrow> (nat \<times> nat \<times> nat \<times> nat) res" where
  "iso_time s =
     (case split_on CHR ''.'' s of
        [c] \<Rightarrow> bindE (iso_clock (split_on CHR '':'' c)) (\<lambda>(h, mi, sec). Inr (h, mi, sec, 0))
      | [c, f] \<Rightarrow>
          if length c = 8 then
            bindE (iso_clock (split_on CHR '':'' c)) (\<lambda>(h, mi, sec). bindE (iso_fraction f) (\<lambda>us. Inr (h, mi, sec, us)))
          else Inl ValueError
      | _ \<Rightarrow> Inl ValueError)"

text \<open>An offset has at least hours and minutes and is less than a day.\<close>

definition iso_offset :: "string \<Rightarrow> int option res" where
  "iso_offset s =
     (case s of
        [] \<Rightarrow> Inr None
      | c # t \<Rightarrow>
          if length t < 5 then Inl ValueError
          else
            bindE (iso_time t) (\<lambda>(h, mi, sec, us).
            if h < 24 \<and> mi < 60 \<and> sec < 60
            then Inr (Some ((if c = CHR ''-'' then -1 else 1) * clock_usec h mi sec us)) else Inl ValueError))"

definition fromisoformat :: "string \<Rightarrow> (int \<times> int option) res" where
  "fromisoformat s =
     (case split_on CHR ''-'' (take 10 s) of
        [y, m, d] \<Rightarrow>
          bindE (exact_field 4 y) (\<lambda>y. bindE (exact_field 2 m) (\<lambda>m. bindE (exact_field 2 d) (\<lambda>d.
          if length s = 10 then bindE (make_datetime y m d 0 0 0 0) (\<lambda>t. Inr (t, None))
          else
            (let sign = (\<lambda>c. c = CHR ''+'' \<or> c = CHR ''-''); r = drop 11 s in
             bindE (iso_time (takeWhile (\<lambda>c. \<not> sign c) r)) (\<lambda>(h, mi, sec, us).
             bindE (iso_offset (dropWhile (\<lambda>c. \<not> sign c) r)) (\<lambda>off.
             bindE (make_datetime y m d h mi sec us) (\<lambda>t. Inr (t, off))))))))
      | _ \<Rightarrow> Inl ValueError)"

end
