(* ===== verification/Py_Hash.thy ===== *)
theory Py_Hash
  imports Py_Document
begin

text \<open>
  \<open>hashlib.sha256(b).hexdigest()\<close> (FIPS 180-4): padding to blocks of 64 bytes, the message schedule and
  the compression of a block, all on 32-bit words.
\<close>

unbundle bit_operations_syntax

type_synonym u32 = "32 word"

text \<open>The constants are the first 32 bits of the fractional parts of the square roots (initial state) and of
  the cube roots (rounds) of the first primes. The root is found bit by bit: \<open>int_root k n\<close> is the greatest
  number below \<open>2 ^ 36\<close> whose \<open>k\<close>th power is at most \<open>n\<close>.\<close>

definition small_primes :: "int list" where
  "small_primes = filter (\<lambda>p. list_all (\<lambda>d. p mod d \<noteq> 0) [2 .. p - 1]) [2 .. 311]"

fun root_search :: "nat \<Rightarrow> int \<Rightarrow> nat \<Rightarrow> int \<Rightarrow> int" where
  "root_search k n 0 r = r"
| "root_search k n (Suc b) r = root_search k n b (if (r + 2 ^ b) ^ k \<le> n then r + 2 ^ b else r)"

definition int_root :: "nat \<Rightarrow> int \<Rightarrow> int" where
  "int_root k n = root_search k n 36 0"

definition root_fraction :: "nat \<Rightarrow> int \<Rightarrow> u32" where
  "root_fraction k p = word_of_int (int_root k (p * 2 ^ (32 * k)))"

definition sha256_K :: "u32 list" where
  "sha256_K = map (root_fraction 3) small_primes"

definition sha256_H :: "u32 list" where
  "sha256_H = map (root_fraction 2) (take 8 small_primes)"

text \<open>The bytes with a one bit, zeros, and their number of bits in eight bytes.\<close>

definition be_bytes :: "nat \<Rightarrow> nat \<Rightarrow> bytes" where
  "be_bytes n v = map (\<lambda>i. of_nat (v div 256 ^ (n - 1 - i))) [0 ..< n]"

definition sha256_pad :: "bytes \<Rightarrow> bytes" where
  "sha256_pad b = b @ [0x80] @ replicate ((119 - length b mod 64) mod 64) 0 @ be_bytes 8 (8 * length b)"

fun be_words :: "bytes \<Rightarrow> u32 list" where
  "be_words (a # b # c # d # r) =
     word_of_int (((uint a * 256 + uint b) * 256 + uint c) * 256 + uint d) # be_words r"
| "be_words _ = []"

definition schedule_next :: "u32 list \<Rightarrow> u32" where
  "schedule_next w =
     (let n = length w; x = w ! (n - 15); y = w ! (n - 2);
          s0 = word_rotr 7 x XOR word_rotr 18 x XOR drop_bit 3 x;
          s1 = word_rotr 17 y XOR word_rotr 19 y XOR drop_bit 10 y in
      w ! (n - 16) + s0 + w ! (n - 7) + s1)"

definition sha256_schedule :: "u32 list \<Rightarrow> u32 list" where
  "sha256_schedule w = fold (\<lambda>_ w. w @ [schedule_next w]) [0 ..< 48] w"

fun sha256_round :: "u32 \<times> u32 \<Rightarrow> u32 list \<Rightarrow> u32 list" where
  "sha256_round (k, w) [a, b, c, d, e, f, g, h] =
     (let s1 = word_rotr 6 e XOR word_rotr 11 e XOR word_rotr 25 e;
          ch = (e AND f) XOR (NOT e AND g);
          t1 = h + s1 + ch + k + w;
          s0 = word_rotr 2 a XOR word_rotr 13 a XOR word_rotr 22 a;
          maj = (a AND b) XOR (a AND c) XOR (b AND c) in
      [t1 + s0 + maj, a, b, c, d + t1, e, f, g])"
| "sha256_round _ st = st"

definition sha256_block :: "u32 list \<Rightarrow> u32 list \<Rightarrow> u32 list" where
  "sha256_block st w = map2 (+) st (fold sha256_round (zip sha256_K (sha256_schedule w)) st)"

function sha256_blocks :: "u32 list \<Rightarrow> u32 list \<Rightarrow> u32 list" where
  "sha256_blocks st ws = (if ws = [] then st else sha256_blocks (sha256_block st (take 16 ws)) (drop 16 ws))"
  by pat_completeness auto
termination
  by (relation "measure (\<lambda>(st, ws). length ws)") auto

declare sha256_blocks.simps [simp del]

definition hex8 :: "u32 \<Rightarrow> string" where
  "hex8 w = map (\<lambda>i. ''0123456789abcdef'' ! unat (drop_bit (4 * i) w AND 15)) [7, 6, 5, 4, 3, 2, 1, 0]"

definition sha256_hexdigest :: "bytes \<Rightarrow> string" where
  "sha256_hexdigest b = concat (map hex8 (sha256_blocks sha256_H (be_words (sha256_pad b))))"

lemma root_search_bounds:
  assumes "0 \<le> r" "r ^ k \<le> n" "n < (r + 2 ^ b) ^ k"
  shows "root_search k n b r ^ k \<le> n \<and> n < (root_search k n b r + 1) ^ k"
  using assms
proof (induction b arbitrary: r)
  case (Suc b)
  show ?case
  proof (cases "(r + 2 ^ b) ^ k \<le> n")
    case True
    with Suc.prems Suc.IH [of "r + 2 ^ b"] show ?thesis by (simp add: algebra_simps)
  next
    case False
    with Suc.prems Suc.IH [of r] show ?thesis by simp
  qed
qed simp

lemma length_hex8 [simp]: "length (hex8 w) = 8"
  by (simp add: hex8_def)

end
