(* ===== verification/Kubespray_Scripts.thy ===== *)
theory Kubespray_Scripts
  imports Py_Json Py_Argparse Py_Datetime Py_Hash
begin

text \<open>
  The smaller scripts of Kubespray: the AWS inventory
  \<^verbatim>\<open>contrib/aws_inventory/kubespray-aws-inventory.py\<close>, the update of checksums
  \<^verbatim>\<open>scripts/download_hash.py\<close>, the cleanup of OpenStack resources \<^verbatim>\<open>scripts/openstack-cleanup/main.py\<close> and
  of GitLab branches \<^verbatim>\<open>scripts/gitlab-branch-cleanup/main.py\<close>; and the installers
  \<^verbatim>\<open>kubespray/setup.py\<close>, \<^verbatim>\<open>kubespray/contrib/inventory_builder/setup.py\<close> and \<^verbatim>\<open>client/python/setup.py\<close>.

  The services they talk to (EC2, web servers, OpenStack, GitLab) and the packages for them are
  parameters: what a query returns, and whether a deletion succeeds. Deletions and printed lines are
  recorded in order.
\<close>

section \<open>AWS inventory\<close>

record ec2_instance =
  private_dns_name :: string
  private_ip_address :: yaml
  public_dns_name :: string
  public_ip_address :: yaml  \<comment> \<open>\<open>None\<close> without a public address\<close>
  tags :: "(string \<times> string) list"  \<comment> \<open>key and value\<close>

type_synonym ec2_filter = "string \<times> string list"  \<comment> \<open>name and values\<close>

record aws_env =
  aws_environ :: "(string, string) dict"
  ec2_instances :: "string \<Rightarrow> ec2_filter list \<Rightarrow> ec2_instance list"  \<comment> \<open>by region and filters\<close>
  aws_float :: "rat \<Rightarrow> string"

definition vpc_visibility :: "(string, string) dict \<Rightarrow> string" where
  "vpc_visibility env = dict_get env ''VPC_VISIBILITY'' ''private''"

definition aws_parser :: parser where
  "aws_parser = \<lparr>options = [switch [''--list''] ''list'', switch [''--host''] ''host''], positionals = [],
     exclusive = [], exclusive_required = False\<rparr>"

definition ec2_filters :: "string \<Rightarrow> string option \<Rightarrow> ec2_filter list" where
  "ec2_filters grp cluster_name =
     [(''tag:kubespray-role'', [''*'' @ grp @ ''*'']), (''instance-state-name'', [''running''])] @
     (case cluster_name of
        Some c \<Rightarrow> if c = [] then [] else [(''tag-key'', [''kubernetes.io/cluster/'' @ c])]
      | None \<Rightarrow> [])"

definition node_labels :: "string \<Rightarrow> (string, yaml) dict res" where
  "node_labels text =
     foldE (\<lambda>label d.
       case split_on CHR ''='' (py_strip label) of [k, v] \<Rightarrow> Inr (dict_set k (PStr v) d) | _ \<Rightarrow> Inl ValueError)
       (split_on CHR '','' text) []"

definition ec2_host :: "string \<Rightarrow> ec2_instance \<Rightarrow> (string \<times> yaml) res" where
  "ec2_host visibility i =
     (let public = (visibility = ''public'');
          dns_name = (if public then public_dns_name i else private_dns_name i);
          ansible_host = [(''ansible_ssh_host'', if public then public_ip_address i else private_ip_address i)] in
      case filter (\<lambda>(k, v). k = ''kubespray-node-labels'') (tags i) of
        [] \<Rightarrow> Inr (dns_name, PDict ansible_host)
      | (k, text) # _ \<Rightarrow> bindE (node_labels text) (\<lambda>d. Inr (dns_name, PDict (dict_set ''node_labels'' (PDict d) ansible_host))))"

definition ec2_group :: "aws_env \<Rightarrow> string \<Rightarrow> string \<Rightarrow> (string, string list) dict \<times> (string, yaml) dict \<Rightarrow>
    ((string, string list) dict \<times> (string, yaml) dict) res" where
  "ec2_group env visibility grp = (\<lambda>(hs, vars).
     bindE (dict_getitem (aws_environ env) ''REGION'') (\<lambda>region.
     bindE (mapE (ec2_host visibility)
         (ec2_instances env region (ec2_filters grp (map_of (aws_environ env) ''CLUSTER_NAME'')))) (\<lambda>found.
     Inr (dict_set grp (map fst found) hs, fold (\<lambda>(name, v). dict_set name v) found vars))))"

definition search_tags :: "aws_env \<Rightarrow> string res" where
  "search_tags env =
     bindE (foldE (ec2_group env (vpc_visibility (aws_environ env))) [''kube_control_plane'', ''kube_node'', ''etcd''] ([], [])) (\<lambda>(hs, vars).
     json_dumps \<lparr>indent = Some 2, sort_keys = True, float_repr = aws_float env\<rparr>
       (PDict ([(''_meta'', PDict [(''hostvars'', PDict vars)])] @
          map (\<lambda>(g, names). (g, PList (map PStr names))) hs @
          [(''k8s_cluster'', PDict [(''children'', PList [PStr ''kube_control_plane'', PStr ''kube_node''])])])))"

text \<open>What the script prints; the data of \<open>--host\<close> is the empty dict.\<close>

definition SearchEC2Tags_init :: "aws_env \<Rightarrow> string list \<Rightarrow> string list res" where
  "SearchEC2Tags_init env argv =
     bindE (parse_args aws_parser argv) (\<lambda>args.
     bindE (if py_truth (dict_get args ''list'' PNone) then bindE (search_tags env) (\<lambda>s. Inr [s]) else Inr []) (\<lambda>listed.
     bindE
       (if py_truth (dict_get args ''host'' PNone)
        then bindE (json_dumps \<lparr>indent = Some 2, sort_keys = False, float_repr = aws_float env\<rparr> (PDict [])) (\<lambda>s. Inr [s])
        else Inr []) (\<lambda>host. Inr (listed @ host))))"

section \<open>Checksums\<close>

definition MAIN_YML :: string where
  "MAIN_YML = ''../roles/download/defaults/main.yml''"

record hash_env =
  main_yml :: "string option"  \<comment> \<open>the text of the file, if it exists\<close>
  ruamel_load :: "string \<Rightarrow> yaml res"
  ruamel_dump :: "yaml \<Rightarrow> string"
  http_get :: "string \<Rightarrow> bytes res"  \<comment> \<open>the content, or the exception of a failed or refused request\<close>

definition open_main_yaml :: "hash_env \<Rightarrow> yaml res" where
  "open_main_yaml env = bindE (case main_yml env of None \<Rightarrow> Inl OSError | Some t \<Rightarrow> Inr t) (ruamel_load env)"

definition full_version :: "string \<Rightarrow> string" where
  "full_version v = (if startswith v ''v'' then v else ''v'' @ v)"

definition release_url :: "string \<Rightarrow> string \<Rightarrow> string \<Rightarrow> string" where
  "release_url v arch download =
     ''https://storage.googleapis.com/kubernetes-release/release/'' @ v @ ''/bin/linux/'' @ arch @ ''/'' @ download"

definition architectures :: "string list" where
  "architectures = [''arm'', ''arm64'', ''amd64'']"

definition downloads :: "string list" where
  "downloads = [''kubelet'', ''kubectl'', ''kubeadm'']"

definition update_checksum :: "hash_env \<Rightarrow> string \<times> string \<times> string \<Rightarrow> yaml \<Rightarrow> yaml res" where
  "update_checksum env = (\<lambda>(download, arch, version) data.
     bindE (http_get env (release_url (full_version version) arch download)) (\<lambda>content.
     yaml_at (download @ ''_checksums'') (yaml_at arch (\<lambda>d. yaml_set d (full_version version) (PStr (sha256_hexdigest content)))) data))"

text \<open>The three nested loops, and the new text of the file with what is printed.\<close>

definition checksum_plan :: "string list \<Rightarrow> (string \<times> string \<times> string) list" where
  "checksum_plan versions =
     concat (map (\<lambda>download. concat (map (\<lambda>arch. map (\<lambda>version. (download, arch, version)) versions) architectures)) downloads)"

definition download_hash :: "hash_env \<Rightarrow> string list \<Rightarrow> (string \<times> string) res" where
  "download_hash env versions =
     bindE (open_main_yaml env) (\<lambda>data.
     bindE (foldE (update_checksum env) (checksum_plan versions) data) (\<lambda>data.
     Inr (ruamel_dump env data, [CHR 0x0A, CHR 0x0A] @ ''Updated '' @ MAIN_YML @ [CHR 0x0A])))"

definition hash_usage :: "string \<Rightarrow> string" where
  "hash_usage script = ''USAGE:'' @ [CHR 0x0A] @ ''    '' @ script @ '' [k8s_version1] [[k8s_version2]....[k8s_versionN]]''"

text \<open>The status, the text written to the file (if it is written) and what is printed.\<close>

definition hash_main :: "hash_env \<Rightarrow> string list \<Rightarrow> (int \<times> string option \<times> string) res" where
  "hash_main env sys_argv =
     (let argv = drop 1 sys_argv in
      if argv = [] then Inr (1, None, hash_usage (hd sys_argv))
      else bindE (download_hash env argv) (\<lambda>(text, msg). Inr (0, Some text, msg)))"

section \<open>Cleanup of OpenStack resources\<close>

record os_item =
  item_name :: string
  item_id :: string
  created_at :: string
  is_router_external :: bool

datatype os_kind = Server | SecurityGroup | Port | Subnet | Network

datatype 'k cleanup_event = Printed string | Slept int | Connected | Deleted 'k

record os_env =
  os_now :: int  \<comment> \<open>\<open>datetime.now()\<close>\<close>
  os_items :: "os_kind \<Rightarrow> os_item list"
  os_delete :: "os_kind \<Rightarrow> os_item \<Rightarrow> pyexc option"  \<comment> \<open>how a deletion fails, if it does\<close>

type_synonym 'a os_prog = "((os_kind \<times> string) cleanup_event list, 'a) prog"

definition record_event :: "'k cleanup_event \<Rightarrow> ('k cleanup_event list, unit) prog" where
  "record_event e = modS (\<lambda>t. t @ [e])"

definition PAUSE_SECONDS :: int where
  "PAUSE_SECONDS = 5"

definition os_parser :: parser where
  "os_parser = \<lparr>options = [switch [''-v'', ''--verbose''] ''verbose'', int_option [''--hours''] One ''hours'' False (PInt 4),
     switch [''--dry-run''] ''dry_run''], positionals = [], exclusive = [], exclusive_required = False\<rparr>"

definition oldest_allowed :: "os_env \<Rightarrow> int \<Rightarrow> int res" where
  "oldest_allowed env hours = bindE (make_timedelta (hours * 3600 * usec)) (datetime_minus (os_now env))"

definition os_delete_item :: "os_env \<Rightarrow> os_kind \<Rightarrow> os_item \<Rightarrow> unit os_prog" where
  "os_delete_item env kind item =
     (case os_delete env kind item of Some e \<Rightarrow> raiseS e | None \<Rightarrow> record_event (Deleted (kind, item_id item)))"

definition fn_if_old :: "os_env \<Rightarrow> int \<Rightarrow> bool \<Rightarrow> os_kind \<Rightarrow> os_item \<Rightarrow> unit os_prog" where
  "fn_if_old env oldest dry_run kind item =
     bindS (liftE (strptime_utc (created_at item))) (\<lambda>created.
     if item_name item = ''default'' then returnS ()
     else if created < oldest then
       seqS (record_event (Printed (''Will delete '' @ item_name item @ '' ('' @ item_id item @ '')'')))
         (if \<not> dry_run then os_delete_item env kind item else returnS ())
     else returnS ())"

definition map_if_old :: "os_env \<Rightarrow> int \<Rightarrow> bool \<Rightarrow> os_kind \<Rightarrow> os_item list \<Rightarrow> unit os_prog" where
  "map_if_old env oldest dry_run kind items = forS items (fn_if_old env oldest dry_run kind)"

definition os_main :: "os_env \<Rightarrow> int \<Rightarrow> bool \<Rightarrow> unit os_prog" where
  "os_main env oldest dry_run =
     (let clean = (\<lambda>title kind. seqS (record_event (Printed title)) (map_if_old env oldest dry_run kind (os_items env kind))) in
      seqS
        (if dry_run then record_event (Printed ''Running in dry-run mode'')
         else seqS (record_event (Printed ''This will delete resources... (ctrl+c to cancel)'')) (record_event (Slept PAUSE_SECONDS)))
     (seqS (record_event Connected)
     (seqS (clean ''Servers...'' Server)
     (seqS (clean ''Security groups...'' SecurityGroup)
     (seqS (clean ''Ports...'' Port)
     (seqS (clean ''Subnets...'' Subnet)
     (seqS (record_event (Printed ''Networks...''))
       (forS (os_items env Network) (\<lambda>n.
          if \<not> is_router_external n then fn_if_old env oldest dry_run Network n else returnS ())))))))))"

definition os_script :: "os_env \<Rightarrow> string list \<Rightarrow> unit os_prog" where
  "os_script env argv =
     bindS (liftE (parse_args os_parser argv)) (\<lambda>args.
     bindS (liftE (bindE (py_int (dict_get args ''hours'' PNone)) (oldest_allowed env))) (\<lambda>oldest.
     os_main env oldest (py_truth (dict_get args ''dry_run'' PNone))))"

section \<open>Cleanup of GitLab branches\<close>

record branch =
  branch_name :: string
  commit_created_at :: string
  protected :: bool
  is_default :: bool

record gl_env =
  gl_now :: int  \<comment> \<open>the time in UTC\<close>
  api_token :: "string option"
  gl_auth :: "string \<Rightarrow> string \<Rightarrow> pyexc option"  \<comment> \<open>by address and token\<close>
  gl_project :: "string \<Rightarrow> branch list res"
  gl_delete :: "branch \<Rightarrow> pyexc option"

type_synonym 'a gl_prog = "(string cleanup_event list, 'a) prog"

definition gl_parser :: parser where
  "gl_parser = \<lparr>options = [str_option [''--api''] One ''api'' (PStr ''https://gitlab.com/''),
     int_option [''--age''] One ''age'' False (PInt 30), str_option [''--prefix''] One ''prefix'' (PStr ''pr-''),
     switch [''--dry-run''] ''dry_run''], positionals = [''project''], exclusive = [], exclusive_required = False\<rparr>"

definition gl_limit :: "gl_env \<Rightarrow> int \<Rightarrow> int res" where
  "gl_limit env age = bindE (make_timedelta (age * usec_per_day)) (datetime_minus (gl_now env))"

text \<open>A time without an offset cannot be compared with the limit, which has one.\<close>

definition older_than :: "string \<Rightarrow> int \<Rightarrow> bool res" where
  "older_than text limit =
     bindE (fromisoformat text) (\<lambda>(t, off). case off of None \<Rightarrow> Inl TypeError | Some o' \<Rightarrow> Inr (t - o' < limit))"

definition clean_branch :: "gl_env \<Rightarrow> int \<Rightarrow> string \<Rightarrow> bool \<Rightarrow> string \<Rightarrow> branch \<Rightarrow> unit gl_prog" where
  "clean_branch env limit prefix dry_run project b =
     bindS (liftE (older_than (commit_created_at b) limit)) (\<lambda>old.
     if old \<and> \<not> protected b \<and> \<not> is_default b \<and> startswith (branch_name b) prefix then
       seqS (record_event (Printed (''Deleting branch '' @ branch_name b @ '' from '' @ take 10 (commit_created_at b) @ '' ...'')))
         (if \<not> dry_run then
            (case gl_delete env b of Some e \<Rightarrow> raiseS e | None \<Rightarrow> record_event (Deleted (branch_name b)))
          else returnS ())
     else returnS ())"

definition gl_script :: "gl_env \<Rightarrow> string list \<Rightarrow> unit gl_prog" where
  "gl_script env argv =
     bindS (liftE (parse_args gl_parser argv)) (\<lambda>args.
     bindS (liftE (bindE (py_int (dict_get args ''age'' PNone)) (gl_limit env))) (\<lambda>limit.
     bindS (liftE (mapE (\<lambda>k. as_str (dict_get args k PNone)) [''api'', ''prefix'', ''project''])) (\<lambda>strs.
     let api = strs ! 0; prefix = strs ! 1; project = strs ! 2;
         token = (case api_token env of Some t \<Rightarrow> t | None \<Rightarrow> []) in
     if token = [] then
       seqS (record_event (Printed ''Environment variable GITLAB_API_TOKEN is required.'')) (raiseS (SystemExit 2))
     else
       case gl_auth env api token of
         Some e \<Rightarrow> raiseS e
       | None \<Rightarrow>
           seqS (record_event Connected)
           (bindS (liftE (gl_project env project)) (\<lambda>bs.
            forS bs (clean_branch env limit prefix (py_truth (dict_get args ''dry_run'' PNone)) project))))))"

section \<open>Installers\<close>

text \<open>What the installers do: shell commands, whose status is ignored, the standard installation, and the
  call of \<open>setup\<close> with its arguments.\<close>

datatype setup_event = Shell string | StandardInstall | Setup "(string, yaml) dict"

type_synonym setup_prog = "(setup_event list, unit) prog"

definition setup_do :: "setup_event \<Rightarrow> setup_prog" where
  "setup_do e = modS (\<lambda>t. t @ [e])"

definition compile_proto :: setup_prog where
  "compile_proto = setup_do (Shell ''bash compile.sh'')"

definition setup_cleanup :: setup_prog where
  "setup_cleanup =
     seqS (setup_do (Shell ''rm anna/anna_pb2.py''))
     (seqS (setup_do (Shell ''rm anna/shared_pb2.py''))
     (seqS (setup_do (Shell ''rm -rf build''))
       (setup_do (Shell ''rm -rf Anna.egg-info''))))"

text \<open>\<open>install.run(self)\<close> may raise.\<close>

definition InstallWrapper_run :: "pyexc option \<Rightarrow> setup_prog" where
  "InstallWrapper_run failure =
     seqS compile_proto
     (seqS (case failure of Some e \<Rightarrow> raiseS e | None \<Rightarrow> setup_do StandardInstall)
       setup_cleanup)"

definition client_setup :: setup_prog where
  "client_setup = setup_do (Setup
     [(''name'', PStr ''Anna''), (''version'', PStr ''0.1''), (''packages'', PList [PStr ''anna'']),
      (''license'', PStr ''Apache v2''), (''long_description'', PStr ''Client for the Anna KVS''),
      (''install_requires'', PList [PStr ''zmq'', PStr ''protobuf'']),
      (''cmdclass'', PDict [(''install'', PStr ''InstallWrapper'')])])"

definition kubespray_setup :: setup_prog where
  "kubespray_setup = setup_do (Setup [(''setup_requires'', PList [PStr ''pbr'']), (''pbr'', PBool True)])"

text \<open>A missing \<^verbatim>\<open>multiprocessing\<close> is ignored.\<close>

definition inventory_builder_setup :: "bool \<Rightarrow> setup_prog" where
  "inventory_builder_setup has_multiprocessing =
     seqS (if has_multiprocessing then returnS () else returnS ())
       (setup_do (Setup [(''setup_requires'', PList []), (''pbr'', PBool False)]))"

end
