(* ===== verification/Kubespray_Scripts_Laws.thy ===== *)
theory Kubespray_Scripts_Laws
  imports Kubespray_Scripts
begin

text \<open>
  Correctness of the smaller scripts of Kubespray: what the two cleanup scripts delete, and that a dry run
  deletes nothing; which checksums the update writes, and that it writes nothing when a download fails;
  and what the AWS inventory lists.
\<close>

section \<open>Traces\<close>

text \<open>All deletions since \<open>t0\<close> are permitted.\<close>

definition deletes_only :: "('k \<Rightarrow> bool) \<Rightarrow> 'k cleanup_event list \<Rightarrow> 'k cleanup_event list \<Rightarrow> bool" where
  "deletes_only ok t0 t \<longleftrightarrow> (\<exists>es. t = t0 @ es \<and> (\<forall>x. Deleted x \<in> set es \<longrightarrow> ok x))"

lemma deletes_only_refl: "deletes_only ok t t"
  by (simp add: deletes_only_def)

lemma deletes_only_snoc:
  assumes "deletes_only ok t0 t" "\<And>x. e = Deleted x \<Longrightarrow> ok x"
  shows "deletes_only ok t0 (t @ [e])"
proof -
  obtain es where "t = t0 @ es" "\<forall>x. Deleted x \<in> set es \<longrightarrow> ok x" using assms(1) unfolding deletes_only_def by blast
  then show ?thesis using assms(2) unfolding deletes_only_def by (intro exI [of _ "es @ [e]"]) auto
qed

lemma keeps_record_event: "(\<And>x. e = Deleted x \<Longrightarrow> ok x) \<Longrightarrow> keeps (deletes_only ok t0) (record_event e)"
  unfolding record_event_def by (rule keeps_modS) (rule deletes_only_snoc)

lemma keeps_forS_mem: "(\<And>x. x \<in> set xs \<Longrightarrow> keeps P (f x)) \<Longrightarrow> keeps P (forS xs f)"
  by (induction xs) (auto intro: py_keeps)

lemma keeps_if_cond: "(b \<Longrightarrow> keeps P m) \<Longrightarrow> (\<not> b \<Longrightarrow> keeps P k) \<Longrightarrow> keeps P (if b then m else k)"
  by simp

lemma bindS_liftE: "bindS (liftE (Inr x)) f = f x" "bindS (liftE (Inl e)) f = raiseS e"
  by (rule ext, simp)+

text \<open>A program that returns and appends to the trace.\<close>

definition appends :: "('e list, unit) prog \<Rightarrow> 'e list \<Rightarrow> bool" where
  "appends m es \<longleftrightarrow> (\<forall>t. m t = (Return (), t @ es))"

named_theorems appends_rules "programs that append to the trace"

lemma appends_event [appends_rules]: "appends (record_event e) [e]"
  by (simp add: appends_def record_event_def)

lemma appends_return [appends_rules]: "appends (returnS ()) []"
  by (simp add: appends_def)

lemma appends_seqS [appends_rules]: "appends m a \<Longrightarrow> appends k b \<Longrightarrow> appends (seqS m k) (a @ b)"
  by (simp add: appends_def)

lemma appends_if [appends_rules]: "(c \<Longrightarrow> appends m a) \<Longrightarrow> (\<not> c \<Longrightarrow> appends k b) \<Longrightarrow> appends (if c then m else k) (if c then a else b)"
  by simp

lemma appends_forS: "(\<And>x. x \<in> set xs \<Longrightarrow> appends (f x) (g x)) \<Longrightarrow> appends (forS xs f) (concat (map g xs))"
  by (induction xs) (auto intro: appends_rules)

text \<open>The contract of the step with which a cleanup script treats one item: it deletes nothing but this item, and
  this only when it is due and the run is no dry run; and when the services answer, it appends its events and
  returns. The loop over all items follows.\<close>

locale guarded_removal =
  fixes step :: "'b \<Rightarrow> ('k cleanup_event list, unit) prog"
    and due :: "'b \<Rightarrow> bool"
    and key :: "'b \<Rightarrow> 'k"
    and dry_run :: bool
    and answers :: "'b \<Rightarrow> bool"
    and events :: "'b \<Rightarrow> 'k cleanup_event list"
  assumes step_keeps: "(\<not> dry_run \<Longrightarrow> due x \<Longrightarrow> ok (key x)) \<Longrightarrow> keeps (deletes_only ok t0) (step x)"
    and step_appends: "answers x \<Longrightarrow> appends (step x) (events x)"
    and events_delete: "Deleted k \<in> set (events x) \<longleftrightarrow> \<not> dry_run \<and> due x \<and> k = key x"
begin

lemma loop_keeps:
  assumes "\<And>x. x \<in> set xs \<Longrightarrow> \<not> dry_run \<Longrightarrow> due x \<Longrightarrow> ok (key x)"
  shows "keeps (deletes_only ok t0) (forS xs step)"
  by (rule keeps_forS_mem, rule step_keeps) (rule assms)

lemma loop_appends:
  assumes "\<And>x. x \<in> set xs \<Longrightarrow> answers x"
  shows "appends (forS xs step) (concat (map events xs))"
  by (rule appends_forS, rule step_appends) (rule assms)

lemma loop_deletes: "Deleted k \<in> set (concat (map events xs)) \<longleftrightarrow> \<not> dry_run \<and> (\<exists>x \<in> set xs. due x \<and> k = key x)"
  by (auto simp: events_delete)

end

section \<open>Cleanup of OpenStack resources\<close>

text \<open>What the cleanup may delete: resources older than the limit, except those named \<open>default\<close> and external networks.\<close>

definition removable :: "int \<Rightarrow> os_kind \<Rightarrow> os_item \<Rightarrow> bool" where
  "removable oldest kind item \<longleftrightarrow> item_name item \<noteq> ''default'' \<and> (kind = Network \<longrightarrow> \<not> is_router_external item) \<and>
     (\<exists>c. strptime_utc (created_at item) = Inr c \<and> c < oldest)"

definition os_permitted :: "os_env \<Rightarrow> int \<Rightarrow> bool \<Rightarrow> os_kind \<times> string \<Rightarrow> bool" where
  "os_permitted env oldest dry_run = (\<lambda>(kind, i). \<not> dry_run \<and> (\<exists>item \<in> set (os_items env kind). item_id item = i \<and> removable oldest kind item))"

text \<open>The step for one item, external networks included, and its events when the services answer.\<close>

definition os_step :: "os_env \<Rightarrow> int \<Rightarrow> bool \<Rightarrow> os_kind \<Rightarrow> os_item \<Rightarrow> unit os_prog" where
  "os_step env oldest dry_run kind item =
     (if kind = Network \<and> is_router_external item then returnS () else fn_if_old env oldest dry_run kind item)"

definition os_item_answers :: "os_env \<Rightarrow> os_kind \<Rightarrow> os_item \<Rightarrow> bool" where
  "os_item_answers env kind item \<longleftrightarrow> (\<exists>c. strptime_utc (created_at item) = Inr c) \<and> os_delete env kind item = None"

definition old_events :: "int \<Rightarrow> bool \<Rightarrow> os_kind \<Rightarrow> os_item \<Rightarrow> (os_kind \<times> string) cleanup_event list" where
  "old_events oldest dry_run kind item =
     (if removable oldest kind item
      then Printed (''Will delete '' @ item_name item @ '' ('' @ item_id item @ '')'') #
        (if dry_run then [] else [Deleted (kind, item_id item)]) else [])"

lemma os_step_due:
  "removable oldest kind item \<Longrightarrow> os_step env oldest dry_run kind item =
     seqS (record_event (Printed (''Will delete '' @ item_name item @ '' ('' @ item_id item @ '')'')))
       (if \<not> dry_run then os_delete_item env kind item else returnS ())"
  by (auto simp: os_step_def fn_if_old_def removable_def bindS_liftE)

lemma os_step_not_due:
  "\<not> removable oldest kind item \<Longrightarrow> os_step env oldest dry_run kind item = returnS () \<or>
     (\<exists>e. strptime_utc (created_at item) = Inl e \<and> os_step env oldest dry_run kind item = raiseS e)"
  by (cases "strptime_utc (created_at item)") (auto simp: os_step_def fn_if_old_def removable_def bindS_liftE)

interpretation os: guarded_removal "os_step env oldest dry_run kind" "removable oldest kind" "\<lambda>item. (kind, item_id item)" dry_run
  "os_item_answers env kind" "old_events oldest dry_run kind" for env oldest dry_run kind
proof
  fix x ok t0
  assume ok: "\<not> dry_run \<Longrightarrow> removable oldest kind x \<Longrightarrow> ok (kind, item_id x)"
  show "keeps (deletes_only ok t0) (os_step env oldest dry_run kind x)"
  proof (cases "removable oldest kind x")
    case True
    show ?thesis
      unfolding os_step_due [OF True] os_delete_item_def
      by (intro keeps_seqS keeps_if_cond keeps_case_option keeps_returnS keeps_raiseS keeps_record_event) (use ok True in simp_all)
  next
    case False
    show ?thesis using os_step_not_due [OF False, of env dry_run] keeps_returnS keeps_raiseS by metis
  qed
next
  fix x
  assume x: "os_item_answers env kind x"
  show "appends (os_step env oldest dry_run kind x) (old_events oldest dry_run kind x)"
  proof (cases "removable oldest kind x")
    case True
    with x show ?thesis
      by (simp add: os_step_due old_events_def os_item_answers_def os_delete_item_def appends_def record_event_def)
  next
    case False
    then have "os_step env oldest dry_run kind x = returnS ()"
      using os_step_not_due [OF False, of env dry_run] x by (auto simp: os_item_answers_def)
    with False show ?thesis by (simp add: old_events_def appends_return)
  qed
qed (auto simp: old_events_def)

lemma os_main_steps:
  "os_main env oldest dry_run =
     (let clean = (\<lambda>title kind. seqS (record_event (Printed title)) (forS (os_items env kind) (os_step env oldest dry_run kind))) in
      seqS
        (if dry_run then record_event (Printed ''Running in dry-run mode'')
         else seqS (record_event (Printed ''This will delete resources... (ctrl+c to cancel)'')) (record_event (Slept PAUSE_SECONDS)))
     (seqS (record_event Connected)
     (seqS (clean ''Servers...'' Server)
     (seqS (clean ''Security groups...'' SecurityGroup)
     (seqS (clean ''Ports...'' Port)
     (seqS (clean ''Subnets...'' Subnet) (clean ''Networks...'' Network)))))))"
proof -
  have "fn_if_old env oldest dry_run kind = os_step env oldest dry_run kind" if "kind \<noteq> Network" for kind
    using that by (intro ext) (simp add: os_step_def)
  moreover have "(\<lambda>n. if \<not> is_router_external n then fn_if_old env oldest dry_run Network n else returnS ()) = os_step env oldest dry_run Network"
    by (intro ext) (simp add: os_step_def)
  ultimately show ?thesis unfolding os_main_def map_if_old_def Let_def by (simp only: os_kind.distinct simp_thms)
qed

lemma keeps_os_main: "keeps (deletes_only (os_permitted env oldest dry_run) t0) (os_main env oldest dry_run)"
  unfolding os_main_steps Let_def
  by (intro keeps_seqS keeps_if keeps_record_event os.loop_keeps) (auto simp: os_permitted_def)

text \<open>When every time can be read and every deletion succeeds, the script returns, with this trace.\<close>

definition os_answers :: "os_env \<Rightarrow> bool" where
  "os_answers env \<longleftrightarrow> (\<forall>kind. \<forall>item \<in> set (os_items env kind).
     (\<exists>c. strptime_utc (created_at item) = Inr c) \<and> os_delete env kind item = None)"

definition os_trace :: "os_env \<Rightarrow> int \<Rightarrow> bool \<Rightarrow> (os_kind \<times> string) cleanup_event list" where
  "os_trace env oldest dry_run =
     (let events = (\<lambda>title kind. [Printed title] @ concat (map (old_events oldest dry_run kind) (os_items env kind))) in
      (if dry_run then [Printed ''Running in dry-run mode'']
       else [Printed ''This will delete resources... (ctrl+c to cancel)''] @ [Slept PAUSE_SECONDS]) @ [Connected] @
      events ''Servers...'' Server @ events ''Security groups...'' SecurityGroup @ events ''Ports...'' Port @
      events ''Subnets...'' Subnet @ events ''Networks...'' Network)"

lemma appends_os_main: "os_answers env \<Longrightarrow> appends (os_main env oldest dry_run) (os_trace env oldest dry_run)"
  unfolding os_main_steps os_trace_def Let_def
  by (intro appends_rules os.loop_appends) (auto simp: os_answers_def os_item_answers_def)

lemma os_trace_deletes:
  "Deleted (kind, i) \<in> set (os_trace env oldest False) \<longleftrightarrow>
     (\<exists>item \<in> set (os_items env kind). item_id item = i \<and> removable oldest kind item)"
  using os.loop_deletes [of "(kind, i)"] by (cases kind) (auto simp: os_trace_def old_events_def)

lemma oldest_allowed_eq: "oldest_allowed env h = Inr oldest \<Longrightarrow> oldest = os_now env - h * 3600 * usec"
  by (auto simp: oldest_allowed_def make_timedelta_def datetime_minus_def bindE_eq_Inr split: if_splits)

lemma os_script_cases:
  obtains (refused) e where "os_script env argv = raiseS e"
  | (runs) args h where "parse_args os_parser argv = Inr args" "py_int (dict_get args ''hours'' PNone) = Inr h"
      "oldest_allowed env h = Inr (os_now env - h * 3600 * usec)"
      "os_script env argv = os_main env (os_now env - h * 3600 * usec) (py_truth (dict_get args ''dry_run'' PNone))"
proof (cases "parse_args os_parser argv")
  case (Inl e)
  then have "os_script env argv = raiseS e" unfolding os_script_def by (simp only: bindS_liftE)
  then show thesis by (rule refused)
next
  case args: (Inr args)
  show thesis
  proof (cases "bindE (py_int (dict_get args ''hours'' PNone)) (oldest_allowed env)")
    case (Inl e)
    with args have "os_script env argv = raiseS e" unfolding os_script_def by (simp only: bindS_liftE)
    then show thesis by (rule refused)
  next
    case (Inr oldest)
    then obtain h where h: "py_int (dict_get args ''hours'' PNone) = Inr h" "oldest_allowed env h = Inr oldest"
      by (auto simp: bindE_eq_Inr)
    with args Inr show thesis using runs [of args h] oldest_allowed_eq [OF h(2)] by (simp add: os_script_def bindS_liftE)
  qed
qed

text \<open>C7: What the OpenStack cleanup deletes, whatever its command line and however it ends: only without
  \<open>--dry-run\<close>, and only listed resources that are older than the limit of the command line, are not named
  \<open>default\<close> and are no external network. When every time can be read and every deletion succeeds, it
  deletes all of those and returns.\<close>

theorem os_cleanup_deletes:
  assumes "os_script env argv t = (r, t')"
  shows "\<exists>es. t' = t @ es \<and>
    (\<forall>kind i. Deleted (kind, i) \<in> set es \<longrightarrow>
      (\<exists>args h item c. parse_args os_parser argv = Inr args \<and> \<not> py_truth (dict_get args ''dry_run'' PNone) \<and>
         py_int (dict_get args ''hours'' PNone) = Inr h \<and> item \<in> set (os_items env kind) \<and> item_id item = i \<and>
         item_name item \<noteq> ''default'' \<and> (kind = Network \<longrightarrow> \<not> is_router_external item) \<and>
         strptime_utc (created_at item) = Inr c \<and> c < os_now env - h * 3600 * usec)) \<and>
    (\<forall>args h. parse_args os_parser argv = Inr args \<and> \<not> py_truth (dict_get args ''dry_run'' PNone) \<and>
       py_int (dict_get args ''hours'' PNone) = Inr h \<and> (\<exists>oldest. oldest_allowed env h = Inr oldest) \<and> os_answers env \<longrightarrow>
       r = Return () \<and> (\<forall>kind. \<forall>item \<in> set (os_items env kind).
         removable (os_now env - h * 3600 * usec) kind item \<longrightarrow> Deleted (kind, item_id item) \<in> set es))"
proof (rule os_script_cases [of env argv])
  fix e assume refused: "os_script env argv = raiseS e"
  have "\<not> (\<exists>args h oldest. parse_args os_parser argv = Inr args \<and> py_int (dict_get args ''hours'' PNone) = Inr h \<and>
      oldest_allowed env h = Inr oldest \<and> os_answers env)"
  proof
    assume "\<exists>args h oldest. parse_args os_parser argv = Inr args \<and> py_int (dict_get args ''hours'' PNone) = Inr h \<and>
      oldest_allowed env h = Inr oldest \<and> os_answers env"
    then obtain args h oldest where *: "parse_args os_parser argv = Inr args" "py_int (dict_get args ''hours'' PNone) = Inr h"
      "oldest_allowed env h = Inr oldest" "os_answers env" by blast
    then have "os_script env argv t = (Return (), t @ os_trace env oldest (py_truth (dict_get args ''dry_run'' PNone)))"
      using appends_os_main by (simp add: os_script_def bindS_liftE appends_def)
    with refused show False by simp
  qed
  then show ?thesis using assms refused by (intro exI [of _ "[]"]) auto
next
  fix args h
  let ?oldest = "os_now env - h * 3600 * usec" and ?dry = "py_truth (dict_get args ''dry_run'' PNone)"
  assume args: "parse_args os_parser argv = Inr args" "py_int (dict_get args ''hours'' PNone) = Inr h"
    and run: "os_script env argv = os_main env ?oldest ?dry"
  have "deletes_only (os_permitted env ?oldest ?dry) t t'"
    using keepsD [OF keeps_os_main deletes_only_refl] assms run by simp
  then obtain es where es: "t' = t @ es" "\<And>x. Deleted x \<in> set es \<Longrightarrow> os_permitted env ?oldest ?dry x"
    unfolding deletes_only_def by blast
  have all: "r = Return () \<and> es = os_trace env ?oldest ?dry" if "os_answers env"
    using appends_os_main [OF that, of ?oldest ?dry] assms run es(1) by (simp add: appends_def)
  show ?thesis
    using es args all os_trace_deletes [of _ _ env ?oldest]
    by (intro exI [of _ es]) (fastforce simp: os_permitted_def removable_def)
qed


text \<open>An old server and the default security group, with the default limit of four hours.\<close>

definition demo_os_env :: os_env where
  "demo_os_env = \<lparr>os_now = 63800000000 * usec,
     os_items = (\<lambda>kind. if kind = Server then [\<lparr>item_name = ''ci'', item_id = ''s1'', created_at = ''2000-01-02T03:04:05Z'', is_router_external = False\<rparr>]
       else if kind = SecurityGroup then [\<lparr>item_name = ''default'', item_id = ''g1'', created_at = ''2000-01-02T03:04:05Z'', is_router_external = False\<rparr>]
       else []),
     os_delete = (\<lambda>_ _. None)\<rparr>"

lemma lower_Z: "lower_char CHR ''Z'' = CHR ''z''"
  by code_simp

lemmas read_time = strptime_utc_def read_day_def read_clock_def day_field_def short_field_def exact_field_def is_digit_def lower_Z
  nat_of_digits_def digit_val_def make_datetime_def valid_date_def days_in_month_def leap_year_def day_number_def days_before_year_def
  days_before_month_def clock_usec_def usec_per_day_def usec_def

lemma demo_os_time: "strptime_utc ''2000-01-02T03:04:05Z'' = Inr (63082379045 * usec)"
  by (simp add: read_time)

theorem os_cleanup_deletes_witness:
  "\<exists>es. os_script demo_os_env [] [] = (Return (), es) \<and> Deleted (Server, ''s1'') \<in> set es \<and> Deleted (SecurityGroup, ''g1'') \<notin> set es"
proof -
  let ?args = "[(''verbose'', PBool False), (''hours'', PInt 4), (''dry_run'', PBool False)]"
  have args: "parse_args os_parser [] = Inr ?args" by code_simp
  have old: "\<exists>oldest. oldest_allowed demo_os_env 4 = Inr oldest"
    by (simp add: oldest_allowed_def make_timedelta_def datetime_minus_def demo_os_env_def max_datetime_def read_time)
  have items: "os_items demo_os_env Server =
      [\<lparr>item_name = ''ci'', item_id = ''s1'', created_at = ''2000-01-02T03:04:05Z'', is_router_external = False\<rparr>]"
    "os_items demo_os_env SecurityGroup =
      [\<lparr>item_name = ''default'', item_id = ''g1'', created_at = ''2000-01-02T03:04:05Z'', is_router_external = False\<rparr>]"
    "os_now demo_os_env = 63800000000 * usec"
    by (simp_all add: demo_os_env_def)
  have answers: "os_answers demo_os_env" by (auto simp: os_answers_def demo_os_env_def demo_os_time)
  obtain r es where run: "os_script demo_os_env [] [] = (r, es)" by fastforce
  have removable: "removable (os_now demo_os_env - 4 * 3600 * usec) Server (hd (os_items demo_os_env Server))"
    by (simp add: removable_def items demo_os_time) (simp add: usec_def)
  have all: "r = Return () \<and> (\<forall>kind. \<forall>item \<in> set (os_items demo_os_env kind).
         removable (os_now demo_os_env - 4 * 3600 * usec) kind item \<longrightarrow> Deleted (kind, item_id item) \<in> set es)"
    and only: "\<forall>kind i. Deleted (kind, i) \<in> set es \<longrightarrow> (\<exists>item \<in> set (os_items demo_os_env kind). item_id item = i \<and> item_name item \<noteq> ''default'')"
    using os_cleanup_deletes [OF run] args old answers by (auto simp: dict_get_def)
  have "Deleted (Server, item_id (hd (os_items demo_os_env Server))) \<in> set es" using all [THEN conjunct2, rule_format, OF _ removable] items(1) by simp
  moreover have "Deleted (SecurityGroup, ''g1'') \<notin> set es" using only items(2) by fastforce
  ultimately show ?thesis using run all items(1) by simp
qed


section \<open>Cleanup of GitLab branches\<close>

definition stale :: "int \<Rightarrow> string \<Rightarrow> branch \<Rightarrow> bool" where
  "stale limit prefix b \<longleftrightarrow> older_than (commit_created_at b) limit = Inr True \<and> \<not> protected b \<and> \<not> is_default b \<and>
     startswith (branch_name b) prefix"

definition stale_events :: "int \<Rightarrow> string \<Rightarrow> bool \<Rightarrow> branch \<Rightarrow> string cleanup_event list" where
  "stale_events limit prefix dry_run b =
     (if stale limit prefix b
      then Printed (''Deleting branch '' @ branch_name b @ '' from '' @ take 10 (commit_created_at b) @ '' ...'') #
        (if dry_run then [] else [Deleted (branch_name b)]) else [])"

lemma clean_branch_stale:
  "stale limit prefix b \<Longrightarrow> clean_branch env limit prefix dry_run project b =
     seqS (record_event (Printed (''Deleting branch '' @ branch_name b @ '' from '' @ take 10 (commit_created_at b) @ '' ...'')))
       (if \<not> dry_run then
          (case gl_delete env b of Some e \<Rightarrow> raiseS e | None \<Rightarrow> record_event (Deleted (branch_name b)))
        else returnS ())"
  unfolding clean_branch_def stale_def by (simp only: bindS_liftE if_True simp_thms)

lemma clean_branch_fresh:
  "\<not> stale limit prefix b \<Longrightarrow> clean_branch env limit prefix dry_run project b = returnS () \<or>
     (\<exists>e. older_than (commit_created_at b) limit = Inl e \<and> clean_branch env limit prefix dry_run project b = raiseS e)"
  by (cases "older_than (commit_created_at b) limit") (auto simp: clean_branch_def stale_def bindS_liftE)

interpretation gl: guarded_removal "clean_branch env limit prefix dry_run project" "stale limit prefix" branch_name dry_run
  "\<lambda>b. (\<exists>old. older_than (commit_created_at b) limit = Inr old) \<and> gl_delete env b = None" "stale_events limit prefix dry_run"
  for env limit prefix dry_run project
proof
  fix x ok t0
  assume ok: "\<not> dry_run \<Longrightarrow> stale limit prefix x \<Longrightarrow> ok (branch_name x)"
  show "keeps (deletes_only ok t0) (clean_branch env limit prefix dry_run project x)"
  proof (cases "stale limit prefix x")
    case True
    show ?thesis
      unfolding clean_branch_stale [OF True]
      by (intro keeps_seqS keeps_if_cond keeps_case_option keeps_returnS keeps_raiseS keeps_record_event) (use ok True in simp_all)
  next
    case False
    show ?thesis using clean_branch_fresh [OF False, of env dry_run project] keeps_returnS keeps_raiseS by metis
  qed
next
  fix x
  assume x: "(\<exists>old. older_than (commit_created_at x) limit = Inr old) \<and> gl_delete env x = None"
  show "appends (clean_branch env limit prefix dry_run project x) (stale_events limit prefix dry_run x)"
  proof (cases "stale limit prefix x")
    case True
    with x show ?thesis by (simp add: clean_branch_stale stale_events_def appends_def record_event_def)
  next
    case False
    then have "clean_branch env limit prefix dry_run project x = returnS ()"
      using clean_branch_fresh [OF False, of env dry_run project] x by auto
    with False show ?thesis by (simp add: stale_events_def appends_return)
  qed
qed (auto simp: stale_events_def)

lemma keeps_bind_liftE: "(\<And>x. v = Inr x \<Longrightarrow> keeps P (f x)) \<Longrightarrow> keeps P (bindS (liftE v) f)"
  by (cases v) (simp_all add: bindS_liftE keeps_raiseS)

lemma gl_limit_eq: "gl_limit env age = Inr limit \<Longrightarrow> limit = gl_now env - age * usec_per_day"
  by (auto simp: gl_limit_def make_timedelta_def datetime_minus_def bindE_eq_Inr split: if_splits)

text \<open>The command line as the script reads it: the limit, the address, the prefix and the project.\<close>

definition gl_reads :: "gl_env \<Rightarrow> string list \<Rightarrow> (string, argval) dict \<Rightarrow> int \<Rightarrow> string \<Rightarrow> string \<Rightarrow> string \<Rightarrow> bool" where
  "gl_reads env argv args limit api prefix project \<longleftrightarrow> parse_args gl_parser argv = Inr args \<and>
     bindE (py_int (dict_get args ''age'' PNone)) (gl_limit env) = Inr limit \<and>
     mapE (\<lambda>k. as_str (dict_get args k PNone)) [''api'', ''prefix'', ''project''] = Inr [api, prefix, project]"

definition gl_permitted :: "gl_env \<Rightarrow> string list \<Rightarrow> string \<Rightarrow> bool" where
  "gl_permitted env argv n \<longleftrightarrow> (\<exists>args limit api prefix project bs b. gl_reads env argv args limit api prefix project \<and>
     \<not> py_truth (dict_get args ''dry_run'' PNone) \<and> gl_project env project = Inr bs \<and> b \<in> set bs \<and> branch_name b = n \<and> stale limit prefix b)"

lemma keeps_gl_script: "keeps (deletes_only (gl_permitted env argv) t0) (gl_script env argv)"
  unfolding gl_script_def Let_def
proof (intro keeps_bind_liftE keeps_if_cond keeps_seqS keeps_record_event keeps_raiseS keeps_case_option gl.loop_keeps)
  fix args limit strs bs b
  assume "parse_args gl_parser argv = Inr args" "bindE (py_int (dict_get args ''age'' PNone)) (gl_limit env) = Inr limit"
    and strs: "mapE (\<lambda>k. as_str (dict_get args k PNone)) [''api'', ''prefix'', ''project''] = Inr strs"
    and "gl_project env (strs ! 2) = Inr bs" "b \<in> set bs" "\<not> py_truth (dict_get args ''dry_run'' PNone)" "stale limit (strs ! 1) b"
  moreover have "strs = [strs ! 0, strs ! 1, strs ! 2]" using strs by (auto simp: bindE_eq_Inr)
  ultimately show "gl_permitted env argv (branch_name b)"
    unfolding gl_permitted_def gl_reads_def by metis
qed simp_all

lemma gl_reads_age:
  "gl_reads env argv args limit api prefix project \<Longrightarrow>
   \<exists>age. py_int (dict_get args ''age'' PNone) = Inr age \<and> limit = gl_now env - age * usec_per_day"
  using gl_limit_eq by (auto simp: gl_reads_def bindE_eq_Inr)

lemma gl_script_runs:
  assumes "gl_reads env argv args limit api prefix project" "api_token env = Some token" "token \<noteq> []"
    and "gl_auth env api token = None" "gl_project env project = Inr bs"
    and "\<forall>b \<in> set bs. (\<exists>old. older_than (commit_created_at b) limit = Inr old) \<and> gl_delete env b = None"
  shows "appends (gl_script env argv) ([Connected] @ concat (map (stale_events limit prefix (py_truth (dict_get args ''dry_run'' PNone))) bs))"
proof -
  let ?dry = "py_truth (dict_get args ''dry_run'' PNone)"
  have eq: "gl_script env argv = seqS (record_event Connected) (forS bs (clean_branch env limit prefix ?dry project))"
    using assms(1-5) unfolding gl_script_def gl_reads_def Let_def by (simp add: bindS_liftE del: mapE.simps)
  show ?thesis
    unfolding eq by (intro appends_seqS appends_event gl.loop_appends) (use assms(6) in blast)
qed

text \<open>C23: What the GitLab cleanup deletes, whatever its command line and however it ends: only without
  \<open>--dry-run\<close>, and only branches of the project that begin with the prefix, are neither protected nor the default
  branch, and whose last commit is older than the age of the command line. When all services answer, it deletes
  all of those and returns.\<close>

theorem gl_cleanup_deletes:
  assumes "gl_script env argv t = (r, t')"
  shows "\<exists>es. t' = t @ es \<and>
    (\<forall>n. Deleted n \<in> set es \<longrightarrow>
      (\<exists>args age limit api prefix project bs b. gl_reads env argv args limit api prefix project \<and>
         \<not> py_truth (dict_get args ''dry_run'' PNone) \<and> py_int (dict_get args ''age'' PNone) = Inr age \<and>
         limit = gl_now env - age * usec_per_day \<and> gl_project env project = Inr bs \<and> b \<in> set bs \<and> branch_name b = n \<and>
         older_than (commit_created_at b) limit = Inr True \<and> \<not> protected b \<and> \<not> is_default b \<and> startswith n prefix)) \<and>
    (\<forall>args limit api prefix project token bs. gl_reads env argv args limit api prefix project \<and> api_token env = Some token \<and>
       token \<noteq> [] \<and> gl_auth env api token = None \<and> gl_project env project = Inr bs \<and> \<not> py_truth (dict_get args ''dry_run'' PNone) \<and>
       (\<forall>b \<in> set bs. (\<exists>old. older_than (commit_created_at b) limit = Inr old) \<and> gl_delete env b = None) \<longrightarrow>
       r = Return () \<and> (\<forall>b \<in> set bs. stale limit prefix b \<longrightarrow> Deleted (branch_name b) \<in> set es))"
proof -
  obtain es where es: "t' = t @ es" "\<And>n. Deleted n \<in> set es \<Longrightarrow> gl_permitted env argv n"
    using keepsD [OF keeps_gl_script deletes_only_refl assms] unfolding deletes_only_def by blast
  have all: "r = Return () \<and> (\<forall>b \<in> set bs. stale limit prefix b \<longrightarrow> Deleted (branch_name b) \<in> set es)"
    if "gl_reads env argv args limit api prefix project" "api_token env = Some token" "token \<noteq> []" "gl_auth env api token = None"
      "gl_project env project = Inr bs" "\<not> py_truth (dict_get args ''dry_run'' PNone)"
      "\<forall>b \<in> set bs. (\<exists>old. older_than (commit_created_at b) limit = Inr old) \<and> gl_delete env b = None"
    for args limit api prefix project token bs
    using gl_script_runs [OF that(1-5,7)] assms es(1) that(6) by (auto simp: appends_def stale_events_def)
  have only: "\<exists>args age limit api prefix project bs b. gl_reads env argv args limit api prefix project \<and>
         \<not> py_truth (dict_get args ''dry_run'' PNone) \<and> py_int (dict_get args ''age'' PNone) = Inr age \<and>
         limit = gl_now env - age * usec_per_day \<and> gl_project env project = Inr bs \<and> b \<in> set bs \<and> branch_name b = n \<and>
         older_than (commit_created_at b) limit = Inr True \<and> \<not> protected b \<and> \<not> is_default b \<and> startswith n prefix"
    if del: "Deleted n \<in> set es" for n
  proof -
    obtain args limit api prefix project bs b where *: "gl_reads env argv args limit api prefix project"
      "\<not> py_truth (dict_get args ''dry_run'' PNone)" "gl_project env project = Inr bs" "b \<in> set bs" "branch_name b = n" "stale limit prefix b"
      using es(2) [OF del] unfolding gl_permitted_def by blast
    obtain age where "py_int (dict_get args ''age'' PNone) = Inr age" "limit = gl_now env - age * usec_per_day"
      using gl_reads_age [OF *(1)] by blast
    with * show ?thesis unfolding stale_def by blast
  qed
  show ?thesis using es(1) only all by (intro exI [of _ es]) (intro conjI allI impI; (elim conjE)?; blast)
qed


text \<open>An old branch of a pull request and the default branch.\<close>

definition demo_branch :: "string \<Rightarrow> bool \<Rightarrow> branch" where
  "demo_branch n d = \<lparr>branch_name = n, commit_created_at = ''2000-01-02T03:04:05+00:00'', protected = False, is_default = d\<rparr>"

definition demo_gl_env :: gl_env where
  "demo_gl_env = \<lparr>gl_now = 63800000000 * usec, api_token = Some ''secret'', gl_auth = (\<lambda>_ _. None),
     gl_project = (\<lambda>_. Inr [demo_branch ''pr-1'' False, demo_branch ''pr-main'' True]), gl_delete = (\<lambda>_. None)\<rparr>"

lemma demo_gl_time: "older_than ''2000-01-02T03:04:05+00:00'' (63800000000 * usec - 30 * usec_per_day) = Inr True"
  by (simp add: older_than_def fromisoformat_def iso_time_def iso_offset_def read_time)

theorem gl_cleanup_deletes_witness:
  "\<exists>es. gl_script demo_gl_env [''7''] [] = (Return (), es) \<and> Deleted ''pr-1'' \<in> set es \<and> Deleted ''pr-main'' \<notin> set es"
proof -
  let ?args = "[(''api'', PStr ''https://gitlab.com/''), (''age'', PInt 30), (''prefix'', PStr ''pr-''), (''dry_run'', PBool False), (''project'', PStr ''7'')]"
  let ?limit = "63800000000 * usec - 30 * usec_per_day"
  let ?bs = "[demo_branch ''pr-1'' False, demo_branch ''pr-main'' True]"
  have args: "parse_args gl_parser [''7''] = Inr ?args" by code_simp
  have "gl_limit demo_gl_env 30 = Inr ?limit"
    by (simp add: gl_limit_def make_timedelta_def datetime_minus_def demo_gl_env_def max_datetime_def read_time)
  then have reads: "gl_reads demo_gl_env [''7''] ?args ?limit ''https://gitlab.com/'' ''pr-'' ''7''"
    by (simp add: gl_reads_def args dict_get_def)
  have env: "api_token demo_gl_env = Some ''secret''" "gl_auth demo_gl_env a k = None" "gl_project demo_gl_env p = Inr ?bs"
    "gl_delete demo_gl_env b = None" for a k p b
    by (simp_all add: demo_gl_env_def)
  obtain r es where run: "gl_script demo_gl_env [''7''] [] = (r, es)" by fastforce
  have stale: "stale ?limit ''pr-'' (demo_branch ''pr-1'' False)"
    unfolding stale_def by (simp add: demo_branch_def demo_gl_time startswith_def)
  have dry: "\<not> py_truth (dict_get ?args ''dry_run'' PNone)" by (simp add: dict_get_def)
  have "\<forall>b \<in> set ?bs. (\<exists>old. older_than (commit_created_at b) ?limit = Inr old) \<and> gl_delete demo_gl_env b = None"
    by (auto simp: demo_branch_def demo_gl_time env)
  note good = conjI [OF reads conjI [OF env(1) conjI [OF _ conjI [OF env(2) conjI [OF env(3) conjI [OF dry this]]]]]]
  obtain es' where es': "es = [] @ es'" and only: "\<forall>n. Deleted n \<in> set es' \<longrightarrow> (\<exists>project bs b. gl_project demo_gl_env project = Inr bs \<and>
      b \<in> set bs \<and> branch_name b = n \<and> \<not> is_default b)"
    and all: "r = Return () \<and> (\<forall>b \<in> set ?bs. stale ?limit ''pr-'' b \<longrightarrow> Deleted (branch_name b) \<in> set es')"
    using gl_cleanup_deletes [OF run] good by simp blast
  have "Deleted ''pr-1'' \<in> set es'" using all stale by (simp add: demo_branch_def)
  moreover have "Deleted ''pr-main'' \<notin> set es'" using only by (auto simp: env demo_branch_def)
  ultimately show ?thesis using run all es' by simp
qed


section \<open>Checksums\<close>

definition checksum :: "yaml \<Rightarrow> string \<Rightarrow> string \<Rightarrow> string \<Rightarrow> yaml res" where
  "checksum data download arch version =
     bindE (yaml_get data (download @ ''_checksums'')) (\<lambda>x. bindE (yaml_get x arch) (\<lambda>y. yaml_get y version))"

lemma yaml_at_eq:
  "yaml_at key f y = Inr y' \<Longrightarrow> \<exists>d v v'. y = PDict d \<and> map_of d key = Some v \<and> f v = Inr v' \<and> y' = PDict (dict_set key v' d)"
  by (cases y) (auto simp: yaml_at_def bindE_eq_Inr dict_getitem_eq_Inr)

lemma update_checksum_step:
  assumes "update_checksum env (download, arch, version) data = Inr data'"
  shows "\<exists>content. http_get env (release_url (full_version version) arch download) = Inr content \<and>
      checksum data' download arch (full_version version) = Inr (PStr (sha256_hexdigest content))"
    and "(d, a, v) \<noteq> (download, arch, full_version version) \<Longrightarrow> checksum data' d a v = checksum data d a v"
proof -
  obtain content where content: "http_get env (release_url (full_version version) arch download) = Inr content"
    and at: "yaml_at (download @ ''_checksums'')
      (yaml_at arch (\<lambda>d. yaml_set d (full_version version) (PStr (sha256_hexdigest content)))) data = Inr data'"
    using assms by (auto simp: update_checksum_def bindE_eq_Inr)
  obtain d0 d1 d2 where data: "data = PDict d0" "map_of d0 (download @ ''_checksums'') = Some (PDict d1)" "map_of d1 arch = Some (PDict d2)"
    and data': "data' = PDict (dict_set (download @ ''_checksums'')
      (PDict (dict_set arch (PDict (dict_set (full_version version) (PStr (sha256_hexdigest content)) d2)) d1)) d0)"
  proof -
    obtain d0 v v' where 0: "data = PDict d0" "map_of d0 (download @ ''_checksums'') = Some v"
      "yaml_at arch (\<lambda>d. yaml_set d (full_version version) (PStr (sha256_hexdigest content))) v = Inr v'"
      "data' = PDict (dict_set (download @ ''_checksums'') v' d0)" using yaml_at_eq [OF at] by blast
    obtain d1 u u' where 1: "v = PDict d1" "map_of d1 arch = Some u"
      "yaml_set u (full_version version) (PStr (sha256_hexdigest content)) = Inr u'" "v' = PDict (dict_set arch u' d1)"
      using yaml_at_eq [OF 0(3)] by blast
    obtain d2 where "u = PDict d2" using 1(3) by (cases u) auto
    with 0 1 show thesis using that by simp
  qed
  show "\<exists>content. http_get env (release_url (full_version version) arch download) = Inr content \<and>
      checksum data' download arch (full_version version) = Inr (PStr (sha256_hexdigest content))"
    using content by (simp add: data' checksum_def dict_getitem_def update_conv')
  show "checksum data' d a v = checksum data d a v" if "(d, a, v) \<noteq> (download, arch, full_version version)"
    using that by (auto simp: data data' checksum_def dict_getitem_def update_conv')
qed

lemma update_checksums:
  "foldE (update_checksum env) plan data = Inr data' \<Longrightarrow>
   (\<forall>(d, a, v) \<in> set plan. \<exists>content. http_get env (release_url (full_version v) a d) = Inr content \<and>
      checksum data' d a (full_version v) = Inr (PStr (sha256_hexdigest content))) \<and>
   (\<forall>d a v. (\<forall>u. (d, a, u) \<in> set plan \<longrightarrow> v \<noteq> full_version u) \<longrightarrow> checksum data' d a v = checksum data d a v)"
proof (induction plan arbitrary: data)
  case (Cons x plan)
  obtain d a v where x: "x = (d, a, v)" by (cases x)
  obtain data1 where step: "update_checksum env (d, a, v) data = Inr data1" and rest: "foldE (update_checksum env) plan data1 = Inr data'"
    using Cons.prems by (auto simp: x bindE_eq_Inr)
  note IH = Cons.IH [OF rest]
  have here: "\<exists>content. http_get env (release_url (full_version v) a d) = Inr content \<and>
      checksum data' d a (full_version v) = Inr (PStr (sha256_hexdigest content))"
  proof (cases "\<exists>u. (d, a, u) \<in> set plan \<and> full_version v = full_version u")
    case True
    then obtain u where u: "(d, a, u) \<in> set plan" "full_version v = full_version u" by blast
    show ?thesis using bspec [OF IH [THEN conjunct1] u(1)] u(2) by simp
  next
    case False
    then have "checksum data' d a (full_version v) = checksum data1 d a (full_version v)" using IH by blast
    then show ?thesis using update_checksum_step(1) [OF step] by simp
  qed
  moreover have "checksum data' d' a' v' = checksum data d' a' v'" if "\<forall>u. (d', a', u) \<in> set (x # plan) \<longrightarrow> v' \<noteq> full_version u" for d' a' v'
  proof -
    have "checksum data' d' a' v' = checksum data1 d' a' v'" using IH that by simp
    also have "\<dots> = checksum data d' a' v'" by (rule update_checksum_step(2) [OF step]) (use that x in auto)
    finally show ?thesis .
  qed
  ultimately show ?case using IH x by auto
qed simp


lemma checksum_plan_mem: "(d, a, v) \<in> set (checksum_plan versions) \<longleftrightarrow> d \<in> set downloads \<and> a \<in> set architectures \<and> v \<in> set versions"
  by (auto simp: checksum_plan_def)

text \<open>C24: The checksums that the update writes. When the file is written, every binary was downloaded for
  every architecture and every given version, the checksum of the content is in its place (the version with
  its \<open>v\<close>), and all other checksums are as they were; when one download fails, nothing is written.\<close>

theorem checksums_updated:
  assumes "hash_main env (script # versions) = Inr (st, Some text, msg)"
  shows "\<exists>data data'. open_main_yaml env = Inr data \<and> text = ruamel_dump env data' \<and> st = 0 \<and>
    (\<forall>d \<in> set downloads. \<forall>a \<in> set architectures. \<forall>v \<in> set versions. \<exists>content.
       http_get env (release_url (full_version v) a d) = Inr content \<and>
       checksum data' d a (full_version v) = Inr (PStr (sha256_hexdigest content))) \<and>
    (\<forall>d a v. d \<notin> set downloads \<or> a \<notin> set architectures \<or> v \<notin> full_version ` set versions \<longrightarrow>
       checksum data' d a v = checksum data d a v)"
proof -
  obtain data data' where data: "open_main_yaml env = Inr data" and f: "foldE (update_checksum env) (checksum_plan versions) data = Inr data'"
    and out: "text = ruamel_dump env data'" "st = 0"
    using assms by (auto simp: hash_main_def download_hash_def bindE_eq_Inr split: if_splits)
  show ?thesis
    using update_checksums [OF f] data out unfolding checksum_plan_mem
    by (intro exI [of _ data] exI [of _ data']) (fastforce simp: checksum_plan_mem)
qed

definition demo_checksums :: yaml where
  "demo_checksums = PDict (map (\<lambda>d. (d @ ''_checksums'', PDict (map (\<lambda>a. (a, PDict [(''v1.0'', PStr ''old'')])) architectures))) downloads)"

definition demo_hash_env :: hash_env where
  "demo_hash_env = \<lparr>main_yml = Some [], ruamel_load = (\<lambda>_. Inr demo_checksums), ruamel_dump = (\<lambda>_. ''new''), http_get = (\<lambda>u. Inr [1, 2, 3])\<rparr>"

theorem checksums_updated_witness:
  "\<exists>data'. checksum data' ''kubectl'' ''arm64'' ''v1.2'' = Inr (PStr (sha256_hexdigest [1, 2, 3])) \<and>
     checksum data' ''kubectl'' ''arm64'' ''v1.0'' = Inr (PStr ''old'')"
proof -
  have "\<exists>text msg. hash_main demo_hash_env [''download_hash.py'', ''1.2''] = Inr (0, Some text, msg)"
    by (simp add: hash_main_def download_hash_def open_main_yaml_def demo_hash_env_def demo_checksums_def checksum_plan_def architectures_def
      downloads_def update_checksum_def yaml_at_def dict_getitem_def full_version_def startswith_def)
  then obtain txt_new msg where run: "hash_main demo_hash_env [''download_hash.py'', ''1.2''] = Inr (0, Some txt_new, msg)" by blast
  obtain data data' where data: "open_main_yaml demo_hash_env = Inr data"
    and fresh: "\<forall>d \<in> set downloads. \<forall>a \<in> set architectures. \<forall>v \<in> set [''1.2'']. \<exists>content.
       http_get demo_hash_env (release_url (full_version v) a d) = Inr content \<and>
       checksum data' d a (full_version v) = Inr (PStr (sha256_hexdigest content))"
    and kept: "\<forall>d a v. d \<notin> set downloads \<or> a \<notin> set architectures \<or> v \<notin> full_version ` set [''1.2''] \<longrightarrow>
       checksum data' d a v = checksum data d a v"
    using checksums_updated [OF run] by blast
  have v: "full_version ''1.2'' = ''v1.2''" by (simp add: full_version_def startswith_def)
  have "checksum data' ''kubectl'' ''arm64'' (full_version ''1.2'') = Inr (PStr (sha256_hexdigest [1, 2, 3]))"
    using fresh [rule_format, of "''kubectl''" "''arm64''" "''1.2''"] by (simp add: downloads_def architectures_def demo_hash_env_def)
  moreover have "checksum data' ''kubectl'' ''arm64'' ''v1.0'' = checksum data ''kubectl'' ''arm64'' ''v1.0''" using kept v by simp
  moreover have "checksum demo_checksums ''kubectl'' ''arm64'' ''v1.0'' = Inr (PStr ''old'')" by code_simp
  moreover have "data = demo_checksums" using data by (simp add: open_main_yaml_def demo_hash_env_def)
  ultimately show ?thesis unfolding v by (intro exI [of _ data']) simp
qed

section \<open>AWS inventory\<close>

definition ec2_name :: "string \<Rightarrow> ec2_instance \<Rightarrow> string" where
  "ec2_name visibility i = (if visibility = ''public'' then public_dns_name i else private_dns_name i)"

definition ec2_address :: "string \<Rightarrow> ec2_instance \<Rightarrow> yaml" where
  "ec2_address visibility i = (if visibility = ''public'' then public_ip_address i else private_ip_address i)"

text \<open>Variables of the host with a name: they hold the address of an instance with that name.\<close>

definition vars_of :: "string \<Rightarrow> ec2_instance set \<Rightarrow> string \<Rightarrow> yaml \<Rightarrow> bool" where
  "vars_of visibility is name v \<longleftrightarrow> (\<exists>i \<in> is. \<exists>d. name = ec2_name visibility i \<and> v = PDict d \<and>
     map_of d ''ansible_ssh_host'' = Some (ec2_address visibility i))"

lemma vars_of_mono: "vars_of visibility A name v \<Longrightarrow> A \<subseteq> B \<Longrightarrow> vars_of visibility B name v"
  unfolding vars_of_def by blast

lemma ec2_host_eq:
  assumes "ec2_host visibility i = Inr (name, v)"
  shows "name = ec2_name visibility i" "vars_of visibility {i} name v"
  using assms by (auto simp: ec2_host_def ec2_name_def ec2_address_def vars_of_def Let_def bindE_eq_Inr update_conv' split: list.splits prod.splits)

lemma ec2_hosts_eq:
  "mapE (ec2_host visibility) is = Inr found \<Longrightarrow>
   map fst found = map (ec2_name visibility) is \<and> (\<forall>(name, v) \<in> set found. vars_of visibility (set is) name v)"
proof (induction "is" arbitrary: found)
  case (Cons i "is")
  then obtain name v found' where i: "ec2_host visibility i = Inr (name, v)" "mapE (ec2_host visibility) is = Inr found'" "found = (name, v) # found'"
    by (auto simp: bindE_eq_Inr)
  show ?case using Cons.IH [OF i(2)] ec2_host_eq [OF i(1)] i(3) by (auto simp: vars_of_def)
qed simp

text \<open>The variables after some groups: an entry for every instance of these groups, and only for such.\<close>

definition lists_vars :: "string \<Rightarrow> ec2_instance set \<Rightarrow> (string, yaml) dict \<Rightarrow> bool" where
  "lists_vars visibility is vars \<longleftrightarrow> (\<forall>i \<in> is. \<exists>v. map_of vars (ec2_name visibility i) = Some v) \<and>
     (\<forall>name v. map_of vars name = Some v \<longrightarrow> vars_of visibility is name v)"

lemma lists_vars_fold:
  assumes "lists_vars visibility is0 vars" "map fst found = map (ec2_name visibility) is"
    "\<forall>(name, v) \<in> set found. vars_of visibility (set is) name v"
  shows "lists_vars visibility (is0 \<union> set is) (fold (\<lambda>(name, v). dict_set name v) found vars)"
proof -
  let ?vars = "fold (\<lambda>(name, v). dict_set name v) found vars"
  have grows: "map_of (fold (\<lambda>(name, v). dict_set name v) found vars) n = (case map_of (rev found) n of None \<Rightarrow> map_of vars n | Some v \<Rightarrow> Some v)" for n found vars
    by (induction found arbitrary: vars) (auto simp: update_conv' map_add_def split: option.splits)
  have "\<exists>v. map_of ?vars (ec2_name visibility i) = Some v" if "i \<in> is0 \<union> set is" for i
  proof (cases "map_of (rev found) (ec2_name visibility i)")
    case None
    then have "ec2_name visibility i \<notin> fst ` set found" by (simp add: map_of_eq_None_iff)
    then have "i \<notin> set is" using assms(2) by (metis image_eqI list.set_map)
    with that assms(1) None show ?thesis by (auto simp: lists_vars_def grows)
  qed (simp add: grows)
  moreover have "vars_of visibility (is0 \<union> set is) n v" if "map_of ?vars n = Some v" for n v
  proof (cases "map_of (rev found) n")
    case None
    with that have "map_of vars n = Some v" by (simp add: grows)
    with assms(1) have "vars_of visibility is0 n v" unfolding lists_vars_def by blast
    then show ?thesis by (rule vars_of_mono) simp
  next
    case (Some u)
    then have "(n, u) \<in> set found" using map_of_SomeD by fastforce
    moreover have "u = v" using Some that by (simp add: grows)
    ultimately have "vars_of visibility (set is) n v" using assms(3) by blast
    then show ?thesis by (rule vars_of_mono) simp
  qed
  ultimately show ?thesis unfolding lists_vars_def by blast
qed

lemma ec2_group_step:
  assumes "ec2_group env visibility grp (hs, vars) = Inr (hs', vars')" and "lists_vars visibility is0 vars"
  shows "\<exists>region. map_of (aws_environ env) ''REGION'' = Some region \<and>
    (let is = ec2_instances env region (ec2_filters grp (map_of (aws_environ env) ''CLUSTER_NAME'')) in
     hs' = dict_set grp (map (ec2_name visibility) is) hs \<and> lists_vars visibility (is0 \<union> set is) vars')"
proof -
  obtain region found where r: "map_of (aws_environ env) ''REGION'' = Some region"
    and f: "mapE (ec2_host visibility) (ec2_instances env region (ec2_filters grp (map_of (aws_environ env) ''CLUSTER_NAME''))) = Inr found"
    and out: "hs' = dict_set grp (map fst found) hs" "vars' = fold (\<lambda>(name, v). dict_set name v) found vars"
    using assms(1) by (auto simp: ec2_group_def bindE_eq_Inr dict_getitem_eq_Inr)
  note hosts = ec2_hosts_eq [OF f]
  show ?thesis
    using r out hosts lists_vars_fold [OF assms(2) hosts [THEN conjunct1] hosts [THEN conjunct2]] by (simp add: Let_def)
qed

text \<open>C25: What the AWS inventory lists. When the search succeeds, the printed document has for each of the three groups
  the names of the running instances that EC2 returned for it, in order, public or private as the environment
  says; and its variables have an entry for every listed instance, and only for listed ones, with the address
  of an instance of that name.\<close>

theorem aws_inventory_lists:
  assumes "search_tags env = Inr s"
  shows "\<exists>region doc vars. map_of (aws_environ env) ''REGION'' = Some region \<and>
    json_dumps \<lparr>indent = Some 2, sort_keys = True, float_repr = aws_float env\<rparr> (PDict doc) = Inr s \<and>
    (let visibility = dict_get (aws_environ env) ''VPC_VISIBILITY'' ''private'';
         found = (\<lambda>grp. ec2_instances env region (ec2_filters grp (map_of (aws_environ env) ''CLUSTER_NAME''))) in
     (\<forall>grp \<in> {''kube_control_plane'', ''kube_node'', ''etcd''}.
        map_of doc grp = Some (PList (map (\<lambda>i. PStr (ec2_name visibility i)) (found grp)))) \<and>
     map_of doc ''_meta'' = Some (PDict [(''hostvars'', PDict vars)]) \<and>
     lists_vars visibility (set (found ''kube_control_plane'') \<union> set (found ''kube_node'') \<union> set (found ''etcd'')) vars)"
proof -
  let ?visibility = "vpc_visibility (aws_environ env)"
  let ?found = "\<lambda>region grp. ec2_instances env region (ec2_filters grp (map_of (aws_environ env) ''CLUSTER_NAME''))"
  obtain h1 v1 h2 v2 h3 v3 where 1: "ec2_group env ?visibility ''kube_control_plane'' ([], []) = Inr (h1, v1)"
    and 2: "ec2_group env ?visibility ''kube_node'' (h1, v1) = Inr (h2, v2)"
    and 3: "ec2_group env ?visibility ''etcd'' (h2, v2) = Inr (h3, v3)"
    and s: "json_dumps \<lparr>indent = Some 2, sort_keys = True, float_repr = aws_float env\<rparr>
       (PDict ([(''_meta'', PDict [(''hostvars'', PDict v3)])] @ map (\<lambda>(g, names). (g, PList (map PStr names))) h3 @
          [(''k8s_cluster'', PDict [(''children'', PList [PStr ''kube_control_plane'', PStr ''kube_node''])])])) = Inr s"
    using assms unfolding search_tags_def by (auto simp: bindE_eq_Inr)
  have empty: "lists_vars ?visibility {} []" by (simp add: lists_vars_def)
  obtain region where r: "map_of (aws_environ env) ''REGION'' = Some region"
    and g1: "h1 = dict_set ''kube_control_plane'' (map (ec2_name ?visibility) (?found region ''kube_control_plane'')) []"
      "lists_vars ?visibility (set (?found region ''kube_control_plane'')) v1"
    using ec2_group_step [OF 1 empty] by (auto simp: Let_def)
  have g2: "h2 = dict_set ''kube_node'' (map (ec2_name ?visibility) (?found region ''kube_node'')) h1"
      "lists_vars ?visibility (set (?found region ''kube_control_plane'') \<union> set (?found region ''kube_node'')) v2"
    using ec2_group_step [OF 2 g1(2)] r by (auto simp: Let_def)
  have g3: "h3 = dict_set ''etcd'' (map (ec2_name ?visibility) (?found region ''etcd'')) h2"
      "lists_vars ?visibility (set (?found region ''kube_control_plane'') \<union> set (?found region ''kube_node'') \<union> set (?found region ''etcd'')) v3"
    using ec2_group_step [OF 3 g2(2)] r by (auto simp: Let_def)
  show ?thesis
    using r s g3(2) unfolding Let_def vpc_visibility_def [symmetric]
    by (intro exI conjI) (assumption | simp add: g1(1) g2(1) g3(1) comp_def)+
qed


definition demo_aws_env :: aws_env where
  "demo_aws_env = \<lparr>aws_environ = [(''REGION'', ''us-east-2'')],
     ec2_instances = (\<lambda>_ fs. if list_ex (\<lambda>(n, vs). vs = [''*etcd*'']) fs then []
       else [\<lparr>private_dns_name = ''n1'', private_ip_address = PStr ''10.0.0.1'', public_dns_name = [], public_ip_address = PNone,
              tags = [(''kubespray-node-labels'', ''a=b'')]\<rparr>]),
     aws_float = (\<lambda>_. [])\<rparr>"

theorem aws_inventory_lists_witness:
  "\<exists>s doc. search_tags demo_aws_env = Inr s \<and> map_of doc ''kube_node'' = Some (PList [PStr ''n1'']) \<and> map_of doc ''etcd'' = Some (PList []) \<and>
     json_dumps \<lparr>indent = Some 2, sort_keys = True, float_repr = (\<lambda>_. [])\<rparr> (PDict doc) = Inr s"
proof -
  have "case search_tags demo_aws_env of Inr s \<Rightarrow> True | Inl _ \<Rightarrow> False" by code_simp
  then obtain s where s: "search_tags demo_aws_env = Inr s" by (auto split: sum.splits)
  have env: "map (\<lambda>i. PStr (ec2_name ''private'' i)) (ec2_instances demo_aws_env r (ec2_filters ''kube_node'' None)) = [PStr ''n1'']"
    "ec2_instances demo_aws_env r (ec2_filters ''etcd'' None) = []" for r
    by (simp_all add: demo_aws_env_def ec2_filters_def ec2_name_def)
  have environ: "dict_get (aws_environ demo_aws_env) ''VPC_VISIBILITY'' ''private'' = ''private''"
    "map_of (aws_environ demo_aws_env) ''CLUSTER_NAME'' = None" "aws_float demo_aws_env = (\<lambda>_. [])"
    by (simp_all add: demo_aws_env_def dict_get_def)
  obtain region doc where doc: "json_dumps \<lparr>indent = Some 2, sort_keys = True, float_repr = (\<lambda>_. [])\<rparr> (PDict doc) = Inr s"
    and groups: "\<forall>grp \<in> {''kube_control_plane'', ''kube_node'', ''etcd''}.
      map_of doc grp = Some (PList (map (\<lambda>i. PStr (ec2_name ''private'' i)) (ec2_instances demo_aws_env region (ec2_filters grp None))))"
    using aws_inventory_lists [OF s, unfolded Let_def environ] by (elim exE conjE)
  have "map_of doc ''kube_node'' = Some (PList [PStr ''n1''])" using bspec [OF groups, of "''kube_node''"] unfolding env by simp
  moreover have "map_of doc ''etcd'' = Some (PList [])" using bspec [OF groups, of "''etcd''"] unfolding env by simp
  ultimately show ?thesis using s doc by (intro exI conjI)
qed

end
