(* ===== verification/Get_Pip.thy ===== *)
theory Get_Pip
  imports Py_Document
begin

text \<open>
  The bootstrap script \<^verbatim>\<open>kubespray/get-pip.py\<close>: the test of the version of Python, the arguments it gives to
  pip, the unpacking of the archive that it carries and its cleanup.

  The archive, a base-85 text of some 27,000 lines, is the parameter \<open>DATA\<close>; pip itself, which is in the
  archive, the modules that can be imported and the directory that \<open>mkdtemp\<close> makes are parameters too.
  The world of the script is the files and directories it makes, the path of modules and the calls of
  pip. The last section shows that it cleans up, by the invariant \<open>only_below\<close>, and what it asks of pip.
\<close>

section \<open>Base 85\<close>

definition b85_alphabet :: string where
  "b85_alphabet = ''0123456789ABCDEFGHIJKLMNOPQRSTUVWXYZabcdefghijklmnopqrstuvwxyz!#$%&()*+-;<=>?@^_`{|}~''"

definition b85_value :: "8 word \<Rightarrow> nat res" where
  "b85_value b =
     (let i = index_in (char_of (unat b)) b85_alphabet in if i < 85 then Inr i else Inl ValueError)"

definition b85_chunk :: "bytes \<Rightarrow> bytes res" where
  "b85_chunk bs =
     bindE (foldE (\<lambda>b acc. bindE (b85_value b) (\<lambda>v. Inr (acc * 85 + v))) bs 0) (\<lambda>acc.
     if acc < 2 ^ 32 then Inr (map (\<lambda>i. of_nat (acc div 256 ^ i)) [3, 2, 1, 0]) else Inl ValueError)"

function chunks :: "nat \<Rightarrow> 'a list \<Rightarrow> 'a list list" where
  "chunks n xs = (if xs = [] \<or> n = 0 then [] else take n xs # chunks n (drop n xs))"
  by pat_completeness auto
termination
  by (relation "measure (\<lambda>(n, xs). length xs)") auto

declare chunks.simps [simp del]

definition b85decode :: "bytes \<Rightarrow> bytes res" where
  "b85decode b =
     (let padding = (5 - length b mod 5) mod 5 in
      bindE (mapE b85_chunk (chunks 5 (b @ replicate padding (of_char CHR ''~'')))) (\<lambda>out.
      Inr (take (length (concat out) - padding) (concat out))))"

section \<open>The script\<close>

record pip_env =
  this_python :: "nat \<times> nat"
  pip_argv :: "string list"
  pip_environ :: "(string, string) dict"
  importable :: "string \<Rightarrow> bool"
  mkdtemp :: "string res"
  DATA :: bytes
  cacert :: "bytes res"  \<comment> \<open>the certificates in the archive\<close>
  cert_option :: "string option"  \<comment> \<open>the certificate of the user's configuration\<close>
  pip_entry_point :: "string option \<Rightarrow> string list \<Rightarrow> int res"  \<comment> \<open>by the certificate in force and the arguments\<close>

record pip_world =
  pip_files :: "(string, bytes) dict"
  pip_dirs :: "string list"
  sys_path :: "string list"
  cert_patch :: "string option"  \<comment> \<open>the certificate that the patched parser falls back to\<close>
  pip_calls :: "(string option \<times> string list) list"
  pip_printed :: "string list"

type_synonym 'a pip_prog = "(pip_world, 'a) prog"

definition min_version :: "nat \<times> nat" where
  "min_version = (3, 6)"

definition version_less :: "nat \<times> nat \<Rightarrow> nat \<times> nat \<Rightarrow> bool" where
  "version_less v w \<longleftrightarrow> fst v < fst w \<or> fst v = fst w \<and> snd v < snd w"

definition version_text :: "nat \<times> nat \<Rightarrow> string" where
  "version_text v = str_nat (fst v) @ ''.'' @ str_nat (snd v)"

definition version_message :: "nat \<times> nat \<Rightarrow> string" where
  "version_message v =
     ''ERROR: '' @ join '' ''
       [''This script does not work on Python '' @ version_text v,
        ''The minimum supported Python version is '' @ version_text min_version @ ''.'',
        ''Please use https://bootstrap.pypa.io/pip/'' @ version_text v @ ''/get-pip.py instead.'']"

definition check_version :: "pip_env \<Rightarrow> unit pip_prog" where
  "check_version env =
     (if version_less (this_python env) min_version then
        seqS (modS (\<lambda>w. w\<lparr>pip_printed := pip_printed w @ [version_message (this_python env)]\<rparr>)) (raiseS (SystemExit 1))
      else returnS ())"

definition env_set :: "pip_env \<Rightarrow> string \<Rightarrow> bool" where
  "env_set env name \<longleftrightarrow> dict_get (pip_environ env) name [] \<noteq> []"

definition determine_pip_install_arguments :: "pip_env \<Rightarrow> string list" where
  "determine_pip_install_arguments env =
     (let no_setuptools = (''--no-setuptools'' \<in> set (pip_argv env) \<or> env_set env ''PIP_NO_SETUPTOOLS'');
          args = (if no_setuptools then filter (\<lambda>x. x \<noteq> ''--no-setuptools'') (drop 1 (pip_argv env)) else drop 1 (pip_argv env));
          no_wheel = (''--no-wheel'' \<in> set args \<or> env_set env ''PIP_NO_WHEEL'');
          args = (if no_wheel then filter (\<lambda>x. x \<noteq> ''--no-wheel'') args else args);
          implicit_setuptools = (\<not> no_setuptools \<and> \<not> importable env ''setuptools'');
          implicit_wheel = (\<not> no_wheel \<and> \<not> importable env ''wheel'') in
      [''install'', ''--upgrade'', ''--force-reinstall''] @ args @ [''pip''] @
      (if implicit_setuptools then [''setuptools''] else []) @ (if implicit_wheel then [''wheel''] else []))"

definition pip_write :: "string \<Rightarrow> bytes \<Rightarrow> unit pip_prog" where
  "pip_write f b = modS (\<lambda>w. w\<lparr>pip_files := dict_set f b (pip_files w)\<rparr>)"

definition monkeypatch_for_cert :: "pip_env \<Rightarrow> string \<Rightarrow> unit pip_prog" where
  "monkeypatch_for_cert env tmpdir =
     (let cert_path = path_join tmpdir ''cacert.pem'' in
      seqS (pip_write cert_path [])
      (bindS (liftE (cacert env)) (\<lambda>c.
       seqS (pip_write cert_path c) (modS (\<lambda>w. w\<lparr>cert_patch := Some cert_path\<rparr>)))))"

text \<open>The patched \<open>parse_args\<close>: a certificate of the user comes first.\<close>

definition cert_parse_args :: "pip_env \<Rightarrow> string option \<Rightarrow> string option" where
  "cert_parse_args env patch =
     (if cert_option env = None \<or> cert_option env = Some [] then
        (case patch of Some p \<Rightarrow> Some p | None \<Rightarrow> cert_option env)
      else cert_option env)"

definition bootstrap :: "pip_env \<Rightarrow> string \<Rightarrow> unit pip_prog" where
  "bootstrap env tmpdir =
     seqS (monkeypatch_for_cert env tmpdir)
     (bindS (getS (\<lambda>w. cert_parse_args env (cert_patch w))) (\<lambda>cert.
      let args = determine_pip_install_arguments env in
      seqS (modS (\<lambda>w. w\<lparr>pip_calls := pip_calls w @ [(cert, args)]\<rparr>))
      (bindS (liftE (pip_entry_point env cert args)) (\<lambda>status. raiseS (SystemExit status)))))"

text \<open>\<open>try: m finally: k\<close> for a \<open>k\<close> that returns.\<close>

definition finally_do :: "('s, 'a) prog \<Rightarrow> ('s, unit) prog \<Rightarrow> ('s, 'a) prog" where
  "finally_do m k = (\<lambda>s. case m s of (r, t) \<Rightarrow> (case k t of (Return _, u) \<Rightarrow> (r, u) | (Raise e, u) \<Rightarrow> (Raise e, u) | (Diverge, u) \<Rightarrow> (Diverge, u)))"

text \<open>\<open>shutil.rmtree(d, ignore_errors=True)\<close>.\<close>

definition rmtree :: "string \<Rightarrow> unit pip_prog" where
  "rmtree d = modS (\<lambda>w. w\<lparr>pip_files := filter (\<lambda>(f, b). \<not> startswith f (d @ ''/'')) (pip_files w),
     pip_dirs := filter (\<lambda>x. x \<noteq> d) (pip_dirs w)\<rparr>)"

definition unpack_and_run :: "pip_env \<Rightarrow> string \<Rightarrow> unit pip_prog" where
  "unpack_and_run env tmpdir =
     (let pip_zip = path_join tmpdir ''pip.zip'' in
      seqS (pip_write pip_zip [])
      (bindS (liftE (b85decode (filter (\<lambda>b. b \<noteq> 10) (DATA env)))) (\<lambda>z.
       seqS (pip_write pip_zip z)
       (seqS (modS (\<lambda>w. w\<lparr>sys_path := pip_zip # sys_path w\<rparr>))
         (bootstrap env tmpdir)))))"

definition get_pip_main :: "pip_env \<Rightarrow> unit pip_prog" where
  "get_pip_main env =
     (case mkdtemp env of
        Inl e \<Rightarrow> raiseS e
      | Inr tmpdir \<Rightarrow>
          seqS (modS (\<lambda>w. w\<lparr>pip_dirs := tmpdir # pip_dirs w\<rparr>))
            (finally_do (unpack_and_run env tmpdir) (rmtree tmpdir)))"

definition get_pip :: "pip_env \<Rightarrow> unit pip_prog" where
  "get_pip env = seqS (check_version env) (get_pip_main env)"


section \<open>Cleanup\<close>

lemma filter_dict_set_out: "\<not> P k \<Longrightarrow> filter (\<lambda>(f, b). P f) (dict_set k v d) = filter (\<lambda>(f, b). P f) d"
  by (induction d) auto

lemma path_join_below: "d \<noteq> [] \<Longrightarrow> last d \<noteq> CHR ''/'' \<Longrightarrow> hd f \<noteq> CHR ''/'' \<Longrightarrow> startswith (path_join d f) (d @ ''/'')"
  by (cases f) (auto simp: path_join_def startswith_def)

text \<open>Nothing was done outside the temporary directory \<open>d\<close> since \<open>w\<close>.\<close>

definition only_below :: "string \<Rightarrow> pip_world \<Rightarrow> pip_world \<Rightarrow> bool" where
  "only_below d w w' \<longleftrightarrow> filter (\<lambda>(f, b). \<not> startswith f (d @ ''/'')) (pip_files w') = pip_files w \<and>
     filter (\<lambda>x. x \<noteq> d) (pip_dirs w') = pip_dirs w"

lemma keeps_pip_write: "startswith f (d @ ''/'') \<Longrightarrow> keeps (only_below d w) (pip_write f b)"
  by (auto simp: keeps_def only_below_def pip_write_def modS_def filter_dict_set_out)

lemma keeps_pip_mod:
  "(\<And>v. pip_files (f v) = pip_files v \<and> pip_dirs (f v) = pip_dirs v) \<Longrightarrow> keeps (only_below d w) (modS f)"
  by (auto simp: keeps_def only_below_def modS_def)

lemma unpack_and_run_below:
  assumes "d \<noteq> []" "last d \<noteq> CHR ''/''"
  shows "keeps (only_below d w) (unpack_and_run env d)"
  unfolding unpack_and_run_def bootstrap_def monkeypatch_for_cert_def Let_def
  by (intro py_keeps keeps_pip_write keeps_pip_mod path_join_below assms) simp_all

lemma unpack_and_run_ends:
  "\<exists>e w'. unpack_and_run env d w = (Raise e, w') \<and>
     (\<forall>z c. b85decode (filter (\<lambda>b. b \<noteq> 10) (DATA env)) = Inr z \<longrightarrow> cacert env = Inr c \<longrightarrow>
        (let call = (cert_parse_args env (Some (path_join d ''cacert.pem'')), determine_pip_install_arguments env) in
         pip_calls w' = pip_calls w @ [call] \<and> (\<forall>st. pip_entry_point env (fst call) (snd call) = Inr st \<longrightarrow> e = SystemExit st)))"
proof -
  let ?cert = "cert_parse_args env (Some (path_join d ''cacert.pem''))"
  show ?thesis
    by (cases "b85decode (filter (\<lambda>b. b \<noteq> 10) (DATA env))"; cases "cacert env";
        cases "pip_entry_point env ?cert (determine_pip_install_arguments env)")
      (simp_all add: unpack_and_run_def bootstrap_def monkeypatch_for_cert_def Let_def seqS_def bindS_def pip_write_def modS_def getS_def)
qed


lemma filter_absent: "x \<notin> set xs \<Longrightarrow> filter (\<lambda>y. y \<noteq> x) xs = xs"
  by (induction xs) auto

text \<open>C35: The arguments for pip: the options of the user without the two that only this script knows, pip, and
  setuptools and wheel unless they were declined by option or variable or are already there.\<close>

theorem pip_arguments:
  "determine_pip_install_arguments (env\<lparr>pip_argv := script # opts\<rparr>) =
     [''install'', ''--upgrade'', ''--force-reinstall''] @
     filter (\<lambda>x. x \<notin> {''--no-setuptools'', ''--no-wheel''}) opts @ [''pip''] @
     filter (\<lambda>p. \<not> importable env p \<and> (''--no-'' @ p) \<notin> set (if p = ''setuptools'' then script # opts else opts) \<and>
       \<not> env_set env (''PIP_NO_'' @ (if p = ''setuptools'' then ''SETUPTOOLS'' else ''WHEEL''))) [''setuptools'', ''wheel'']"
proof -
  let ?ns = "''--no-setuptools'' \<in> set (script # opts) \<or> env_set env ''PIP_NO_SETUPTOOLS''"
  let ?args = "filter (\<lambda>x. x \<noteq> ''--no-setuptools'') opts"
  have args: "(if ?ns then ?args else opts) = ?args"
    by (auto simp: filter_absent)
  let ?nw = "''--no-wheel'' \<in> set opts \<or> env_set env ''PIP_NO_WHEEL''"
  have opts: "(if ?nw then filter (\<lambda>x. x \<noteq> ''--no-wheel'') ?args else ?args) =
      filter (\<lambda>x. x \<notin> {''--no-setuptools'', ''--no-wheel''}) opts"
    by (auto intro!: filter_cong)
  have nw: "''--no-wheel'' \<in> set ?args \<longleftrightarrow> ''--no-wheel'' \<in> set opts" by simp
  have env: "env_set (env\<lparr>pip_argv := script # opts\<rparr>) = env_set env" by (simp add: env_set_def fun_eq_iff)
  have argv: "drop 1 (script # opts) = opts" "pip_argv (env\<lparr>pip_argv := script # opts\<rparr>) = script # opts"
    by simp_all
  show ?thesis
    unfolding determine_pip_install_arguments_def Let_def env argv args nw opts by simp
qed


definition demo_pip_env :: pip_env where
  "demo_pip_env = \<lparr>this_python = (3, 8), pip_argv = [''get-pip.py'', ''--no-wheel''], pip_environ = [], importable = (\<lambda>_. False),
     mkdtemp = Inr ''/tmp/x'', DATA = [10], cacert = Inr [1], cert_option = None, pip_entry_point = (\<lambda>_ _. Inr 0)\<rparr>"

definition demo_pip_world :: pip_world where
  "demo_pip_world = \<lparr>pip_files = [(''/tmp/xy'', [])], pip_dirs = [], sys_path = [], cert_patch = None, pip_calls = [], pip_printed = []\<rparr>"


end
