(* ===== verification/Spec2Isabelle.thy ===== *)
theory Spec2Isabelle
  imports Anna_Client_Laws Dinomo_Management_Laws Dinomo_Cluster Kubespray_Inventory_Laws Kubespray_Terraform_Laws
    Kubespray_Kube Kubespray_Scripts_Laws Get_Pip
begin

text \<open>
  Verification of the Python code of DINOMO, a key-value store for disaggregated memory.

  \<^bold>\<open>The program.\<close> The repository has three groups of Python code. The client (\<^verbatim>\<open>client/python/anna\<close>) talks
  to the store: it asks a routing node for the workers of a key, sends requests to them, and reads the values,
  which are lattices, from the responses. The cluster scripts (\<^verbatim>\<open>cluster/dinomo\<close>) create a Kubernetes cluster,
  start its nodes in batches, and run the management server, which watches the hash ring for departed nodes
  and passes requests for nodes on to the Kubernetes server. The copy of Kubespray (\<^verbatim>\<open>kubespray\<close>) brings the
  tools that make the inventory of the machines and keep it in order.

  \<^bold>\<open>Conventions.\<close> A pure function that may raise returns \<open>'a res\<close>, with the exception on the left. A method
  that changes state is a \<open>('s, 'a) prog\<close>: from a state to an outcome (\<open>Return\<close>, \<open>Raise\<close> or \<open>Diverge\<close>) and the
  state it leaves, so that what happened before an exception remains. Dictionaries are association lists in the
  order of insertion. Code outside the repository is an argument: the generated protocol buffer classes
  (\<open>codec\<close>, \<open>wire\<close>), what arrives at a socket, the answers of Kubernetes (\<open>snapshots\<close>), of kubectl, of processes
  and of the web services, YAML readers, random numbers and the order of sets. An operation that waits for an
  answer that never comes has the outcome \<open>Diverge\<close>.

  \<^bold>\<open>Language and library.\<close>
  \<^item> \<open>Py_Prelude\<close>: exceptions, the combinators of programs, strings, numbers and dictionaries, with the logics
    \<open>keeps\<close> (an invariant kept however a program ends) and \<open>stateless\<close>, and the locale \<open>finite_dict\<close>.
  \<^item> \<open>Py_Document\<close>, \<open>Py_Json\<close>, \<open>Py_Argparse\<close>, \<open>Py_Datetime\<close>, \<open>Py_Hash\<close>: documents and IP addresses, \<open>json\<close> (with the
    round trip of printing and reading), \<open>argparse\<close>, \<open>datetime\<close> and SHA-256.

  \<^bold>\<open>Client.\<close>
  \<^item> \<open>Anna_Ordered_Set\<close>: \<open>ListBasedOrderedSet\<close> of \<^verbatim>\<open>lattices.py\<close>. Binary search is correct and logarithmic; the
    constructor gives the sorted set; the lockstep loop of a merge is the union. The contract is the locale
    \<open>ordered_set\<close>.
  \<^item> \<open>Anna_Lattices\<close>, \<open>Anna_Lattice_Laws\<close>: the classes of \<^verbatim>\<open>lattices.py\<close> and their merges, as interpretations of
    \<open>merge_band\<close> and \<open>merge_semilattice\<close>: last-writer-wins replicas converge; the merges of sets, maps and causal
    values raise.
  \<^item> \<open>Anna_Transport\<close>: \<^verbatim>\<open>common.py\<close> and \<^verbatim>\<open>zmq_util.py\<close>. Responses are matched to requests by their ids; the socket
    cache is an instance of the locale \<open>memo_cache\<close>.
  \<^item> \<open>Anna_Base_Client\<close>: \<^verbatim>\<open>base_client.py\<close>. Values survive serialization, except causal ones, which cannot be read;
    request ids repeat after 10,000 requests.
  \<^item> \<open>Anna_Client\<close>, \<open>Anna_Client_Laws\<close>: \<^verbatim>\<open>client.py\<close>. The invariant of the client in all reachable states (the step
    relation \<open>client_step\<close> is any operation), the address cache, and what \<open>get\<close>, \<open>put\<close> and the replica operations send,
    await and return.

  \<^bold>\<open>Cluster.\<close>
  \<^item> \<open>Dinomo_World\<close>, \<open>Dinomo_Util\<close>: what the scripts see and do, and \<^verbatim>\<open>shared/util.py\<close>: waiting for pods, copying files.
  \<^item> \<open>Dinomo_Add_Nodes\<close>: \<^verbatim>\<open>cluster/add_nodes.py\<close>. The batches add up and every new container is configured once.
  \<^item> \<open>Dinomo_Management\<close>, \<open>Dinomo_Management_Laws\<close>: \<^verbatim>\<open>management/\<close> and \<^verbatim>\<open>remove_node.py\<close>. Which nodes are taken for departed,
    that failovers precede announcements, and how a request travels between the two servers.
  \<^item> \<open>Dinomo_Cluster\<close>: \<^verbatim>\<open>create_cluster.py\<close> and \<^verbatim>\<open>run_cluster.py\<close> with their command lines.

  \<^bold>\<open>Kubespray.\<close>
  \<^item> \<open>Kubespray_Inventory\<close>, \<open>Kubespray_Inventory_Laws\<close>: \<^verbatim>\<open>contrib/inventory_builder/inventory.py\<close>. Ranges, unique addresses,
    and the roles of a new inventory.
  \<^item> \<open>Kubespray_Terraform\<close>, \<open>Kubespray_Terraform_Laws\<close>: \<^verbatim>\<open>contrib/terraform/terraform.py\<close>. Lists survive the conversion with its
    random keys; the types of OpenStack hosts; the printed inventory read back.
  \<^item> \<open>Kubespray_Kube\<close>: \<^verbatim>\<open>library/kube.py\<close>. Removal is guarded by a lookup; documentation and argument specification agree.
  \<^item> \<open>Kubespray_Scripts\<close>, \<open>Kubespray_Scripts_Laws\<close>: the AWS inventory, \<^verbatim>\<open>scripts/download_hash.py\<close>, the cleanup scripts of
    OpenStack and GitLab (both instances of the locale \<open>guarded_removal\<close>), and the three \<^verbatim>\<open>setup.py\<close>.
  \<^item> \<open>Get_Pip\<close>: \<^verbatim>\<open>get-pip.py\<close> without its literal. It cleans up however it ends.

  \<^bold>\<open>Bounds and fuel.\<close> No definition needs fuel: loops that do not end by their data end when the list of answers
  is used up, with \<open>Diverge\<close>, so a theorem that an operation returns is stated for answers that suffice. \<open>index_of_within\<close>
  bounds the iterations of the binary search by the logarithm of the length. Integers of Python are unbounded; the
  fields of messages have the width of the protocol buffer types; SHA-256 works on 32-bit words and IPv4 addresses in
  ranges are 32-bit words. The roots from which the constants of SHA-256 are made are searched below
  \<open>2 ^ 36\<close>, more than the cube root of \<open>311 * 2 ^ 96\<close> and the square root of \<open>19 * 2 ^ 64\<close>.

  \<^bold>\<open>Not modelled.\<close> The store itself (C and C++), Ansible roles, shell scripts and configuration files are not Python;
  the scripts that Python runs are represented by their exit status. Import statements, log messages and most
  printed progress messages of the cluster scripts are left out, as are the pip archive in \<^verbatim>\<open>get-pip.py\<close> (the
  parameter \<open>DATA\<close>) and \<open>Lattice.__str__\<close>, whose text depends on \<open>repr\<close>.
\<close>

end
